(* ===== verification/Prelude.thy ===== *)
theory Prelude
  imports Main "HOL-Library.AList" "HOL-Library.Sublist" "HOL-Library.Char_ord"
    "HOL-Library.List_Lexorder"
begin

text \<open>
  What every component of the model shares: the errors the Python code raises, the shape of an
  operation that may raise after it has already changed the state, ordered dictionaries, the
  string methods the code calls, and JSON values with Python's notions of truth and equality.

  Text is a \<^typ>\<open>string\<close>. For ASCII text the functions below are Python's; other characters
  are carried as their UTF-8 bytes, are compared and searched byte by byte (which agrees with
  comparing and searching code points) and are never case-folded or stripped.
\<close>

section \<open>Collections of facts\<close>

named_theorems dict_simps \<open>lookups and keys of ordered dictionaries\<close>
named_theorems op_simps \<open>operations that may raise, unfolded into their branches\<close>

section \<open>Errors and operations\<close>

text \<open>
  The exceptions the modelled code raises itself; pydantic's \<open>ValidationError\<close> is a subclass of
  \<open>ValueError\<close> and is modelled as one.
\<close>

datatype py_error =
    ValueError string
  | TypeError string
  | OverflowError string
  | PyKeyError string
  | RuntimeError string
  | AttributeError string

text \<open>
  An operation on a store returns its result or the error it raises, together with the state it
  leaves behind: a Python method that raises after a write keeps that write.
\<close>

type_synonym ('a, 's) op = "'s \<Rightarrow> (py_error + 'a) \<times> 's"

definition op_bind :: "('a, 's) op \<Rightarrow> ('a \<Rightarrow> ('b, 's) op) \<Rightarrow> ('b, 's) op" where
  "op_bind m f s =
     (case m s of
        (Inl e, s') \<Rightarrow> (Inl e, s')
      | (Inr a, s') \<Rightarrow> f a s')"

definition op_return :: "'a \<Rightarrow> ('a, 's) op" where
  "op_return a s = (Inr a, s)"

definition op_raise :: "py_error \<Rightarrow> ('a, 's) op" where
  "op_raise e s = (Inl e, s)"

definition op_lift :: "py_error + 'a \<Rightarrow> ('a, 's) op" where
  "op_lift r s = (r, s)"

lemma op_return_simps [simp, op_simps]: "op_return a s = (Inr a, s)"
  by (simp add: op_return_def)

lemma op_raise_simps [simp, op_simps]: "op_raise e s = (Inl e, s)"
  by (simp add: op_raise_def)

lemma op_lift_simps [simp, op_simps]: "op_lift r s = (r, s)"
  by (simp add: op_lift_def)

lemma op_bind_Inr [simp, op_simps]: "m s = (Inr a, s') \<Longrightarrow> op_bind m f s = f a s'"
  by (simp add: op_bind_def)

lemma op_bind_Inl [simp, op_simps]: "m s = (Inl e, s') \<Longrightarrow> op_bind m f s = (Inl e, s')"
  by (simp add: op_bind_def)

lemma op_bind_return [simp, op_simps]: "op_bind (op_return a) f s = f a s"
  by (simp add: op_bind_def)

lemma op_bind_raise [simp, op_simps]: "op_bind (op_raise e) f s = (Inl e, s)"
  by (simp add: op_bind_def)

lemma op_bind_lift_Inr [simp, op_simps]: "op_bind (op_lift (Inr a)) f s = f a s"
  by (simp add: op_bind_def)

lemma op_bind_lift_Inl [simp, op_simps]: "op_bind (op_lift (Inl e)) f s = (Inl e, s)"
  by (simp add: op_bind_def)

lemma op_bind_split:
  "op_bind m f s = (r, s'') \<longleftrightarrow>
     (\<exists>e. m s = (Inl e, s'') \<and> r = Inl e) \<or> (\<exists>a s'. m s = (Inr a, s') \<and> f a s' = (r, s''))"
  by (auto simp: op_bind_def split: prod.splits sum.splits)

lemma op_bind_InrE:
  assumes "op_bind m f s = (Inr b, s'')"
  obtains a s' where "m s = (Inr a, s')" and "f a s' = (Inr b, s'')"
  using assms by (auto simp: op_bind_split)

text \<open>Whether an operation returned; used to discharge hypotheses on concrete runs.\<close>

definition returned :: "(py_error + 'a) \<times> 's \<Rightarrow> bool" where
  "returned p \<longleftrightarrow> \<not> isl (fst p)"

lemma returnedE:
  assumes "returned p"
  obtains a s where "p = (Inr a, s)"
  using assms by (cases p; cases "fst p") (auto simp: returned_def)

text \<open>
  A transitive relation between states that each part of an operation respects is respected by
  the whole, whether it returns or raises.
\<close>

definition op_respects :: "('s \<Rightarrow> 's \<Rightarrow> bool) \<Rightarrow> ('a, 's) op \<Rightarrow> bool" where
  "op_respects R m \<longleftrightarrow> (\<forall>s. R s (snd (m s)))"

lemma op_respectsD: "op_respects R m \<Longrightarrow> m s = (r, s') \<Longrightarrow> R s s'"
  by (metis op_respects_def snd_conv)

lemma op_respects_bind [intro]:
  assumes "transp R" and "op_respects R m" and "\<And>a. op_respects R (f a)"
  shows "op_respects R (op_bind m f)"
  unfolding op_respects_def
proof
  fix s
  obtain r s' where m: "m s = (r, s')" by fastforce
  with assms(2) have 1: "R s s'" by (rule op_respectsD)
  show "R s (snd (op_bind m f s))"
  proof (cases r)
    case (Inl e)
    with m 1 show ?thesis by simp
  next
    case (Inr a)
    from assms(3) have "R s' (snd (f a s'))" by (simp add: op_respects_def)
    with 1 have "R s (snd (f a s'))" by (rule transpD [OF assms(1)])
    with m Inr show ?thesis by simp
  qed
qed

lemma op_respects_trivial:
  assumes "reflp R"
  shows op_respects_return: "op_respects R (op_return a)"
    and op_respects_raise: "op_respects R (op_raise e)"
    and op_respects_lift: "op_respects R (op_lift r)"
  using assms by (simp_all add: op_respects_def reflpD)

section \<open>Ordered dictionaries\<close>

text \<open>
  A Python dictionary keeps insertion order, and storing under an existing key keeps its place:
  an association list with distinct keys, updated by \<^const>\<open>AList.update\<close>.
\<close>

type_synonym ('k, 'v) dict = "('k \<times> 'v) list"

abbreviation dict_keys :: "('k, 'v) dict \<Rightarrow> 'k list" where
  "dict_keys d \<equiv> map fst d"

abbreviation dict_values :: "('k, 'v) dict \<Rightarrow> 'v list" where
  "dict_values d \<equiv> map snd d"

definition dict_set :: "'k \<Rightarrow> 'v \<Rightarrow> ('k, 'v) dict \<Rightarrow> ('k, 'v) dict" where
  "dict_set k v d = AList.update k v d"

definition dict_setdefault :: "'k \<Rightarrow> 'v \<Rightarrow> ('k, 'v) dict \<Rightarrow> ('k, 'v) dict" where
  "dict_setdefault k v d = (case map_of d k of None \<Rightarrow> dict_set k v d | Some _ \<Rightarrow> d)"

fun dict_update :: "('k, 'v) dict \<Rightarrow> ('k, 'v) dict \<Rightarrow> ('k, 'v) dict" where
  "dict_update d [] = d"
| "dict_update d ((k, v) # e) = dict_update (dict_set k v d) e"

definition dict_set_opt :: "'k \<Rightarrow> 'v option \<Rightarrow> ('k, 'v) dict \<Rightarrow> ('k, 'v) dict" where
  "dict_set_opt k v d = (case v of None \<Rightarrow> d | Some x \<Rightarrow> dict_set k x d)"

lemma dict_set_Nil [simp, code]: "dict_set k v [] = [(k, v)]"
  by (simp add: dict_set_def)

lemma dict_set_Cons [simp, code]:
  "dict_set k v (p # d) = (if fst p = k then (k, v) # d else p # dict_set k v d)"
  by (cases p) (simp add: dict_set_def)

lemma dict_set_lookup [dict_simps, simp]: "map_of (dict_set k v d) = (map_of d)(k \<mapsto> v)"
  by (simp add: dict_set_def update_conv')

lemma dict_set_distinct [dict_simps, simp]:
  "distinct (dict_keys (dict_set k v d)) \<longleftrightarrow> distinct (dict_keys d)"
  by (induction d) (auto simp: dict_set_def dom_update)

lemma dict_set_keys [dict_simps, simp]: "fst ` set (dict_set k v d) = insert k (fst ` set d)"
  by (simp add: dict_set_def dom_update)

lemma dict_set_set:
  assumes "distinct (dict_keys d)"
  shows "(k', x) \<in> set (dict_set k v d) \<longleftrightarrow> (if k' = k then x = v else (k', x) \<in> set d)"
proof -
  have "(k', x) \<in> set (dict_set k v d) \<longleftrightarrow> map_of (dict_set k v d) k' = Some x"
    using assms by (subst map_of_eq_Some_iff) (simp_all only: dict_set_distinct)
  also have "\<dots> \<longleftrightarrow> (if k' = k then x = v else map_of d k' = Some x)"
    by auto
  finally show ?thesis using assms by simp
qed

lemma dict_setdefault_lookup [dict_simps, simp]:
  "map_of (dict_setdefault k v d) k' =
     (if k' = k \<and> map_of d k = None then Some v else map_of d k')"
  by (auto simp: dict_setdefault_def split: option.splits)

lemma dict_set_opt_lookup [dict_simps, simp]:
  "map_of (dict_set_opt k v d) k' =
     (if k' = k \<and> v \<noteq> None then v else map_of d k')"
  by (auto simp: dict_set_opt_def split: option.splits)

lemma dict_lookup_mem [dict_simps]:
  "distinct (dict_keys d) \<Longrightarrow> map_of d k = Some v \<longleftrightarrow> (k, v) \<in> set d"
  by simp

section \<open>Lists\<close>

lemma sorted_key_nth_insort:
  "sorted (map f xs) \<Longrightarrow> \<forall>x \<in> set xs. f x < f y \<Longrightarrow> sorted (map f (xs @ [y]))"
  by (auto simp: sorted_append less_imp_le)

lemma find_None_append [simp]:
  "find P (xs @ ys) = (case find P xs of None \<Rightarrow> find P ys | Some x \<Rightarrow> Some x)"
  by (induction xs) auto

lemma find_SomeD: "find P xs = Some x \<Longrightarrow> x \<in> set xs \<and> P x"
  by (induction xs) (auto split: if_splits)

lemma find_NoneD: "find P xs = None \<Longrightarrow> x \<in> set xs \<Longrightarrow> \<not> P x"
  by (simp add: find_None_iff)

text \<open>Python's \<open>max(xs, key=f)\<close>: the first element of the greatest key.\<close>

fun max_by :: "('a \<Rightarrow> int) \<Rightarrow> 'a \<Rightarrow> 'a list \<Rightarrow> 'a" where
  "max_by f x [] = x"
| "max_by f x (y # ys) = (if f x < f y then max_by f y ys else max_by f x ys)"

lemma max_by_mem: "max_by f x ys \<in> insert x (set ys)"
  by (induction ys arbitrary: x) auto

lemma max_by_ge: "y \<in> insert x (set ys) \<Longrightarrow> f y \<le> f (max_by f x ys)"
proof (induction ys arbitrary: x y)
  case Nil
  then show ?case by simp
next
  case (Cons z zs)
  have "f x \<le> f (max_by f x zs)" "f z \<le> f (max_by f z zs)"
    using Cons.IH by blast+
  with Cons show ?case by fastforce
qed

lemma max_by_last:
  "sorted_wrt (\<lambda>a b. f a < f b) (x # ys) \<Longrightarrow> max_by f x ys = last (x # ys)"
  by (induction ys arbitrary: x) auto

end
