(* ===== verification/PyText.thy ===== *)
theory PyText
  imports Prelude
begin

text \<open>
  The methods of Python's \<open>str\<close> that the modelled code calls, on ASCII text, and decimal
  rendering of integers (used for sequence numbers inside identifiers).
\<close>

section \<open>Characters\<close>

definition char_code :: "char \<Rightarrow> int" where
  "char_code c = of_char c"

definition is_space :: "char \<Rightarrow> bool" where
  "is_space c \<longleftrightarrow> (let n = char_code c in (9 \<le> n \<and> n \<le> 13) \<or> (28 \<le> n \<and> n \<le> 32))"

definition is_digit :: "char \<Rightarrow> bool" where
  "is_digit c \<longleftrightarrow> (let n = char_code c in 48 \<le> n \<and> n \<le> 57)"

definition is_upper :: "char \<Rightarrow> bool" where
  "is_upper c \<longleftrightarrow> (let n = char_code c in 65 \<le> n \<and> n \<le> 90)"

definition is_lower :: "char \<Rightarrow> bool" where
  "is_lower c \<longleftrightarrow> (let n = char_code c in 97 \<le> n \<and> n \<le> 122)"

text \<open>The class \<open>\<backslash>w\<close> of regular expressions.\<close>

definition is_word_char :: "char \<Rightarrow> bool" where
  "is_word_char c \<longleftrightarrow> is_digit c \<or> is_upper c \<or> is_lower c \<or> c = CHR ''_''"

definition lower_char :: "char \<Rightarrow> char" where
  "lower_char c = (if is_upper c then char_of (char_code c + 32) else c)"

definition digit_char :: "int \<Rightarrow> char" where
  "digit_char d = char_of (48 + d)"

definition digit_value :: "char \<Rightarrow> int" where
  "digit_value c = char_code c - 48"

lemma char_code_char_of [simp]: "0 \<le> n \<Longrightarrow> n < 256 \<Longrightarrow> char_code (char_of n) = n"
  by (simp add: char_code_def of_char_of)

lemma digit_char_value [simp]: "0 \<le> d \<Longrightarrow> d < 10 \<Longrightarrow> digit_value (digit_char d) = d"
  by (simp add: digit_value_def digit_char_def)

lemma digit_char_is_digit [simp]: "0 \<le> d \<Longrightarrow> d < 10 \<Longrightarrow> is_digit (digit_char d)"
  by (simp add: is_digit_def digit_char_def)

lemma lower_char_code:
  "char_code (lower_char c) = (if is_upper c then char_code c + 32 else char_code c)"
  by (simp add: lower_char_def is_upper_def Let_def)

lemma lower_char_idem [simp]: "lower_char (lower_char c) = lower_char c"
  by (auto simp: lower_char_def is_upper_def Let_def)

lemma is_space_lower [simp]: "is_space (lower_char c) = is_space c"
  by (auto simp: is_space_def is_upper_def lower_char_code Let_def)

section \<open>Stripping, folding, searching\<close>

definition py_lower :: "string \<Rightarrow> string" where
  "py_lower s = map lower_char s"

definition lstrip :: "string \<Rightarrow> string" where
  "lstrip s = dropWhile is_space s"

definition rstrip :: "string \<Rightarrow> string" where
  "rstrip s = rev (dropWhile is_space (rev s))"

definition strip :: "string \<Rightarrow> string" where
  "strip s = rstrip (lstrip s)"

definition starts_with :: "string \<Rightarrow> string \<Rightarrow> bool" where
  "starts_with s p \<longleftrightarrow> prefix p s"

definition ends_with :: "string \<Rightarrow> string \<Rightarrow> bool" where
  "ends_with s p \<longleftrightarrow> suffix p s"

definition contains :: "string \<Rightarrow> string \<Rightarrow> bool" where
  "contains s p \<longleftrightarrow> sublist p s"

definition removeprefix :: "string \<Rightarrow> string \<Rightarrow> string" where
  "removeprefix s p = (if prefix p s then drop (length p) s else s)"

fun replace_char :: "char \<Rightarrow> string \<Rightarrow> string \<Rightarrow> string" where
  "replace_char c r [] = []"
| "replace_char c r (x # xs) = (if x = c then r else [x]) @ replace_char c r xs"

lemma contains_simps [simp]:
  "contains s [] = True"
  "contains [] (c # p) = False"
  "contains (d # s) (c # p) = (prefix (c # p) (d # s) \<or> contains s (c # p))"
  by (auto simp: contains_def sublist_Cons_right)

lemma contains_appendI: "contains (a @ p @ b) p"
  by (auto simp: contains_def sublist_def)

lemma contains_charI: "c \<in> set s \<Longrightarrow> contains s [c]"
  by (auto simp: contains_def sublist_def in_set_conv_decomp)

lemma contains_char_iff: "contains s [c] \<longleftrightarrow> c \<in> set s"
  by (auto simp: contains_def sublist_def in_set_conv_decomp)

lemma py_lower_idem [simp]: "py_lower (py_lower s) = py_lower s"
  by (simp add: py_lower_def)

lemma py_lower_Nil [simp]: "py_lower s = [] \<longleftrightarrow> s = []"
  by (simp add: py_lower_def)

lemma lstrip_lower: "lstrip (py_lower s) = py_lower (lstrip s)"
  by (simp add: lstrip_def py_lower_def dropWhile_map comp_def)

lemma rstrip_lower: "rstrip (py_lower s) = py_lower (rstrip s)"
  by (simp add: rstrip_def py_lower_def rev_map dropWhile_map comp_def)

lemma strip_lower: "strip (py_lower s) = py_lower (strip s)"
  by (simp add: strip_def lstrip_lower rstrip_lower)

lemma dropWhile_id_iff: "dropWhile P xs = xs \<longleftrightarrow> xs = [] \<or> \<not> P (hd xs)"
proof
  assume "dropWhile P xs = xs"
  then show "xs = [] \<or> \<not> P (hd xs)" by (metis hd_dropWhile)
next
  assume "xs = [] \<or> \<not> P (hd xs)"
  then show "dropWhile P xs = xs" by (cases xs) auto
qed

lemma rstrip_hd: "rstrip s \<noteq> [] \<Longrightarrow> hd (rstrip s) = hd s"
proof (induction s)
  case Nil
  then show ?case by (simp add: rstrip_def)
next
  case (Cons c s)
  then show ?case by (auto simp: rstrip_def dropWhile_append)
qed

lemma lstrip_rstrip_lstrip: "lstrip (rstrip (lstrip s)) = rstrip (lstrip s)"
proof (cases "rstrip (lstrip s) = []")
  case True
  then show ?thesis by (simp add: lstrip_def)
next
  case False
  then have "lstrip s \<noteq> []" by (auto simp: rstrip_def)
  then have "\<not> is_space (hd (lstrip s))"
    unfolding lstrip_def by (metis hd_dropWhile)
  with False show ?thesis by (simp add: lstrip_def dropWhile_id_iff rstrip_hd)
qed

lemma strip_idem [simp]: "strip (strip s) = strip s"
  by (simp add: strip_def lstrip_rstrip_lstrip) (simp add: rstrip_def dropWhile_idem)

section \<open>Splitting and joining\<close>

text \<open>Split at every character of a class; the result is never empty.\<close>

fun split_by :: "(char \<Rightarrow> bool) \<Rightarrow> string \<Rightarrow> string list" where
  "split_by P [] = [[]]"
| "split_by P (c # cs) =
     (if P c then [] # split_by P cs
      else (case split_by P cs of [] \<Rightarrow> [[c]] | w # ws \<Rightarrow> (c # w) # ws))"

definition split_on :: "char \<Rightarrow> string \<Rightarrow> string list" where
  "split_on sep s = split_by (\<lambda>c. c = sep) s"

definition split_ws :: "string \<Rightarrow> string list" where
  "split_ws s = filter (\<lambda>w. w \<noteq> []) (split_by is_space s)"

text \<open>\<open>s.rsplit(sep, 1)[-1]\<close>: what follows the last separator.\<close>

definition after_last :: "char \<Rightarrow> string \<Rightarrow> string" where
  "after_last sep s = rev (takeWhile (\<lambda>c. c \<noteq> sep) (rev s))"

fun join :: "string \<Rightarrow> string list \<Rightarrow> string" where
  "join sep [] = []"
| "join sep [w] = w"
| "join sep (w # ws) = w @ sep @ join sep ws"

lemma split_by_nonempty [simp]: "split_by P s \<noteq> []"
  by (induction s) (auto split: list.splits)

lemma split_by_no_sep: "w \<in> set (split_by P s) \<Longrightarrow> c \<in> set w \<Longrightarrow> \<not> P c"
  by (induction s arbitrary: w) (fastforce split: list.splits if_splits)+

lemma split_by_chars: "w \<in> set (split_by P s) \<Longrightarrow> set w \<subseteq> set s"
  by (induction s arbitrary: w) (fastforce split: list.splits if_splits)+

lemma split_ws_mem: "w \<in> set (split_ws s) \<Longrightarrow> w \<noteq> [] \<and> (\<forall>c \<in> set w. \<not> is_space c)"
  by (auto simp: split_ws_def dest: split_by_no_sep)

section \<open>Decimal integers\<close>

fun str_of_nat :: "nat \<Rightarrow> string" where
  "str_of_nat n = (if n < 10 then [digit_char (int n)]
     else str_of_nat (n div 10) @ [digit_char (int (n mod 10))])"

declare str_of_nat.simps [simp del]

definition str_of_int :: "int \<Rightarrow> string" where
  "str_of_int i = (if i < 0 then CHR ''-'' # str_of_nat (nat (- i)) else str_of_nat (nat i))"

definition int_of_digits :: "string \<Rightarrow> int" where
  "int_of_digits s = foldl (\<lambda>a c. 10 * a + digit_value c) 0 s"

lemma str_of_nat_value [simp]: "int_of_digits (str_of_nat n) = int n"
proof (induction n rule: str_of_nat.induct)
  case (1 n)
  have "10 * int (n div 10) + int (n mod 10) = int n"
    by (metis mult_div_mod_eq of_nat_add of_nat_mult of_nat_numeral)
  with 1 show ?case
    by (subst str_of_nat.simps) (auto simp: int_of_digits_def)
qed

lemma str_of_nat_digits: "c \<in> set (str_of_nat n) \<Longrightarrow> is_digit c"
proof (induction n rule: str_of_nat.induct)
  case (1 n)
  then show ?case
    by (subst (asm) str_of_nat.simps) (auto split: if_splits)
qed

lemma str_of_nat_inj [simp]: "str_of_nat m = str_of_nat n \<longleftrightarrow> m = n"
  by (metis str_of_nat_value of_nat_eq_iff)

lemma minus_not_digit: "\<not> is_digit (CHR ''-'')"
  by (simp add: is_digit_def char_code_def)

lemma str_of_nat_not_minus: "str_of_nat n \<noteq> CHR ''-'' # s"
  using str_of_nat_digits [of "CHR ''-''" n] minus_not_digit by fastforce

lemma str_of_int_inj [simp]: "str_of_int i = str_of_int j \<longleftrightarrow> i = j"
  by (auto simp: str_of_int_def str_of_nat_not_minus dest: sym)

end
