(* ===== verification/Json.thy ===== *)
theory Json
  imports PyText
begin

text \<open>
  The JSON values that payloads, task records and request bodies carry, with Python's truth
  value, equality and \<open>str()\<close>. An object is an ordered dictionary. Floating-point numbers do not
  occur in the model: no modelled branch depends on a fractional value.
\<close>

datatype json =
    JNull
  | JBool bool
  | JInt int
  | JStr string
  | JList "json list"
  | JObj "(string \<times> json) list"

type_synonym jdict = "(string, json) dict"

section \<open>Truth and equality\<close>

fun truthy :: "json \<Rightarrow> bool" where
  "truthy JNull = False"
| "truthy (JBool b) = b"
| "truthy (JInt i) = (i \<noteq> 0)"
| "truthy (JStr s) = (s \<noteq> [])"
| "truthy (JList xs) = (xs \<noteq> [])"
| "truthy (JObj d) = (d \<noteq> [])"

text \<open>
  Python's \<open>==\<close>: \<open>True\<close> equals \<open>1\<close>; lists compare in order; dictionaries compare by length and
  by every key of the left one, whatever the order of their keys.
\<close>

lemma json_size_list [termination_simp]:
  "(x, y) \<in> set (zip xs ys) \<Longrightarrow> size x < Suc (size_list size xs)"
  by (rule le_imp_less_Suc, rule size_list_estimation' [OF set_zip_leftD]) auto

fun json_eq :: "json \<Rightarrow> json \<Rightarrow> bool" where
  "json_eq JNull JNull = True"
| "json_eq (JBool a) (JBool b) = (a = b)"
| "json_eq (JBool a) (JInt j) = (j = of_bool a)"
| "json_eq (JInt i) (JBool b) = (i = of_bool b)"
| "json_eq (JInt i) (JInt j) = (i = j)"
| "json_eq (JStr s) (JStr t) = (s = t)"
| "json_eq (JList xs) (JList ys) =
     (length xs = length ys \<and> (\<forall>(x, y) \<in> set (zip xs ys). json_eq x y))"
| "json_eq (JObj d) (JObj e) =
     (length d = length e \<and>
      (\<forall>(k, v) \<in> set d. case map_of e k of None \<Rightarrow> False | Some w \<Rightarrow> json_eq v w))"
| "json_eq _ _ = False"

definition jdict_eq :: "jdict \<Rightarrow> jdict \<Rightarrow> bool" where
  "jdict_eq d e = json_eq (JObj d) (JObj e)"

text \<open>A value as Python builds it: the keys of every object are distinct.\<close>

fun json_wf :: "json \<Rightarrow> bool" where
  "json_wf (JList xs) = (\<forall>x \<in> set xs. json_wf x)"
| "json_wf (JObj d) = (distinct (map fst d) \<and> (\<forall>(k, v) \<in> set d. json_wf v))"
| "json_wf _ = True"

abbreviation jdict_wf :: "jdict \<Rightarrow> bool" where
  "jdict_wf d \<equiv> json_wf (JObj d)"

lemma json_eq_refl: "json_wf j \<Longrightarrow> json_eq j j"
proof (induction j rule: json_wf.induct)
  case (1 xs)
  then show ?case by (auto simp: in_set_zip)
next
  case (2 d)
  have "case map_of d k of None \<Rightarrow> False | Some w \<Rightarrow> json_eq v w" if "(k, v) \<in> set d" for k v
  proof -
    from 2 that have "map_of d k = Some v" and "json_wf v" by auto
    with 2 that show ?thesis by fastforce
  qed
  then show ?case by auto
qed auto

lemma jdict_eq_refl [simp]: "jdict_wf d \<Longrightarrow> jdict_eq d d"
  unfolding jdict_eq_def by (rule json_eq_refl)

lemma jdict_wf_set: "jdict_wf d \<Longrightarrow> json_wf v \<Longrightarrow> jdict_wf (dict_set k v d)"
  by (fastforce simp: dict_set_set split: if_splits)

lemma jdict_eq_lookup:
  assumes "jdict_eq d e" and "jdict_wf d" and "map_of d k = Some v"
  shows "\<exists>w. map_of e k = Some w \<and> json_eq v w"
proof -
  from assms(3) have "(k, v) \<in> set d" by (rule map_of_SomeD)
  with assms(1) show ?thesis
    by (fastforce simp: jdict_eq_def split: option.splits)
qed

text \<open>The same comparison on dictionaries of strings.\<close>

definition sdict_eq :: "(string, string) dict \<Rightarrow> (string, string) dict \<Rightarrow> bool" where
  "sdict_eq d e \<longleftrightarrow> length d = length e \<and> (\<forall>(k, v) \<in> set d. map_of e k = Some v)"

lemma sdict_eq_refl [simp]: "distinct (dict_keys d) \<Longrightarrow> sdict_eq d d"
  by (auto simp: sdict_eq_def)

lemma sdict_eq_lookup: "sdict_eq d e \<Longrightarrow> map_of d k = Some v \<Longrightarrow> map_of e k = Some v"
  by (auto simp: sdict_eq_def dest: map_of_SomeD)

section \<open>Text of a value\<close>

text \<open>
  \<open>repr\<close> of a string: single quotes unless the text has a single quote and no double quote; the
  quote, the backslash and the control characters are escaped.
\<close>

definition hex_digit :: "int \<Rightarrow> char" where
  "hex_digit n = (if n < 10 then char_of (48 + n) else char_of (87 + n))"

definition escape_char :: "char \<Rightarrow> char \<Rightarrow> string" where
  "escape_char q c =
     (let n = char_code c in
      if c = q \<or> n = 92 then [char_of (92 :: int), c]
      else if n = 10 then [char_of (92 :: int), CHR ''n'']
      else if n = 13 then [char_of (92 :: int), CHR ''r'']
      else if n = 9 then [char_of (92 :: int), CHR ''t'']
      else if n < 32 \<or> n = 127
        then [char_of (92 :: int), CHR ''x'', hex_digit (n div 16), hex_digit (n mod 16)]
      else [c])"

definition py_repr_str :: "string \<Rightarrow> string" where
  "py_repr_str s =
     (let sq = char_of (39 :: int); dq = char_of (34 :: int);
          q = (if sq \<in> set s \<and> dq \<notin> set s then dq else sq)
      in [q] @ concat (map (escape_char q) s) @ [q])"

fun py_repr :: "json \<Rightarrow> string" where
  "py_repr JNull = ''None''"
| "py_repr (JBool b) = (if b then ''True'' else ''False'')"
| "py_repr (JInt i) = str_of_int i"
| "py_repr (JStr s) = py_repr_str s"
| "py_repr (JList xs) = ''['' @ join '', '' (map py_repr xs) @ '']''"
| "py_repr (JObj d) =
     ''{'' @ join '', '' (map (\<lambda>(k, v). py_repr_str k @ '': '' @ py_repr v) d) @ ''}''"

definition py_str :: "json \<Rightarrow> string" where
  "py_str j = (case j of JStr s \<Rightarrow> s | _ \<Rightarrow> py_repr j)"

section \<open>Reading a record\<close>

text \<open>\<open>d.get(k)\<close>, with \<open>None\<close> for a missing key, and \<open>str(d.get(k) or "").strip()\<close>.\<close>

definition jget :: "jdict \<Rightarrow> string \<Rightarrow> json" where
  "jget d k = (case map_of d k of None \<Rightarrow> JNull | Some v \<Rightarrow> v)"

definition text_or_empty :: "json \<Rightarrow> string" where
  "text_or_empty j = (if truthy j then py_str j else [])"

definition stripped_text :: "json \<Rightarrow> string" where
  "stripped_text j = strip (text_or_empty j)"

definition jopt :: "string option \<Rightarrow> json" where
  "jopt v = (case v of None \<Rightarrow> JNull | Some s \<Rightarrow> JStr s)"

text \<open>\<open>x or ""\<close> and \<open>x or y\<close> on optional texts.\<close>

definition or_empty :: "string option \<Rightarrow> string" where
  "or_empty v = (case v of None \<Rightarrow> [] | Some s \<Rightarrow> s)"

definition or_else :: "string option \<Rightarrow> string \<Rightarrow> string" where
  "or_else v d = (case v of None \<Rightarrow> d | Some s \<Rightarrow> if s = [] then d else s)"

lemma text_or_empty_simps [simp]:
  "text_or_empty JNull = []"
  "text_or_empty (JStr s) = s"
  by (auto simp: text_or_empty_def py_str_def)

lemma stripped_text_simps [simp]:
  "stripped_text JNull = []"
  "stripped_text (JStr s) = strip s"
  by (simp_all add: stripped_text_def strip_def lstrip_def rstrip_def)

lemma jget_simps [simp]:
  "jget [] k = JNull"
  "jget ((k', v) # d) k = (if k' = k then v else jget d k)"
  by (simp_all add: jget_def)

lemma jget_dict_set [simp]: "jget (dict_set k v d) k' = (if k' = k then v else jget d k')"
  by (simp add: jget_def)

end
