(* ===== verification/IdemLog.thy ===== *)
theory IdemLog
  imports Json
begin

text \<open>
  The contract of a log whose appends are idempotent, as the recorders rely on it: a record whose
  idempotency key is new is stamped with the next sequence number and added at the end; a record
  whose key is present returns the stored record when the two are the same, and is refused
  otherwise; a refused append changes nothing. The store of session events provides this contract
  three times.
\<close>

definition seq_or_zero :: "int option \<Rightarrow> int" where
  "seq_or_zero n = (case n of None \<Rightarrow> 0 | Some i \<Rightarrow> i)"

text \<open>
  A well-formed log: no two records share a key, the sequence numbers increase along the log, and
  they all lie below the counter.
\<close>

definition log_ok :: "('r \<Rightarrow> string) \<Rightarrow> ('r \<Rightarrow> int option) \<Rightarrow> int \<Rightarrow> 'r list \<Rightarrow> bool" where
  "log_ok key seq n xs \<longleftrightarrow>
     distinct (map key xs) \<and> sorted_wrt (<) (map (\<lambda>x. seq_or_zero (seq x)) xs) \<and>
     (\<forall>x \<in> set xs. \<exists>i. seq x = Some i \<and> 1 \<le> i \<and> i < n)"

lemma log_ok_Nil [simp]: "log_ok key seq n []"
  by (simp add: log_ok_def)

lemma log_ok_mono: "log_ok key seq n xs \<Longrightarrow> n \<le> m \<Longrightarrow> log_ok key seq m xs"
  by (fastforce simp: log_ok_def)

lemma log_ok_snoc:
  assumes "log_ok key seq n xs" and "1 \<le> n" and "seq x = Some n" and "key x \<notin> key ` set xs"
  shows "log_ok key seq (n + 1) (xs @ [x])"
proof -
  have "seq_or_zero (seq y) < n" if "y \<in> set xs" for y
    using assms(1) that by (fastforce simp: log_ok_def seq_or_zero_def)
  with assms show ?thesis
    by (fastforce simp: log_ok_def sorted_wrt_append seq_or_zero_def [of "Some n"])
qed

lemma log_ok_filter:
  assumes "log_ok key seq n xs"
  shows "sorted_wrt (\<lambda>a b. seq_or_zero (seq a) < seq_or_zero (seq b)) (filter P xs)"
  using assms by (auto simp: log_ok_def sorted_wrt_map intro: sorted_wrt_filter)

locale idem_log =
  fixes key :: "'r \<Rightarrow> string"
    and same :: "'r \<Rightarrow> 'r \<Rightarrow> bool"
    and seq :: "'r \<Rightarrow> int option"
    and stamp :: "int \<Rightarrow> 'r \<Rightarrow> 'r"
    and wf :: "'r \<Rightarrow> bool"
    and entries :: "'s \<Rightarrow> 'r list"
    and nxt :: "'s \<Rightarrow> int"
    and app :: "'r \<Rightarrow> ('r, 's) op"
  assumes key_stamp [simp]: "key (stamp n r) = key r"
    and seq_stamp [simp]: "seq (stamp n r) = Some n"
    and same_stamp: "wf r \<Longrightarrow> same (stamp n r) r"
    and app_hit: "find (\<lambda>x. key x = key r) (entries s) = Some x \<Longrightarrow> same x r \<Longrightarrow> app r s = (Inr x, s)"
    and app_conflict:
      "find (\<lambda>x. key x = key r) (entries s) = Some x \<Longrightarrow> \<not> same x r \<Longrightarrow> \<exists>e. app r s = (Inl e, s)"
    and app_miss:
      "find (\<lambda>x. key x = key r) (entries s) = None \<Longrightarrow> app r s = (Inr a, s') \<Longrightarrow>
         a = stamp (nxt s) r \<and> entries s' = entries s @ [a] \<and> nxt s' = nxt s + 1"
    and app_error: "app r s = (Inl e, s') \<Longrightarrow> s' = s"
begin

lemma app_cases:
  assumes "app r s = (res, s')"
  obtains (unchanged) "s' = s"
  | (added) "res = Inr (stamp (nxt s) r)" and "entries s' = entries s @ [stamp (nxt s) r]"
      and "nxt s' = nxt s + 1" and "key r \<notin> key ` set (entries s)"
proof (cases "find (\<lambda>x. key x = key r) (entries s)")
  case None
  then have new: "key r \<notin> key ` set (entries s)" by (auto simp: find_None_iff)
  show thesis
  proof (cases res)
    case (Inl e)
    with assms show thesis by (auto intro: unchanged dest: app_error)
  next
    case (Inr a)
    with None assms new show thesis by (auto intro: added dest: app_miss)
  qed
next
  case (Some x)
  show thesis
    using assms app_hit [OF Some] app_conflict [OF Some]
    by (cases "same x r") (auto intro: unchanged)
qed

lemma app_extends: "app r s = (res, s') \<Longrightarrow> prefix (entries s) (entries s')"
  by (erule app_cases) auto

lemma nxt_mono: "app r s = (res, s') \<Longrightarrow> nxt s \<le> nxt s'"
  by (erule app_cases) auto

lemma app_ok:
  assumes "app r s = (res, s')" and "log_ok key seq (nxt s) (entries s)" and "1 \<le> nxt s"
  shows "log_ok key seq (nxt s') (entries s')"
  using assms(1)
proof (cases rule: app_cases)
  case unchanged
  with assms(2) show ?thesis by simp
next
  case added
  with assms(2,3) show ?thesis by (simp add: log_ok_snoc)
qed

lemma app_stored:
  assumes "app r s = (Inr a, s')"
  shows "find (\<lambda>x. key x = key r) (entries s') = Some a"
proof (cases "find (\<lambda>x. key x = key r) (entries s)")
  case None
  with app_miss [OF this assms] show ?thesis by simp
next
  case (Some x)
  with assms app_hit [OF Some] app_conflict [OF Some] show ?thesis
    by (cases "same x r") auto
qed

lemma app_same:
  assumes "app r s = (Inr a, s')" and "wf r"
  shows "same a r"
proof (cases "find (\<lambda>x. key x = key r) (entries s)")
  case None
  with app_miss [OF this assms(1)] assms(2) show ?thesis by (simp add: same_stamp)
next
  case (Some x)
  with assms app_hit [OF Some] app_conflict [OF Some] show ?thesis
    by (cases "same x r") auto
qed

text \<open>Appending a record again returns what is stored and leaves the log as it is.\<close>

lemma app_idempotent:
  assumes "app r s = (Inr a, s')" and "wf r"
  shows "app r s' = (Inr a, s')"
  using app_stored [OF assms(1)] app_same [OF assms] by (rule app_hit)

text \<open>A second record under the same key is refused, and nothing changes.\<close>

lemma app_refuses:
  assumes "app r s = (Inr a, s')" and "key r' = key r" and "\<not> same a r'"
  shows "\<exists>e. app r' s' = (Inl e, s')"
  using app_stored [OF assms(1)] assms(2,3) by (intro app_conflict [of r' s' a]) simp_all

end

end
