(* ===== verification/SessionStore.thy ===== *)
theory SessionStore
  imports IdemLog
begin

text \<open>
  The event-truth store: \<open>SessionServiceStore\<close> of
  \<^verbatim>\<open>src/watchdog/services/session_service/store.py\<close> and its records of
  \<^verbatim>\<open>src/watchdog/services/session_service/models.py\<close>. The store file holds three logs (events,
  lineage, recovery transactions) that share one sequence counter. Every method holds the file
  lock from its read to its write, so a method is one atomic operation on the file's contents.
  The in-memory cache is keyed by the file's signature and is not part of the state.
\<close>

section \<open>Records\<close>

record session_event =
  ev_event_id :: string
  ev_project_id :: string
  ev_session_id :: string
  ev_event_type :: string
  ev_occurred_at :: string
  ev_causation_id :: "string option"
  ev_correlation_id :: string
  ev_idempotency_key :: string
  ev_related_ids :: "(string, string) dict"
  ev_payload :: jdict
  ev_log_seq :: "int option"

record session_lineage =
  ln_lineage_id :: string
  ln_project_id :: string
  ln_parent_session_id :: string
  ln_child_session_id :: string
  ln_relation :: string
  ln_source_packet_id :: string
  ln_recovery_reason :: string
  ln_goal_contract_version :: string
  ln_recovery_transaction_id :: "string option"
  ln_committed_at :: string
  ln_causation_id :: "string option"
  ln_correlation_id :: string
  ln_idempotency_key :: string
  ln_metadata :: jdict
  ln_log_seq :: "int option"

record recovery_tx =
  rt_recovery_transaction_id :: string
  rt_recovery_key :: string
  rt_project_id :: string
  rt_parent_session_id :: string
  rt_child_session_id :: "string option"
  rt_source_packet_id :: "string option"
  rt_recovery_reason :: string
  rt_failure_family :: string
  rt_failure_signature :: string
  rt_status :: string
  rt_started_at :: string
  rt_updated_at :: string
  rt_completed_at :: "string option"
  rt_lineage_id :: "string option"
  rt_causation_id :: "string option"
  rt_correlation_id :: string
  rt_idempotency_key :: string
  rt_metadata :: jdict
  rt_log_seq :: "int option"

record session_store =
  next_log_seq :: int
  st_events :: "session_event list"
  st_lineage :: "session_lineage list"
  st_recovery :: "recovery_tx list"

definition empty_session_store :: session_store where
  "empty_session_store = \<lparr>next_log_seq = 1, st_events = [], st_lineage = [], st_recovery = []\<rparr>"

section \<open>Model validation\<close>

definition controlled_session_event_types :: "string list" where
  "controlled_session_event_types =
    [''goal_contract_created'', ''goal_contract_revised'',
     ''goal_contract_adopted_by_child_session'', ''decision_proposed'', ''decision_validated'',
     ''command_created'', ''command_claimed'', ''command_lease_renewed'',
     ''command_claim_expired'', ''command_requeued'', ''command_executed'', ''command_failed'',
     ''approval_requested'', ''approval_approved'', ''approval_rejected'', ''approval_expired'',
     ''approval_superseded_by_goal_contract_bootstrap'', ''notification_announced'',
     ''notification_delivery_succeeded'', ''notification_delivery_failed'',
     ''notification_requeued'', ''notification_receipt_recorded'', ''feishu_command_route_bound'',
     ''interaction_context_superseded'', ''interaction_window_expired'',
     ''human_override_recorded'', ''memory_unavailable_degraded'', ''memory_conflict_detected'',
     ''stage_goal_conflict_detected'', ''recovery_dispatch_started'',
     ''recovery_execution_suppressed'', ''continuation_gate_evaluated'',
     ''continuation_identity_issued'', ''continuation_identity_consumed'',
     ''continuation_identity_invalidated'', ''branch_switch_token_issued'',
     ''branch_switch_token_consumed'', ''branch_switch_token_invalidated'',
     ''continuation_replay_invalidated'', ''recovery_tx_started'', ''handoff_packet_frozen'',
     ''child_session_created'', ''lineage_committed'', ''parent_session_closed_or_cooled'',
     ''recovery_tx_completed'', ''future_worker_requested'', ''future_worker_started'',
     ''future_worker_heartbeat'', ''future_worker_summary_published'', ''future_worker_completed'',
     ''future_worker_failed'', ''future_worker_cancelled'', ''future_worker_transition_rejected'',
     ''future_worker_result_consumed'', ''future_worker_result_rejected'']"

definition session_lineage_relations :: "string list" where
  "session_lineage_relations =
    [''supersedes'', ''forks_for_recovery'', ''forks_for_parallel_subtask'',
     ''resumes_after_interruption'']"

definition recovery_transaction_statuses :: "string list" where
  "recovery_transaction_statuses =
    [''started'', ''packet_frozen'', ''child_created'', ''lineage_pending'',
     ''lineage_committed'', ''parent_cooling'', ''completed'', ''failed_retryable'',
     ''failed_manual'']"

definition seq_field_ok :: "int option \<Rightarrow> bool" where
  "seq_field_ok n \<longleftrightarrow> (case n of None \<Rightarrow> True | Some i \<Rightarrow> 1 \<le> i)"

definition validate_event :: "session_event \<Rightarrow> py_error + session_event" where
  "validate_event r =
     (if [] \<in> set [ev_event_id r, ev_project_id r, ev_session_id r, ev_event_type r,
                    ev_occurred_at r, ev_correlation_id r, ev_idempotency_key r]
        \<or> \<not> seq_field_ok (ev_log_seq r)
      then Inl (ValueError ''session event field'')
      else if ev_event_type r \<notin> set controlled_session_event_types
      then Inl (ValueError (''unsupported session event type: '' @ ev_event_type r))
      else Inr r)"

definition validate_lineage :: "session_lineage \<Rightarrow> py_error + session_lineage" where
  "validate_lineage r =
     (if [] \<in> set [ln_lineage_id r, ln_project_id r, ln_parent_session_id r,
                    ln_child_session_id r, ln_relation r, ln_source_packet_id r,
                    ln_recovery_reason r, ln_goal_contract_version r, ln_committed_at r,
                    ln_correlation_id r, ln_idempotency_key r]
        \<or> \<not> seq_field_ok (ln_log_seq r)
      then Inl (ValueError ''session lineage field'')
      else if ln_relation r \<notin> set session_lineage_relations
      then Inl (ValueError (''unsupported session lineage relation: '' @ ln_relation r))
      else Inr r)"

definition validate_recovery :: "recovery_tx \<Rightarrow> py_error + recovery_tx" where
  "validate_recovery r =
     (if [] \<in> set [rt_recovery_transaction_id r, rt_recovery_key r, rt_project_id r,
                    rt_parent_session_id r, rt_recovery_reason r, rt_failure_family r,
                    rt_failure_signature r, rt_status r, rt_started_at r, rt_updated_at r,
                    rt_correlation_id r, rt_idempotency_key r]
        \<or> \<not> seq_field_ok (rt_log_seq r)
      then Inl (ValueError ''recovery transaction field'')
      else if rt_status r \<notin> set recovery_transaction_statuses
      then Inl (ValueError (''unsupported recovery transaction status: '' @ rt_status r))
      else Inr r)"

lemma validate_event_Inr: "validate_event r = Inr r' \<Longrightarrow> r' = r"
  by (auto simp: validate_event_def split: if_splits)

lemma validate_lineage_Inr: "validate_lineage r = Inr r' \<Longrightarrow> r' = r"
  by (auto simp: validate_lineage_def split: if_splits)

lemma validate_recovery_Inr: "validate_recovery r = Inr r' \<Longrightarrow> r' = r"
  by (auto simp: validate_recovery_def split: if_splits)

section \<open>Idempotent append\<close>

text \<open>
  \<open>_normalized(a) == _normalized(b)\<close>: the two records dump to equal JSON once \<open>log_seq\<close> is left
  out.
\<close>

definition same_event :: "session_event \<Rightarrow> session_event \<Rightarrow> bool" where
  "same_event a b \<longleftrightarrow>
     ev_event_id a = ev_event_id b \<and> ev_project_id a = ev_project_id b \<and>
     ev_session_id a = ev_session_id b \<and> ev_event_type a = ev_event_type b \<and>
     ev_occurred_at a = ev_occurred_at b \<and> ev_causation_id a = ev_causation_id b \<and>
     ev_correlation_id a = ev_correlation_id b \<and>
     ev_idempotency_key a = ev_idempotency_key b \<and>
     sdict_eq (ev_related_ids a) (ev_related_ids b) \<and> jdict_eq (ev_payload a) (ev_payload b)"

definition same_lineage :: "session_lineage \<Rightarrow> session_lineage \<Rightarrow> bool" where
  "same_lineage a b \<longleftrightarrow>
     ln_lineage_id a = ln_lineage_id b \<and> ln_project_id a = ln_project_id b \<and>
     ln_parent_session_id a = ln_parent_session_id b \<and>
     ln_child_session_id a = ln_child_session_id b \<and> ln_relation a = ln_relation b \<and>
     ln_source_packet_id a = ln_source_packet_id b \<and>
     ln_recovery_reason a = ln_recovery_reason b \<and>
     ln_goal_contract_version a = ln_goal_contract_version b \<and>
     ln_recovery_transaction_id a = ln_recovery_transaction_id b \<and>
     ln_committed_at a = ln_committed_at b \<and> ln_causation_id a = ln_causation_id b \<and>
     ln_correlation_id a = ln_correlation_id b \<and>
     ln_idempotency_key a = ln_idempotency_key b \<and> jdict_eq (ln_metadata a) (ln_metadata b)"

definition same_recovery :: "recovery_tx \<Rightarrow> recovery_tx \<Rightarrow> bool" where
  "same_recovery a b \<longleftrightarrow>
     rt_recovery_transaction_id a = rt_recovery_transaction_id b \<and>
     rt_recovery_key a = rt_recovery_key b \<and> rt_project_id a = rt_project_id b \<and>
     rt_parent_session_id a = rt_parent_session_id b \<and>
     rt_child_session_id a = rt_child_session_id b \<and>
     rt_source_packet_id a = rt_source_packet_id b \<and>
     rt_recovery_reason a = rt_recovery_reason b \<and>
     rt_failure_family a = rt_failure_family b \<and>
     rt_failure_signature a = rt_failure_signature b \<and> rt_status a = rt_status b \<and>
     rt_started_at a = rt_started_at b \<and> rt_updated_at a = rt_updated_at b \<and>
     rt_completed_at a = rt_completed_at b \<and> rt_lineage_id a = rt_lineage_id b \<and>
     rt_causation_id a = rt_causation_id b \<and> rt_correlation_id a = rt_correlation_id b \<and>
     rt_idempotency_key a = rt_idempotency_key b \<and> jdict_eq (rt_metadata a) (rt_metadata b)"

fun dedupe_by_idempotency ::
    "('r \<Rightarrow> string) \<Rightarrow> ('r \<Rightarrow> 'r \<Rightarrow> bool) \<Rightarrow> string \<Rightarrow> 'r list \<Rightarrow> 'r \<Rightarrow> py_error + 'r option"
where
  "dedupe_by_idempotency key same label [] r = Inr None"
| "dedupe_by_idempotency key same label (x # xs) r =
     (if key x \<noteq> key r then dedupe_by_idempotency key same label xs r
      else if \<not> same x r
      then Inl (ValueError (''conflicting '' @ label @ '' for idempotency key: '' @ key r))
      else Inr (Some x))"

lemma dedupe_find:
  "dedupe_by_idempotency key same label xs r =
     (case find (\<lambda>x. key x = key r) xs of
        None \<Rightarrow> Inr None
      | Some x \<Rightarrow>
          if same x r then Inr (Some x)
          else Inl (ValueError (''conflicting '' @ label @ '' for idempotency key: '' @ key r)))"
  by (induction xs) auto

definition append_event :: "session_event \<Rightarrow> (session_event, session_store) op" where
  "append_event r s =
     (case dedupe_by_idempotency ev_idempotency_key same_event ''session event'' (st_events s) r of
        Inl e \<Rightarrow> (Inl e, s)
      | Inr (Some x) \<Rightarrow> (Inr x, s)
      | Inr None \<Rightarrow>
          if (\<exists>p \<in> set (st_events s). ev_event_id p = ev_event_id r)
          then (Inl (ValueError (''conflicting session event id: '' @ ev_event_id r)), s)
          else let a = r\<lparr>ev_log_seq := Some (next_log_seq s)\<rparr>
               in (Inr a, s\<lparr>next_log_seq := next_log_seq s + 1, st_events := st_events s @ [a]\<rparr>))"

definition append_lineage :: "session_lineage \<Rightarrow> (session_lineage, session_store) op" where
  "append_lineage r s =
     (case dedupe_by_idempotency ln_idempotency_key same_lineage ''session lineage''
             (st_lineage s) r of
        Inl e \<Rightarrow> (Inl e, s)
      | Inr (Some x) \<Rightarrow> (Inr x, s)
      | Inr None \<Rightarrow>
          if (\<exists>p \<in> set (st_lineage s). ln_lineage_id p = ln_lineage_id r)
          then (Inl (ValueError (''conflicting session lineage id: '' @ ln_lineage_id r)), s)
          else let a = r\<lparr>ln_log_seq := Some (next_log_seq s)\<rparr>
               in (Inr a, s\<lparr>next_log_seq := next_log_seq s + 1, st_lineage := st_lineage s @ [a]\<rparr>))"

definition append_recovery_transaction :: "recovery_tx \<Rightarrow> (recovery_tx, session_store) op" where
  "append_recovery_transaction r s =
     (case dedupe_by_idempotency rt_idempotency_key same_recovery ''recovery transaction''
             (st_recovery s) r of
        Inl e \<Rightarrow> (Inl e, s)
      | Inr (Some x) \<Rightarrow> (Inr x, s)
      | Inr None \<Rightarrow>
          let a = r\<lparr>rt_log_seq := Some (next_log_seq s)\<rparr>
          in (Inr a, s\<lparr>next_log_seq := next_log_seq s + 1, st_recovery := st_recovery s @ [a]\<rparr>))"

section \<open>Queries\<close>

definition opt_match :: "'a option \<Rightarrow> 'a \<Rightarrow> bool" where
  "opt_match f x \<longleftrightarrow> (case f of None \<Rightarrow> True | Some y \<Rightarrow> x = y)"

definition list_events ::
    "string option \<Rightarrow> string option \<Rightarrow> (string \<times> string option) option \<Rightarrow> string option \<Rightarrow>
     session_store \<Rightarrow> session_event list" where
  "list_events session_id event_type related correlation_id s =
     filter (\<lambda>r. case related of None \<Rightarrow> True | Some (k, v) \<Rightarrow> map_of (ev_related_ids r) k = v)
       (filter (\<lambda>r. opt_match correlation_id (ev_correlation_id r))
         (filter (\<lambda>r. opt_match event_type (ev_event_type r))
           (filter (\<lambda>r. opt_match session_id (ev_session_id r)) (st_events s))))"

definition list_lineage ::
    "string option \<Rightarrow> string option \<Rightarrow> string option \<Rightarrow> session_store \<Rightarrow> session_lineage list" where
  "list_lineage parent child tx s =
     filter (\<lambda>r. case tx of None \<Rightarrow> True | Some t \<Rightarrow> ln_recovery_transaction_id r = Some t)
       (filter (\<lambda>r. opt_match child (ln_child_session_id r))
         (filter (\<lambda>r. opt_match parent (ln_parent_session_id r)) (st_lineage s)))"

definition list_recovery_transactions ::
    "string option \<Rightarrow> string option \<Rightarrow> string option \<Rightarrow> string option \<Rightarrow> session_store \<Rightarrow>
     recovery_tx list" where
  "list_recovery_transactions parent child tx status s =
     filter (\<lambda>r. opt_match status (rt_status r))
       (filter (\<lambda>r. opt_match tx (rt_recovery_transaction_id r))
         (filter (\<lambda>r. case child of None \<Rightarrow> True | Some c \<Rightarrow> rt_child_session_id r = Some c)
           (filter (\<lambda>r. opt_match parent (rt_parent_session_id r)) (st_recovery s))))"

definition get_latest_recovery_transaction :: "string \<Rightarrow> session_store \<Rightarrow> recovery_tx option" where
  "get_latest_recovery_transaction tx s =
     (case list_recovery_transactions None None (Some tx) None s of
        [] \<Rightarrow> None
      | r # rs \<Rightarrow> Some (max_by (\<lambda>r. seq_or_zero (rt_log_seq r)) r rs))"

section \<open>The three logs provide the contract\<close>

definition event_wf :: "session_event \<Rightarrow> bool" where
  "event_wf r \<longleftrightarrow> distinct (dict_keys (ev_related_ids r)) \<and> jdict_wf (ev_payload r)"

lemmas append_defs = append_event_def append_lineage_def append_recovery_transaction_def
lemmas same_defs = same_event_def same_lineage_def same_recovery_def

interpretation events: idem_log ev_idempotency_key same_event ev_log_seq
  "\<lambda>n r. r\<lparr>ev_log_seq := Some n\<rparr>" event_wf st_events next_log_seq append_event
  by unfold_locales
    (auto simp: append_event_def dedupe_find same_event_def event_wf_def Let_def
      split: option.splits if_splits)

interpretation lineage: idem_log ln_idempotency_key same_lineage ln_log_seq
  "\<lambda>n r. r\<lparr>ln_log_seq := Some n\<rparr>" "\<lambda>r. jdict_wf (ln_metadata r)" st_lineage next_log_seq
  append_lineage
  by unfold_locales
    (auto simp: append_lineage_def dedupe_find same_lineage_def Let_def
      split: option.splits if_splits)

interpretation recovery: idem_log rt_idempotency_key same_recovery rt_log_seq
  "\<lambda>n r. r\<lparr>rt_log_seq := Some n\<rparr>" "\<lambda>r. jdict_wf (rt_metadata r)" st_recovery next_log_seq
  append_recovery_transaction
  by unfold_locales
    (auto simp: append_recovery_transaction_def dedupe_find same_recovery_def Let_def
      split: option.splits if_splits)

section \<open>The invariant of the store\<close>

definition store_seqs :: "session_store \<Rightarrow> int option list" where
  "store_seqs s = map ev_log_seq (st_events s) @ map ln_log_seq (st_lineage s) @
     map rt_log_seq (st_recovery s)"

text \<open>
  Each log is well formed; event ids and lineage ids are unique; and no sequence number is used
  twice, in the same log or in two of them, so the sequence numbers order all the records.
\<close>

definition store_inv :: "session_store \<Rightarrow> bool" where
  "store_inv s \<longleftrightarrow>
     1 \<le> next_log_seq s \<and>
     log_ok ev_idempotency_key ev_log_seq (next_log_seq s) (st_events s) \<and>
     log_ok ln_idempotency_key ln_log_seq (next_log_seq s) (st_lineage s) \<and>
     log_ok rt_idempotency_key rt_log_seq (next_log_seq s) (st_recovery s) \<and>
     distinct (map ev_event_id (st_events s)) \<and> distinct (map ln_lineage_id (st_lineage s)) \<and>
     distinct (store_seqs s)"

inductive store_step :: "session_store \<Rightarrow> session_store \<Rightarrow> bool" where
  event: "append_event r s = (res, s') \<Longrightarrow> store_step s s'"
| lineage: "append_lineage l s = (res', s') \<Longrightarrow> store_step s s'"
| recovery: "append_recovery_transaction t s = (res'', s') \<Longrightarrow> store_step s s'"

inductive store_reachable :: "session_store \<Rightarrow> bool" where
  start: "store_reachable empty_session_store"
| step: "store_reachable s \<Longrightarrow> store_step s s' \<Longrightarrow> store_reachable s'"

lemma store_inv_empty: "store_inv empty_session_store"
  by (simp add: store_inv_def empty_session_store_def store_seqs_def)

lemma log_ok_seq_bound:
  "log_ok key seq n xs \<Longrightarrow> Some n \<notin> seq ` set xs"
  by (auto simp: log_ok_def)

lemma append_event_frame:
  "append_event r s = (res, s') \<Longrightarrow> st_lineage s' = st_lineage s \<and> st_recovery s' = st_recovery s"
  by (auto simp: append_event_def Let_def split: sum.splits option.splits if_splits)

lemma append_lineage_frame:
  "append_lineage r s = (res, s') \<Longrightarrow> st_events s' = st_events s \<and> st_recovery s' = st_recovery s"
  by (auto simp: append_lineage_def Let_def split: sum.splits option.splits if_splits)

lemma append_recovery_frame:
  "append_recovery_transaction r s = (res, s') \<Longrightarrow>
     st_events s' = st_events s \<and> st_lineage s' = st_lineage s"
  by (auto simp: append_recovery_transaction_def Let_def split: sum.splits option.splits)

lemma append_event_ids:
  "append_event r s = (res, s') \<Longrightarrow> distinct (map ev_event_id (st_events s)) \<Longrightarrow>
     distinct (map ev_event_id (st_events s'))"
  by (auto simp: append_event_def Let_def image_iff eq_commute split: sum.splits option.splits if_splits)

lemma append_lineage_ids:
  "append_lineage r s = (res, s') \<Longrightarrow> distinct (map ln_lineage_id (st_lineage s)) \<Longrightarrow>
     distinct (map ln_lineage_id (st_lineage s'))"
  by (auto simp: append_lineage_def Let_def image_iff eq_commute split: sum.splits option.splits if_splits)

lemma store_inv_event:
  assumes step: "append_event r s = (res, s')" and inv: "store_inv s"
  shows "store_inv s'"
proof -
  have "distinct (store_seqs s')"
    using step
  proof (cases rule: events.app_cases)
    case unchanged
    with inv show ?thesis by (simp add: store_inv_def)
  next
    case added
    with inv append_event_frame [OF step] show ?thesis
      by (auto simp: store_inv_def store_seqs_def dest!: log_ok_seq_bound)
  qed
  with inv show ?thesis
    using events.app_ok [OF step] events.nxt_mono [OF step] append_event_frame [OF step]
      append_event_ids [OF step]
    by (auto simp: store_inv_def intro: log_ok_mono)
qed

lemma store_inv_lineage:
  assumes step: "append_lineage r s = (res, s')" and inv: "store_inv s"
  shows "store_inv s'"
proof -
  have "distinct (store_seqs s')"
    using step
  proof (cases rule: lineage.app_cases)
    case unchanged
    with inv show ?thesis by (simp add: store_inv_def)
  next
    case added
    with inv append_lineage_frame [OF step] show ?thesis
      by (auto simp: store_inv_def store_seqs_def dest!: log_ok_seq_bound)
  qed
  with inv show ?thesis
    using lineage.app_ok [OF step] lineage.nxt_mono [OF step] append_lineage_frame [OF step]
      append_lineage_ids [OF step]
    by (auto simp: store_inv_def intro: log_ok_mono)
qed

lemma store_inv_recovery:
  assumes step: "append_recovery_transaction r s = (res, s')" and inv: "store_inv s"
  shows "store_inv s'"
proof -
  have "distinct (store_seqs s')"
    using step
  proof (cases rule: recovery.app_cases)
    case unchanged
    with inv show ?thesis by (simp add: store_inv_def)
  next
    case added
    with inv append_recovery_frame [OF step] show ?thesis
      by (auto simp: store_inv_def store_seqs_def dest!: log_ok_seq_bound)
  qed
  with inv show ?thesis
    using recovery.app_ok [OF step] recovery.nxt_mono [OF step] append_recovery_frame [OF step]
    by (auto simp: store_inv_def intro: log_ok_mono)
qed

lemma store_step_inv: "store_step s s' \<Longrightarrow> store_inv s \<Longrightarrow> store_inv s'"
  by (induction rule: store_step.induct)
    (blast intro: store_inv_event store_inv_lineage store_inv_recovery)+

lemma store_step_extends:
  "store_step s s' \<Longrightarrow>
     prefix (st_events s) (st_events s') \<and> prefix (st_lineage s) (st_lineage s') \<and>
     prefix (st_recovery s) (st_recovery s')"
  by (induction rule: store_step.induct)
    (auto dest: events.app_extends lineage.app_extends recovery.app_extends
      append_event_frame append_lineage_frame append_recovery_frame)

lemma latest_is_last:
  assumes "store_inv s"
  shows "get_latest_recovery_transaction tx s =
           (case filter (\<lambda>r. rt_recovery_transaction_id r = tx) (st_recovery s) of
              [] \<Rightarrow> None | r # rs \<Rightarrow> Some (last (r # rs)))"
proof -
  have list: "list_recovery_transactions None None (Some tx) None s =
      filter (\<lambda>r. rt_recovery_transaction_id r = tx) (st_recovery s)"
    by (simp add: list_recovery_transactions_def opt_match_def)
  have "log_ok rt_idempotency_key rt_log_seq (next_log_seq s) (st_recovery s)"
    using assms by (simp add: store_inv_def)
  then have sorted: "sorted_wrt (\<lambda>a b. seq_or_zero (rt_log_seq a) < seq_or_zero (rt_log_seq b))
      (filter (\<lambda>r. rt_recovery_transaction_id r = tx) (st_recovery s))" by (rule log_ok_filter)
  show ?thesis
  proof (cases "filter (\<lambda>r. rt_recovery_transaction_id r = tx) (st_recovery s)")
    case Nil
    then show ?thesis by (simp add: get_latest_recovery_transaction_def list)
  next
    case (Cons r rs)
    with sorted have "max_by (\<lambda>r. seq_or_zero (rt_log_seq r)) r rs = last (r # rs)"
      by (intro max_by_last) simp
    with Cons show ?thesis by (simp add: get_latest_recovery_transaction_def list)
  qed
qed

section \<open>Properties\<close>

text \<open>
  C13: In every store the three append methods reach, the idempotency keys of each log are unique,
  event ids and lineage ids are unique, and the sequence numbers are positive, below the counter,
  increasing along each log and never shared by two records, even of different logs.
\<close>

theorem store_reachable_inv: "store_reachable s \<Longrightarrow> store_inv s"
  by (induction rule: store_reachable.induct) (auto simp: store_inv_empty dest: store_step_inv)

definition example_event :: "string \<Rightarrow> session_event" where
  "example_event at =
     \<lparr>ev_event_id = ''event:1'', ev_project_id = ''p'', ev_session_id = ''session:p'',
      ev_event_type = ''command_created'', ev_occurred_at = at, ev_causation_id = None,
      ev_correlation_id = ''corr:1'', ev_idempotency_key = ''idem:event:1'',
      ev_related_ids = [(''command_id'', ''c1'')], ev_payload = [(''n'', JInt 1)],
      ev_log_seq = None\<rparr>"

definition example_store :: session_store where
  "example_store =
     \<lparr>next_log_seq = 2, st_events = [example_event ''t0''\<lparr>ev_log_seq := Some 1\<rparr>], st_lineage = [],
      st_recovery = []\<rparr>"

lemma example_append:
  "append_event (example_event ''t0'') empty_session_store =
     (Inr (example_event ''t0''\<lparr>ev_log_seq := Some 1\<rparr>), example_store)"
  by (simp add: append_event_def empty_session_store_def example_store_def Let_def)

theorem store_reachable_inv_witness: "store_inv example_store \<and> st_events example_store \<noteq> []"
  using store_reachable_inv [OF store_reachable.step [OF store_reachable.start
        store_step.event [OF example_append]]]
  by (simp add: example_store_def)

text \<open>
  Note: Appending is idempotent. An event that was appended is found again under its idempotency
  key: appending it once more returns the stored record and changes nothing, and a different event
  under the same key is refused and changes nothing.
\<close>

theorem append_event_idempotent:
  assumes "append_event r s = (Inr a, s')" and "event_wf r"
  shows "append_event r s' = (Inr a, s') \<and>
         (ev_idempotency_key r' = ev_idempotency_key r \<longrightarrow> \<not> same_event a r' \<longrightarrow>
            (\<exists>e. append_event r' s' = (Inl e, s')))"
  using events.app_idempotent [OF assms] events.app_refuses [OF assms(1)] by blast

theorem append_event_idempotent_witness:
  "append_event (example_event ''t0'') example_store =
     (Inr (example_event ''t0''\<lparr>ev_log_seq := Some 1\<rparr>), example_store) \<and>
   (\<exists>e. append_event (example_event ''t1'') example_store = (Inl e, example_store))"
proof -
  have wf: "event_wf (example_event ''t0'')" by (simp add: event_wf_def example_event_def)
  show ?thesis
    using append_event_idempotent [OF example_append wf, of "example_event ''t1''"]
    by (simp add: example_event_def same_event_def)
qed

text \<open>
  Note: The store is append-only: whatever a step does or raises, every log it had is a prefix of
  the log it has afterwards, so no record is changed, dropped or moved.
\<close>

theorem store_append_only:
  "store_step s s' \<Longrightarrow>
     prefix (st_events s) (st_events s') \<and> prefix (st_lineage s) (st_lineage s') \<and>
     prefix (st_recovery s) (st_recovery s')"
  by (rule store_step_extends)

theorem store_append_only_witness:
  "prefix (st_events empty_session_store) (st_events example_store) \<and> st_events example_store \<noteq> []"
  using store_append_only [OF store_step.event [OF example_append]] by (simp add: example_store_def)

text \<open>
  Note: \<open>get_latest_recovery_transaction\<close> returns the record of the transaction that was appended
  last, and \<open>None\<close> exactly when the transaction has no record.
\<close>

theorem latest_recovery_transaction_is_last:
  assumes "store_reachable s"
  shows "get_latest_recovery_transaction tx s =
           (case filter (\<lambda>r. rt_recovery_transaction_id r = tx) (st_recovery s) of
              [] \<Rightarrow> None | r # rs \<Rightarrow> Some (last (r # rs)))"
proof -
  from assms have "store_inv s"
    by (induction rule: store_reachable.induct) (auto simp: store_inv_empty dest: store_step_inv)
  then show ?thesis by (rule latest_is_last)
qed

definition example_tx :: "string \<Rightarrow> recovery_tx" where
  "example_tx status =
     \<lparr>rt_recovery_transaction_id = ''tx'', rt_recovery_key = ''k'', rt_project_id = ''p'',
      rt_parent_session_id = ''s'', rt_child_session_id = None, rt_source_packet_id = None,
      rt_recovery_reason = ''r'', rt_failure_family = ''f'', rt_failure_signature = ''g'',
      rt_status = status, rt_started_at = ''t0'', rt_updated_at = ''t0'', rt_completed_at = None,
      rt_lineage_id = None, rt_causation_id = None, rt_correlation_id = ''c'',
      rt_idempotency_key = ''idem:recovery:tx:'' @ status, rt_metadata = [], rt_log_seq = None\<rparr>"

theorem latest_recovery_transaction_is_last_witness:
  "\<exists>s. store_reachable s \<and>
     map_option rt_status (get_latest_recovery_transaction ''tx'' s) = Some ''packet_frozen''"
proof -
  let ?a = "example_tx ''started''\<lparr>rt_log_seq := Some 1\<rparr>"
  let ?b = "example_tx ''packet_frozen''\<lparr>rt_log_seq := Some 2\<rparr>"
  let ?s1 = "empty_session_store\<lparr>next_log_seq := 2, st_recovery := [?a]\<rparr>"
  let ?s2 = "empty_session_store\<lparr>next_log_seq := 3, st_recovery := [?a, ?b]\<rparr>"
  have "append_recovery_transaction (example_tx ''started'') empty_session_store = (Inr ?a, ?s1)"
    by (simp add: append_recovery_transaction_def empty_session_store_def Let_def)
  then have 1: "store_reachable ?s1"
    by (blast intro: store_reachable.intros store_step.recovery)
  have "append_recovery_transaction (example_tx ''packet_frozen'') ?s1 = (Inr ?b, ?s2)"
    by (simp add: append_recovery_transaction_def empty_session_store_def example_tx_def Let_def)
  with 1 have 2: "store_reachable ?s2"
    by (blast intro: store_reachable.step store_step.recovery)
  show ?thesis
    using 2 latest_recovery_transaction_is_last [OF 2, of "''tx''"]
    by (intro exI [of _ ?s2]) (simp add: example_tx_def)
qed

end
