(* ===== verification/EventSink.thy ===== *)
theory EventSink
  imports SessionStore
begin

text \<open>
  What the components that record session events rely on: a recorder that either adds one event
  with the given fields at the end of the log, or finds that event recorded already, or raises
  and changes nothing. \<open>SessionService.record_event\<close> provides it.
\<close>

locale event_sink =
  fixes sink_events :: "'s \<Rightarrow> session_event list"
    and sink_record ::
      "string \<Rightarrow> string \<Rightarrow> string \<Rightarrow> string \<Rightarrow> jdict \<Rightarrow> string option \<Rightarrow> (string, string) dict \<Rightarrow>
       string \<Rightarrow> (session_event, 's) op"
  assumes sink_appends:
      "sink_record ty pr se co pa ca re at s = (Inr r, s') \<Longrightarrow>
         (s' = s \<and> r \<in> set (sink_events s)) \<or> sink_events s' = sink_events s @ [r]"
    and sink_error: "sink_record ty pr se co pa ca re at s = (Inl e, s') \<Longrightarrow> s' = s"
    and sink_fields:
      "sink_record ty pr se co pa ca re at s = (Inr r, s') \<Longrightarrow> distinct (dict_keys re) \<Longrightarrow>
         jdict_wf pa \<Longrightarrow>
         ev_event_type r = ty \<and> ev_project_id r = pr \<and> ev_session_id r = se \<and>
         ev_correlation_id r = co \<and> ev_causation_id r = ca \<and> sdict_eq (ev_related_ids r) re \<and>
         jdict_eq (ev_payload r) pa"
begin

lemma sink_extends:
  assumes "sink_record ty pr se co pa ca re at s = (res, s')"
  shows "prefix (sink_events s) (sink_events s')"
proof (cases res)
  case (Inl e)
  with assms have "s' = s" by (auto dest: sink_error)
  then show ?thesis by simp
next
  case (Inr r)
  with assms show ?thesis by (auto dest: sink_appends)
qed

lemma sink_returned: 
  "sink_record ty pr se co pa ca re at s = (Inr r, s') \<Longrightarrow> r \<in> set (sink_events s')"
  by (auto dest: sink_appends)

end

end
