(* ===== verification/SessionService.thy ===== *)
theory SessionService
  imports EventSink
begin

text \<open>
  \<open>SessionService\<close> of \<^verbatim>\<open>src/watchdog/services/session_service/service.py\<close>: stable identifiers,
  the recording of one event, the recording of an event once, and the recorders of memory
  degradations, approvals and continuation state.

  \<open>sha\<close> stands for \<open>sha256(material).hexdigest()\<close> and is a parameter of every definition that
  derives an identifier; nothing below assumes anything of it. \<open>now\<close> is what \<open>_utcnow()\<close> returns
  in the call. The event listeners are called after the append, their exceptions are swallowed,
  and they do not write this store, so they are no part of its state.
\<close>

section \<open>Identifiers and normalisation\<close>

definition stable_digest :: "(string \<Rightarrow> string) \<Rightarrow> string list \<Rightarrow> string" where
  "stable_digest sha parts = take 16 (sha (join ''|'' (map strip parts)))"

definition stable_id :: "(string \<Rightarrow> string) \<Rightarrow> string \<Rightarrow> string list \<Rightarrow> string" where
  "stable_id sha pre parts = pre @ '':'' @ stable_digest sha parts"

definition is_legacy_subset_str :: "(string, string) dict \<Rightarrow> (string, string) dict \<Rightarrow> bool" where
  "is_legacy_subset_str existing incoming \<longleftrightarrow>
     (\<forall>(k, v) \<in> set existing. map_of incoming k = Some v)"

definition is_legacy_subset :: "jdict \<Rightarrow> jdict \<Rightarrow> bool" where
  "is_legacy_subset existing incoming \<longleftrightarrow>
     (\<forall>(k, v) \<in> set existing.
        case map_of incoming k of None \<Rightarrow> False | Some w \<Rightarrow> json_eq v w)"

definition infer_memory_reason_code :: "string \<Rightarrow> string" where
  "infer_memory_reason_code reason =
     (let n = py_lower (strip reason) in
      if n \<in> {''memory_hub_unreachable'', ''provider_timeout'', ''provider_unavailable''}
      then ''outage''
      else if n \<in> {''security_verdict_failed'', ''prompt_injection_detected''}
      then ''security_blocked''
      else if n \<in> {''ttl_expired'', ''stale_entry''} then ''ttl_expired''
      else if n \<in> {''skill_incompatible'', ''tech_stack_mismatch''} then ''skill_incompatible''
      else if n \<in> {''resident_goal_contract_mismatch'', ''goal_contract_version_mismatch''}
      then ''conflict''
      else ''outage'')"

definition normalize_optional_text :: "json \<Rightarrow> string option" where
  "normalize_optional_text v = (let n = stripped_text v in if n = [] then None else Some n)"

definition normalize_lineage_refs :: "json list \<Rightarrow> string list" where
  "normalize_lineage_refs refs = List.map_filter normalize_optional_text refs"

section \<open>Recording an event\<close>

text \<open>The record \<open>_append_event\<close> builds; its identity is derived, never given.\<close>

definition event_draft ::
    "(string \<Rightarrow> string) \<Rightarrow> string \<Rightarrow> string \<Rightarrow> string \<Rightarrow> string \<Rightarrow> string option \<Rightarrow> string \<Rightarrow>
     (string, string) dict \<Rightarrow> jdict \<Rightarrow> session_event" where
  "event_draft sha event_type project_id session_id occurred_at causation_id correlation_id
     related_ids payload =
     (let event_id = stable_id sha ''event'' [correlation_id, session_id, event_type] in
      \<lparr>ev_event_id = event_id, ev_project_id = project_id, ev_session_id = session_id,
       ev_event_type = event_type, ev_occurred_at = occurred_at,
       ev_causation_id = causation_id, ev_correlation_id = correlation_id,
       ev_idempotency_key = ''idem:event:'' @ event_id, ev_related_ids = related_ids,
       ev_payload = payload, ev_log_seq = None\<rparr>)"

definition svc_append_event ::
    "(string \<Rightarrow> string) \<Rightarrow> string \<Rightarrow> string \<Rightarrow> string \<Rightarrow> string \<Rightarrow> string option \<Rightarrow> string \<Rightarrow>
     (string, string) dict \<Rightarrow> jdict \<Rightarrow> (session_event, session_store) op" where
  "svc_append_event sha event_type project_id session_id occurred_at causation_id correlation_id
     related_ids payload =
     op_bind
       (op_lift (validate_event
         (event_draft sha event_type project_id session_id occurred_at causation_id correlation_id
            related_ids payload)))
       append_event"

definition record_event ::
    "(string \<Rightarrow> string) \<Rightarrow> string \<Rightarrow> string \<Rightarrow> string \<Rightarrow> string \<Rightarrow> string \<Rightarrow> jdict \<Rightarrow> string option \<Rightarrow>
     (string, string) dict \<Rightarrow> string option \<Rightarrow> (session_event, session_store) op" where
  "record_event sha now event_type project_id session_id correlation_id payload causation_id
     related_ids occurred_at =
     svc_append_event sha event_type project_id session_id (or_else occurred_at now) causation_id
       correlation_id related_ids payload"

definition record_event_once ::
    "(string \<Rightarrow> string) \<Rightarrow> string \<Rightarrow> string \<Rightarrow> string \<Rightarrow> string \<Rightarrow> string \<Rightarrow> jdict \<Rightarrow> string option \<Rightarrow>
     (string, string) dict \<Rightarrow> string option \<Rightarrow> (session_event, session_store) op" where
  "record_event_once sha now event_type project_id session_id correlation_id payload causation_id
     related_ids occurred_at s =
     (let event_id = stable_id sha ''event'' [correlation_id, session_id, event_type];
          existing = list_events (Some session_id) (Some event_type) None (Some correlation_id) s
      in case find (\<lambda>r. ev_event_id r = event_id) existing of
           Some r \<Rightarrow>
             if ev_project_id r \<noteq> project_id \<or> ev_causation_id r \<noteq> causation_id
               \<or> \<not> is_legacy_subset_str (ev_related_ids r) related_ids
               \<or> \<not> is_legacy_subset (ev_payload r) payload
             then (Inl (ValueError
                    (''conflicting session event for idempotency key: idem:event:'' @ event_id)), s)
             else (Inr r, s)
         | None \<Rightarrow>
             record_event sha now event_type project_id session_id correlation_id payload
               causation_id related_ids occurred_at s)"

text \<open>\<open>get_events\<close>: a window of a session's events in log order.\<close>

definition get_events ::
    "string \<Rightarrow> int option \<Rightarrow> int option \<Rightarrow> nat option \<Rightarrow> string option \<Rightarrow> session_store \<Rightarrow>
     session_event list" where
  "get_events session_id after_seq before_seq limit anchor s =
     (let records = list_events (Some session_id) None None None s;
          seq = (\<lambda>r. seq_or_zero (ev_log_seq r));
          window = (\<lambda>after.
            let rs = (case after of None \<Rightarrow> records | Some a \<Rightarrow> filter (\<lambda>r. seq r > a) records);
                rs = (case before_seq of None \<Rightarrow> rs | Some b \<Rightarrow> filter (\<lambda>r. seq r \<le> b) rs);
                rs = sort_key seq rs
            in case limit of None \<Rightarrow> rs | Some n \<Rightarrow> take n rs)
      in case anchor of
           None \<Rightarrow> window after_seq
         | Some a \<Rightarrow>
             (case find (\<lambda>r. ev_event_id r = a) records of
                None \<Rightarrow> []
              | Some r \<Rightarrow>
                  window
                    (if (case after_seq of None \<Rightarrow> True | Some q \<Rightarrow> q < seq r - 1)
                     then Some (max (seq r - 1) 0) else after_seq)))"

section \<open>Memory and approval recorders\<close>

definition record_memory_unavailable_degraded ::
    "(string \<Rightarrow> string) \<Rightarrow> string \<Rightarrow> string \<Rightarrow> string \<Rightarrow> string \<Rightarrow> string \<Rightarrow> string \<Rightarrow> string option \<Rightarrow>
     string option \<Rightarrow> string option \<Rightarrow> string option \<Rightarrow> string option \<Rightarrow> (string, string) dict \<Rightarrow>
     string option \<Rightarrow> (session_event, session_store) op" where
  "record_memory_unavailable_degraded sha now project_id session_id memory_scope fallback_mode
     degradation_reason reason_code source_ref security_verdict override_mode causation_id
     related_ids occurred_at =
     (let rel = dict_update [(''memory_scope'', memory_scope)] related_ids;
          rel = (if or_empty source_ref \<noteq> [] then dict_set ''source_ref'' (or_empty source_ref) rel
                 else rel);
          code = or_else reason_code (infer_memory_reason_code degradation_reason);
          verdict = (if code = ''security_blocked'' \<and> security_verdict = None
                     then Some ''dangerous'' else security_verdict);
          payload = [(''fallback_mode'', JStr fallback_mode),
                     (''degradation_reason'', JStr degradation_reason), (''reason_code'', JStr code)];
          payload = dict_set_opt ''security_verdict'' (map_option JStr verdict) payload;
          payload = dict_set_opt ''override_mode'' (map_option JStr override_mode) payload
      in record_event sha now ''memory_unavailable_degraded'' project_id session_id
           (stable_id sha ''corr:memory-unavailable''
              [session_id, memory_scope, degradation_reason, or_empty causation_id])
           payload causation_id rel occurred_at)"

definition record_memory_conflict_detected ::
    "(string \<Rightarrow> string) \<Rightarrow> string \<Rightarrow> string \<Rightarrow> string \<Rightarrow> string \<Rightarrow> string \<Rightarrow> string \<Rightarrow> string \<Rightarrow>
     string option \<Rightarrow> string option \<Rightarrow> (string, string) dict \<Rightarrow> string option \<Rightarrow>
     (session_event, session_store) op" where
  "record_memory_conflict_detected sha now project_id session_id memory_scope conflict_reason
     resolution reason_code source_ref causation_id related_ids occurred_at =
     (let rel = dict_update [(''memory_scope'', memory_scope)] related_ids;
          rel = (if or_empty source_ref \<noteq> [] then dict_set ''source_ref'' (or_empty source_ref) rel
                 else rel)
      in record_event sha now ''memory_conflict_detected'' project_id session_id
           (stable_id sha ''corr:memory-conflict''
              [session_id, memory_scope, conflict_reason, resolution, or_empty causation_id])
           [(''conflict_reason'', JStr conflict_reason), (''resolution'', JStr resolution),
            (''reason_code'', JStr reason_code)]
           causation_id rel occurred_at)"

definition record_approval_expired ::
    "(string \<Rightarrow> string) \<Rightarrow> string \<Rightarrow> string \<Rightarrow> string \<Rightarrow> string \<Rightarrow> string \<Rightarrow> string \<Rightarrow> string option \<Rightarrow>
     string \<Rightarrow> string \<Rightarrow> string option \<Rightarrow> string option \<Rightarrow> (session_event, session_store) op" where
  "record_approval_expired sha now project_id session_id approval_id decision_id envelope_id
     native_thread_id requested_action expiration_reason causation_id occurred_at =
     record_event sha now ''approval_expired'' project_id session_id
       (''corr:approval:'' @ approval_id)
       [(''approval_status'', JStr ''expired''), (''requested_action'', JStr requested_action),
        (''expiration_reason'', JStr expiration_reason)]
       causation_id
       ([(''approval_id'', approval_id), (''decision_id'', decision_id),
         (''envelope_id'', envelope_id)] @
        (if or_empty native_thread_id \<noteq> [] then [(''native_thread_id'', or_empty native_thread_id)]
         else []))
       occurred_at"

section \<open>Continuation recorders\<close>

text \<open>
  The keyword arguments of the four recorders of continuation state; a recorder reads the ones it
  has. Each \<open>option\<close> is an argument that defaults to \<open>None\<close>.
\<close>

record continuation_args =
  ca_project_id :: string
  ca_session_id :: string
  ca_decision_source :: string
  ca_decision_class :: string
  ca_action_ref :: "string option"
  ca_snapshot_version :: "string option"
  ca_snapshot_epoch :: "string option"
  ca_goal_contract_version :: "string option"
  ca_suppression_reason :: "string option"
  ca_identity :: "string option"
  ca_route_key :: "string option"
  ca_branch_switch_token :: "string option"
  ca_source_packet_id :: "string option"
  ca_lineage_refs :: "json list"
  ca_consumed_at :: "string option"
  ca_causation_id :: "string option"
  ca_correlation_id :: "string option"
  ca_occurred_at :: "string option"

abbreviation norm_arg :: "string option \<Rightarrow> string option" where
  "norm_arg v \<equiv> normalize_optional_text (jopt v)"

abbreviation jtexts :: "string list \<Rightarrow> json" where
  "jtexts xs \<equiv> JList (map JStr xs)"

definition record_continuation_gate_verdict ::
    "(string \<Rightarrow> string) \<Rightarrow> string \<Rightarrow> string \<Rightarrow> string \<Rightarrow> continuation_args \<Rightarrow>
     (session_event, session_store) op" where
  "record_continuation_gate_verdict sha now gate_kind gate_status a =
     (let identity = norm_arg (ca_identity a); route = norm_arg (ca_route_key a);
          token = norm_arg (ca_branch_switch_token a); packet = norm_arg (ca_source_packet_id a);
          version = norm_arg (ca_snapshot_version a); epoch = norm_arg (ca_snapshot_epoch a);
          goal = norm_arg (ca_goal_contract_version a);
          suppression = norm_arg (ca_suppression_reason a);
          refs = normalize_lineage_refs (ca_lineage_refs a);
          corr = (case ca_correlation_id a of
              None \<Rightarrow> stable_id sha ''corr:continuation-gate''
                [ca_session_id a, gate_kind, gate_status, ca_decision_source a,
                 ca_decision_class a, or_empty (ca_action_ref a), or_empty version,
                 or_empty suppression, or_empty (ca_causation_id a)]
            | Some c \<Rightarrow> stable_id sha ''corr:continuation-gate''
                ([c, gate_kind, gate_status, ca_decision_source a, ca_decision_class a,
                  or_empty (ca_action_ref a), or_empty version, or_empty epoch, or_empty goal,
                  or_empty suppression, or_empty identity, or_empty route, or_empty token,
                  or_empty packet] @ refs @ [or_empty (ca_causation_id a)]));
          rel = dict_set_opt ''continuation_identity'' identity [];
          rel = dict_set_opt ''route_key'' route rel;
          rel = dict_set_opt ''branch_switch_token'' token rel;
          rel = dict_set_opt ''source_packet_id'' packet rel
      in record_event_once sha now ''continuation_gate_evaluated'' (ca_project_id a)
           (ca_session_id a) corr
           [(''gate_kind'', JStr gate_kind), (''gate_status'', JStr gate_status),
            (''decision_source'', JStr (ca_decision_source a)),
            (''decision_class'', JStr (ca_decision_class a)),
            (''action_ref'', jopt (ca_action_ref a)),
            (''authoritative_snapshot_version'', jopt version), (''snapshot_epoch'', jopt epoch),
            (''goal_contract_version'', jopt goal), (''suppression_reason'', jopt suppression),
            (''lineage_refs'', jtexts refs)]
           (ca_causation_id a) rel (ca_occurred_at a))"

definition continuation_identity_event_type :: "string \<Rightarrow> string option" where
  "continuation_identity_event_type state =
     map_of [(''issued'', ''continuation_identity_issued''),
             (''consumed'', ''continuation_identity_consumed''),
             (''invalidated'', ''continuation_identity_invalidated'')] state"

definition branch_switch_token_event_type :: "string \<Rightarrow> string option" where
  "branch_switch_token_event_type state =
     map_of [(''issued'', ''branch_switch_token_issued''),
             (''consumed'', ''branch_switch_token_consumed''),
             (''invalidated'', ''branch_switch_token_invalidated'')] state"

definition record_continuation_identity_state ::
    "(string \<Rightarrow> string) \<Rightarrow> string \<Rightarrow> string \<Rightarrow> string \<Rightarrow> continuation_args \<Rightarrow>
     (session_event, session_store) op" where
  "record_continuation_identity_state sha now continuation_identity state a =
     (case continuation_identity_event_type state of
        None \<Rightarrow> op_raise (ValueError (''unsupported continuation identity state: '' @ state))
      | Some event_type \<Rightarrow>
          (let route = norm_arg (ca_route_key a); packet = norm_arg (ca_source_packet_id a);
               version = norm_arg (ca_snapshot_version a); epoch = norm_arg (ca_snapshot_epoch a);
               goal = norm_arg (ca_goal_contract_version a);
               suppression = norm_arg (ca_suppression_reason a);
               consumed = norm_arg (ca_consumed_at a);
               refs = normalize_lineage_refs (ca_lineage_refs a);
               corr = or_else (ca_correlation_id a)
                 (stable_id sha ''corr:continuation-identity''
                   [ca_session_id a, continuation_identity, state, ca_decision_class a,
                    or_empty version, or_empty packet, or_empty suppression,
                    or_empty (ca_causation_id a)]);
               rel = [(''continuation_identity'', continuation_identity)];
               rel = dict_set_opt ''route_key'' route rel;
               rel = dict_set_opt ''source_packet_id'' packet rel;
               payload =
                 [(''state'', JStr state), (''decision_source'', JStr (ca_decision_source a)),
                  (''decision_class'', JStr (ca_decision_class a)),
                  (''action_ref'', jopt (ca_action_ref a)),
                  (''authoritative_snapshot_version'', jopt version),
                  (''snapshot_epoch'', jopt epoch), (''goal_contract_version'', jopt goal),
                  (''suppression_reason'', jopt suppression), (''lineage_refs'', jtexts refs)];
               payload = dict_set_opt ''consumed_at'' (map_option JStr consumed) payload
           in record_event_once sha now event_type (ca_project_id a) (ca_session_id a) corr payload
                (ca_causation_id a) rel (ca_occurred_at a)))"

definition record_branch_switch_token_state ::
    "(string \<Rightarrow> string) \<Rightarrow> string \<Rightarrow> string \<Rightarrow> string \<Rightarrow> continuation_args \<Rightarrow>
     (session_event, session_store) op" where
  "record_branch_switch_token_state sha now branch_switch_token state a =
     (case branch_switch_token_event_type state of
        None \<Rightarrow> op_raise (ValueError (''unsupported branch switch token state: '' @ state))
      | Some event_type \<Rightarrow>
          (let version = norm_arg (ca_snapshot_version a); epoch = norm_arg (ca_snapshot_epoch a);
               goal = norm_arg (ca_goal_contract_version a); identity = norm_arg (ca_identity a);
               route = norm_arg (ca_route_key a);
               suppression = norm_arg (ca_suppression_reason a);
               consumed = norm_arg (ca_consumed_at a);
               refs = normalize_lineage_refs (ca_lineage_refs a);
               corr = or_else (ca_correlation_id a)
                 (stable_id sha ''corr:branch-switch-token''
                   [ca_session_id a, branch_switch_token, state, ca_decision_class a,
                    or_empty version, or_empty suppression, or_empty (ca_causation_id a)]);
               payload =
                 [(''state'', JStr state), (''decision_source'', JStr (ca_decision_source a)),
                  (''decision_class'', JStr (ca_decision_class a)),
                  (''authoritative_snapshot_version'', jopt version),
                  (''snapshot_epoch'', jopt epoch), (''goal_contract_version'', jopt goal),
                  (''suppression_reason'', jopt suppression), (''lineage_refs'', jtexts refs)];
               payload = dict_set_opt ''consumed_at'' (map_option JStr consumed) payload;
               rel = [(''branch_switch_token'', branch_switch_token)];
               rel = dict_set_opt ''continuation_identity'' identity rel;
               rel = dict_set_opt ''route_key'' route rel
           in record_event_once sha now event_type (ca_project_id a) (ca_session_id a) corr payload
                (ca_causation_id a) rel (ca_occurred_at a)))"

definition record_continuation_replay_invalidated ::
    "(string \<Rightarrow> string) \<Rightarrow> string \<Rightarrow> string \<Rightarrow> continuation_args \<Rightarrow>
     (session_event, session_store) op" where
  "record_continuation_replay_invalidated sha now invalidation_reason a =
     (let identity = norm_arg (ca_identity a); route = norm_arg (ca_route_key a);
          packet = norm_arg (ca_source_packet_id a); version = norm_arg (ca_snapshot_version a);
          epoch = norm_arg (ca_snapshot_epoch a); goal = norm_arg (ca_goal_contract_version a);
          refs = normalize_lineage_refs (ca_lineage_refs a);
          corr = or_else (ca_correlation_id a)
            (stable_id sha ''corr:continuation-replay-invalidated''
              [ca_session_id a, ca_decision_source a, ca_decision_class a, invalidation_reason,
               or_empty version, or_empty packet, or_empty (ca_causation_id a)]);
          rel = dict_set_opt ''continuation_identity'' identity [];
          rel = dict_set_opt ''route_key'' route rel;
          rel = dict_set_opt ''source_packet_id'' packet rel
      in record_event_once sha now ''continuation_replay_invalidated'' (ca_project_id a)
           (ca_session_id a) corr
           [(''decision_source'', JStr (ca_decision_source a)),
            (''decision_class'', JStr (ca_decision_class a)),
            (''authoritative_snapshot_version'', jopt version), (''snapshot_epoch'', jopt epoch),
            (''goal_contract_version'', jopt goal),
            (''invalidation_reason'', JStr invalidation_reason), (''lineage_refs'', jtexts refs)]
           (ca_causation_id a) rel (ca_occurred_at a))"

section \<open>The service is an event sink\<close>

text \<open>The clients pass every argument, the moment of the event included.\<close>

abbreviation svc_record ::
    "(string \<Rightarrow> string) \<Rightarrow> string \<Rightarrow> string \<Rightarrow> string \<Rightarrow> string \<Rightarrow> string \<Rightarrow> jdict \<Rightarrow> string option \<Rightarrow>
     (string, string) dict \<Rightarrow> string \<Rightarrow> (session_event, session_store) op" where
  "svc_record sha now ty pr se co pa ca re at \<equiv> record_event sha now ty pr se co pa ca re (Some at)"

lemma event_draft_simps [simp]:
  "ev_event_type (event_draft sha ty pr se at ca co re pa) = ty"
  "ev_project_id (event_draft sha ty pr se at ca co re pa) = pr"
  "ev_session_id (event_draft sha ty pr se at ca co re pa) = se"
  "ev_occurred_at (event_draft sha ty pr se at ca co re pa) = at"
  "ev_causation_id (event_draft sha ty pr se at ca co re pa) = ca"
  "ev_correlation_id (event_draft sha ty pr se at ca co re pa) = co"
  "ev_related_ids (event_draft sha ty pr se at ca co re pa) = re"
  "ev_payload (event_draft sha ty pr se at ca co re pa) = pa"
  "ev_event_id (event_draft sha ty pr se at ca co re pa) = stable_id sha ''event'' [co, se, ty]"
  "ev_idempotency_key (event_draft sha ty pr se at ca co re pa) =
     ''idem:event:'' @ stable_id sha ''event'' [co, se, ty]"
  "event_wf (event_draft sha ty pr se at ca co re pa) \<longleftrightarrow> distinct (dict_keys re) \<and> jdict_wf pa"
  by (simp_all add: event_draft_def event_wf_def Let_def)

lemma svc_append_event_Inr:
  "svc_append_event sha ty pr se at ca co re pa s = (Inr r, s') \<longleftrightarrow>
     validate_event (event_draft sha ty pr se at ca co re pa) =
       Inr (event_draft sha ty pr se at ca co re pa) \<and>
     append_event (event_draft sha ty pr se at ca co re pa) s = (Inr r, s')"
  by (auto simp: svc_append_event_def op_bind_split dest: validate_event_Inr)

lemma svc_append_event_Inl:
  "svc_append_event sha ty pr se at ca co re pa s = (Inl e, s') \<Longrightarrow> s' = s"
  by (auto simp: svc_append_event_def op_bind_split dest: events.app_error)

lemma record_event_Inr:
  "record_event sha now ty pr se co pa ca re at s = (Inr r, s') \<longleftrightarrow>
     validate_event (event_draft sha ty pr se (or_else at now) ca co re pa) =
       Inr (event_draft sha ty pr se (or_else at now) ca co re pa) \<and>
     append_event (event_draft sha ty pr se (or_else at now) ca co re pa) s = (Inr r, s')"
  by (simp add: record_event_def svc_append_event_Inr)

lemma same_event_fields:
  assumes "same_event r q"
  shows "ev_event_type r = ev_event_type q" "ev_project_id r = ev_project_id q"
    "ev_session_id r = ev_session_id q" "ev_correlation_id r = ev_correlation_id q"
    "ev_causation_id r = ev_causation_id q" "sdict_eq (ev_related_ids r) (ev_related_ids q)"
    "jdict_eq (ev_payload r) (ev_payload q)"
  using assms by (simp_all add: same_event_def)

interpretation service: event_sink st_events "svc_record sha now" for sha now
proof
  fix ty pr se co pa ca re at s r s'
  assume "svc_record sha now ty pr se co pa ca re at s = (Inr r, s')"
  then have q: "append_event (event_draft sha ty pr se (or_else (Some at) now) ca co re pa) s = (Inr r, s')"
    by (simp add: record_event_Inr)
  then show "(s' = s \<and> r \<in> set (st_events s)) \<or> st_events s' = st_events s @ [r]"
  proof (cases rule: events.app_cases)
    case unchanged
    with events.app_stored [OF q] show ?thesis by (auto dest: find_SomeD)
  qed auto
  assume "distinct (dict_keys re)" and "jdict_wf pa"
  then have "event_wf (event_draft sha ty pr se (or_else (Some at) now) ca co re pa)" by simp
  with q have "same_event r (event_draft sha ty pr se (or_else (Some at) now) ca co re pa)"
    by (rule events.app_same)
  from same_event_fields [OF this]
  show "ev_event_type r = ty \<and> ev_project_id r = pr \<and> ev_session_id r = se \<and>
      ev_correlation_id r = co \<and> ev_causation_id r = ca \<and> sdict_eq (ev_related_ids r) re \<and>
      jdict_eq (ev_payload r) pa" by simp
next
  fix ty pr se co pa ca re at s e s'
  assume "svc_record sha now ty pr se co pa ca re at s = (Inl e, s')"
  then show "s' = s" by (auto simp: record_event_def dest: svc_append_event_Inl)
qed

lemma record_event_Inl: "record_event sha now ty pr se co pa ca re at s = (Inl e, s') \<Longrightarrow> s' = s"
  by (auto simp: record_event_def dest: svc_append_event_Inl)

lemma record_event_step:
  "record_event sha now ty pr se co pa ca re at s = (res, s') \<Longrightarrow> s' = s \<or> store_step s s'"
  by (cases res) (auto simp: record_event_Inr dest: record_event_Inl intro: store_step.event)

lemma record_event_once_step:
  "record_event_once sha now ty pr se co pa ca re at s = (res, s') \<Longrightarrow> s' = s \<or> store_step s s'"
  by (auto simp: record_event_once_def Let_def split: option.splits if_splits
      dest: record_event_step)

text \<open>
  Recording an event a second time: with the same arguments it returns the stored record, with
  another moment it is refused; neither changes the store.
\<close>

lemma record_event_again:
  assumes "record_event sha now ty pr se co pa ca re at s = (Inr r, s')"
    and "distinct (dict_keys re)" "jdict_wf pa" and "or_else at' now' = or_else at now"
  shows "record_event sha now' ty pr se co pa ca re at' s' = (Inr r, s')"
proof -
  let ?q = "event_draft sha ty pr se (or_else at now) ca co re pa"
  from assms(2,3) have "event_wf ?q" by simp
  with assms(1) have "append_event ?q s' = (Inr r, s')"
    by (auto simp: record_event_Inr simp del: json_wf.simps(2) intro: events.app_idempotent)
  with assms(1,4) show ?thesis by (simp add: record_event_Inr)
qed

lemma record_event_moved:
  assumes "record_event sha now ty pr se co pa ca re at s = (Inr r, s')"
    and "distinct (dict_keys re)" "jdict_wf pa" and "or_else at' now' \<noteq> or_else at now"
  shows "\<exists>e. record_event sha now' ty pr' se co pa' ca' re' at' s' = (Inl e, s')"
proof -
  let ?q = "event_draft sha ty pr se (or_else at now) ca co re pa"
  let ?q' = "event_draft sha ty pr' se (or_else at' now') ca' co re' pa'"
  from assms have q: "append_event ?q s = (Inr r, s')" by (simp add: record_event_Inr)
  moreover have "event_wf ?q" using assms(2,3) by simp
  ultimately have "same_event r ?q" by (rule events.app_same)
  with assms(4) have "\<not> same_event r ?q'" by (simp add: same_event_def)
  then have "\<exists>e. append_event ?q' s' = (Inl e, s')"
    by (intro events.app_refuses [OF q]) simp_all
  then show ?thesis
    by (cases "validate_event ?q'")
      (auto simp: record_event_def svc_append_event_def dest: validate_event_Inr)
qed

lemma list_events_mem:
  "r \<in> set (list_events (Some se) (Some ty) None (Some co) s) \<longleftrightarrow>
     r \<in> set (st_events s) \<and> ev_session_id r = se \<and> ev_event_type r = ty \<and>
     ev_correlation_id r = co"
  by (auto simp: list_events_def opt_match_def)

lemma find_event_unique:
  assumes "distinct (map ev_event_id (st_events s))" and "r \<in> set (list_events a b c d s)"
  shows "find (\<lambda>x. ev_event_id x = ev_event_id r) (list_events a b c d s) = Some r"
proof (cases "find (\<lambda>x. ev_event_id x = ev_event_id r) (list_events a b c d s)")
  case None
  with assms(2) show ?thesis by (auto dest: find_NoneD)
next
  case (Some x)
  then have "x \<in> set (st_events s)" and "ev_event_id x = ev_event_id r"
    by (auto dest!: find_SomeD simp: list_events_def)
  moreover from assms(2) have "r \<in> set (st_events s)" by (auto simp: list_events_def)
  ultimately have "x = r" using assms(1) by (auto simp: distinct_map dest: inj_onD)
  with Some show ?thesis by simp
qed

lemma sdict_eq_legacy: "sdict_eq d e \<Longrightarrow> is_legacy_subset_str d e"
  by (auto simp: sdict_eq_def is_legacy_subset_str_def)

lemma jdict_eq_legacy: "jdict_eq d e \<Longrightarrow> is_legacy_subset d e"
  by (auto simp: jdict_eq_def is_legacy_subset_def)

section \<open>Properties\<close>

text \<open>
  Note: Recording an event twice with the same moment returns the record of the first call and
  changes nothing; recording an event of the same correlation, session and type at another moment
  is refused, whatever its other arguments, and changes nothing. A step that is retried with a
  fresh \<open>_utcnow()\<close> therefore raises once the clock has moved on by a second.
\<close>

theorem record_event_repeated:
  assumes "record_event sha now ty pr se co pa ca re at s = (Inr r, s')"
    and "distinct (dict_keys re)" and "jdict_wf pa"
  shows "(or_else at' now' = or_else at now \<longrightarrow>
            record_event sha now' ty pr se co pa ca re at' s' = (Inr r, s')) \<and>
         (or_else at' now' \<noteq> or_else at now \<longrightarrow>
            (\<exists>e. record_event sha now' ty pr' se co pa' ca' re' at' s' = (Inl e, s')))"
  using record_event_again [OF assms] record_event_moved [OF assms] by blast

theorem record_event_repeated_witness:
  "\<exists>r s' e.
     record_event (\<lambda>s. s) ''t0'' ''command_created'' ''p'' ''s'' ''corr'' [] None [] None
       empty_session_store = (Inr r, s') \<and>
     record_event (\<lambda>s. s) ''t1'' ''command_created'' ''p'' ''s'' ''corr'' [] None [] None s' = (Inl e, s')"
proof -
  have "returned (record_event (\<lambda>s. s) ''t0'' ''command_created'' ''p'' ''s'' ''corr'' [] None [] None
      empty_session_store)" by code_simp
  then obtain r s' where r: "record_event (\<lambda>s. s) ''t0'' ''command_created'' ''p'' ''s'' ''corr'' []
      None [] None empty_session_store = (Inr r, s')" by (rule returnedE)
  have "distinct (dict_keys [] :: string list)" and "jdict_wf []" by simp_all
  from record_event_repeated [OF r this, of None "''t1''"] r show ?thesis
    by (fastforce simp: or_else_def)
qed

text \<open>
  Note: \<open>record_event_once\<close> can be repeated at any later moment: it returns the record of the first
  call and changes nothing.
\<close>

theorem record_event_once_idempotent:
  assumes rec: "record_event_once sha now ty pr se co pa ca re at s = (Inr r, s')"
    and inv: "store_inv s" and wf: "distinct (dict_keys re)" "jdict_wf pa"
  shows "record_event_once sha now' ty pr se co pa ca re at' s' = (Inr r, s')"
proof (cases "find (\<lambda>r. ev_event_id r = stable_id sha ''event'' [co, se, ty])
    (list_events (Some se) (Some ty) None (Some co) s)")
  case (Some x)
  with rec show ?thesis
    by (auto simp: record_event_once_def Let_def split: if_splits)
next
  case None
  with rec have new: "record_event sha now ty pr se co pa ca re at s = (Inr r, s')"
    by (simp add: record_event_once_def)
  let ?q = "event_draft sha ty pr se (or_else at now) ca co re pa"
  from new have q: "append_event ?q s = (Inr r, s')" by (simp add: record_event_Inr)
  moreover have "event_wf ?q" using wf by simp
  ultimately have same: "same_event r ?q" by (rule events.app_same)
  from events.app_stored [OF q] have "r \<in> set (st_events s')" by (auto dest: find_SomeD)
  with same_event_fields [OF same] have mem: "r \<in> set (list_events (Some se) (Some ty) None (Some co) s')"
    by (simp add: list_events_mem)
  have "store_inv s'" using q inv by (rule store_inv_event)
  then have "distinct (map ev_event_id (st_events s'))" by (simp add: store_inv_def)
  from find_event_unique [OF this mem] same have "find (\<lambda>r. ev_event_id r = stable_id sha ''event'' [co, se, ty])
      (list_events (Some se) (Some ty) None (Some co) s') = Some r"
    by (simp add: same_event_def)
  with same_event_fields [OF same] show ?thesis
    by (simp add: record_event_once_def sdict_eq_legacy jdict_eq_legacy)
qed

theorem record_event_once_idempotent_witness:
  "\<exists>r s'.
     record_event_once (\<lambda>s. s) ''t0'' ''command_created'' ''p'' ''s'' ''corr'' [] None [] None
       empty_session_store = (Inr r, s') \<and>
     record_event_once (\<lambda>s. s) ''t1'' ''command_created'' ''p'' ''s'' ''corr'' [] None [] None s' = (Inr r, s')"
proof -
  have "returned (record_event_once (\<lambda>s. s) ''t0'' ''command_created'' ''p'' ''s'' ''corr'' [] None []
      None empty_session_store)" by code_simp
  then obtain r s' where r: "record_event_once (\<lambda>s. s) ''t0'' ''command_created'' ''p'' ''s'' ''corr''
      [] None [] None empty_session_store = (Inr r, s')" by (rule returnedE)
  have "distinct (dict_keys [] :: string list)" and "jdict_wf []" by simp_all
  from record_event_once_idempotent [OF r store_inv_empty this] r show ?thesis by blast
qed

end
