(* ===== verification/Timestamps.thy ===== *)
theory Timestamps
  imports PyText
begin

text \<open>
  Timestamps as the stores read and write them: \<open>datetime.fromisoformat\<close> on calendar and week
  dates in extended and basic form, any one-character separator, a time with optional fraction
  and an optional offset; \<open>astimezone(UTC)\<close> with its range check; and the text
  \<open>datetime.now(UTC).replace(microsecond=0).isoformat().replace("+00:00", "Z")\<close>.

  An instant is an \<^typ>\<open>int\<close>: microseconds since the start of day 0 of the proleptic Gregorian
  calendar (day 1 is 0001-01-01).
\<close>

section \<open>The calendar\<close>

definition is_leap :: "int \<Rightarrow> bool" where
  "is_leap y \<longleftrightarrow> y mod 4 = 0 \<and> (y mod 100 \<noteq> 0 \<or> y mod 400 = 0)"

definition days_in_month :: "int \<Rightarrow> int \<Rightarrow> int" where
  "days_in_month y m =
     (if m = 2 then (if is_leap y then 29 else 28) else if m \<in> {4, 6, 9, 11} then 30 else 31)"

definition days_before_year :: "int \<Rightarrow> int" where
  "days_before_year y = (let z = y - 1 in z * 365 + z div 4 - z div 100 + z div 400)"

definition days_before_month :: "int \<Rightarrow> int \<Rightarrow> int" where
  "days_before_month y m =
     [0, 31, 59, 90, 120, 151, 181, 212, 243, 273, 304, 334] ! nat (m - 1) +
     (if m > 2 \<and> is_leap y then 1 else 0)"

definition ymd_ordinal :: "int \<Rightarrow> int \<Rightarrow> int \<Rightarrow> int" where
  "ymd_ordinal y m d = days_before_year y + days_before_month y m + d"

definition valid_date :: "int \<Rightarrow> int \<Rightarrow> int \<Rightarrow> bool" where
  "valid_date y m d \<longleftrightarrow>
     1 \<le> y \<and> y \<le> 9999 \<and> 1 \<le> m \<and> m \<le> 12 \<and> 1 \<le> d \<and> d \<le> days_in_month y m"

definition max_ordinal :: int where
  "max_ordinal = ymd_ordinal 9999 12 31"

definition week1_monday :: "int \<Rightarrow> int" where
  "week1_monday y =
     (let first = ymd_ordinal y 1 1; wd = (first + 6) mod 7
      in if wd > 3 then first + 7 - wd else first - wd)"

text \<open>The ordinal of an ISO week date; week 53 exists only in the years that have one.\<close>

definition week_ordinal :: "int \<Rightarrow> int \<Rightarrow> int \<Rightarrow> int option" where
  "week_ordinal y w d =
     (let wd = (ymd_ordinal y 1 1) mod 7;
          ok = 1 \<le> y \<and> y \<le> 9999 \<and> 1 \<le> d \<and> d \<le> 7 \<and> 1 \<le> w \<and>
               (w \<le> 52 \<or> (w = 53 \<and> (wd = 4 \<or> (wd = 3 \<and> is_leap y))));
          n = week1_monday y + (w - 1) * 7 + (d - 1)
      in if ok \<and> 1 \<le> n \<and> n \<le> max_ordinal then Some n else None)"

section \<open>Parsing\<close>

fun take_digits :: "nat \<Rightarrow> int \<Rightarrow> string \<Rightarrow> (int \<times> string) option" where
  "take_digits 0 acc s = Some (acc, s)"
| "take_digits (Suc n) acc [] = None"
| "take_digits (Suc n) acc (c # s) =
     (if is_digit c then take_digits n (10 * acc + digit_value c) s else None)"

text \<open>A date of a given text, complete: an ordinal.\<close>

definition parse_month_day :: "int \<Rightarrow> bool \<Rightarrow> string \<Rightarrow> int option" where
  "parse_month_day y sep s =
     (case take_digits 2 0 s of
        None \<Rightarrow> None
      | Some (m, s1) \<Rightarrow>
          (case (if sep then (case s1 of c # r \<Rightarrow> if c = CHR ''-'' then Some r else None | [] \<Rightarrow> None)
                 else Some s1) of
             None \<Rightarrow> None
           | Some s2 \<Rightarrow>
               (case take_digits 2 0 s2 of
                  None \<Rightarrow> None
                | Some (d, s3) \<Rightarrow>
                    if s3 = [] \<and> valid_date y m d then Some (ymd_ordinal y m d) else None)))"

definition parse_week_day :: "int \<Rightarrow> bool \<Rightarrow> string \<Rightarrow> int option" where
  "parse_week_day y sep s =
     (case take_digits 2 0 s of
        None \<Rightarrow> None
      | Some (w, []) \<Rightarrow> week_ordinal y w 1
      | Some (w, c # s1) \<Rightarrow>
          (case (if sep then (if c = CHR ''-'' then Some s1 else None) else Some (c # s1)) of
             None \<Rightarrow> None
           | Some s2 \<Rightarrow>
               (case take_digits 1 0 s2 of
                  None \<Rightarrow> None
                | Some (d, s3) \<Rightarrow> if s3 = [] then week_ordinal y w d else None)))"

definition parse_date :: "string \<Rightarrow> int option" where
  "parse_date s =
     (case take_digits 4 0 s of
        None \<Rightarrow> None
      | Some (y, s1) \<Rightarrow>
          (let sep = (take 1 s1 = ''-''); s2 = (if sep then drop 1 s1 else s1)
           in if take 1 s2 = ''W'' then parse_week_day y sep (drop 1 s2)
              else parse_month_day y sep s2))"

text \<open>
  Where the date ends: the position depends on the fifth and sixth character and, for week dates,
  on the digits that follow.
\<close>

definition char_at :: "string \<Rightarrow> nat \<Rightarrow> char \<Rightarrow> bool" where
  "char_at s i c \<longleftrightarrow> i < length s \<and> s ! i = c"

definition date_length :: "string \<Rightarrow> nat option" where
  "date_length s =
     (let n = length s in
      if n = 7 then Some 7
      else if char_at s 4 (CHR ''-'') then
        (if char_at s 5 (CHR ''W'') then
           (if n < 8 then None
            else if char_at s 8 (CHR ''-'') then
              (if n = 9 then None
               else if n > 10 \<and> is_digit (s ! 10) then Some 8 else Some 10)
            else Some 8)
         else Some 10)
      else if char_at s 4 (CHR ''W'') then
        (let pos = 7 + length (takeWhile is_digit (drop 7 s)) in
         if pos < 9 then Some pos else if even pos then Some 7 else Some 8)
      else Some 8)"

text \<open>The fraction: six digits count, further ones are dropped.\<close>

definition parse_fraction :: "string \<Rightarrow> int option" where
  "parse_fraction s =
     (if s \<noteq> [] \<and> list_all is_digit s
      then Some (int_of_digits (take 6 s) * 10 ^ (6 - min 6 (length s))) else None)"

definition parse_seconds :: "int \<Rightarrow> int \<Rightarrow> string \<Rightarrow> (int \<times> int \<times> int \<times> int) option" where
  "parse_seconds h m s =
     (case take_digits 2 0 s of
        None \<Rightarrow> None
      | Some (sec, []) \<Rightarrow> Some (h, m, sec, 0)
      | Some (sec, c # f) \<Rightarrow>
          if c = CHR ''.'' \<or> c = CHR '',''
          then map_option (\<lambda>us. (h, m, sec, us)) (parse_fraction f) else None)"

text \<open>\<open>HH\<close>, \<open>HH:MM\<close>, \<open>HH:MM:SS\<close>, \<open>HH:MM:SS.f\<close> or the same without colons.\<close>

definition parse_hms :: "string \<Rightarrow> (int \<times> int \<times> int \<times> int) option" where
  "parse_hms s =
     (case take_digits 2 0 s of
        None \<Rightarrow> None
      | Some (h, []) \<Rightarrow> Some (h, 0, 0, 0)
      | Some (h, c # r) \<Rightarrow>
          (let sep = (c = CHR '':''); s1 = (if sep then r else c # r) in
           case take_digits 2 0 s1 of
             None \<Rightarrow> None
           | Some (m, []) \<Rightarrow> Some (h, m, 0, 0)
           | Some (m, c2 # r2) \<Rightarrow>
               if sep then (if c2 = CHR '':'' then parse_seconds h m r2 else None)
               else parse_seconds h m (c2 # r2)))"

definition hms_micros :: "int \<times> int \<times> int \<times> int \<Rightarrow> int" where
  "hms_micros t = (case t of (h, m, s, us) \<Rightarrow> ((h * 60 + m) * 60 + s) * 1000000 + us)"

definition day_micros :: int where
  "day_micros = 86400000000"

definition is_tz_char :: "char \<Rightarrow> bool" where
  "is_tz_char c \<longleftrightarrow> c = CHR ''+'' \<or> c = CHR ''-'' \<or> c = CHR ''Z''"

definition parse_offset :: "string \<Rightarrow> int option" where
  "parse_offset s =
     (case s of
        [] \<Rightarrow> None
      | c # r \<Rightarrow>
          if c = CHR ''Z'' then (if r = [] then Some 0 else None)
          else (case parse_hms r of
                  None \<Rightarrow> None
                | Some t \<Rightarrow>
                    if hms_micros t < day_micros
                    then Some (if c = CHR ''-'' then - hms_micros t else hms_micros t) else None))"

text \<open>A time of day with its optional offset.\<close>

definition parse_time :: "string \<Rightarrow> (int \<times> int option) option" where
  "parse_time s =
     (let t = takeWhile (\<lambda>c. \<not> is_tz_char c) s; z = dropWhile (\<lambda>c. \<not> is_tz_char c) s in
      case parse_hms t of
        None \<Rightarrow> None
      | Some (h, m, sec, us) \<Rightarrow>
          if h < 24 \<and> m < 60 \<and> sec < 60 then
            (if z = [] then Some (hms_micros (h, m, sec, us), None)
             else case parse_offset z of
                    None \<Rightarrow> None
                  | Some off \<Rightarrow> Some (hms_micros (h, m, sec, us), Some off))
          else None)"

definition fromisoformat :: "string \<Rightarrow> (int \<times> int option) option" where
  "fromisoformat s =
     (if length s < 7 then None
      else case date_length s of
        None \<Rightarrow> None
      | Some n \<Rightarrow>
          (case parse_date (take n s) of
             None \<Rightarrow> None
           | Some ord \<Rightarrow>
               if length s \<le> n then Some (ord * day_micros, None)
               else case parse_time (drop (Suc n) s) of
                      None \<Rightarrow> None
                    | Some (t, off) \<Rightarrow> Some (ord * day_micros + t, off)))"

section \<open>Conversion to UTC\<close>

definition in_range :: "int \<Rightarrow> bool" where
  "in_range t \<longleftrightarrow> day_micros \<le> t \<and> t < (max_ordinal + 1) * day_micros"

text \<open>
  \<open>parsed.astimezone(UTC)\<close>, a naive time taken as UTC. The result can leave the calendar, which
  raises \<open>OverflowError\<close>.
\<close>

definition to_utc :: "int \<times> int option \<Rightarrow> py_error + int" where
  "to_utc p =
     (case p of (t, off) \<Rightarrow>
        (let u = t - (case off of None \<Rightarrow> 0 | Some o' \<Rightarrow> o')
         in if in_range u then Inr u else Inl (OverflowError ''date value out of range'')))"

section \<open>Rendering\<close>

definition pad2 :: "int \<Rightarrow> string" where
  "pad2 n = [digit_char (n div 10 mod 10), digit_char (n mod 10)]"

definition pad4 :: "int \<Rightarrow> string" where
  "pad4 n = pad2 (n div 100) @ pad2 (n mod 100)"

text \<open>\<open>_utcnow()\<close> at the given moment.\<close>

definition format_utc :: "int \<Rightarrow> int \<Rightarrow> int \<Rightarrow> int \<Rightarrow> int \<Rightarrow> int \<Rightarrow> string" where
  "format_utc y mo d h mi s =
     pad4 y @ ''-'' @ pad2 mo @ ''-'' @ pad2 d @ ''T'' @ pad2 h @ '':'' @ pad2 mi @ '':'' @ pad2 s @ ''Z''"

definition utc_micros :: "int \<Rightarrow> int \<Rightarrow> int \<Rightarrow> int \<Rightarrow> int \<Rightarrow> int \<Rightarrow> int" where
  "utc_micros y mo d h mi s = ymd_ordinal y mo d * day_micros + hms_micros (h, mi, s, 0)"

lemma digits2: "10 * (10 * acc + n div 10) + n mod 10 = 100 * acc + n" for n :: int
proof -
  have "10 * (10 * acc + q) + r = 100 * acc + (10 * q + r)" for q r :: int by simp
  then have "10 * (10 * acc + n div 10) + n mod 10 = 100 * acc + (10 * (n div 10) + n mod 10)" .
  then show ?thesis by simp
qed

lemma take_digits_pad2_acc:
  assumes "0 \<le> n" and "n < 100"
  shows "take_digits 2 acc (pad2 n @ s) = Some (100 * acc + n, s)"
proof -
  have "take_digits (Suc (Suc 0)) acc (pad2 n @ s) = Some (100 * acc + n, s)"
    using assms digits2 [of acc n] by (simp add: pad2_def)
  then show ?thesis by (simp add: numeral_2_eq_2)
qed

lemma take_digits_pad2 [simp]: "0 \<le> n \<Longrightarrow> n < 100 \<Longrightarrow> take_digits 2 0 (pad2 n @ s) = Some (n, s)"
  by (simp add: take_digits_pad2_acc)

lemma take_digits_pad2_end [simp]:
  "0 \<le> n \<Longrightarrow> n < 100 \<Longrightarrow> take_digits 2 0 (pad2 n) = Some (n, [])"
  using take_digits_pad2 [of n "[]"] by simp

lemma take_digits_add:
  "take_digits (m + n) acc s =
     (case take_digits m acc s of None \<Rightarrow> None | Some (a, r) \<Rightarrow> take_digits n a r)"
  by (induction m acc s rule: take_digits.induct) simp_all

lemma take_digits_pads:
  assumes "0 \<le> a" "a < 100" and "0 \<le> b" "b < 100"
  shows "take_digits 4 0 (pad2 a @ pad2 b @ s) = Some (100 * a + b, s)"
proof -
  have "take_digits (2 + 2) 0 (pad2 a @ pad2 b @ s) = Some (100 * a + b, s)"
    using assms by (simp only: take_digits_add take_digits_pad2_acc) (simp add: take_digits_pad2_acc)
  then show ?thesis by simp
qed

lemma take_digits_pad4 [simp]:
  assumes "0 \<le> n" and "n < 10000"
  shows "take_digits 4 0 (pad4 n @ s) = Some (n, s)"
proof -
  from assms have "0 \<le> n div 100" "n div 100 < 100" and "0 \<le> n mod 100" "n mod 100 < 100"
    by auto
  then have "take_digits 4 0 (pad2 (n div 100) @ pad2 (n mod 100) @ s) =
      Some (100 * (n div 100) + n mod 100, s)"
    by (rule take_digits_pads)
  then show ?thesis by (simp add: pad4_def)
qed

lemma pad_length [simp]: "length (pad2 n) = 2" "length (pad4 n) = 4"
  by (simp_all add: pad2_def pad4_def)

lemma digit_not_W: "is_digit c \<Longrightarrow> c \<noteq> CHR ''W''"
  by (auto simp: is_digit_def char_code_def)

lemma pad2_not_W: "take 1 (pad2 n @ t) \<noteq> ''W''"
  using digit_not_W [OF digit_char_is_digit, of "n div 10 mod 10"] by (simp add: pad2_def)

lemma pad2_no_tz: "c \<in> set (pad2 n) \<Longrightarrow> \<not> is_tz_char c"
proof -
  assume "c \<in> set (pad2 n)"
  then have "is_digit c" by (auto simp: pad2_def)
  then show ?thesis by (auto simp: is_tz_char_def is_digit_def char_code_def)
qed

section \<open>Round trip\<close>

lemma parse_date_format:
  assumes "valid_date y mo d"
  shows "parse_date (pad4 y @ ''-'' @ pad2 mo @ ''-'' @ pad2 d) = Some (ymd_ordinal y mo d)"
proof -
  from assms have "0 \<le> y" "y < 10000" "0 \<le> mo" "mo < 100" "0 \<le> d" by (auto simp: valid_date_def)
  moreover from assms have "d < 100"
    by (auto simp: valid_date_def days_in_month_def split: if_splits)
  ultimately show ?thesis
    using assms pad2_not_W by (simp add: parse_date_def parse_month_day_def)
qed

lemma parse_hms_format:
  assumes "0 \<le> h" "h < 100" and "0 \<le> mi" "mi < 100" and "0 \<le> s" "s < 100"
  shows "parse_hms (pad2 h @ '':'' @ pad2 mi @ '':'' @ pad2 s) = Some (h, mi, s, 0)"
  using assms by (simp add: parse_hms_def parse_seconds_def)

lemma date_length_format: "date_length (pad4 y @ ''-'' @ pad2 mo @ ''-'' @ r) = Some 10"
proof -
  have "pad2 mo = [digit_char (mo div 10 mod 10), digit_char (mo mod 10)]" by (simp add: pad2_def)
  moreover have "digit_char (mo div 10 mod 10) \<noteq> CHR ''W''"
    by (intro digit_not_W digit_char_is_digit) simp_all
  ultimately show ?thesis
    by (simp add: date_length_def char_at_def nth_append)
qed

lemma parse_time_suffix:
  assumes "0 \<le> h" "h < 24" and "0 \<le> mi" "mi < 60" and "0 \<le> s" "s < 60"
    and "is_tz_char c" and "parse_offset (c # z) = Some off"
  shows "parse_time (pad2 h @ '':'' @ pad2 mi @ '':'' @ pad2 s @ c # z) =
           Some (hms_micros (h, mi, s, 0), Some off)"
proof -
  let ?t = "pad2 h @ '':'' @ pad2 mi @ '':'' @ pad2 s"
  have no: "\<forall>c \<in> set ?t. \<not> is_tz_char c"
    by (auto dest: pad2_no_tz simp: is_tz_char_def)
  then have "takeWhile (\<lambda>c. \<not> is_tz_char c) (?t @ c # z) = ?t"
    using assms(7) by (subst takeWhile_append2) auto
  moreover from no have "dropWhile (\<lambda>c. \<not> is_tz_char c) (?t @ c # z) = c # z"
    using assms(7) by (subst dropWhile_append2) auto
  moreover have "parse_hms ?t = Some (h, mi, s, 0)"
    using assms by (intro parse_hms_format) simp_all
  ultimately have "parse_time (?t @ c # z) = Some (hms_micros (h, mi, s, 0), Some off)"
    using assms by (simp only: parse_time_def Let_def option.case prod.case) simp
  then show ?thesis by (simp only: append_assoc)
qed

lemma fromisoformat_suffix:
  assumes "valid_date y mo d"
    and "0 \<le> h" "h < 24" and "0 \<le> mi" "mi < 60" and "0 \<le> s" "s < 60"
    and "is_tz_char c" and "parse_offset (c # z) = Some off"
  shows "fromisoformat (pad4 y @ ''-'' @ pad2 mo @ ''-'' @ pad2 d @ ''T'' @
           pad2 h @ '':'' @ pad2 mi @ '':'' @ pad2 s @ c # z) =
         Some (utc_micros y mo d h mi s, Some off)"
proof -
  let ?d = "pad4 y @ ''-'' @ pad2 mo @ ''-'' @ pad2 d"
  let ?t = "pad2 h @ '':'' @ pad2 mi @ '':'' @ pad2 s @ c # z"
  have len: "length ?d = 10" by simp
  have "date_length (?d @ ''T'' @ ?t) = Some 10"
    using date_length_format [of y mo "pad2 d @ ''T'' @ ?t"] by simp
  moreover have "take 10 (?d @ ''T'' @ ?t) = ?d" using len by (metis append_eq_conv_conj)
  moreover have "drop (Suc 10) (?d @ ''T'' @ ?t) = ?t"
    using len by (simp add: drop_append)
  moreover have "\<not> length (?d @ ''T'' @ ?t) < 7" "\<not> length (?d @ ''T'' @ ?t) \<le> 10" by simp_all
  ultimately have "fromisoformat (?d @ ''T'' @ ?t) = Some (utc_micros y mo d h mi s, Some off)"
    using parse_date_format [OF assms(1)] parse_time_suffix [OF assms(2-9)]
    by (simp only: fromisoformat_def utc_micros_def option.case prod.case if_False)
  then show ?thesis by (simp only: append_assoc)
qed

lemma fromisoformat_format:
  assumes "valid_date y mo d"
    and "0 \<le> h" "h < 24" and "0 \<le> mi" "mi < 60" and "0 \<le> s" "s < 60"
  shows "fromisoformat (format_utc y mo d h mi s) = Some (utc_micros y mo d h mi s, Some 0)"
  using fromisoformat_suffix [OF assms, of "CHR ''Z''" "[]" 0]
  by (simp add: format_utc_def is_tz_char_def parse_offset_def)

end
