(* ===== verification/CommandLeases.thy ===== *)
theory CommandLeases
  imports SessionService Timestamps
begin

text \<open>
  \<open>CommandLeaseStore\<close> of \<^verbatim>\<open>src/watchdog/services/session_spine/command_leases.py\<close>: a table
  of commands, the append-only log of lease events beside it, and the mirroring of every event
  into the session service after the file has been written. A method holds the file lock
  throughout; it reads the file, changes table and log, writes the file and mirrors. A raise while
  mirroring leaves the written file behind, so the state an operation returns matters even when
  it raises.
\<close>

section \<open>State\<close>

record lease_event =
  le_event_id :: string
  le_command_id :: string
  le_session_id :: string
  le_event_type :: string
  le_occurred_at :: string
  le_claim_seq :: int
  le_worker_id :: "string option"
  le_lease_expires_at :: "string option"
  le_reason :: "string option"
  le_payload :: jdict

record lease_state =
  ls_command_id :: string
  ls_session_id :: string
  ls_status :: string
  ls_claim_seq :: int
  ls_worker_id :: "string option"
  ls_lease_expires_at :: "string option"
  ls_updated_at :: string

record lease_file =
  lf_next_event_seq :: int
  lf_commands :: "(string, lease_state) dict"
  lf_events :: "lease_event list"

definition empty_lease_file :: lease_file where
  "empty_lease_file = \<lparr>lf_next_event_seq = 1, lf_commands = [], lf_events = []\<rparr>"

text \<open>The file and the session service's store, which the constructor may leave out.\<close>

record lease_world =
  lw_file :: lease_file
  lw_session :: "session_store option"

section \<open>Helpers\<close>

definition parse_timestamp :: "string \<Rightarrow> py_error + int" where
  "parse_timestamp value =
     (let n = strip value;
          n = (if ends_with n ''Z'' then butlast n @ ''+00:00'' else n)
      in case fromisoformat n of
           None \<Rightarrow> Inl (ValueError ''Invalid isoformat string'')
         | Some p \<Rightarrow> to_utc p)"

definition lease_append_event ::
    "lease_file \<Rightarrow> string \<Rightarrow> string \<Rightarrow> string \<Rightarrow> string \<Rightarrow> int \<Rightarrow> string option \<Rightarrow> string option \<Rightarrow>
     string option \<Rightarrow> jdict \<Rightarrow> lease_event \<times> lease_file" where
  "lease_append_event f command_id session_id event_type occurred_at claim_seq worker_id
     lease_expires_at reason payload =
     (let e = \<lparr>le_event_id = ''command-event:'' @ str_of_int (lf_next_event_seq f),
               le_command_id = command_id, le_session_id = session_id,
               le_event_type = event_type, le_occurred_at = occurred_at,
               le_claim_seq = claim_seq, le_worker_id = worker_id,
               le_lease_expires_at = lease_expires_at, le_reason = reason,
               le_payload = payload\<rparr>
      in (e, f\<lparr>lf_next_event_seq := lf_next_event_seq f + 1, lf_events := lf_events f @ [e]\<rparr>))"

definition session_correlation_id :: "lease_event \<Rightarrow> string" where
  "session_correlation_id e =
     (if le_event_type e = ''command_lease_renewed'' \<and> or_empty (le_lease_expires_at e) \<noteq> []
      then ''corr:command:'' @ le_command_id e @ '':claim:'' @ str_of_int (le_claim_seq e) @
           '':renew:'' @ or_empty (le_lease_expires_at e)
      else ''corr:command:'' @ le_command_id e @ '':claim:'' @ str_of_int (le_claim_seq e))"

definition project_id_from_session_id :: "string \<Rightarrow> string" where
  "project_id_from_session_id session_id =
     (let n = strip session_id in
      if starts_with n ''session:'' then
        (case split_on (CHR '':'') n of
           _ # p # _ \<Rightarrow> if p \<noteq> [] then p else removeprefix n ''session:''
         | _ \<Rightarrow> removeprefix n ''session:'')
      else n)"

definition mirror_payload :: "lease_event \<Rightarrow> jdict" where
  "mirror_payload e =
     (let p = le_payload e;
          p = dict_set_opt ''worker_id'' (map_option JStr (le_worker_id e)) p;
          p = dict_set_opt ''lease_expires_at'' (map_option JStr (le_lease_expires_at e)) p
      in dict_set_opt ''reason'' (map_option JStr (le_reason e)) p)"

definition mirror_event ::
    "(string \<Rightarrow> string) \<Rightarrow> string \<Rightarrow> lease_event \<Rightarrow> (unit, lease_world) op" where
  "mirror_event sha now e w =
     (case lw_session w of
        None \<Rightarrow> (Inr (), w)
      | Some st \<Rightarrow>
          (case svc_record sha now (le_event_type e) (project_id_from_session_id (le_session_id e))
                  (le_session_id e) (session_correlation_id e) (mirror_payload e)
                  (Some (le_command_id e))
                  [(''command_id'', le_command_id e),
                   (''claim_seq'', str_of_int (le_claim_seq e))]
                  (le_occurred_at e) st of
             (Inl err, st') \<Rightarrow> (Inl err, w\<lparr>lw_session := Some st'\<rparr>)
           | (Inr r, st') \<Rightarrow> (Inr (), w\<lparr>lw_session := Some st'\<rparr>)))"

fun mirror_events ::
    "(string \<Rightarrow> string) \<Rightarrow> string \<Rightarrow> lease_event list \<Rightarrow> (unit, lease_world) op" where
  "mirror_events sha now [] w = (Inr (), w)"
| "mirror_events sha now (e # es) w = op_bind (mirror_event sha now e) (\<lambda>_. mirror_events sha now es) w"

definition require_current_claim ::
    "lease_state option \<Rightarrow> string \<Rightarrow> string \<Rightarrow> int \<Rightarrow> py_error + lease_state" where
  "require_current_claim state command_id worker_id claim_seq =
     (case state of
        None \<Rightarrow> Inl (ValueError (''unknown command: '' @ command_id))
      | Some st \<Rightarrow>
          if ls_status st \<noteq> ''claimed'' \<or> ls_worker_id st \<noteq> Some worker_id
            \<or> ls_claim_seq st \<noteq> claim_seq
          then Inl (ValueError (''stale claim for '' @ command_id)) else Inr st)"

section \<open>Operations\<close>

definition get_command :: "string \<Rightarrow> lease_world \<Rightarrow> lease_state option" where
  "get_command command_id w = map_of (lf_commands (lw_file w)) command_id"

definition list_lease_events :: "string option \<Rightarrow> lease_world \<Rightarrow> lease_event list" where
  "list_lease_events command_id w =
     (case command_id of
        None \<Rightarrow> lf_events (lw_file w)
      | Some c \<Rightarrow> filter (\<lambda>e. le_command_id e = c) (lf_events (lw_file w)))"

text \<open>Write the file, mirror the new events, return.\<close>

definition write_and_mirror ::
    "(string \<Rightarrow> string) \<Rightarrow> string \<Rightarrow> lease_file \<Rightarrow> lease_event list \<Rightarrow> 'a \<Rightarrow> ('a, lease_world) op" where
  "write_and_mirror sha now f es r w =
     op_bind (mirror_events sha now es) (\<lambda>_. op_return r) (w\<lparr>lw_file := f\<rparr>)"

definition claim_command ::
    "(string \<Rightarrow> string) \<Rightarrow> string \<Rightarrow> string \<Rightarrow> string \<Rightarrow> string \<Rightarrow> string \<Rightarrow> string \<Rightarrow>
     (lease_event, lease_world) op" where
  "claim_command sha now command_id session_id worker_id claimed_at lease_expires_at w =
     (let f = lw_file w;
          claim = (\<lambda>claim_seq.
            let (e, f') = lease_append_event f command_id session_id ''command_claimed'' claimed_at
                  claim_seq (Some worker_id) (Some lease_expires_at) None [];
                st = \<lparr>ls_command_id = command_id, ls_session_id = session_id,
                      ls_status = ''claimed'', ls_claim_seq = claim_seq,
                      ls_worker_id = Some worker_id,
                      ls_lease_expires_at = Some lease_expires_at, ls_updated_at = claimed_at\<rparr>
            in write_and_mirror sha now
                 (f'\<lparr>lf_commands := dict_set command_id st (lf_commands f')\<rparr>) [e] e w)
      in case map_of (lf_commands f) command_id of
           None \<Rightarrow> claim 1
         | Some st \<Rightarrow>
             if ls_session_id st \<noteq> session_id
             then (Inl (ValueError (''command '' @ command_id @ '' belongs to another session'')), w)
             else if ls_status st = ''claimed''
             then (Inl (ValueError (''command '' @ command_id @ '' is already claimed'')), w)
             else if ls_status st \<in> {''executed'', ''failed''}
             then (Inl (ValueError (''command '' @ command_id @ '' is already terminal'')), w)
             else claim (ls_claim_seq st + 1))"

definition renew_lease ::
    "(string \<Rightarrow> string) \<Rightarrow> string \<Rightarrow> string \<Rightarrow> string \<Rightarrow> int \<Rightarrow> string \<Rightarrow> string \<Rightarrow>
     (lease_event, lease_world) op" where
  "renew_lease sha now command_id worker_id claim_seq renewed_at lease_expires_at w =
     (let f = lw_file w in
      case require_current_claim (map_of (lf_commands f) command_id) command_id worker_id claim_seq of
        Inl err \<Rightarrow> (Inl err, w)
      | Inr st \<Rightarrow>
          (let (e, f') = lease_append_event f command_id (ls_session_id st)
                 ''command_lease_renewed'' renewed_at claim_seq (Some worker_id)
                 (Some lease_expires_at) None [];
               st' = st\<lparr>ls_lease_expires_at := Some lease_expires_at, ls_updated_at := renewed_at\<rparr>
           in write_and_mirror sha now
                (f'\<lparr>lf_commands := dict_set command_id st' (lf_commands f')\<rparr>) [e] e w))"

text \<open>One pass of the loop of \<open>expire_and_requeue_expired\<close>; the first unreadable expiry raises.\<close>

definition expire_one ::
    "string \<Rightarrow> string \<Rightarrow> int \<Rightarrow> string \<Rightarrow> lease_file \<Rightarrow> py_error + (lease_event list \<times> lease_file)" where
  "expire_one now reason now_ts command_id f =
     (case map_of (lf_commands f) command_id of
        None \<Rightarrow> Inr ([], f)
      | Some st \<Rightarrow>
          if ls_status st \<noteq> ''claimed'' then Inr ([], f)
          else (case ls_lease_expires_at st of
            None \<Rightarrow> Inr ([], f)
          | Some exp \<Rightarrow>
              (case parse_timestamp exp of
                 Inl err \<Rightarrow> Inl err
               | Inr exp_ts \<Rightarrow>
                   if exp_ts > now_ts then Inr ([], f)
                   else
                     (let (e1, f1) = lease_append_event f command_id (ls_session_id st)
                            ''command_claim_expired'' now (ls_claim_seq st) (ls_worker_id st)
                            (ls_lease_expires_at st) (Some reason) [];
                          (e2, f2) = lease_append_event f1 command_id (ls_session_id st)
                            ''command_requeued'' now (ls_claim_seq st) (ls_worker_id st)
                            (ls_lease_expires_at st) (Some reason) [];
                          st' = st\<lparr>ls_status := ''requeued'', ls_updated_at := now\<rparr>
                      in Inr ([e1, e2],
                           f2\<lparr>lf_commands := dict_set command_id st' (lf_commands f2)\<rparr>)))))"

fun expire_all ::
    "string \<Rightarrow> string \<Rightarrow> int \<Rightarrow> string list \<Rightarrow> lease_file \<Rightarrow>
     py_error + (lease_event list \<times> lease_file)" where
  "expire_all now reason now_ts [] f = Inr ([], f)"
| "expire_all now reason now_ts (c # cs) f =
     (case expire_one now reason now_ts c f of
        Inl err \<Rightarrow> Inl err
      | Inr (es, f') \<Rightarrow>
          (case expire_all now reason now_ts cs f' of
             Inl err \<Rightarrow> Inl err
           | Inr (es', f'') \<Rightarrow> Inr (es @ es', f'')))"

definition expire_and_requeue_expired ::
    "(string \<Rightarrow> string) \<Rightarrow> string \<Rightarrow> string \<Rightarrow> string \<Rightarrow> (lease_event list, lease_world) op" where
  "expire_and_requeue_expired sha clock now reason w =
     (case parse_timestamp now of
        Inl err \<Rightarrow> (Inl err, w)
      | Inr now_ts \<Rightarrow>
          (case expire_all now reason now_ts (sort (dict_keys (lf_commands (lw_file w)))) (lw_file w) of
             Inl err \<Rightarrow> (Inl err, w)
           | Inr ([], f) \<Rightarrow> (Inr [], w)
           | Inr (es, f) \<Rightarrow> write_and_mirror sha clock f es es w))"

definition record_terminal_result ::
    "(string \<Rightarrow> string) \<Rightarrow> string \<Rightarrow> string \<Rightarrow> string \<Rightarrow> int \<Rightarrow> string \<Rightarrow> string \<Rightarrow> jdict \<Rightarrow>
     (lease_event, lease_world) op" where
  "record_terminal_result sha now command_id worker_id claim_seq result_type occurred_at payload w =
     (if result_type \<notin> {''command_executed'', ''command_failed''}
      then (Inl (ValueError (''unsupported result type: '' @ result_type)), w)
      else
        (let f = lw_file w in
         case require_current_claim (map_of (lf_commands f) command_id) command_id worker_id
                claim_seq of
           Inl err \<Rightarrow> (Inl err, w)
         | Inr st \<Rightarrow>
             (let (e, f') = lease_append_event f command_id (ls_session_id st) result_type
                    occurred_at claim_seq (Some worker_id) (ls_lease_expires_at st) None payload;
                  st' = st\<lparr>ls_status :=
                              (if result_type = ''command_executed'' then ''executed'' else ''failed''),
                            ls_updated_at := occurred_at\<rparr>
              in write_and_mirror sha now
                   (f'\<lparr>lf_commands := dict_set command_id st' (lf_commands f')\<rparr>) [e] e w)))"

end
