(* ===== verification/LeaseProtocol.thy ===== *)
theory LeaseProtocol
  imports CommandLeases
begin

text \<open>
  The abstract contract of the command leases and its refinement: the log of lease events obeys a
  protocol (one owner at a time, increasing claim numbers, final results final), and the table of
  commands is exactly what replaying the log gives.
\<close>

section \<open>The protocol\<close>

text \<open>The effect of one logged event on the table of commands.\<close>

definition replay_event ::
    "lease_event \<Rightarrow> (string \<rightharpoonup> lease_state) \<Rightarrow> (string \<rightharpoonup> lease_state)" where
  "replay_event e m =
     (let c = le_command_id e; ty = le_event_type e in
      if ty = ''command_claimed'' then
        m(c \<mapsto> \<lparr>ls_command_id = c, ls_session_id = le_session_id e, ls_status = ''claimed'',
               ls_claim_seq = le_claim_seq e, ls_worker_id = le_worker_id e,
               ls_lease_expires_at = le_lease_expires_at e, ls_updated_at = le_occurred_at e\<rparr>)
      else (case m c of
          None \<Rightarrow> m
        | Some st \<Rightarrow>
            if ty = ''command_lease_renewed'' then
              m(c \<mapsto> st\<lparr>ls_lease_expires_at := le_lease_expires_at e,
                        ls_updated_at := le_occurred_at e\<rparr>)
            else if ty = ''command_requeued'' then
              m(c \<mapsto> st\<lparr>ls_status := ''requeued'', ls_updated_at := le_occurred_at e\<rparr>)
            else if ty = ''command_executed'' then
              m(c \<mapsto> st\<lparr>ls_status := ''executed'', ls_updated_at := le_occurred_at e\<rparr>)
            else if ty = ''command_failed'' then
              m(c \<mapsto> st\<lparr>ls_status := ''failed'', ls_updated_at := le_occurred_at e\<rparr>)
            else m))"

definition replay :: "lease_event list \<Rightarrow> (string \<rightharpoonup> lease_state) \<Rightarrow> (string \<rightharpoonup> lease_state)" where
  "replay es m = fold replay_event es m"

definition holder_event_types :: "string list" where
  "holder_event_types =
     [''command_lease_renewed'', ''command_claim_expired'', ''command_requeued'',
      ''command_executed'', ''command_failed'']"

definition result_event_types :: "string list" where
  "result_event_types = [''command_executed'', ''command_failed'']"

text \<open>
  When the protocol allows an event: a claim of a new command carries number 1, a claim of a
  requeued command the next number; every other event belongs to the command's current holder.
\<close>

definition allowed :: "(string \<rightharpoonup> lease_state) \<Rightarrow> lease_event \<Rightarrow> bool" where
  "allowed m e \<longleftrightarrow>
     (case m (le_command_id e) of
        None \<Rightarrow> le_event_type e = ''command_claimed'' \<and> le_claim_seq e = 1
      | Some st \<Rightarrow>
          le_session_id e = ls_session_id st \<and>
          (if le_event_type e = ''command_claimed''
           then ls_status st = ''requeued'' \<and> le_claim_seq e = ls_claim_seq st + 1
           else le_event_type e \<in> set holder_event_types \<and> ls_status st = ''claimed'' \<and>
                le_claim_seq e = ls_claim_seq st \<and> le_worker_id e = ls_worker_id st))"

fun valid_log :: "(string \<rightharpoonup> lease_state) \<Rightarrow> lease_event list \<Rightarrow> bool" where
  "valid_log m [] = True"
| "valid_log m (e # es) = (allowed m e \<and> valid_log (replay_event e m) es)"

lemma replay_simps [simp]:
  "replay [] m = m"
  "replay (e # es) m = replay es (replay_event e m)"
  "replay (es @ fs) m = replay fs (replay es m)"
  by (simp_all add: replay_def)

lemma valid_log_append [simp]:
  "valid_log m (es @ fs) \<longleftrightarrow> valid_log m es \<and> valid_log (replay es m) fs"
  by (induction es arbitrary: m) auto

lemma replay_event_other: "c \<noteq> le_command_id e \<Longrightarrow> replay_event e m c = m c"
  by (auto simp: replay_event_def Let_def split: option.splits)

lemma holder_not_claim: "ty \<in> set holder_event_types \<Longrightarrow> ty \<noteq> ''command_claimed''"
  by (auto simp: holder_event_types_def)

subsection \<open>Consequences of the protocol\<close>

text \<open>Once a command has a result, no further event of it is allowed.\<close>

lemma replay_result:
  assumes "allowed m e" and "le_event_type e \<in> set result_event_types"
  shows "\<exists>st. replay_event e m (le_command_id e) = Some st \<and> ls_status st \<in> {''executed'', ''failed''}"
  using assms by (auto simp: allowed_def replay_event_def result_event_types_def split: option.splits)

lemma allowed_not_final:
  assumes "allowed m e" and "m (le_command_id e) = Some st"
  shows "ls_status st \<notin> {''executed'', ''failed''}"
  using assms by (auto simp: allowed_def split: if_splits)

lemma final_absorbing:
  assumes "valid_log m es" and "m c = Some st" and "ls_status st \<in> {''executed'', ''failed''}"
  shows "\<forall>e \<in> set es. le_command_id e \<noteq> c"
  using assms
proof (induction es arbitrary: m)
  case Nil
  then show ?case by simp
next
  case (Cons e es)
  then have other: "le_command_id e \<noteq> c" by (auto dest: allowed_not_final)
  then have "replay_event e m c = Some st" using Cons.prems(2) by (simp add: replay_event_other)
  with Cons other show ?case by auto
qed

lemma valid_log_result_last:
  assumes "valid_log m (es @ e # fs)" and "le_event_type e \<in> set result_event_types"
  shows "\<forall>g \<in> set fs. le_command_id g \<noteq> le_command_id e"
proof -
  from assms(1) have ok: "allowed (replay es m) e" and rest: "valid_log (replay_event e (replay es m)) fs"
    by auto
  from replay_result [OF ok assms(2)] obtain st where
    "replay_event e (replay es m) (le_command_id e) = Some st" "ls_status st \<in> {''executed'', ''failed''}"
    by blast
  with rest show ?thesis by (rule final_absorbing)
qed

text \<open>The claims of one command carry the numbers 1, 2, 3, and so on.\<close>

definition claims_of :: "string \<Rightarrow> lease_event list \<Rightarrow> int list" where
  "claims_of c es =
     map le_claim_seq
       (filter (\<lambda>e. le_command_id e = c \<and> le_event_type e = ''command_claimed'') es)"

definition claim_count :: "(string \<rightharpoonup> lease_state) \<Rightarrow> string \<Rightarrow> int" where
  "claim_count m c = (case m c of None \<Rightarrow> 0 | Some st \<Rightarrow> ls_claim_seq st)"

lemma claim_count_replay:
  "claim_count (replay_event e m) c =
     (if le_command_id e = c \<and> le_event_type e = ''command_claimed'' then le_claim_seq e
      else claim_count m c)"
  by (auto simp: claim_count_def replay_event_def Let_def split: option.splits)

lemma allowed_claim_number:
  "allowed m e \<Longrightarrow> le_event_type e = ''command_claimed'' \<Longrightarrow>
     le_claim_seq e = claim_count m (le_command_id e) + 1"
  by (auto simp: allowed_def claim_count_def split: option.splits)

lemma claims_numbered:
  "valid_log m es \<Longrightarrow> claims_of c es = [claim_count m c + 1 .. claim_count (replay es m) c]"
proof (induction es arbitrary: m)
  case Nil
  then show ?case by (simp add: claims_of_def)
next
  case (Cons e es)
  then have IH: "claims_of c es =
      [claim_count (replay_event e m) c + 1 .. claim_count (replay (e # es) m) c]"
    by simp
  show ?case
  proof (cases "le_command_id e = c \<and> le_event_type e = ''command_claimed''")
    case True
    with Cons.prems have n: "le_claim_seq e = claim_count m c + 1"
      by (auto dest: allowed_claim_number)
    from Cons.prems have "valid_log (replay_event e m) es" by simp
    have le: "claim_count m' c \<le> claim_count (replay es m') c" if "valid_log m' es" for m'
      using that
    proof (induction es arbitrary: m')
      case (Cons f fs)
      then have "claim_count (replay_event f m') c \<le> claim_count (replay (f # fs) m') c" by simp
      moreover have "claim_count m' c \<le> claim_count (replay_event f m') c"
        using Cons.prems by (auto simp: claim_count_replay dest: allowed_claim_number)
      ultimately show ?case by linarith
    qed simp
    from True have "claims_of c (e # es) = le_claim_seq e # claims_of c es"
      by (simp add: claims_of_def)
    moreover have "claim_count (replay_event e m) c \<le> claim_count (replay es (replay_event e m)) c"
      using le Cons.prems by simp
    ultimately show ?thesis
      using IH True n by (simp add: claim_count_replay upto_rec1)
  next
    case False
    then have "claims_of c (e # es) = claims_of c es" by (auto simp: claims_of_def)
    with IH False show ?thesis by (simp add: claim_count_replay)
  qed
qed

text \<open>
  Every event of a holder belongs to the claim that carries its number: same command, same worker,
  same session, earlier in the log.
\<close>

definition holds_from :: "(string \<rightharpoonup> lease_state) \<Rightarrow> lease_event list \<Rightarrow> bool" where
  "holds_from m pre \<longleftrightarrow>
     (\<forall>c st. m c = Some st \<longrightarrow>
        (\<exists>k \<in> set pre. le_event_type k = ''command_claimed'' \<and> le_command_id k = c \<and>
           le_claim_seq k = ls_claim_seq st \<and> le_worker_id k = ls_worker_id st \<and>
           le_session_id k = ls_session_id st))"

lemma holds_from_step:
  assumes "holds_from m pre" and "allowed m e"
  shows "holds_from (replay_event e m) (pre @ [e])"
  using assms
  by (fastforce simp: holds_from_def replay_event_def Let_def split: option.splits if_splits)

lemma holds_from_replay: "valid_log m es \<Longrightarrow> holds_from m pre \<Longrightarrow> holds_from (replay es m) (pre @ es)"
proof (induction es arbitrary: m pre)
  case Nil
  then show ?case by simp
next
  case (Cons e es)
  then have "holds_from (replay_event e m) (pre @ [e])" by (simp add: holds_from_step)
  with Cons.IH [of "replay_event e m" "pre @ [e]"] Cons.prems show ?case by simp
qed

lemma valid_log_owner:
  assumes "valid_log Map.empty (es @ e # fs)" and "le_event_type e \<noteq> ''command_claimed''"
  shows "\<exists>k \<in> set es. le_event_type k = ''command_claimed'' \<and> le_command_id k = le_command_id e \<and>
           le_claim_seq k = le_claim_seq e \<and> le_worker_id k = le_worker_id e \<and>
           le_session_id k = le_session_id e"
proof -
  from assms(1) have ok: "allowed (replay es Map.empty) e" and es: "valid_log Map.empty es" by auto
  have "holds_from Map.empty []" by (simp add: holds_from_def)
  with es have "holds_from (replay es Map.empty) es" by (auto dest: holds_from_replay)
  moreover from ok assms(2) obtain st where "replay es Map.empty (le_command_id e) = Some st"
    and "le_claim_seq e = ls_claim_seq st" "le_worker_id e = ls_worker_id st"
      "le_session_id e = ls_session_id st"
    by (auto simp: allowed_def split: option.splits)
  ultimately show ?thesis by (fastforce simp: holds_from_def)
qed

end
