(* ===== verification/LeaseRefinement.thy ===== *)
theory LeaseRefinement
  imports LeaseProtocol
begin

text \<open>
  Every operation of the lease store keeps the file's invariant: the log is valid, its event ids
  are the consecutive ones, and replaying it gives the table.
\<close>

section \<open>The invariant\<close>

definition statuses_ok :: "(string \<rightharpoonup> lease_state) \<Rightarrow> bool" where
  "statuses_ok m \<longleftrightarrow>
     (\<forall>c st. m c = Some st \<longrightarrow>
        ls_status st \<in> {''claimed'', ''requeued'', ''executed'', ''failed''} \<and>
        ls_command_id st = c)"

definition lease_inv :: "lease_file \<Rightarrow> bool" where
  "lease_inv f \<longleftrightarrow>
     distinct (dict_keys (lf_commands f)) \<and>
     valid_log Map.empty (lf_events f) \<and>
     replay (lf_events f) Map.empty = map_of (lf_commands f) \<and>
     lf_next_event_seq f = int (length (lf_events f)) + 1 \<and>
     map le_event_id (lf_events f) =
       map (\<lambda>i. ''command-event:'' @ str_of_int i) [1 .. int (length (lf_events f))]"

lemma lease_inv_empty: "lease_inv empty_lease_file"
  by (simp add: lease_inv_def empty_lease_file_def)

lemma statuses_ok_replay: "statuses_ok m \<Longrightarrow> statuses_ok (replay es m)"
proof (induction es arbitrary: m)
  case (Cons e es)
  have "statuses_ok (replay_event e m)"
    using Cons.prems by (auto simp: statuses_ok_def replay_event_def Let_def split: option.splits)
  with Cons.IH show ?case by simp
qed simp

lemma lease_inv_status:
  assumes "lease_inv f" and "map_of (lf_commands f) c = Some st"
  shows "ls_status st \<in> {''claimed'', ''requeued'', ''executed'', ''failed''}"
    and "ls_command_id st = c"
proof -
  have "statuses_ok Map.empty" by (simp add: statuses_ok_def)
  then have "statuses_ok (replay (lf_events f) Map.empty)" by (rule statuses_ok_replay)
  with assms show "ls_status st \<in> {''claimed'', ''requeued'', ''executed'', ''failed''}"
    and "ls_command_id st = c"
    by (simp_all only: lease_inv_def statuses_ok_def)
qed

lemma lease_append_event_simps:
  assumes "lease_append_event f c se ty oc n wk ex rs pa = (e, f')"
  shows "le_command_id e = c" "le_session_id e = se" "le_event_type e = ty"
    "le_occurred_at e = oc" "le_claim_seq e = n" "le_worker_id e = wk"
    "le_lease_expires_at e = ex"
    "le_event_id e = ''command-event:'' @ str_of_int (lf_next_event_seq f)"
    "lf_events f' = lf_events f @ [e]" "lf_commands f' = lf_commands f"
    "lf_next_event_seq f' = lf_next_event_seq f + 1"
  using assms by (auto simp: lease_append_event_def Let_def)

text \<open>
  Adding an event that the protocol allows, and changing the table as its replay does, keeps the
  invariant.
\<close>

lemma lease_inv_append:
  assumes inv: "lease_inv f" and e: "lease_append_event f c se ty oc n wk ex rs pa = (e, f')"
    and ok: "allowed (map_of (lf_commands f)) e"
    and table: "map_of cmds = replay_event e (map_of (lf_commands f))"
    and keys: "distinct (dict_keys cmds)"
  shows "lease_inv (f'\<lparr>lf_commands := cmds\<rparr>)"
proof -
  have "[1 .. 1 + int (length (lf_events f))] =
      [1 .. int (length (lf_events f))] @ [1 + int (length (lf_events f))]"
    using upto_rec2 [of 1 "1 + int (length (lf_events f))"] by simp
  with inv ok table keys lease_append_event_simps [OF e] show ?thesis
    by (simp add: lease_inv_def add.commute)
qed

section \<open>The operations keep it\<close>

lemma mirror_event_file: "lw_file (snd (mirror_event sha now e w)) = lw_file w"
  by (auto simp: mirror_event_def split: option.splits prod.splits sum.splits)

lemma mirror_events_file: "lw_file (snd (mirror_events sha now es w)) = lw_file w"
proof (induction es arbitrary: w)
  case (Cons e es)
  obtain r w' where m: "mirror_event sha now e w = (r, w')" by fastforce
  then have "lw_file w' = lw_file w" using mirror_event_file [of sha now e w] by simp
  with m Cons.IH [of w'] show ?case by (cases r) simp_all
qed simp

lemma write_and_mirror_file: "lw_file (snd (write_and_mirror sha now f es r w)) = f"
proof -
  let ?w = "w\<lparr>lw_file := f\<rparr>"
  obtain q w' where "mirror_events sha now es ?w = (q, w')" by fastforce
  with mirror_events_file [of sha now es ?w] show ?thesis
    by (cases q) (auto simp: write_and_mirror_def)
qed

lemma write_and_mirror_Inr: "write_and_mirror sha now f es r w = (Inr a, w') \<Longrightarrow> a = r"
  by (auto simp: write_and_mirror_def op_bind_split op_return_def)

lemma write_and_mirror_InrD:
  "write_and_mirror sha now f es r w = (Inr a, w') \<Longrightarrow> a = r \<and> lw_file w' = f"
  using write_and_mirror_file [of sha now f es r w] by (auto dest: write_and_mirror_Inr)

lemma require_current_claim_Inr:
  "require_current_claim st c wk n = Inr s \<longleftrightarrow>
     st = Some s \<and> ls_status s = ''claimed'' \<and> ls_worker_id s = Some wk \<and> ls_claim_seq s = n"
  by (auto simp: require_current_claim_def split: option.splits if_splits)

lemma claim_inv:
  assumes "lease_inv (lw_file w)"
  shows "lease_inv (lw_file (snd (claim_command sha now c se wk at ex w)))"
proof -
  let ?f = "lw_file w"
  have claim: "lease_inv (f'\<lparr>lf_commands := dict_set c
        \<lparr>ls_command_id = c, ls_session_id = se, ls_status = ''claimed'', ls_claim_seq = n,
         ls_worker_id = Some wk, ls_lease_expires_at = Some ex, ls_updated_at = at\<rparr>
        (lf_commands f')\<rparr>)"
    if e: "lease_append_event ?f c se ''command_claimed'' at n (Some wk) (Some ex) None [] = (e, f')"
      and ok: "case map_of (lf_commands ?f) c of None \<Rightarrow> n = 1
        | Some st \<Rightarrow> ls_session_id st = se \<and> ls_status st = ''requeued'' \<and> n = ls_claim_seq st + 1"
    for n e f'
  proof (rule lease_inv_append [OF assms e])
    note [simp] = lease_append_event_simps [OF e]
    show "allowed (map_of (lf_commands ?f)) e"
      using ok by (auto simp: allowed_def split: option.splits)
    show "map_of (dict_set c \<lparr>ls_command_id = c, ls_session_id = se, ls_status = ''claimed'',
        ls_claim_seq = n, ls_worker_id = Some wk, ls_lease_expires_at = Some ex,
        ls_updated_at = at\<rparr> (lf_commands f')) = replay_event e (map_of (lf_commands ?f))"
      by (simp add: replay_event_def)
    show "distinct (dict_keys (dict_set c \<lparr>ls_command_id = c, ls_session_id = se,
        ls_status = ''claimed'', ls_claim_seq = n, ls_worker_id = Some wk,
        ls_lease_expires_at = Some ex, ls_updated_at = at\<rparr> (lf_commands f')))"
      using assms by (simp add: lease_inv_def)
  qed
  show ?thesis
  proof (cases "map_of (lf_commands ?f) c")
    case None
    then show ?thesis
      by (auto simp: claim_command_def Let_def write_and_mirror_file split: prod.split intro: claim)
  next
    case (Some st)
    with assms have status: "ls_status st \<in> {''claimed'', ''requeued'', ''executed'', ''failed''}"
      by (rule lease_inv_status)
    show ?thesis
    proof (cases "ls_session_id st = se \<and> ls_status st = ''requeued''")
      case True
      obtain e f' where e: "lease_append_event ?f c se ''command_claimed'' at (ls_claim_seq st + 1)
          (Some wk) (Some ex) None [] = (e, f')" by fastforce
      from claim [OF e] True Some e show ?thesis
        by (simp add: claim_command_def write_and_mirror_file)
    next
      case False
      with Some status assms show ?thesis by (auto simp: claim_command_def)
    qed
  qed
qed

text \<open>The three operations of a holder change the table and the log in the same way.\<close>

lemma holder_inv:
  assumes inv: "lease_inv f" and st: "map_of (lf_commands f) c = Some st"
    and held: "ls_status st = ''claimed''" "ls_worker_id st = wk" "ls_claim_seq st = n"
    and ty: "ty \<in> set holder_event_types"
    and e: "lease_append_event f c (ls_session_id st) ty oc n wk ex rs pa = (e, f')"
    and st': "replay_event e (map_of (lf_commands f)) = (map_of (lf_commands f))(c \<mapsto> st')"
  shows "lease_inv (f'\<lparr>lf_commands := dict_set c st' (lf_commands f')\<rparr>)"
proof (rule lease_inv_append [OF inv e])
  note [simp] = lease_append_event_simps [OF e]
  show "allowed (map_of (lf_commands f)) e"
    using st held ty holder_not_claim [OF ty] by (simp add: allowed_def)
  show "map_of (dict_set c st' (lf_commands f')) = replay_event e (map_of (lf_commands f))"
    using st' by simp
  show "distinct (dict_keys (dict_set c st' (lf_commands f')))"
    using inv by (simp add: lease_inv_def)
qed

lemma renew_inv:
  assumes "lease_inv (lw_file w)"
  shows "lease_inv (lw_file (snd (renew_lease sha now c wk n at ex w)))"
proof (cases "require_current_claim (map_of (lf_commands (lw_file w)) c) c wk n")
  case (Inl err)
  with assms show ?thesis by (simp add: renew_lease_def)
next
  case (Inr st)
  then have st: "map_of (lf_commands (lw_file w)) c = Some st" and held: "ls_status st = ''claimed''"
    "ls_worker_id st = Some wk" "ls_claim_seq st = n"
    by (auto simp: require_current_claim_Inr)
  obtain e f' where e: "lease_append_event (lw_file w) c (ls_session_id st) ''command_lease_renewed''
      at n (Some wk) (Some ex) None [] = (e, f')" by fastforce
  have "lease_inv (f'\<lparr>lf_commands := dict_set c
      (st\<lparr>ls_lease_expires_at := Some ex, ls_updated_at := at\<rparr>) (lf_commands f')\<rparr>)"
    by (rule holder_inv [OF assms st held _ e])
      (use st in \<open>simp_all add: holder_event_types_def replay_event_def lease_append_event_simps [OF e]\<close>)
  with Inr e show ?thesis by (simp add: renew_lease_def write_and_mirror_file)
qed

lemma terminal_inv:
  assumes "lease_inv (lw_file w)"
  shows "lease_inv (lw_file (snd (record_terminal_result sha now c wk n ty at pa w)))"
proof (cases "ty \<in> {''command_executed'', ''command_failed''}")
  case False
  with assms show ?thesis by (simp add: record_terminal_result_def)
next
  case ty: True
  show ?thesis
  proof (cases "require_current_claim (map_of (lf_commands (lw_file w)) c) c wk n")
    case (Inl err)
    with assms ty show ?thesis by (simp add: record_terminal_result_def)
  next
    case (Inr st)
    then have st: "map_of (lf_commands (lw_file w)) c = Some st"
      and held: "ls_status st = ''claimed''" "ls_worker_id st = Some wk" "ls_claim_seq st = n"
      by (auto simp: require_current_claim_Inr)
    obtain e f' where e: "lease_append_event (lw_file w) c (ls_session_id st) ty at n (Some wk)
        (ls_lease_expires_at st) None pa = (e, f')" by fastforce
    have "lease_inv (f'\<lparr>lf_commands := dict_set c
        (st\<lparr>ls_status := (if ty = ''command_executed'' then ''executed'' else ''failed''),
            ls_updated_at := at\<rparr>) (lf_commands f')\<rparr>)"
      by (rule holder_inv [OF assms st held _ e])
        (use st ty in \<open>auto simp: holder_event_types_def replay_event_def lease_append_event_simps [OF e]\<close>)
    with Inr e ty show ?thesis by (simp add: record_terminal_result_def write_and_mirror_file)
  qed
qed

lemma expire_one_inv:
  assumes inv: "lease_inv f" and res: "expire_one now reason t c f = Inr (es, f')"
  shows "lease_inv f'"
proof (cases "f' = f")
  case True
  with inv show ?thesis by simp
next
  case False
  with res obtain st x ts where st: "map_of (lf_commands f) c = Some st"
    and claimed: "ls_status st = ''claimed''" and x: "ls_lease_expires_at st = Some x"
    and ts: "parse_timestamp x = Inr ts" "\<not> t < ts"
    by (auto simp: expire_one_def split: option.splits if_splits sum.splits)
  obtain e1 f1 where e1: "lease_append_event f c (ls_session_id st) ''command_claim_expired'' now
      (ls_claim_seq st) (ls_worker_id st) (Some x) (Some reason) [] = (e1, f1)" by fastforce
  obtain e2 f2 where e2: "lease_append_event f1 c (ls_session_id st) ''command_requeued'' now
      (ls_claim_seq st) (ls_worker_id st) (Some x) (Some reason) [] = (e2, f2)" by fastforce
  let ?st = "st\<lparr>ls_status := ''requeued'', ls_updated_at := now\<rparr>"
  note s1 = lease_append_event_simps [OF e1] and s2 = lease_append_event_simps [OF e2]
  have f1: "lease_inv (f1\<lparr>lf_commands := dict_set c st (lf_commands f1)\<rparr>)"
    by (rule holder_inv [OF inv st claimed refl refl _ e1])
      (use st in \<open>auto simp: holder_event_types_def replay_event_def s1 fun_upd_idem\<close>)
  moreover have "dict_set c st (lf_commands f1) = lf_commands f1"
    using st s1 by (simp add: dict_set_def update_triv)
  ultimately have inv1: "lease_inv f1" by simp
  have "lease_inv (f2\<lparr>lf_commands := dict_set c ?st (lf_commands f2)\<rparr>)"
    by (rule holder_inv [OF inv1 _ claimed refl refl _ e2])
      (use st in \<open>auto simp: holder_event_types_def replay_event_def s1 s2\<close>)
  moreover have "f' = f2\<lparr>lf_commands := dict_set c ?st (lf_commands f2)\<rparr>"
    using res st claimed x ts e1 e2 by (simp add: expire_one_def)
  ultimately show ?thesis by simp
qed

lemma expire_all_inv: "expire_all now reason t cs f = Inr (es, f') \<Longrightarrow> lease_inv f \<Longrightarrow> lease_inv f'"
proof (induction cs arbitrary: f es)
  case (Cons c cs)
  then show ?case
    by (auto split: sum.splits prod.splits dest: expire_one_inv)
qed simp

lemma expire_inv:
  assumes "lease_inv (lw_file w)"
  shows "lease_inv (lw_file (snd (expire_and_requeue_expired sha clock now reason w)))"
  using assms
  by (auto simp: expire_and_requeue_expired_def write_and_mirror_file
      split: sum.splits list.splits dest: expire_all_inv)

section \<open>Reachable files\<close>

inductive lease_step :: "lease_world \<Rightarrow> lease_world \<Rightarrow> bool" where
  claim: "lease_step w (snd (claim_command sha now c se wk at ex w))"
| renew: "lease_step w (snd (renew_lease sha now c wk n at ex w))"
| expire: "lease_step w (snd (expire_and_requeue_expired sha clock at reason w))"
| result: "lease_step w (snd (record_terminal_result sha now c wk n ty at pa w))"

text \<open>
  The worlds that the operations reach from a new file, whatever the session service's store
  held and whether or not an operation raised.
\<close>

inductive lease_reachable :: "lease_world \<Rightarrow> bool" where
  start: "lease_reachable \<lparr>lw_file = empty_lease_file, lw_session = st\<rparr>"
| step: "lease_reachable w \<Longrightarrow> lease_step w w' \<Longrightarrow> lease_reachable w'"

lemma lease_step_inv: "lease_step w w' \<Longrightarrow> lease_inv (lw_file w) \<Longrightarrow> lease_inv (lw_file w')"
  by (induction rule: lease_step.induct) (simp_all add: claim_inv renew_inv expire_inv terminal_inv)

lemma lease_reachable_inv: "lease_reachable w \<Longrightarrow> lease_inv (lw_file w)"
  by (induction rule: lease_reachable.induct) (auto simp: lease_inv_empty dest: lease_step_inv)

lemma lease_reachable_replay:
  assumes "lease_reachable w"
  shows "map_of (lf_commands (lw_file w)) = replay (lf_events (lw_file w)) Map.empty"
proof -
  from assms have "lease_inv (lw_file w)" by (rule lease_reachable_inv)
  then show ?thesis by (simp only: lease_inv_def)
qed

lemma lease_reachable_valid:
  assumes "lease_reachable w"
  shows "valid_log Map.empty (lf_events (lw_file w))"
proof -
  from assms have "lease_inv (lw_file w)" by (rule lease_reachable_inv)
  then show ?thesis by (simp only: lease_inv_def)
qed

end
