(* ===== verification/LeaseTheorems.thy ===== *)
theory LeaseTheorems
  imports LeaseRefinement
begin

text \<open>
  What the command leases guarantee: the log determines the table, a result is final, claims are
  numbered, only the holder acts, expiry requeues exactly what has run out, and what the session
  service sees of it.
\<close>

section \<open>Expiry\<close>

text \<open>What expiry at the instant \<open>t\<close> makes of one command.\<close>

definition expired_state :: "int \<Rightarrow> string \<Rightarrow> lease_state option \<Rightarrow> lease_state option" where
  "expired_state t now o' =
     (case o' of
        None \<Rightarrow> None
      | Some st \<Rightarrow>
          if ls_status st = ''claimed'' then
            (case ls_lease_expires_at st of
               None \<Rightarrow> Some st
             | Some x \<Rightarrow>
                 (case parse_timestamp x of
                    Inl _ \<Rightarrow> Some st
                  | Inr ts \<Rightarrow>
                      if ts \<le> t then Some (st\<lparr>ls_status := ''requeued'', ls_updated_at := now\<rparr>)
                      else Some st))
          else Some st)"

lemma expired_state_idem [simp]: "expired_state t now (expired_state t now o') = expired_state t now o'"
  by (auto simp: expired_state_def split: option.splits sum.splits)

lemma expire_one_map:
  assumes "expire_one now reason t c f = Inr (es, f')"
  shows "map_of (lf_commands f') =
           (map_of (lf_commands f))(c := expired_state t now (map_of (lf_commands f) c))"
  using assms
  by (auto simp: expire_one_def expired_state_def lease_append_event_def Let_def fun_eq_iff
      split: option.splits if_splits sum.splits)

lemma expire_all_map:
  "expire_all now reason t cs f = Inr (es, f') \<Longrightarrow>
     map_of (lf_commands f') c =
       (if c \<in> set cs then expired_state t now (map_of (lf_commands f) c)
        else map_of (lf_commands f) c)"
proof (induction cs arbitrary: f es)
  case (Cons d cs)
  then obtain es1 f1 es2 where 1: "expire_one now reason t d f = Inr (es1, f1)"
    and 2: "expire_all now reason t cs f1 = Inr (es2, f')"
    by (auto split: sum.splits prod.splits)
  from Cons.IH [OF 2] expire_one_map [OF 1] show ?case by auto
qed simp

lemma expire_one_Nil: "expire_one now reason t c f = Inr ([], f') \<Longrightarrow> f' = f"
  by (auto simp: expire_one_def Let_def split: option.splits if_splits sum.splits prod.splits)

lemma expire_all_Nil: "expire_all now reason t cs f = Inr ([], f') \<Longrightarrow> f' = f"
proof (induction cs arbitrary: f)
  case (Cons c cs)
  then show ?case by (auto split: sum.splits prod.splits dest: expire_one_Nil)
qed simp

definition readable_expiries :: "lease_file \<Rightarrow> bool" where
  "readable_expiries f \<longleftrightarrow>
     (\<forall>(c, st) \<in> set (lf_commands f). ls_status st = ''claimed'' \<longrightarrow>
        (case ls_lease_expires_at st of
           None \<Rightarrow> True
         | Some x \<Rightarrow> (case parse_timestamp x of Inl _ \<Rightarrow> False | Inr _ \<Rightarrow> True)))"

lemma readable_lookup:
  assumes "readable_expiries f" and "map_of (lf_commands f) c = Some st"
    and "ls_status st = ''claimed''" and "ls_lease_expires_at st = Some x"
  shows "\<exists>ts. parse_timestamp x = Inr ts"
proof -
  from assms(2) have "(c, st) \<in> set (lf_commands f)" by (rule map_of_SomeD)
  with assms(1) have "case parse_timestamp x of Inl _ \<Rightarrow> False | Inr _ \<Rightarrow> True"
    using assms(3,4) by (auto simp: readable_expiries_def)
  then show ?thesis by (auto split: sum.splits)
qed

lemma expire_all_total:
  assumes "\<And>c st x. map_of (lf_commands f) c = Some st \<Longrightarrow> ls_status st = ''claimed'' \<Longrightarrow>
      ls_lease_expires_at st = Some x \<Longrightarrow> \<exists>ts. parse_timestamp x = Inr ts"
  shows "\<exists>es f'. expire_all now reason t cs f = Inr (es, f')"
  using assms
proof (induction cs arbitrary: f)
  case (Cons c cs)
  have "\<exists>es f1. expire_one now reason t c f = Inr (es, f1)"
    using Cons.prems [of c]
    by (fastforce simp: expire_one_def Let_def split: option.splits if_splits sum.splits prod.splits)
  then obtain es f1 where 1: "expire_one now reason t c f = Inr (es, f1)" by blast
  have "\<exists>ts. parse_timestamp x = Inr ts"
    if "map_of (lf_commands f1) d = Some st" "ls_status st = ''claimed''"
      "ls_lease_expires_at st = Some x" for d st x
  proof (cases "d = c")
    case True
    with that expire_one_map [OF 1] obtain st0 where "map_of (lf_commands f) c = Some st0"
      "st = st0 \<or> ls_status st = ''requeued''"
      by (auto simp: expired_state_def split: option.splits sum.splits if_splits)
    with that Cons.prems [of c st x] show ?thesis by auto
  next
    case False
    with that expire_one_map [OF 1] Cons.prems [of d st x] show ?thesis by auto
  qed
  then obtain es2 f2 where "expire_all now reason t cs f1 = Inr (es2, f2)"
    using Cons.IH [of f1] by blast
  with 1 show ?case by simp
qed simp

lemma expire_file:
  assumes "parse_timestamp now = Inr t"
    and "expire_all now reason t (sort (dict_keys (lf_commands (lw_file w)))) (lw_file w) = Inr (es, f)"
  shows "lw_file (snd (expire_and_requeue_expired sha clock now reason w)) = f"
  using assms
  by (cases es) (auto simp: expire_and_requeue_expired_def write_and_mirror_file dest: expire_all_Nil)

text \<open>An unreadable expiry of a claimed command stops the loop.\<close>

lemma expire_all_unreadable:
  assumes "c \<in> set cs" and "map_of (lf_commands f) c = Some st" and "ls_status st = ''claimed''"
    and "ls_lease_expires_at st = Some x" and "parse_timestamp x = Inl err"
  shows "\<exists>e. expire_all now reason t cs f = Inl e"
  using assms(1,2)
proof (induction cs arbitrary: f)
  case (Cons d cs)
  show ?case
  proof (cases "expire_one now reason t d f")
    case (Inl e)
    then show ?thesis by simp
  next
    case (Inr p)
    obtain es f1 where p: "p = (es, f1)" by fastforce
    with Inr have "d \<noteq> c" using Cons.prems assms(3-5) by (auto simp: expire_one_def)
    with Inr p Cons.prems expire_one_map [of now reason t d f es f1]
    have "map_of (lf_commands f1) c = Some st" "c \<in> set cs" by auto
    with Cons.IH [of f1] Inr p show ?thesis by fastforce
  qed
qed simp

section \<open>Mirroring\<close>

definition session_events :: "lease_world \<Rightarrow> session_event list" where
  "session_events w = (case lw_session w of None \<Rightarrow> [] | Some st \<Rightarrow> st_events st)"

lemma mirror_event_extends:
  "mirror_event sha now e w = (r, w') \<Longrightarrow> prefix (session_events w) (session_events w')"
  by (auto simp: mirror_event_def session_events_def split: option.splits prod.splits sum.splits
      dest: service.sink_extends)

lemma mirror_events_extends:
  "mirror_events sha now es w = (r, w') \<Longrightarrow> prefix (session_events w) (session_events w')"
proof (induction es arbitrary: w)
  case (Cons e es)
  then show ?case
    by (auto simp: op_bind_split dest: mirror_event_extends prefix_order.trans)
qed simp

lemma write_and_mirror_extends:
  "prefix (session_events w) (session_events (snd (write_and_mirror sha now f es r w)))"
proof -
  obtain q w' where m: "mirror_events sha now es (w\<lparr>lw_file := f\<rparr>) = (q, w')" by fastforce
  from mirror_events_extends [OF m] m show ?thesis
    by (cases q) (auto simp: write_and_mirror_def session_events_def)
qed

text \<open>The session service holds an event that mirrors the lease event.\<close>

definition mirrored :: "lease_event \<Rightarrow> lease_world \<Rightarrow> bool" where
  "mirrored e w \<longleftrightarrow>
     (\<exists>r \<in> set (session_events w). ev_event_type r = le_event_type e \<and>
        ev_session_id r = le_session_id e \<and> ev_causation_id r = Some (le_command_id e) \<and>
        ev_correlation_id r = session_correlation_id e \<and>
        sdict_eq (ev_related_ids r)
          [(''command_id'', le_command_id e), (''claim_seq'', str_of_int (le_claim_seq e))])"

lemma mirrored_mono:
  "mirrored e w \<Longrightarrow> prefix (session_events w) (session_events w') \<Longrightarrow> mirrored e w'"
  by (auto simp: mirrored_def dest: set_mono_prefix)

lemma mirror_event_recorded:
  assumes "mirror_event sha now e w = (Inr (), w')" and "lw_session w \<noteq> None"
    and "jdict_wf (le_payload e)"
  shows "mirrored e w' \<and> lw_session w' \<noteq> None"
proof -
  let ?re = "[(''command_id'', le_command_id e), (''claim_seq'', str_of_int (le_claim_seq e))]"
  from assms obtain st r st' where rec: "svc_record sha now (le_event_type e)
      (project_id_from_session_id (le_session_id e)) (le_session_id e) (session_correlation_id e)
      (mirror_payload e) (Some (le_command_id e)) ?re (le_occurred_at e) st = (Inr r, st')"
    and w': "w' = w\<lparr>lw_session := Some st'\<rparr>"
    by (auto simp: mirror_event_def split: prod.splits sum.splits)
  have "jdict_wf (mirror_payload e)"
    using assms(3) jdict_wf_set
    by (auto simp: mirror_payload_def Let_def dict_set_opt_def map_option_case
        simp del: json_wf.simps(2) split: option.split)
  with service.sink_fields [OF rec] service.sink_returned [OF rec] w'
  show ?thesis by (auto simp: mirrored_def session_events_def)
qed

lemma mirror_events_recorded:
  assumes "mirror_events sha now es w = (Inr (), w')" and "lw_session w \<noteq> None"
    and "\<forall>e \<in> set es. jdict_wf (le_payload e)"
  shows "(\<forall>e \<in> set es. mirrored e w') \<and> lw_session w' \<noteq> None"
  using assms
proof (induction es arbitrary: w)
  case (Cons e es)
  from Cons.prems(1) obtain w1 where 1: "mirror_event sha now e w = (Inr (), w1)"
    and 2: "mirror_events sha now es w1 = (Inr (), w')"
    by (auto simp: op_bind_split)
  from 1 Cons.prems(2,3) have e: "mirrored e w1" and s: "lw_session w1 \<noteq> None"
    by (auto dest: mirror_event_recorded)
  from mirror_events_extends [OF 2] e have "mirrored e w'" by (rule mirrored_mono [rotated])
  with Cons.IH [OF 2 s] Cons.prems(3) show ?case by simp
qed simp

lemma write_and_mirror_recorded:
  assumes "write_and_mirror sha now f es r w = (Inr a, w')" and "lw_session w \<noteq> None"
    and "\<forall>e \<in> set es. jdict_wf (le_payload e)"
  shows "(\<forall>e \<in> set es. mirrored e w') \<and> lw_session w' \<noteq> None"
  using assms by (auto simp: write_and_mirror_def op_bind_split dest: mirror_events_recorded)

text \<open>The effect of an operation that returns: the log grows by events that are mirrored.\<close>

definition grows_mirrored :: "lease_world \<Rightarrow> lease_world \<Rightarrow> bool" where
  "grows_mirrored w w' \<longleftrightarrow>
     (\<exists>es. lf_events (lw_file w') = lf_events (lw_file w) @ es \<and> (\<forall>e \<in> set es. mirrored e w')) \<and>
     prefix (session_events w) (session_events w') \<and> lw_session w' \<noteq> None"

lemma grows_mirroredI:
  assumes "write_and_mirror sha now f es r w = (Inr a, w')" and "lw_session w \<noteq> None"
    and "\<forall>e \<in> set es. jdict_wf (le_payload e)"
    and "lf_events f = lf_events (lw_file w) @ es"
  shows "grows_mirrored w w'"
  using write_and_mirror_recorded [OF assms(1-3)] write_and_mirror_file [of sha now f es r w]
    write_and_mirror_extends [of w sha now f es r] assms(1,4)
  by (auto simp: grows_mirrored_def)

lemma grows_mirrored_refl: "lw_session w \<noteq> None \<Longrightarrow> grows_mirrored w w"
  by (auto simp: grows_mirrored_def)

lemma lease_append_payload:
  "lease_append_event f c se ty oc n wk ex rs pa = (e, f') \<Longrightarrow> le_payload e = pa"
  by (auto simp: lease_append_event_def Let_def)

lemma claim_mirrored:
  assumes "claim_command sha now c se wk at ex w = (Inr r, w')" and "lw_session w \<noteq> None"
  shows "grows_mirrored w w'"
  using assms
  by (auto simp: claim_command_def Let_def lease_append_event_simps lease_append_payload
      split: option.splits if_splits prod.splits intro!: grows_mirroredI)

lemma renew_mirrored:
  assumes "renew_lease sha now c wk n at ex w = (Inr r, w')" and "lw_session w \<noteq> None"
  shows "grows_mirrored w w'"
  using assms
  by (auto simp: renew_lease_def Let_def lease_append_event_simps lease_append_payload
      split: sum.splits prod.splits intro!: grows_mirroredI)

lemma result_mirrored:
  assumes "record_terminal_result sha now c wk n ty at pa w = (Inr r, w')"
    and "lw_session w \<noteq> None" and "jdict_wf pa"
  shows "grows_mirrored w w'"
  using assms
  by (auto simp: record_terminal_result_def Let_def lease_append_event_simps lease_append_payload
      simp del: json_wf.simps(2)
      split: sum.splits prod.splits if_splits intro!: grows_mirroredI)

lemma expire_all_events:
  "expire_all now reason t cs f = Inr (es, f') \<Longrightarrow>
     lf_events f' = lf_events f @ es \<and> (\<forall>e \<in> set es. le_payload e = [])"
proof (induction cs arbitrary: f es)
  case (Cons c cs)
  then obtain es1 f1 es2 where 1: "expire_one now reason t c f = Inr (es1, f1)"
    and 2: "expire_all now reason t cs f1 = Inr (es2, f')" and es: "es = es1 @ es2"
    by (auto split: sum.splits prod.splits)
  from 1 have "lf_events f1 = lf_events f @ es1 \<and> (\<forall>e \<in> set es1. le_payload e = [])"
    by (auto simp: expire_one_def Let_def lease_append_event_def
        split: option.splits if_splits sum.splits)
  with Cons.IH [OF 2] es show ?case by auto
qed simp

lemma expire_mirrored:
  assumes "expire_and_requeue_expired sha clock now reason w = (Inr es, w')"
    and "lw_session w \<noteq> None"
  shows "grows_mirrored w w'"
proof -
  from assms(1) obtain t where t: "parse_timestamp now = Inr t"
    by (auto simp: expire_and_requeue_expired_def split: sum.splits)
  with assms(1) obtain es' f where f: "expire_all now reason t
      (sort (dict_keys (lf_commands (lw_file w)))) (lw_file w) = Inr (es', f)"
    by (auto simp: expire_and_requeue_expired_def split: sum.splits)
  show ?thesis
  proof (cases es')
    case Nil
    with t f assms show ?thesis
      by (auto simp: expire_and_requeue_expired_def intro: grows_mirrored_refl)
  next
    case (Cons e es1)
    with t f assms(1) have "write_and_mirror sha clock f es' es' w = (Inr es, w')"
      by (simp add: expire_and_requeue_expired_def)
    then show ?thesis
      using expire_all_events [OF f] assms(2) by (intro grows_mirroredI) auto
  qed
qed

text \<open>Runs with a session service in which every operation returned.\<close>

inductive clean_run :: "lease_world \<Rightarrow> bool" where
  start: "clean_run \<lparr>lw_file = empty_lease_file, lw_session = Some st\<rparr>"
| claim: "clean_run w \<Longrightarrow> claim_command sha now c se wk at ex w = (Inr e, w') \<Longrightarrow> clean_run w'"
| renew: "clean_run w \<Longrightarrow> renew_lease sha now c wk n at ex w = (Inr e, w') \<Longrightarrow> clean_run w'"
| expire: "clean_run w \<Longrightarrow> expire_and_requeue_expired sha clock at reason w = (Inr es, w') \<Longrightarrow>
    clean_run w'"
| result: "clean_run w \<Longrightarrow> record_terminal_result sha now c wk n ty at pa w = (Inr e, w') \<Longrightarrow>
    jdict_wf pa \<Longrightarrow> clean_run w'"

lemma grows_mirrored_all:
  assumes "grows_mirrored w w'" and "\<forall>e \<in> set (lf_events (lw_file w)). mirrored e w"
  shows "(\<forall>e \<in> set (lf_events (lw_file w')). mirrored e w') \<and> lw_session w' \<noteq> None"
  using assms by (auto simp: grows_mirrored_def intro: mirrored_mono)

lemma clean_run_mirrored:
  "clean_run w \<Longrightarrow> (\<forall>e \<in> set (lf_events (lw_file w)). mirrored e w) \<and> lw_session w \<noteq> None"
proof (induction rule: clean_run.induct)
  case (start st)
  show ?case by (simp add: empty_lease_file_def)
next
  case (claim w sha now c se wk at ex e w')
  then show ?case using claim_mirrored grows_mirrored_all by blast
next
  case (renew w sha now c wk n at ex e w')
  then show ?case using renew_mirrored grows_mirrored_all by blast
next
  case (expire w sha clock at reason es w')
  then show ?case using expire_mirrored grows_mirrored_all by blast
next
  case (result w sha now c wk n ty at pa e w')
  then show ?case using result_mirrored grows_mirrored_all by blast
qed

text \<open>A second event of the same claim, type and expiry at another moment is refused.\<close>

lemma mirror_event_moved:
  assumes "mirror_event sha now e w = (Inr (), w')" and "lw_session w \<noteq> None"
    and "jdict_wf (le_payload e)"
    and "le_command_id e' = le_command_id e" "le_session_id e' = le_session_id e"
      "le_event_type e' = le_event_type e" "le_claim_seq e' = le_claim_seq e"
      "le_lease_expires_at e' = le_lease_expires_at e"
    and "or_else (Some (le_occurred_at e')) now' \<noteq> or_else (Some (le_occurred_at e)) now"
    and "lw_session w'' = lw_session w'"
  shows "\<exists>err. mirror_event sha now' e' w'' = (Inl err, w'')"
proof -
  let ?re = "[(''command_id'', le_command_id e), (''claim_seq'', str_of_int (le_claim_seq e))]"
  have corr: "session_correlation_id e' = session_correlation_id e"
    using assms by (simp add: session_correlation_id_def)
  from assms obtain st r st' where rec: "svc_record sha now (le_event_type e)
      (project_id_from_session_id (le_session_id e)) (le_session_id e) (session_correlation_id e)
      (mirror_payload e) (Some (le_command_id e)) ?re (le_occurred_at e) st = (Inr r, st')"
    and w': "w' = w\<lparr>lw_session := Some st'\<rparr>"
    by (auto simp: mirror_event_def split: prod.splits sum.splits)
  have "jdict_wf (mirror_payload e)"
    using assms(3) jdict_wf_set
    by (auto simp: mirror_payload_def Let_def dict_set_opt_def map_option_case
        simp del: json_wf.simps(2) split: option.split)
  then have "\<exists>err. svc_record sha now' (le_event_type e)
      (project_id_from_session_id (le_session_id e')) (le_session_id e) (session_correlation_id e)
      (mirror_payload e') (Some (le_command_id e'))
      [(''command_id'', le_command_id e'), (''claim_seq'', str_of_int (le_claim_seq e'))]
      (le_occurred_at e') st' = (Inl err, st')"
    using rec assms(9) by (intro record_event_moved [OF rec]) simp_all
  then show ?thesis
    using assms(4-8,10) corr w' by (auto simp: mirror_event_def)
qed

section \<open>Properties\<close>

text \<open>
  C2: In every file the operations reach, raised operations included, the table of commands is
  what replaying the log of events gives, and every event of the log was allowed when it was
  added.
\<close>

theorem lease_table_refines_log:
  "lease_reachable w \<Longrightarrow>
     map_of (lf_commands (lw_file w)) = replay (lf_events (lw_file w)) Map.empty \<and>
     valid_log Map.empty (lf_events (lw_file w))"
  by (intro conjI lease_reachable_replay lease_reachable_valid)

text \<open>A run for the witnesses: a claim, a renewal and a result, without a session service.\<close>

definition example_lease_event :: "int \<Rightarrow> string \<Rightarrow> string \<Rightarrow> lease_event" where
  "example_lease_event i ty at =
     \<lparr>le_event_id = ''command-event:'' @ str_of_int i, le_command_id = ''c'', le_session_id = ''s'',
      le_event_type = ty, le_occurred_at = at, le_claim_seq = 1, le_worker_id = Some ''w'',
      le_lease_expires_at = Some ''x'', le_reason = None, le_payload = []\<rparr>"

definition example_lease_after ::
    "string \<Rightarrow> string \<Rightarrow> lease_event list \<Rightarrow> session_store option \<Rightarrow> lease_world" where
  "example_lease_after status at es st =
     \<lparr>lw_file = \<lparr>lf_next_event_seq = int (length es) + 1,
        lf_commands =
          [(''c'', \<lparr>ls_command_id = ''c'', ls_session_id = ''s'', ls_status = status,
                  ls_claim_seq = 1, ls_worker_id = Some ''w'', ls_lease_expires_at = Some ''x'',
                  ls_updated_at = at\<rparr>)],
        lf_events = es\<rparr>,
      lw_session = st\<rparr>"

definition example_lease_world :: lease_world where
  "example_lease_world =
     example_lease_after ''executed'' ''t2''
       [example_lease_event 1 ''command_claimed'' ''t0'',
        example_lease_event 2 ''command_lease_renewed'' ''t1'',
        example_lease_event 3 ''command_executed'' ''t2''] None"

lemma example_claim:
  "snd (claim_command (\<lambda>s. s) [] ''c'' ''s'' ''w'' ''t0'' ''x''
     \<lparr>lw_file = empty_lease_file, lw_session = None\<rparr>) =
   example_lease_after ''claimed'' ''t0'' [example_lease_event 1 ''command_claimed'' ''t0''] None"
  by code_simp

lemma example_renew:
  "snd (renew_lease (\<lambda>s. s) [] ''c'' ''w'' 1 ''t1'' ''x''
     (example_lease_after ''claimed'' ''t0'' [example_lease_event 1 ''command_claimed'' ''t0''] None)) =
   example_lease_after ''claimed'' ''t1''
     [example_lease_event 1 ''command_claimed'' ''t0'',
      example_lease_event 2 ''command_lease_renewed'' ''t1''] None"
  by code_simp

lemma example_result:
  "snd (record_terminal_result (\<lambda>s. s) [] ''c'' ''w'' 1 ''command_executed'' ''t2'' []
     (example_lease_after ''claimed'' ''t1''
       [example_lease_event 1 ''command_claimed'' ''t0'',
        example_lease_event 2 ''command_lease_renewed'' ''t1''] None)) = example_lease_world"
  by code_simp

lemma example_lease_reachable: "lease_reachable example_lease_world"
proof -
  have "lease_reachable (example_lease_after ''claimed'' ''t0''
      [example_lease_event 1 ''command_claimed'' ''t0''] None)"
    using example_claim lease_reachable.start lease_reachable.step lease_step.claim by metis
  then show ?thesis
    by (metis example_renew example_result lease_reachable.step lease_step.renew lease_step.result)
qed

lemma example_lease_file:
  "lf_events (lw_file example_lease_world) =
     [example_lease_event 1 ''command_claimed'' ''t0'',
      example_lease_event 2 ''command_lease_renewed'' ''t1'',
      example_lease_event 3 ''command_executed'' ''t2'']"
  "map_option ls_status (map_of (lf_commands (lw_file example_lease_world)) ''c'') = Some ''executed''"
  "map_option ls_claim_seq (map_of (lf_commands (lw_file example_lease_world)) ''c'') = Some 1"
  by (simp_all add: example_lease_world_def example_lease_after_def)

theorem lease_table_refines_log_witness:
  "map_option ls_status (replay (lf_events (lw_file example_lease_world)) Map.empty ''c'') =
     Some ''executed'' \<and> valid_log Map.empty (lf_events (lw_file example_lease_world))"
proof -
  note r = lease_table_refines_log [OF example_lease_reachable]
  show ?thesis
    using r example_lease_file(2) by (simp only: r [THEN conjunct1, symmetric])
qed

text \<open>
  Note: A result is final. Once the log of a reachable file records that a command was executed or
  failed, no later event of the log concerns that command, so a command has at most one result.
\<close>

theorem lease_result_is_final:
  assumes "lease_reachable w" and "lf_events (lw_file w) = es @ e # fs"
    and "le_event_type e \<in> set result_event_types"
  shows "\<forall>g \<in> set fs. le_command_id g \<noteq> le_command_id e"
  using lease_reachable_valid [OF assms(1)] assms(3)
  unfolding assms(2) by (rule valid_log_result_last)

definition example_other_claim :: lease_event where
  "example_other_claim =
     (example_lease_event 4 ''command_claimed'' ''t3'')\<lparr>le_command_id := ''d''\<rparr>"

definition example_final_world :: lease_world where
  "example_final_world =
     snd (claim_command (\<lambda>s. s) [] ''d'' ''s'' ''w'' ''t3'' ''x'' example_lease_world)"

lemma example_final_events:
  "lf_events (lw_file example_final_world) =
     [example_lease_event 1 ''command_claimed'' ''t0'',
      example_lease_event 2 ''command_lease_renewed'' ''t1''] @
     example_lease_event 3 ''command_executed'' ''t2'' # [example_other_claim]"
  by code_simp

lemma example_final_reachable: "lease_reachable example_final_world"
  unfolding example_final_world_def
  by (rule lease_reachable.step [OF example_lease_reachable lease_step.claim])

theorem lease_result_is_final_witness:
  "filter (\<lambda>g. le_command_id g = ''c'') [example_other_claim] = [] \<and>
   le_command_id (example_lease_event 3 ''command_executed'' ''t2'') = ''c''"
  using lease_result_is_final [OF example_final_reachable example_final_events]
  by (simp add: example_lease_event_def result_event_types_def)

text \<open>
  Note: Claims are fenced. In a reachable file the claims of a command carry the numbers 1, 2, and
  so on up to the number in the table, without gap or repetition.
\<close>

theorem lease_claims_numbered:
  assumes "lease_reachable w"
  shows "claims_of c (lf_events (lw_file w)) =
           [1 .. claim_count (map_of (lf_commands (lw_file w))) c]"
  using claims_numbered [OF lease_reachable_valid [OF assms], of c]
  by (simp add: lease_reachable_replay [OF assms] claim_count_def [of Map.empty])

theorem lease_claims_numbered_witness:
  "claims_of ''c'' (lf_events (lw_file example_lease_world)) = [1 .. 1]"
  using lease_claims_numbered [OF example_lease_reachable, of "''c''"]
  by (simp add: claim_count_def example_lease_world_def example_lease_after_def)

text \<open>
  Note: Renewals, expiries, requeues and results are only logged for the worker that holds the
  claim: an earlier claim of the log has the same command, claim number, worker and session.
\<close>

theorem lease_events_belong_to_claim:
  assumes "lease_reachable w" and "lf_events (lw_file w) = es @ e # fs"
    and "le_event_type e \<noteq> ''command_claimed''"
  shows "\<exists>k \<in> set es. le_event_type k = ''command_claimed'' \<and> le_command_id k = le_command_id e \<and>
           le_claim_seq k = le_claim_seq e \<and> le_worker_id k = le_worker_id e \<and>
           le_session_id k = le_session_id e"
  using lease_reachable_valid [OF assms(1)] assms(3)
  unfolding assms(2) by (rule valid_log_owner)

theorem lease_events_belong_to_claim_witness:
  "\<exists>k \<in> set [example_lease_event 1 ''command_claimed'' ''t0''].
     le_event_type k = ''command_claimed'' \<and>
     le_command_id k = le_command_id (example_lease_event 2 ''command_lease_renewed'' ''t1'') \<and>
     le_claim_seq k = le_claim_seq (example_lease_event 2 ''command_lease_renewed'' ''t1'') \<and>
     le_worker_id k = le_worker_id (example_lease_event 2 ''command_lease_renewed'' ''t1'') \<and>
     le_session_id k = le_session_id (example_lease_event 2 ''command_lease_renewed'' ''t1'')"
  by (rule lease_events_belong_to_claim [OF example_lease_reachable,
        where fs = "[example_lease_event 3 ''command_executed'' ''t2'']"])
    (simp_all add: example_lease_file example_lease_event_def)

definition held_by :: "lease_world \<Rightarrow> string \<Rightarrow> string \<Rightarrow> int \<Rightarrow> bool" where
  "held_by w c wk n \<longleftrightarrow>
     (case map_of (lf_commands (lw_file w)) c of
        None \<Rightarrow> False
      | Some st \<Rightarrow> ls_status st = ''claimed'' \<and> ls_worker_id st = Some wk \<and> ls_claim_seq st = n)"

text \<open>
  C19: A worker that does not hold the claim can neither renew it nor record a result: both raise
  and leave the file and the session store as they were. A claimed command cannot be claimed by
  anyone, again without effect.
\<close>

theorem lease_only_holder_acts:
  shows "\<not> held_by w c wk n \<Longrightarrow>
      (\<exists>e. renew_lease sha now c wk n at ex w = (Inl e, w)) \<and>
      (\<exists>e. record_terminal_result sha now c wk n ty at pa w = (Inl e, w)) \<and>
      (held_by w c wk' n' \<longrightarrow> (\<exists>e. claim_command sha now c se wk2 at ex w = (Inl e, w)))"
  by (auto simp: held_by_def renew_lease_def record_terminal_result_def claim_command_def
      require_current_claim_def split: option.splits)

abbreviation example_claimed_world :: lease_world where
  "example_claimed_world \<equiv>
     example_lease_after ''claimed'' ''t0'' [example_lease_event 1 ''command_claimed'' ''t0''] None"

theorem lease_only_holder_acts_witness:
  "\<not> held_by example_claimed_world ''c'' ''v'' 1 \<and> held_by example_claimed_world ''c'' ''w'' 1 \<and>
   (\<exists>e. renew_lease (\<lambda>s. s) [] ''c'' ''v'' 1 ''t1'' ''x'' example_claimed_world =
      (Inl e, example_claimed_world)) \<and>
   (\<exists>e. claim_command (\<lambda>s. s) [] ''c'' ''s'' ''v'' ''t1'' ''x'' example_claimed_world =
      (Inl e, example_claimed_world))"
proof -
  have 1: "\<not> held_by example_claimed_world ''c'' ''v'' 1"
    and 2: "held_by example_claimed_world ''c'' ''w'' 1"
    by (simp_all add: held_by_def example_lease_after_def)
  from lease_only_holder_acts [OF 1] 1 2 show ?thesis by blast
qed

text \<open>
  C18: Expiry is exact. When the moment and the expiries of the claimed commands are readable,
  \<open>expire_and_requeue_expired\<close> requeues precisely the claimed commands whose lease has run out and
  leaves every other command as it was, whatever happens while the events are mirrored.
\<close>

theorem lease_expiry_exact:
  assumes "parse_timestamp now = Inr t" and "readable_expiries (lw_file w)"
  shows "map_of (lf_commands (lw_file (snd (expire_and_requeue_expired sha clock now reason w)))) c =
           expired_state t now (map_of (lf_commands (lw_file w)) c)"
proof -
  let ?cs = "sort (dict_keys (lf_commands (lw_file w)))"
  obtain es f where f: "expire_all now reason t ?cs (lw_file w) = Inr (es, f)"
    using expire_all_total [of "lw_file w"] readable_lookup [OF assms(2)] by blast
  from expire_all_map [OF f, of c]
  have "map_of (lf_commands f) c = expired_state t now (map_of (lf_commands (lw_file w)) c)"
    by (auto simp: expired_state_def map_of_eq_None_iff [THEN iffD2] split: if_splits)
  with expire_file [OF assms(1) f] show ?thesis by simp
qed

text \<open>A claimed command with the given expiry.\<close>

definition example_expiring :: "string \<Rightarrow> lease_world" where
  "example_expiring x =
     \<lparr>lw_file = \<lparr>lf_next_event_seq = 1,
        lf_commands =
          [(''c'', \<lparr>ls_command_id = ''c'', ls_session_id = ''s'', ls_status = ''claimed'',
                  ls_claim_seq = 1, ls_worker_id = Some ''w'', ls_lease_expires_at = Some x,
                  ls_updated_at = ''t0''\<rparr>)],
        lf_events = []\<rparr>,
      lw_session = None\<rparr>"

theorem lease_expiry_exact_witness:
  "map_option ls_status (map_of (lf_commands (lw_file (snd (expire_and_requeue_expired (\<lambda>s. s) []
       ''2026-01-01T00:00:01Z'' ''lease'' (example_expiring ''2026-01-01T08:00:00+08:00''))))) ''c'') =
     Some ''requeued''"
proof -
  have 1: "parse_timestamp ''2026-01-01T00:00:01Z'' = Inr 63902908801000000" by code_simp
  have 2: "parse_timestamp ''2026-01-01T08:00:00+08:00'' = Inr 63902908800000000" by code_simp
  then have 3: "readable_expiries (lw_file (example_expiring ''2026-01-01T08:00:00+08:00''))"
    by (simp add: readable_expiries_def example_expiring_def)
  show ?thesis
    by (subst lease_expiry_exact [OF 1 3]) (simp add: example_expiring_def expired_state_def 2)
qed

text \<open>
  Note: One claimed command whose expiry cannot be parsed blocks expiry altogether: the call raises
  and no command of the file is requeued. (\<open>claim_command\<close> and \<open>renew_lease\<close> store any text.)
\<close>

theorem lease_unreadable_expiry_blocks:
  assumes "map_of (lf_commands (lw_file w)) c = Some st" and "ls_status st = ''claimed''"
    and "ls_lease_expires_at st = Some x" and "parse_timestamp x = Inl err"
  shows "\<exists>e. expire_and_requeue_expired sha clock now reason w = (Inl e, w)"
proof (cases "parse_timestamp now")
  case (Inl e)
  then show ?thesis by (simp add: expire_and_requeue_expired_def)
next
  case (Inr t)
  from assms(1) have "c \<in> set (sort (dict_keys (lf_commands (lw_file w))))"
    by (force dest: map_of_SomeD)
  from expire_all_unreadable [OF this assms, of now reason t] obtain e where
    "expire_all now reason t (sort (dict_keys (lf_commands (lw_file w)))) (lw_file w) = Inl e" by blast
  with Inr show ?thesis by (simp add: expire_and_requeue_expired_def)
qed

theorem lease_unreadable_expiry_blocks_witness:
  "\<exists>e. expire_and_requeue_expired (\<lambda>s. s) [] ''2026-01-01T00:00:01Z'' ''lease''
     (example_expiring ''tomorrow'') = (Inl e, example_expiring ''tomorrow'')"
proof -
  have bad: "parse_timestamp ''tomorrow'' = Inl (ValueError ''Invalid isoformat string'')" by code_simp
  show ?thesis
    by (rule lease_unreadable_expiry_blocks [OF _ _ _ bad, where c = "''c''"])
      (auto simp: example_expiring_def)
qed

text \<open>
  Note: In a run with a session service in which every call returned, every event of the lease log
  is recorded in the session log, under its type, session, command and claim number.
\<close>

theorem lease_events_mirrored:
  "clean_run w \<Longrightarrow> \<forall>e \<in> set (lf_events (lw_file w)). mirrored e w"
  by (simp add: clean_run_mirrored)

theorem lease_events_mirrored_witness:
  "\<exists>e w. claim_command (\<lambda>s. s) [] ''c'' ''s'' ''w'' ''t0'' ''x''
       \<lparr>lw_file = empty_lease_file, lw_session = Some empty_session_store\<rparr> = (Inr e, w) \<and>
     e \<in> set (lf_events (lw_file w)) \<and> mirrored e w"
proof -
  have "returned (claim_command (\<lambda>s. s) [] ''c'' ''s'' ''w'' ''t0'' ''x''
       \<lparr>lw_file = empty_lease_file, lw_session = Some empty_session_store\<rparr>)" by code_simp
  then obtain e w where c: "claim_command (\<lambda>s. s) [] ''c'' ''s'' ''w'' ''t0'' ''x''
       \<lparr>lw_file = empty_lease_file, lw_session = Some empty_session_store\<rparr> = (Inr e, w)"
    by (rule returnedE)
  moreover have "e \<in> set (lf_events (lw_file w))"
    using c by (auto simp: claim_command_def empty_lease_file_def Let_def lease_append_event_def
        dest!: write_and_mirror_InrD)
  ultimately show ?thesis using lease_events_mirrored [OF clean_run.claim [OF clean_run.start c]] by blast
qed

text \<open>
  Note: Renewing a lease a second time to the same expiry, at another moment, raises, but only after
  the lease file has been written: the renewal stands in the file and is missing in the session
  log.
\<close>

theorem lease_renewal_raises_after_write:
  assumes "renew_lease sha now c wk n t1 ex w = (Inr e, w1)" and "lw_session w \<noteq> None"
    and "t1 \<noteq> []" and "t2 \<noteq> []" and "t1 \<noteq> t2"
  shows "\<exists>err w2. renew_lease sha now' c wk n t2 ex w1 = (Inl err, w2) \<and>
           session_events w2 = session_events w1 \<and>
           length (lf_events (lw_file w2)) = Suc (length (lf_events (lw_file w1))) \<and>
           map_option ls_updated_at (map_of (lf_commands (lw_file w2)) c) = Some t2"
proof -
  from assms(1) obtain st where st: "require_current_claim (map_of (lf_commands (lw_file w)) c) c wk n = Inr st"
    by (cases "require_current_claim (map_of (lf_commands (lw_file w)) c) c wk n")
      (auto simp: renew_lease_def)
  obtain e1 f1 where e1: "lease_append_event (lw_file w) c (ls_session_id st)
      ''command_lease_renewed'' t1 n (Some wk) (Some ex) None [] = (e1, f1)" by fastforce
  let ?f1 = "f1\<lparr>lf_commands := dict_set c
      (st\<lparr>ls_lease_expires_at := Some ex, ls_updated_at := t1\<rparr>) (lf_commands f1)\<rparr>"
  from assms(1) st e1 have m: "mirror_event sha now e1 (w\<lparr>lw_file := ?f1\<rparr>) = (Inr (), w1)"
    by (auto simp: renew_lease_def write_and_mirror_def op_bind_split)
  then have written: "lw_file w1 = ?f1"
    using mirror_event_file [of sha now e1 "w\<lparr>lw_file := ?f1\<rparr>"] by simp
  let ?st1 = "st\<lparr>ls_lease_expires_at := Some ex, ls_updated_at := t1\<rparr>"
  have st1: "require_current_claim (map_of (lf_commands (lw_file w1)) c) c wk n = Inr ?st1"
    using st written by (auto simp: require_current_claim_Inr)
  obtain e2 f2 where e2: "lease_append_event (lw_file w1) c (ls_session_id ?st1)
      ''command_lease_renewed'' t2 n (Some wk) (Some ex) None [] = (e2, f2)" by fastforce
  note s1 = lease_append_event_simps [OF e1] and s2 = lease_append_event_simps [OF e2]
  define w2 where "w2 = w1\<lparr>lw_file := f2\<lparr>lf_commands := dict_set c
      (?st1\<lparr>ls_lease_expires_at := Some ex, ls_updated_at := t2\<rparr>) (lf_commands f2)\<rparr>\<rparr>"
  have same: "le_command_id e2 = le_command_id e1" "le_session_id e2 = le_session_id e1"
    "le_event_type e2 = le_event_type e1" "le_claim_seq e2 = le_claim_seq e1"
    "le_lease_expires_at e2 = le_lease_expires_at e1" by (simp_all add: s1 s2)
  have moved: "or_else (Some (le_occurred_at e2)) now' \<noteq> or_else (Some (le_occurred_at e1)) now"
    using assms(3-5) by (simp add: s1 s2 or_else_def)
  have payload: "jdict_wf (le_payload e1)" by (simp add: lease_append_payload [OF e1])
  have held: "lw_session (w\<lparr>lw_file := ?f1\<rparr>) \<noteq> None" using assms(2) by simp
  have kept: "lw_session w2 = lw_session w1" by (simp add: w2_def)
  obtain err where "mirror_event sha now' e2 w2 = (Inl err, w2)"
    using mirror_event_moved [OF m held payload same moved kept] by blast
  then have "renew_lease sha now' c wk n t2 ex w1 = (Inl err, w2)"
    using st1 e2 by (simp add: renew_lease_def write_and_mirror_def op_bind_def w2_def)
  moreover have "session_events w2 = session_events w1" by (simp add: session_events_def w2_def)
  moreover have "length (lf_events (lw_file w2)) = Suc (length (lf_events (lw_file w1)))"
    by (simp add: w2_def s2)
  moreover have "map_option ls_updated_at (map_of (lf_commands (lw_file w2)) c) = Some t2"
    by (simp add: w2_def)
  ultimately show ?thesis by blast
qed

theorem lease_renewal_raises_after_write_witness:
  "\<exists>w1 err w2.
     renew_lease (\<lambda>s. s) [] ''c'' ''w'' 1 ''t2'' ''x'' w1 = (Inl err, w2) \<and>
     session_events w2 = session_events w1 \<and>
     map_option ls_updated_at (map_of (lf_commands (lw_file w2)) ''c'') = Some ''t2''"
proof -
  let ?w = "example_lease_after ''claimed'' ''t0'' [example_lease_event 1 ''command_claimed'' ''t0'']
    (Some empty_session_store)"
  have "returned (renew_lease (\<lambda>s. s) [] ''c'' ''w'' 1 ''t1'' ''x'' ?w)" by code_simp
  then obtain e w1 where r: "renew_lease (\<lambda>s. s) [] ''c'' ''w'' 1 ''t1'' ''x'' ?w = (Inr e, w1)"
    by (rule returnedE)
  have "lw_session ?w \<noteq> None" by (simp add: example_lease_after_def)
  from lease_renewal_raises_after_write [OF r this, of "''t2''" "[]"] show ?thesis by fastforce
qed

end
