(* ===== verification/FutureWorker.thy ===== *)
theory FutureWorker
  imports SessionService
begin

text \<open>
  \<open>FutureWorkerExecutionService\<close> of \<^verbatim>\<open>src/watchdog/services/future_worker/service.py\<close> and its
  two models of \<^verbatim>\<open>models.py\<close>. The service keeps no state of its own: the state of a worker is
  read off the events of its parent session, and every operation asks the transition table before
  it records the next event. The theory shows that the events of a worker always spell a path of
  that table, whatever else the session log receives.
\<close>

section \<open>The transition table\<close>

definition worker_state_by_event_type :: "(string, string) dict" where
  "worker_state_by_event_type =
    [(''future_worker_requested'', ''requested''), (''future_worker_started'', ''running''),
     (''future_worker_heartbeat'', ''running''), (''future_worker_summary_published'', ''running''),
     (''future_worker_completed'', ''completed''), (''future_worker_failed'', ''failed''),
     (''future_worker_cancelled'', ''cancelled''), (''future_worker_result_consumed'', ''consumed''),
     (''future_worker_result_rejected'', ''rejected'')]"

definition terminal_worker_states :: "string list" where
  "terminal_worker_states = [''failed'', ''cancelled'', ''consumed'', ''rejected'']"

definition repeatable_lifecycle_event_types :: "string list" where
  "repeatable_lifecycle_event_types =
    [''future_worker_heartbeat'', ''future_worker_summary_published'']"

definition allowed_next_worker_events :: "(string option, string list) dict" where
  "allowed_next_worker_events =
    [(None, [''future_worker_requested'']),
     (Some ''requested'',
        [''future_worker_started'', ''future_worker_heartbeat'', ''future_worker_failed'',
         ''future_worker_cancelled'']),
     (Some ''running'',
        [''future_worker_heartbeat'', ''future_worker_summary_published'',
         ''future_worker_completed'', ''future_worker_failed'', ''future_worker_cancelled'']),
     (Some ''completed'', [''future_worker_result_consumed'', ''future_worker_result_rejected'']),
     (Some ''failed'', []), (Some ''cancelled'', []), (Some ''consumed'', []),
     (Some ''rejected'', [])]"

abbreviation worker_state_of :: "string \<Rightarrow> string option" where
  "worker_state_of ty \<equiv> map_of worker_state_by_event_type ty"

definition allowed_events :: "string option \<Rightarrow> string list" where
  "allowed_events st = (case map_of allowed_next_worker_events st of None \<Rightarrow> [] | Some es \<Rightarrow> es)"

section \<open>Models\<close>

record worker_request =
  wr_project_id :: string
  wr_parent_session_id :: string
  wr_parent_native_thread_id :: "string option"
  wr_worker_task_ref :: string
  wr_decision_trace_ref :: string
  wr_goal_contract_version :: string
  wr_scope :: string
  wr_allowed_hands :: "string list"
  wr_input_packet_refs :: "string list"
  wr_retrieval_handles :: "string list"
  wr_distilled_summary_ref :: string
  wr_execution_budget_ref :: string
  wr_worker_contract_version :: string

definition validate_worker_request :: "worker_request \<Rightarrow> py_error + worker_request" where
  "validate_worker_request r =
     (if [] \<in> set [wr_project_id r, wr_parent_session_id r, wr_worker_task_ref r,
          wr_decision_trace_ref r, wr_goal_contract_version r, wr_scope r,
          wr_distilled_summary_ref r, wr_execution_budget_ref r, wr_worker_contract_version r]
      then Inl (ValueError ''future worker request field'') else Inr r)"

definition dump_worker_request :: "worker_request \<Rightarrow> jdict" where
  "dump_worker_request r =
     [(''project_id'', JStr (wr_project_id r)),
      (''parent_session_id'', JStr (wr_parent_session_id r)),
      (''parent_native_thread_id'', jopt (wr_parent_native_thread_id r)),
      (''worker_task_ref'', JStr (wr_worker_task_ref r)),
      (''decision_trace_ref'', JStr (wr_decision_trace_ref r)),
      (''goal_contract_version'', JStr (wr_goal_contract_version r)),
      (''scope'', JStr (wr_scope r)), (''allowed_hands'', jtexts (wr_allowed_hands r)),
      (''input_packet_refs'', jtexts (wr_input_packet_refs r)),
      (''retrieval_handles'', jtexts (wr_retrieval_handles r)),
      (''distilled_summary_ref'', JStr (wr_distilled_summary_ref r)),
      (''execution_budget_ref'', JStr (wr_execution_budget_ref r)),
      (''worker_contract_version'', JStr (wr_worker_contract_version r))]"

record worker_result =
  we_worker_task_ref :: string
  we_parent_session_id :: string
  we_decision_trace_ref :: string
  we_result_summary_ref :: string
  we_artifact_refs :: "string list"
  we_input_contract_hash :: string
  we_result_hash :: string
  we_produced_at :: string
  we_status :: string
  we_worker_runtime_contract :: jdict

definition validate_worker_result :: "worker_result \<Rightarrow> py_error + worker_result" where
  "validate_worker_result r =
     (if [] \<in> set [we_worker_task_ref r, we_parent_session_id r, we_decision_trace_ref r,
          we_result_summary_ref r, we_input_contract_hash r, we_result_hash r, we_produced_at r,
          we_status r]
      then Inl (ValueError ''future worker result field'') else Inr r)"

definition dump_worker_result :: "worker_result \<Rightarrow> jdict" where
  "dump_worker_result r =
     [(''worker_task_ref'', JStr (we_worker_task_ref r)),
      (''parent_session_id'', JStr (we_parent_session_id r)),
      (''decision_trace_ref'', JStr (we_decision_trace_ref r)),
      (''result_summary_ref'', JStr (we_result_summary_ref r)),
      (''artifact_refs'', jtexts (we_artifact_refs r)),
      (''input_contract_hash'', JStr (we_input_contract_hash r)),
      (''result_hash'', JStr (we_result_hash r)), (''produced_at'', JStr (we_produced_at r)),
      (''status'', JStr (we_status r)),
      (''worker_runtime_contract'', JObj (we_worker_runtime_contract r))]"

section \<open>Reading the session log\<close>

definition worker_events :: "string \<Rightarrow> string \<Rightarrow> session_store \<Rightarrow> session_event list" where
  "worker_events parent_session_id worker_task_ref s =
     filter (\<lambda>e. map_of (ev_related_ids e) ''worker_task_ref'' = Some worker_task_ref)
       (list_events (Some parent_session_id) None None None s)"

fun latest_worker_state :: "session_event list \<Rightarrow> string option" where
  "latest_worker_state [] = None"
| "latest_worker_state (e # es) =
     (case worker_state_of (ev_event_type e) of
        None \<Rightarrow> latest_worker_state es
      | Some st \<Rightarrow> Some st)"

definition current_worker_state :: "string \<Rightarrow> string \<Rightarrow> session_store \<Rightarrow> string option" where
  "current_worker_state se ref s = latest_worker_state (rev (worker_events se ref s))"

definition latest_of_type :: "string \<Rightarrow> session_event list \<Rightarrow> session_event option" where
  "latest_of_type ty es = find (\<lambda>e. ev_event_type e = ty) (rev es)"

definition require_request_event ::
    "string \<Rightarrow> string \<Rightarrow> session_store \<Rightarrow> py_error + session_event" where
  "require_request_event se ref s =
     (case latest_of_type ''future_worker_requested'' (worker_events se ref s) of
        None \<Rightarrow> Inl (ValueError (''unknown future worker request: '' @ ref))
      | Some e \<Rightarrow> Inr e)"

definition require_started_event ::
    "string \<Rightarrow> string \<Rightarrow> session_store \<Rightarrow> py_error + session_event" where
  "require_started_event se ref s =
     (case latest_of_type ''future_worker_started'' (worker_events se ref s) of
        None \<Rightarrow> Inl (ValueError (''missing future worker start event: '' @ ref))
      | Some e \<Rightarrow> Inr e)"

definition require_completed_event ::
    "string \<Rightarrow> string \<Rightarrow> session_store \<Rightarrow> py_error + session_event" where
  "require_completed_event se ref s =
     (case latest_of_type ''future_worker_completed'' (worker_events se ref s) of
        None \<Rightarrow> Inl (ValueError (''missing future worker completed event: '' @ ref))
      | Some e \<Rightarrow> Inr e)"

text \<open>\<open>related_ids.get("decision_trace_ref")\<close>, refused when missing or empty.\<close>

definition trace_of_request :: "string \<Rightarrow> session_event \<Rightarrow> py_error + string" where
  "trace_of_request ref e =
     (let t = or_empty (map_of (ev_related_ids e) ''decision_trace_ref'') in
      if t = [] then Inl (ValueError (''missing decision trace for future worker '' @ ref)) else Inr t)"

definition decision_trace_ref_for_worker ::
    "string \<Rightarrow> string \<Rightarrow> session_store \<Rightarrow> py_error + string" where
  "decision_trace_ref_for_worker se ref s =
     (case require_request_event se ref s of Inl err \<Rightarrow> Inl err | Inr e \<Rightarrow> trace_of_request ref e)"

definition parent_native_thread_id_for_worker ::
    "string \<Rightarrow> string \<Rightarrow> session_store \<Rightarrow> py_error + string option" where
  "parent_native_thread_id_for_worker se ref s =
     (case require_request_event se ref s of
        Inl err \<Rightarrow> Inl err
      | Inr e \<Rightarrow>
          (let related = or_empty (map_of (ev_related_ids e) ''parent_native_thread_id'');
               value = (if related \<noteq> [] then JStr related
                        else jget (ev_payload e) ''parent_native_thread_id'')
           in Inr (normalize_optional_text value)))"

section \<open>Recording\<close>

definition worker_correlation_id :: "string \<Rightarrow> string" where
  "worker_correlation_id ref = ''corr:future-worker:'' @ ref"

definition lifecycle_correlation_id :: "string \<Rightarrow> string \<Rightarrow> string \<Rightarrow> string" where
  "lifecycle_correlation_id ref ty at =
     (if ty \<in> set repeatable_lifecycle_event_types
      then worker_correlation_id ref @ '':'' @ ty @ '':'' @ at
      else worker_correlation_id ref)"

text \<open>The optional thread id that both records carry.\<close>

definition thread_entry :: "string option \<Rightarrow> (string, string) dict" where
  "thread_entry v =
     (if or_empty v = [] then [] else [(''parent_native_thread_id'', or_empty v)])"

definition record_transition_rejected ::
    "(string \<Rightarrow> string) \<Rightarrow> string \<Rightarrow> string \<Rightarrow> string \<Rightarrow> string \<Rightarrow> string \<Rightarrow> string \<Rightarrow> string \<Rightarrow> string \<Rightarrow>
     (session_event, session_store) op" where
  "record_transition_rejected sha now pr se ref at attempted current reason s =
     (case decision_trace_ref_for_worker se ref s of
        Inl err \<Rightarrow> (Inl err, s)
      | Inr trace \<Rightarrow>
          (case parent_native_thread_id_for_worker se ref s of
             Inl err \<Rightarrow> (Inl err, s)
           | Inr thread \<Rightarrow>
               record_event sha now ''future_worker_transition_rejected'' pr se
                 (worker_correlation_id ref @ '':'' @ attempted @ '':'' @ at)
                 [(''attempted_event_type'', JStr attempted), (''current_state'', JStr current),
                  (''reason'', JStr reason), (''worker_task_ref'', JStr ref),
                  (''decision_trace_ref'', JStr trace)]
                 None
                 ([(''worker_task_ref'', ref), (''attempted_event_type'', attempted),
                   (''decision_trace_ref'', trace)] @ thread_entry thread)
                 (Some at) s))"

definition assert_transition_allowed ::
    "(string \<Rightarrow> string) \<Rightarrow> string \<Rightarrow> string \<Rightarrow> string \<Rightarrow> string \<Rightarrow> string \<Rightarrow> string \<Rightarrow>
     (unit, session_store) op" where
  "assert_transition_allowed sha now pr se ref at next s =
     (let st = current_worker_state se ref s;
          current = or_empty st;
          source = or_else st ''none'';
          target = (case worker_state_of next of None \<Rightarrow> ''unknown'' | Some n \<Rightarrow> n)
      in if current \<in> set terminal_worker_states then
           op_bind (record_transition_rejected sha now pr se ref at next current
                      (''terminal_state:'' @ current))
             (\<lambda>_. op_raise (ValueError (''terminal future worker state: '' @ current))) s
         else if next \<notin> set (allowed_events st) then
           op_bind (record_transition_rejected sha now pr se ref at next source
                      (''invalid_transition:'' @ source @ ''->'' @ target))
             (\<lambda>_. op_raise (ValueError
                (''invalid future worker transition: '' @ source @ '' -> '' @ target))) s
         else (Inr (), s))"

text \<open>
  The related ids and the payload of a lifecycle event: every event but the request inherits the
  decision trace and the thread of the request.
\<close>

definition lifecycle_fields ::
    "string \<Rightarrow> string \<Rightarrow> string \<Rightarrow> (string, string) dict \<Rightarrow> jdict \<Rightarrow> session_store \<Rightarrow>
     py_error + ((string, string) dict \<times> jdict)" where
  "lifecycle_fields ty se ref related payload s =
     (let rel = dict_update [(''worker_task_ref'', ref)] related in
      if ty = ''future_worker_requested'' then Inr (rel, payload)
      else
        (case (if ''decision_trace_ref'' \<in> set (dict_keys rel) then Inr (rel, payload)
               else case decision_trace_ref_for_worker se ref s of
                 Inl err \<Rightarrow> Inl err
               | Inr trace \<Rightarrow>
                   Inr (dict_set ''decision_trace_ref'' trace rel,
                        dict_setdefault ''decision_trace_ref'' (JStr trace) payload)) of
           Inl err \<Rightarrow> Inl err
         | Inr (rel, payload) \<Rightarrow>
             (case parent_native_thread_id_for_worker se ref s of
                Inl err \<Rightarrow> Inl err
              | Inr None \<Rightarrow> Inr (rel, payload)
              | Inr (Some t) \<Rightarrow>
                  Inr (dict_setdefault ''parent_native_thread_id'' t rel,
                       dict_setdefault ''parent_native_thread_id'' (JStr t) payload))))"

definition record_lifecycle_event ::
    "(string \<Rightarrow> string) \<Rightarrow> string \<Rightarrow> string \<Rightarrow> string \<Rightarrow> string \<Rightarrow> string \<Rightarrow> string \<Rightarrow>
     (string, string) dict \<Rightarrow> jdict \<Rightarrow> (session_event, session_store) op" where
  "record_lifecycle_event sha now ty pr se ref at related payload s =
     (case lifecycle_fields ty se ref related payload s of
        Inl err \<Rightarrow> (Inl err, s)
      | Inr (rel, pay) \<Rightarrow>
          record_event sha now ty pr se (lifecycle_correlation_id ref ty at) pay None rel (Some at) s)"

section \<open>Operations\<close>

definition request_worker ::
    "(string \<Rightarrow> string) \<Rightarrow> string \<Rightarrow> worker_request \<Rightarrow> string \<Rightarrow> (worker_request, session_store) op"
where
  "request_worker sha now r at =
     op_bind
       (assert_transition_allowed sha now (wr_project_id r) (wr_parent_session_id r)
          (wr_worker_task_ref r) at ''future_worker_requested'')
       (\<lambda>_. op_bind
          (op_lift (validate_worker_request
             (r\<lparr>wr_worker_contract_version := ''future-worker-contract:v1''\<rparr>)))
          (\<lambda>q. op_bind
             (record_lifecycle_event sha now ''future_worker_requested'' (wr_project_id r)
                (wr_parent_session_id r) (wr_worker_task_ref r) at
                ((''decision_trace_ref'', wr_decision_trace_ref r) #
                 thread_entry (wr_parent_native_thread_id r))
                (dump_worker_request q))
             (\<lambda>_. op_return q)))"

text \<open>What six of the other operations do: find the request, ask the table, record the event.\<close>

definition require_request :: "string \<Rightarrow> string \<Rightarrow> (session_event, session_store) op" where
  "require_request se ref s = (require_request_event se ref s, s)"

definition require_completed :: "string \<Rightarrow> string \<Rightarrow> (session_event, session_store) op" where
  "require_completed se ref s = (require_completed_event se ref s, s)"

definition advance_worker ::
    "(string \<Rightarrow> string) \<Rightarrow> string \<Rightarrow> string \<Rightarrow> string \<Rightarrow> string \<Rightarrow> string \<Rightarrow> string \<Rightarrow>
     (string, string) dict \<Rightarrow> jdict \<Rightarrow> (unit, session_store) op" where
  "advance_worker sha now ty pr se ref at related payload =
     op_bind (assert_transition_allowed sha now pr se ref at ty)
       (\<lambda>_. op_bind (record_lifecycle_event sha now ty pr se ref at related payload)
          (\<lambda>_. op_return ()))"

definition record_started ::
    "(string \<Rightarrow> string) \<Rightarrow> string \<Rightarrow> string \<Rightarrow> string \<Rightarrow> string \<Rightarrow> string \<Rightarrow> jdict \<Rightarrow>
     (unit, session_store) op" where
  "record_started sha now ref pr se at contract =
     op_bind (require_request se ref)
       (\<lambda>_. advance_worker sha now ''future_worker_started'' pr se ref at []
          [(''worker_runtime_contract'', JObj contract)])"

definition record_summary_published ::
    "(string \<Rightarrow> string) \<Rightarrow> string \<Rightarrow> string \<Rightarrow> string \<Rightarrow> string \<Rightarrow> string \<Rightarrow> string \<Rightarrow>
     (unit, session_store) op" where
  "record_summary_published sha now ref pr se summary at =
     op_bind (require_request se ref)
       (\<lambda>_. advance_worker sha now ''future_worker_summary_published'' pr se ref at
          [(''summary_ref'', summary)] [(''summary_ref'', JStr summary)])"

definition record_heartbeat ::
    "(string \<Rightarrow> string) \<Rightarrow> string \<Rightarrow> string \<Rightarrow> string \<Rightarrow> string \<Rightarrow> string \<Rightarrow> jdict \<Rightarrow>
     (unit, session_store) op" where
  "record_heartbeat sha now ref pr se at heartbeat =
     op_bind (require_request se ref)
       (\<lambda>_. advance_worker sha now ''future_worker_heartbeat'' pr se ref at []
          [(''heartbeat'', JObj heartbeat)])"

text \<open>The envelope \<open>record_completed\<close> builds from the request and the start event.\<close>

definition completed_envelope ::
    "string \<Rightarrow> string \<Rightarrow> string \<Rightarrow> string list \<Rightarrow> string \<Rightarrow> string \<Rightarrow> string \<Rightarrow> session_event \<Rightarrow>
     session_event \<Rightarrow> py_error + worker_result" where
  "completed_envelope ref se summary artifacts input_hash result_hash at request started =
     (case trace_of_request ref request of
        Inl err \<Rightarrow> Inl err
      | Inr trace \<Rightarrow>
          (case jget (ev_payload started) ''worker_runtime_contract'' of
             JObj (p # d) \<Rightarrow>
               validate_worker_result
                 \<lparr>we_worker_task_ref = ref, we_parent_session_id = se,
                  we_decision_trace_ref = trace, we_result_summary_ref = summary,
                  we_artifact_refs = artifacts, we_input_contract_hash = input_hash,
                  we_result_hash = result_hash, we_produced_at = at, we_status = ''completed'',
                  we_worker_runtime_contract = p # d\<rparr>
           | _ \<Rightarrow> Inl (ValueError (''missing worker runtime contract for future worker '' @ ref))))"

definition record_completed ::
    "(string \<Rightarrow> string) \<Rightarrow> string \<Rightarrow> string \<Rightarrow> string \<Rightarrow> string \<Rightarrow> string \<Rightarrow> string list \<Rightarrow> string \<Rightarrow>
     string \<Rightarrow> string \<Rightarrow> (worker_result, session_store) op" where
  "record_completed sha now ref pr se summary artifacts input_hash result_hash at =
     op_bind (require_request se ref)
       (\<lambda>request. op_bind (assert_transition_allowed sha now pr se ref at ''future_worker_completed'')
          (\<lambda>_. op_bind (\<lambda>s. (require_started_event se ref s, s))
             (\<lambda>started. op_bind
                (op_lift (completed_envelope ref se summary artifacts input_hash result_hash at
                            request started))
                (\<lambda>envelope. op_bind
                   (record_lifecycle_event sha now ''future_worker_completed'' pr se ref at
                      [(''summary_ref'', summary)] (dump_worker_result envelope))
                   (\<lambda>_. op_return envelope)))))"

definition consume_result ::
    "(string \<Rightarrow> string) \<Rightarrow> string \<Rightarrow> string \<Rightarrow> string \<Rightarrow> string \<Rightarrow> string \<Rightarrow> string \<Rightarrow>
     (unit, session_store) op" where
  "consume_result sha now ref pr se decision at =
     op_bind (require_request se ref)
       (\<lambda>_. op_bind (require_completed se ref)
          (\<lambda>_. advance_worker sha now ''future_worker_result_consumed'' pr se ref at
             [(''decision_id'', decision)] [(''consumed_by_decision_id'', JStr decision)]))"

definition record_failed ::
    "(string \<Rightarrow> string) \<Rightarrow> string \<Rightarrow> string \<Rightarrow> string \<Rightarrow> string \<Rightarrow> string \<Rightarrow> string \<Rightarrow>
     (unit, session_store) op" where
  "record_failed sha now ref pr se at reason =
     op_bind (require_request se ref)
       (\<lambda>_. advance_worker sha now ''future_worker_failed'' pr se ref at []
          [(''reason'', JStr reason)])"

definition record_cancelled ::
    "(string \<Rightarrow> string) \<Rightarrow> string \<Rightarrow> string \<Rightarrow> string \<Rightarrow> string \<Rightarrow> string \<Rightarrow> string \<Rightarrow>
     (unit, session_store) op" where
  "record_cancelled sha now ref pr se at reason =
     op_bind (require_request se ref)
       (\<lambda>_. advance_worker sha now ''future_worker_cancelled'' pr se ref at []
          [(''reason'', JStr reason)])"

definition reject_result ::
    "(string \<Rightarrow> string) \<Rightarrow> string \<Rightarrow> string \<Rightarrow> string \<Rightarrow> string \<Rightarrow> string \<Rightarrow> string \<Rightarrow>
     (unit, session_store) op" where
  "reject_result sha now ref pr se reason at =
     op_bind (require_request se ref)
       (\<lambda>_. op_bind (require_completed se ref)
          (\<lambda>_. advance_worker sha now ''future_worker_result_rejected'' pr se ref at []
             [(''reason'', JStr reason)]))"

end
