(* ===== verification/WorkerLifecycle.thy ===== *)
theory WorkerLifecycle
  imports FutureWorker
begin

text \<open>
  The events of a future worker spell a path of the transition table. Every operation records at
  most one event; its effect on the log is classified once (\<open>worker_effect\<close>) and the properties
  follow from the classification.
\<close>

section \<open>Paths of the table\<close>

fun worker_path :: "string option \<Rightarrow> string list \<Rightarrow> bool" where
  "worker_path st [] = True"
| "worker_path st (t # ts) = (t \<in> set (allowed_events st) \<and> worker_path (worker_state_of t) ts)"

definition state_after :: "string option \<Rightarrow> string list \<Rightarrow> string option" where
  "state_after st ts = (if ts = [] then st else worker_state_of (last ts))"

lemma worker_path_snoc:
  "worker_path st (ts @ [t]) \<longleftrightarrow> worker_path st ts \<and> t \<in> set (allowed_events (state_after st ts))"
  by (induction ts arbitrary: st) (auto simp: state_after_def)

text \<open>The cases of the table.\<close>

lemma allowed_cases:
  assumes "t \<in> set (allowed_events st)"
  obtains "st = None" "t = ''future_worker_requested''"
  | "st = Some ''requested''" "t \<in> {''future_worker_started'', ''future_worker_heartbeat'',
       ''future_worker_failed'', ''future_worker_cancelled''}"
  | "st = Some ''running''" "t \<in> {''future_worker_heartbeat'', ''future_worker_summary_published'',
       ''future_worker_completed'', ''future_worker_failed'', ''future_worker_cancelled''}"
  | "st = Some ''completed''" "t \<in> {''future_worker_result_consumed'', ''future_worker_result_rejected''}"
  using assms by (auto simp: allowed_events_def allowed_next_worker_events_def split: if_splits)

lemma allowed_has_state: "t \<in> set (allowed_events st) \<Longrightarrow> worker_state_of t \<noteq> None"
  by (erule allowed_cases) (auto simp: worker_state_by_event_type_def)

lemma allowed_not_terminal:
  "t \<in> set (allowed_events st) \<Longrightarrow> or_empty st \<notin> set terminal_worker_states"
  by (erule allowed_cases) (auto simp: terminal_worker_states_def or_empty_def)

lemma late_path:
  "worker_path st ts \<Longrightarrow> st \<notin> {None, Some ''requested''} \<Longrightarrow>
     ''future_worker_requested'' \<notin> set ts \<and> ''future_worker_started'' \<notin> set ts"
proof (induction ts arbitrary: st)
  case (Cons t ts)
  from Cons.prems(1) have t: "t \<in> set (allowed_events st)" and p: "worker_path (worker_state_of t) ts"
    by auto
  from t Cons.prems(2) have "t \<notin> {''future_worker_requested'', ''future_worker_started''}"
    "worker_state_of t \<notin> {None, Some ''requested''}"
    by (auto elim!: allowed_cases simp: worker_state_by_event_type_def)
  with Cons.IH [OF p] show ?case by auto
qed simp

section \<open>The lifecycle of a worker\<close>

definition worker_lifecycle :: "string \<Rightarrow> string \<Rightarrow> session_store \<Rightarrow> string list" where
  "worker_lifecycle se ref s =
     filter (\<lambda>t. worker_state_of t \<noteq> None) (map ev_event_type (worker_events se ref s))"

lemma latest_worker_state_rev:
  "latest_worker_state (rev es) =
     state_after None (filter (\<lambda>t. worker_state_of t \<noteq> None) (map ev_event_type es))"
proof (induction es rule: rev_induct)
  case (snoc e es)
  then show ?case by (cases "worker_state_of (ev_event_type e)") (simp_all add: state_after_def)
qed (simp add: state_after_def)

lemma current_worker_state_lifecycle:
  "current_worker_state se ref s = state_after None (worker_lifecycle se ref s)"
  by (simp add: current_worker_state_def latest_worker_state_rev worker_lifecycle_def)

definition event_of_worker :: "string \<Rightarrow> string \<Rightarrow> session_event \<Rightarrow> bool" where
  "event_of_worker se ref e \<longleftrightarrow>
     ev_session_id e = se \<and> map_of (ev_related_ids e) ''worker_task_ref'' = Some ref"

lemma worker_events_filter: "worker_events se ref s = filter (event_of_worker se ref) (st_events s)"
  by (simp add: worker_events_def list_events_def opt_match_def event_of_worker_def [abs_def]
      conj_commute)

lemma worker_events_snoc:
  "st_events s' = st_events s @ [e] \<Longrightarrow>
     worker_events se ref s' = worker_events se ref s @ (if event_of_worker se ref e then [e] else [])"
  by (simp add: worker_events_filter)

lemma worker_lifecycle_snoc:
  "st_events s' = st_events s @ [e] \<Longrightarrow>
     worker_lifecycle se ref s' = worker_lifecycle se ref s @
       (if event_of_worker se ref e \<and> worker_state_of (ev_event_type e) \<noteq> None
        then [ev_event_type e] else [])"
  by (simp add: worker_lifecycle_def worker_events_snoc)

lemma latest_of_type_None:
  "latest_of_type ty es = None \<longleftrightarrow> ty \<notin> ev_event_type ` set es"
  by (auto simp: latest_of_type_def find_None_iff image_iff)

lemma lifecycle_type:
  "worker_state_of ty \<noteq> None \<Longrightarrow>
     ty \<in> set (worker_lifecycle se ref s) \<longleftrightarrow> ty \<in> ev_event_type ` set (worker_events se ref s)"
  by (auto simp: worker_lifecycle_def)

section \<open>The effect of an operation\<close>

lemma record_event_effect:
  assumes "record_event sha now ty pr se co pa ca re at s = (res, s')"
  shows "s' = s \<or>
    (\<exists>n. st_events s' = st_events s @
       [(event_draft sha ty pr se (or_else at now) ca co re pa)\<lparr>ev_log_seq := Some n\<rparr>])"
proof (cases res)
  case (Inl e)
  with assms show ?thesis by (auto dest: record_event_Inl)
next
  case (Inr a)
  with assms have "append_event (event_draft sha ty pr se (or_else at now) ca co re pa) s = (Inr a, s')"
    by (simp add: record_event_Inr)
  then show ?thesis by (cases rule: events.app_cases) auto
qed

text \<open>
  An operation leaves the log as it is, adds an event that is no lifecycle event, or adds a
  lifecycle event the table allows for its worker.
\<close>

definition next_event_ok :: "session_store \<Rightarrow> session_event \<Rightarrow> bool" where
  "next_event_ok s e \<longleftrightarrow>
     (\<exists>se ref. event_of_worker se ref e \<and>
        ev_event_type e \<in> set (allowed_events (current_worker_state se ref s)) \<and>
        (ev_event_type e = ''future_worker_completed'' \<longrightarrow>
           ''future_worker_started'' \<in> set (worker_lifecycle se ref s)) \<and>
        (ev_event_type e = ''future_worker_requested'' \<longrightarrow>
           or_empty (map_of (ev_related_ids e) ''decision_trace_ref'') \<noteq> []))"

definition worker_effect :: "session_store \<Rightarrow> session_store \<Rightarrow> bool" where
  "worker_effect s s' \<longleftrightarrow>
     st_events s' = st_events s \<or>
     (\<exists>e. st_events s' = st_events s @ [e] \<and>
        (worker_state_of (ev_event_type e) = None \<or> next_event_ok s e))"

lemma worker_effect_refl [simp]: "worker_effect s s"
  by (simp add: worker_effect_def)

lemma rejected_no_state: "worker_state_of ''future_worker_transition_rejected'' = None"
  by (simp add: worker_state_by_event_type_def)

lemma record_transition_rejected_effect:
  assumes "record_transition_rejected sha now pr se ref at a c re s = (res, s')"
  shows "worker_effect s s'"
  using assms rejected_no_state
  by (auto simp: record_transition_rejected_def worker_effect_def
      dest!: record_event_effect split: sum.splits)

lemma assert_transition_Inr:
  "assert_transition_allowed sha now pr se ref at ty s = (Inr (), s') \<longleftrightarrow>
     s' = s \<and> ty \<in> set (allowed_events (current_worker_state se ref s))"
  by (auto simp: assert_transition_allowed_def Let_def op_bind_split dest: allowed_not_terminal)

lemma assert_transition_effect:
  "assert_transition_allowed sha now pr se ref at ty s = (res, s') \<Longrightarrow> worker_effect s s'"
  by (auto simp: assert_transition_allowed_def Let_def op_bind_split split: if_splits
      dest: record_transition_rejected_effect)

lemma dict_update_lookup: "map_of (dict_update d e) k = (case map_of (rev e) k of None \<Rightarrow> map_of d k | Some v \<Rightarrow> Some v)"
  by (induction d e rule: dict_update.induct)
    (auto simp: map_add_def split: option.splits if_splits)

lemma lifecycle_fields_related:
  assumes "lifecycle_fields ty se ref related pay s = Inr (rel, pay')"
    and "''worker_task_ref'' \<notin> set (dict_keys related)"
  shows "map_of rel ''worker_task_ref'' = Some ref \<and>
    (ty = ''future_worker_requested'' \<longrightarrow>
       map_of rel ''decision_trace_ref'' = map_of (rev related) ''decision_trace_ref'')"
proof -
  from assms(2) have "map_of (rev related) ''worker_task_ref'' = None"
    by (force simp: map_of_eq_None_iff)
  then show ?thesis using assms(1)
    by (auto simp: lifecycle_fields_def Let_def dict_update_lookup
        split: if_splits sum.splits option.splits)
qed

text \<open>Recording a lifecycle event that the table allows.\<close>

lemma record_lifecycle_effect:
  assumes "record_lifecycle_event sha now ty pr se ref at related pay s = (res, s')"
    and "''worker_task_ref'' \<notin> set (dict_keys related)"
    and "ty \<in> set (allowed_events (current_worker_state se ref s))"
    and "ty = ''future_worker_completed'' \<Longrightarrow> ''future_worker_started'' \<in> set (worker_lifecycle se ref s)"
    and "ty = ''future_worker_requested'' \<Longrightarrow>
           or_empty (map_of (rev related) ''decision_trace_ref'') \<noteq> []"
  shows "worker_effect s s'"
proof (cases "lifecycle_fields ty se ref related pay s")
  case (Inl e)
  with assms(1) show ?thesis by (simp add: record_lifecycle_event_def)
next
  case (Inr p)
  obtain rel pay' where p: "p = (rel, pay')" by fastforce
  with Inr have fields: "lifecycle_fields ty se ref related pay s = Inr (rel, pay')" by simp
  note rel = lifecycle_fields_related [OF fields assms(2)]
  let ?e = "\<lambda>n. (event_draft sha ty pr se (or_else (Some at) now) None
    (lifecycle_correlation_id ref ty at) rel pay')\<lparr>ev_log_seq := Some n\<rparr>"
  have "next_event_ok s (?e n)" for n
    unfolding next_event_ok_def
    using rel assms(3-5) by (intro exI [of _ se] exI [of _ ref]) (auto simp: event_of_worker_def)
  then show ?thesis
    using assms(1) Inr p
    by (auto simp: record_lifecycle_event_def worker_effect_def dest!: record_event_effect)
qed

lemma advance_worker_effect:
  assumes "advance_worker sha now ty pr se ref at related pay s = (res, s')"
    and "''worker_task_ref'' \<notin> set (dict_keys related)"
    and "ty \<notin> {''future_worker_completed'', ''future_worker_requested''}"
  shows "worker_effect s s'"
  using assms
  by (auto simp: advance_worker_def op_bind_split assert_transition_Inr
      dest: assert_transition_effect record_lifecycle_effect)

lemma advance_worker_snd:
  "''worker_task_ref'' \<notin> set (dict_keys related) \<Longrightarrow>
     ty \<notin> {''future_worker_completed'', ''future_worker_requested''} \<Longrightarrow>
     worker_effect s (snd (advance_worker sha now ty pr se ref at related pay s))"
  by (rule advance_worker_effect [OF prod.collapse [symmetric]])

lemma request_worker_effect:
  assumes "request_worker sha now r at s = (res, s')"
  shows "worker_effect s s'"
proof -
  have trace: "or_empty (map_of (rev ((''decision_trace_ref'', wr_decision_trace_ref r) # thread_entry t))
      ''decision_trace_ref'') \<noteq> []"
    if "validate_worker_request (r\<lparr>wr_worker_contract_version := v\<rparr>) = Inr q" for t v q
    using that by (auto simp: thread_entry_def validate_worker_request_def or_empty_def split: if_splits)
  have "''worker_task_ref'' \<notin> set (dict_keys
      ((''decision_trace_ref'', wr_decision_trace_ref r) # thread_entry (wr_parent_native_thread_id r)))"
    by (simp add: thread_entry_def)
  with assms trace show ?thesis
    by (auto simp: request_worker_def op_bind_split assert_transition_Inr
        dest: assert_transition_effect simp del: rev.simps elim!: record_lifecycle_effect)
qed

lemma require_started_Inr:
  "require_started_event se ref s = Inr e \<Longrightarrow> ''future_worker_started'' \<in> set (worker_lifecycle se ref s)"
  by (subst lifecycle_type)
    (auto simp: require_started_event_def latest_of_type_def worker_state_by_event_type_def
      split: option.splits dest!: find_SomeD intro: rev_image_eqI)

lemma record_completed_effect:
  assumes "record_completed sha now ref pr se su ar ih rh at s = (res, s')"
  shows "worker_effect s s'"
  using assms
  by (auto simp: record_completed_def op_bind_split assert_transition_Inr require_request_def
      dest: assert_transition_effect require_started_Inr elim!: record_lifecycle_effect)

lemmas advance_defs = record_started_def record_summary_published_def record_heartbeat_def
  record_failed_def record_cancelled_def consume_result_def reject_result_def require_request_def
  require_completed_def

section \<open>Runs\<close>

text \<open>
  The steps a session log can take while workers run: the operations of the service, whether they
  return or raise, and any other append that is not a lifecycle event.
\<close>

inductive worker_step :: "session_store \<Rightarrow> session_store \<Rightarrow> bool" where
  request: "worker_step s (snd (request_worker sha now r at s))"
| started: "worker_step s (snd (record_started sha now ref pr se at contract s))"
| summary: "worker_step s (snd (record_summary_published sha now ref pr se summary at s))"
| heartbeat: "worker_step s (snd (record_heartbeat sha now ref pr se at beat s))"
| completed: "worker_step s (snd (record_completed sha now ref pr se su ar ih rh at s))"
| consumed: "worker_step s (snd (consume_result sha now ref pr se decision at s))"
| failed: "worker_step s (snd (record_failed sha now ref pr se at reason s))"
| cancelled: "worker_step s (snd (record_cancelled sha now ref pr se at reason s))"
| rejected: "worker_step s (snd (reject_result sha now ref pr se reason at s))"
| other_event: "worker_state_of (ev_event_type e) = None \<Longrightarrow> worker_step s (snd (append_event e s))"
| lineage: "worker_step s (snd (append_lineage l s))"
| recovery: "worker_step s (snd (append_recovery_transaction t s))"

inductive worker_reachable :: "session_store \<Rightarrow> bool" where
  start: "worker_reachable empty_session_store"
| step: "worker_reachable s \<Longrightarrow> worker_step s s' \<Longrightarrow> worker_reachable s'"

lemma worker_step_effect: "worker_step s s' \<Longrightarrow> worker_effect s s'"
proof (induction rule: worker_step.induct)
  case (request s sha now r at)
  then show ?case by (rule request_worker_effect [OF prod.collapse [symmetric]])
next
  case (completed s sha now ref pr se su ar ih rh at)
  then show ?case by (rule record_completed_effect [OF prod.collapse [symmetric]])
next
  case (other_event e s)
  obtain res s' where a: "append_event e s = (res, s')" by fastforce
  then show ?case using other_event by (cases rule: events.app_cases) (auto simp: worker_effect_def a)
next
  case (lineage s l)
  then show ?case
    using append_lineage_frame [OF prod.collapse [symmetric], of l s] by (simp add: worker_effect_def)
next
  case (recovery s t)
  then show ?case
    using append_recovery_frame [OF prod.collapse [symmetric], of t s] by (simp add: worker_effect_def)
qed (auto simp: advance_defs op_bind_def split: sum.splits
      intro!: advance_worker_snd)

definition worker_inv :: "session_store \<Rightarrow> bool" where
  "worker_inv s \<longleftrightarrow>
     (\<forall>se ref. worker_path None (worker_lifecycle se ref s) \<and>
        (''future_worker_completed'' \<in> set (worker_lifecycle se ref s) \<longrightarrow>
           ''future_worker_started'' \<in> set (worker_lifecycle se ref s))) \<and>
     (\<forall>e \<in> set (st_events s). ev_event_type e = ''future_worker_requested'' \<longrightarrow>
        or_empty (map_of (ev_related_ids e) ''decision_trace_ref'') \<noteq> [])"

lemma next_event_ok_worker:
  "next_event_ok s e \<Longrightarrow> event_of_worker se ref e \<Longrightarrow>
     ev_event_type e \<in> set (allowed_events (current_worker_state se ref s)) \<and>
     (ev_event_type e = ''future_worker_completed'' \<longrightarrow>
        ''future_worker_started'' \<in> set (worker_lifecycle se ref s))"
  by (auto simp: next_event_ok_def event_of_worker_def)

lemma worker_effect_inv:
  assumes "worker_effect s s'" and "worker_inv s"
  shows "worker_inv s'"
proof -
  consider "st_events s' = st_events s"
    | e where "st_events s' = st_events s @ [e]" "worker_state_of (ev_event_type e) = None"
    | e where "st_events s' = st_events s @ [e]" "next_event_ok s e"
    using assms(1) by (auto simp: worker_effect_def)
  then show ?thesis
  proof cases
    case 1
    then have "worker_lifecycle se ref s' = worker_lifecycle se ref s" for se ref
      by (simp add: worker_lifecycle_def worker_events_filter)
    with 1 assms(2) show ?thesis by (simp add: worker_inv_def)
  next
    case 2
    then have "ev_event_type e \<noteq> ''future_worker_requested''"
      by (auto simp: worker_state_by_event_type_def)
    with 2 assms(2) show ?thesis by (simp add: worker_inv_def worker_lifecycle_snoc)
  next
    case 3
    have "worker_path None (worker_lifecycle se ref s') \<and>
      (''future_worker_completed'' \<in> set (worker_lifecycle se ref s') \<longrightarrow>
         ''future_worker_started'' \<in> set (worker_lifecycle se ref s'))" for se ref
      using assms(2) next_event_ok_worker [OF 3(2), of se ref]
      by (auto simp: worker_inv_def worker_lifecycle_snoc [OF 3(1)] worker_path_snoc
          current_worker_state_lifecycle)
    moreover have "ev_event_type e = ''future_worker_requested'' \<longrightarrow>
        or_empty (map_of (ev_related_ids e) ''decision_trace_ref'') \<noteq> []"
      using 3(2) by (auto simp: next_event_ok_def)
    ultimately show ?thesis using assms(2) 3(1) by (auto simp: worker_inv_def)
  qed
qed

lemma worker_reachable_inv: "worker_reachable s \<Longrightarrow> worker_inv s"
proof (induction rule: worker_reachable.induct)
  case start
  show ?case
    by (simp add: worker_inv_def worker_lifecycle_def worker_events_filter empty_session_store_def)
qed (auto intro: worker_effect_inv worker_step_effect)


lemma worker_reachable_path: "worker_reachable s \<Longrightarrow> worker_path None (worker_lifecycle se ref s)"
  using worker_reachable_inv by (auto simp: worker_inv_def)

text \<open>The state "requested" belongs to the request alone.\<close>

lemma state_requested:
  assumes "worker_path None ts" and "state_after None ts = Some ''requested''"
  shows "ts = [''future_worker_requested'']"
proof (cases ts)
  case Nil
  with assms(2) show ?thesis by (simp add: state_after_def)
next
  case (Cons t us)
  with assms(1) have t: "t = ''future_worker_requested''" and us: "worker_path (worker_state_of t) us"
    by (auto elim: allowed_cases)
  show ?thesis
  proof (cases us)
    case Nil
    with Cons t show ?thesis by simp
  next
    case (Cons u vs)
    from us Cons t have u: "u \<in> set (allowed_events (Some ''requested''))"
      and vs: "worker_path (worker_state_of u) vs"
      by (auto simp: worker_state_by_event_type_def)
    from u have "worker_state_of u \<notin> {None, Some ''requested''}"
      by (auto elim!: allowed_cases simp: worker_state_by_event_type_def)
    with late_path [OF vs] u have "''future_worker_requested'' \<notin> set us"
      using Cons by (auto elim!: allowed_cases)
    with Cons have "last us \<noteq> ''future_worker_requested''" by (metis last_in_set list.distinct(1))
    with assms(2) \<open>ts = t # us\<close> Cons show ?thesis
      by (auto simp: state_after_def worker_state_by_event_type_def split: if_splits)
  qed
qed

lemma terminal_step:
  assumes "worker_step s s'" and "current_worker_state se ref s = Some st"
    and "st \<in> set terminal_worker_states"
  shows "worker_lifecycle se ref s' = worker_lifecycle se ref s"
proof -
  have no: "allowed_events (current_worker_state se ref s) = []"
    using assms(2,3)
    by (auto simp: terminal_worker_states_def allowed_events_def allowed_next_worker_events_def)
  from assms(1) have "worker_effect s s'" by (rule worker_step_effect)
  then consider "st_events s' = st_events s"
    | e where "st_events s' = st_events s @ [e]"
        "worker_state_of (ev_event_type e) = None \<or> next_event_ok s e"
    by (auto simp: worker_effect_def)
  then show ?thesis
  proof cases
    case 1
    then show ?thesis by (simp add: worker_lifecycle_def worker_events_filter)
  next
    case 2
    with next_event_ok_worker [of s e se ref] no show ?thesis
      by (auto simp: worker_lifecycle_snoc [OF 2(1)])
  qed
qed

lemma terminal_steps:
  assumes "worker_step\<^sup>*\<^sup>* s s'" and "current_worker_state se ref s = Some st"
    and "st \<in> set terminal_worker_states"
  shows "worker_lifecycle se ref s' = worker_lifecycle se ref s"
  using assms(1)
proof (induction rule: rtranclp_induct)
  case (step t u)
  then have "current_worker_state se ref t = Some st"
    using assms(2) by (simp add: current_worker_state_lifecycle)
  with terminal_step [OF step(2)] step(3) assms(3) show ?case by simp
qed simp

text \<open>In a reachable log a worker with a state has a request with a decision trace.\<close>

lemma worker_request_found:
  assumes "worker_reachable s" and "current_worker_state se ref s \<noteq> None"
  shows "\<exists>t. decision_trace_ref_for_worker se ref s = Inr t"
    and "\<exists>t. parent_native_thread_id_for_worker se ref s = Inr t"
proof -
  have path: "worker_path None (worker_lifecycle se ref s)" using assms(1) by (rule worker_reachable_path)
  moreover have "worker_lifecycle se ref s \<noteq> []"
    using assms(2) by (auto simp: current_worker_state_lifecycle state_after_def)
  ultimately have "''future_worker_requested'' \<in> set (worker_lifecycle se ref s)"
    by (cases "worker_lifecycle se ref s") (auto elim: allowed_cases)
  then have "''future_worker_requested'' \<in> ev_event_type ` set (worker_events se ref s)"
    by (auto simp: worker_lifecycle_def)
  then obtain e where e: "latest_of_type ''future_worker_requested'' (worker_events se ref s) = Some e"
    using latest_of_type_None by fastforce
  then have "e \<in> set (st_events s)" and "ev_event_type e = ''future_worker_requested''"
    by (auto simp: latest_of_type_def worker_events_filter dest!: find_SomeD)
  with worker_reachable_inv [OF assms(1)]
  have "or_empty (map_of (ev_related_ids e) ''decision_trace_ref'') \<noteq> []"
    by (auto simp: worker_inv_def)
  with e show "\<exists>t. decision_trace_ref_for_worker se ref s = Inr t"
    and "\<exists>t. parent_native_thread_id_for_worker se ref s = Inr t"
    by (auto simp: decision_trace_ref_for_worker_def parent_native_thread_id_for_worker_def
        require_request_event_def trace_of_request_def Let_def)
qed

text \<open>An event with a fresh identity is recorded.\<close>

definition fresh_event :: "(string \<Rightarrow> string) \<Rightarrow> string \<Rightarrow> string \<Rightarrow> string \<Rightarrow> session_store \<Rightarrow> bool" where
  "fresh_event sha co se ty s \<longleftrightarrow>
     (let i = stable_id sha ''event'' [co, se, ty] in
      list_all (\<lambda>e. ev_event_id e \<noteq> i \<and> ev_idempotency_key e \<noteq> ''idem:event:'' @ i) (st_events s))"

lemma record_event_fresh:
  assumes "fresh_event sha co se ty s" and "pr \<noteq> []" "se \<noteq> []" "co \<noteq> []"
    and "or_else at now \<noteq> []" and "ty \<in> set controlled_session_event_types"
  shows "\<exists>r s'. record_event sha now ty pr se co pa ca re at s = (Inr r, s') \<and>
    st_events s' = st_events s @ [r] \<and> ev_event_type r = ty \<and> ev_payload r = pa \<and>
    ev_related_ids r = re \<and> ev_session_id r = se"
proof -
  let ?q = "event_draft sha ty pr se (or_else at now) ca co re pa"
  from assms(1) have new: "find (\<lambda>x. ev_idempotency_key x = ev_idempotency_key ?q) (st_events s) = None"
    and id: "\<not> (\<exists>p \<in> set (st_events s). ev_event_id p = ev_event_id ?q)"
    by (auto simp: fresh_event_def Let_def list_all_iff find_None_iff)
  have "ty \<noteq> []" using assms(6) by (auto simp: controlled_session_event_types_def)
  then have "validate_event ?q = Inr ?q"
    using assms(2-6)
    by (auto simp: validate_event_def stable_id_def seq_field_ok_def event_draft_def Let_def)
  moreover have "append_event ?q s = (Inr (?q\<lparr>ev_log_seq := Some (next_log_seq s)\<rparr>),
      s\<lparr>next_log_seq := next_log_seq s + 1,
        st_events := st_events s @ [?q\<lparr>ev_log_seq := Some (next_log_seq s)\<rparr>]\<rparr>)"
    using new id by (simp add: append_event_def dedupe_find Let_def)
  ultimately show ?thesis by (auto simp: record_event_Inr)
qed

section \<open>Properties\<close>

text \<open>
  C17: However the operations on future workers interleave, and whatever else is appended to the
  session log, the lifecycle events of every worker spell a path of the transition table from the
  empty history, and the state the service reads off the log is the state at the end of that path.
\<close>

theorem worker_log_is_path:
  "worker_reachable s \<Longrightarrow>
     worker_path None (worker_lifecycle se ref s) \<and>
     current_worker_state se ref s = state_after None (worker_lifecycle se ref s)"
  by (simp add: worker_reachable_path current_worker_state_lifecycle)

text \<open>A worker for the witnesses: requested, then cancelled.\<close>

definition example_request :: worker_request where
  "example_request =
     \<lparr>wr_project_id = ''p'', wr_parent_session_id = ''s'', wr_parent_native_thread_id = None,
      wr_worker_task_ref = ''w'', wr_decision_trace_ref = ''d'', wr_goal_contract_version = ''g'',
      wr_scope = ''x'', wr_allowed_hands = [], wr_input_packet_refs = [],
      wr_retrieval_handles = [], wr_distilled_summary_ref = ''m'', wr_execution_budget_ref = ''b'',
      wr_worker_contract_version = []\<rparr>"

text \<open>Any digest that keeps the events of a witness apart will do.\<close>

definition example_sha :: "string \<Rightarrow> string" where
  "example_sha s = rev s"

definition example_requested :: session_store where
  "example_requested = snd (request_worker example_sha [] example_request ''t0'' empty_session_store)"

definition example_cancelled :: session_store where
  "example_cancelled =
     snd (record_cancelled example_sha [] ''w'' ''p'' ''s'' ''t1'' ''r'' example_requested)"

lemma example_worker_reachable:
  "worker_reachable example_requested" "worker_reachable example_cancelled"
  unfolding example_requested_def example_cancelled_def
  by (rule worker_reachable.intros worker_step.intros)+

lemma example_worker_lifecycle:
  "worker_lifecycle ''s'' ''w'' example_requested = [''future_worker_requested'']"
  "worker_lifecycle ''s'' ''w'' example_cancelled =
     [''future_worker_requested'', ''future_worker_cancelled'']"
  by code_simp+

theorem worker_log_is_path_witness:
  "worker_path None [''future_worker_requested'', ''future_worker_cancelled''] \<and>
   current_worker_state ''s'' ''w'' example_cancelled = Some ''cancelled''"
  using worker_log_is_path [OF example_worker_reachable(2), of "''s''" "''w''"]
  by (simp add: example_worker_lifecycle state_after_def worker_state_by_event_type_def)

text \<open>
  Note: A worker that failed, was cancelled, or whose result was consumed or rejected is finished:
  no sequence of steps, of any operation on any worker, adds a lifecycle event to its history.
\<close>

theorem worker_terminal_closed:
  assumes "worker_step\<^sup>*\<^sup>* s s'" and "current_worker_state se ref s = Some st"
    and "st \<in> set terminal_worker_states"
  shows "worker_lifecycle se ref s' = worker_lifecycle se ref s \<and>
         current_worker_state se ref s' = Some st"
  using terminal_steps [OF assms] assms(2) by (simp add: current_worker_state_lifecycle)

theorem worker_terminal_closed_witness:
  "worker_lifecycle ''s'' ''w''
     (snd (record_started example_sha [] ''w'' ''p'' ''s'' ''t2'' [] example_cancelled)) =
   [''future_worker_requested'', ''future_worker_cancelled'']"
proof -
  have st: "current_worker_state ''s'' ''w'' example_cancelled = Some ''cancelled''"
    by (simp add: current_worker_state_lifecycle example_worker_lifecycle state_after_def
        worker_state_by_event_type_def)
  have "worker_step\<^sup>*\<^sup>* example_cancelled
      (snd (record_started example_sha [] ''w'' ''p'' ''s'' ''t2'' [] example_cancelled))"
    by (rule r_into_rtranclp, rule worker_step.started)
  from worker_terminal_closed [OF this st] show ?thesis
    by (simp add: terminal_worker_states_def example_worker_lifecycle)
qed

definition is_rejection :: "string \<Rightarrow> string \<Rightarrow> string \<Rightarrow> string \<Rightarrow> session_event \<Rightarrow> bool" where
  "is_rejection se ref ty st r \<longleftrightarrow>
     ev_event_type r = ''future_worker_transition_rejected'' \<and> event_of_worker se ref r \<and>
     map_of (ev_related_ids r) ''attempted_event_type'' = Some ty \<and>
     jget (ev_payload r) ''current_state'' = JStr st"

lemma record_transition_rejected_fresh:
  assumes "worker_reachable s" and "current_worker_state se ref s \<noteq> None"
    and "fresh_event sha (worker_correlation_id ref @ '':'' @ ty @ '':'' @ at) se
           ''future_worker_transition_rejected'' s"
    and "pr \<noteq> []" and "se \<noteq> []" and "at \<noteq> []"
  shows "\<exists>r s'. record_transition_rejected sha now pr se ref at ty c re s = (Inr r, s') \<and>
           st_events s' = st_events s @ [r] \<and> is_rejection se ref ty c r"
proof -
  obtain t n where t: "decision_trace_ref_for_worker se ref s = Inr t"
    and n: "parent_native_thread_id_for_worker se ref s = Inr n"
    using worker_request_found [OF assms(1,2)] by blast
  have "''future_worker_transition_rejected'' \<in> set controlled_session_event_types"
    by (simp add: controlled_session_event_types_def)
  from record_event_fresh [OF assms(3,4,5) _ _ this, of "Some at" now
      "[(''attempted_event_type'', JStr ty), (''current_state'', JStr c), (''reason'', JStr re),
        (''worker_task_ref'', JStr ref), (''decision_trace_ref'', JStr t)]" None
      "[(''worker_task_ref'', ref), (''attempted_event_type'', ty),
        (''decision_trace_ref'', t)] @ thread_entry n"] assms(6)
  show ?thesis
    by (auto simp: record_transition_rejected_def t n or_else_def worker_correlation_id_def
        is_rejection_def event_of_worker_def)
qed

lemma current_state_nonempty: "current_worker_state se ref s = Some st \<Longrightarrow> st \<noteq> []"
  by (auto simp: current_worker_state_lifecycle state_after_def worker_state_by_event_type_def
      split: if_splits)

text \<open>
  Note: An event the table does not allow for the state of a worker raises, and when this attempt
  was not recorded before, the session log gains exactly one event, a
  \<open>future_worker_transition_rejected\<close> that names the worker, the attempted event and the state.
\<close>

theorem worker_rejection_recorded:
  assumes "worker_reachable s" and "current_worker_state se ref s = Some st"
    and "ty \<notin> set (allowed_events (Some st))"
    and "fresh_event sha (worker_correlation_id ref @ '':'' @ ty @ '':'' @ at) se
           ''future_worker_transition_rejected'' s"
    and "pr \<noteq> []" and "se \<noteq> []" and "at \<noteq> []"
  shows "\<exists>e r s'. assert_transition_allowed sha now pr se ref at ty s = (Inl e, s') \<and>
           st_events s' = st_events s @ [r] \<and> is_rejection se ref ty st r"
proof -
  have some: "current_worker_state se ref s \<noteq> None" using assms(2) by simp
  note rec = record_transition_rejected_fresh [OF assms(1) some assms(4-7)]
  from current_state_nonempty [OF assms(2)]
  have src: "or_empty (Some st) = st" "or_else (Some st) ''none'' = st"
    by (simp_all add: or_empty_def or_else_def)
  show ?thesis
  proof (cases "st \<in> set terminal_worker_states")
    case True
    with rec [of now st "''terminal_state:'' @ st"] show ?thesis
      by (auto simp: assert_transition_allowed_def Let_def assms(2) src op_bind_def)
  next
    case False
    with assms(3) rec [of now st "''invalid_transition:'' @ st @ ''->'' @
        (case worker_state_of ty of None \<Rightarrow> ''unknown'' | Some n \<Rightarrow> n)"] show ?thesis
      by (auto simp: assert_transition_allowed_def Let_def assms(2) src op_bind_def)
  qed
qed

theorem worker_rejection_recorded_witness:
  "\<exists>e r s'. assert_transition_allowed example_sha [] ''p'' ''s'' ''w'' ''t2'' ''future_worker_started''
       example_cancelled = (Inl e, s') \<and>
     st_events s' = st_events example_cancelled @ [r] \<and>
     is_rejection ''s'' ''w'' ''future_worker_started'' ''cancelled'' r"
proof -
  have st: "current_worker_state ''s'' ''w'' example_cancelled = Some ''cancelled''"
    by (simp add: current_worker_state_lifecycle example_worker_lifecycle state_after_def
        worker_state_by_event_type_def)
  have no: "''future_worker_started'' \<notin> set (allowed_events (Some ''cancelled''))"
    by (auto elim: allowed_cases)
  have fresh: "fresh_event example_sha
      (worker_correlation_id ''w'' @ '':'' @ ''future_worker_started'' @ '':'' @ ''t2'') ''s''
      ''future_worker_transition_rejected'' example_cancelled" by code_simp
  show ?thesis
    by (rule worker_rejection_recorded [OF example_worker_reachable(2) st no fresh]) simp_all
qed

text \<open>
  Note: A heartbeat that arrives before the start seals the worker: the table moves it to "running",
  from which a start is not allowed, and without a start event no result is accepted. Every later
  \<open>record_started\<close> and \<open>record_completed\<close> raises, and no completion is ever in its history.
\<close>

theorem worker_heartbeat_before_start:
  assumes "worker_reachable s"
    and "worker_lifecycle se ref s =
           ''future_worker_requested'' # ''future_worker_heartbeat'' # rest"
  shows "''future_worker_completed'' \<notin> set rest \<and>
         (\<exists>e s'. record_started sha now ref pr se at contract s = (Inl e, s')) \<and>
         (\<exists>e s'. record_completed sha now ref pr se su ar ih rh at s = (Inl e, s'))"
proof -
  have path: "worker_path None (worker_lifecycle se ref s)" using assms(1) by (rule worker_reachable_path)
  then have "worker_path (Some ''running'') rest"
    by (simp add: assms(2) worker_state_by_event_type_def)
  from late_path [OF this] have unstarted: "''future_worker_started'' \<notin> set (worker_lifecycle se ref s)"
    by (simp add: assms(2))
  with worker_reachable_inv [OF assms(1)] have "''future_worker_completed'' \<notin> set rest"
    unfolding worker_inv_def by (metis assms(2) list.set_intros(2))
  moreover have "\<exists>e s'. record_completed sha now ref pr se su ar ih rh at s = (Inl e, s')"
  proof (cases "record_completed sha now ref pr se su ar ih rh at s")
    case (Pair r s')
    with unstarted show ?thesis
      by (cases r) (auto simp: record_completed_def op_bind_split assert_transition_Inr
          require_request_def dest: require_started_Inr)
  qed
  moreover have "\<exists>e s'. record_started sha now ref pr se at contract s = (Inl e, s')"
  proof (cases "record_started sha now ref pr se at contract s")
    case (Pair r s')
    have "''future_worker_started'' \<notin> set (allowed_events (current_worker_state se ref s))"
      using state_requested [OF path] assms(2)
      by (auto simp: current_worker_state_lifecycle elim!: allowed_cases)
    with Pair show ?thesis
      by (cases r) (auto simp: record_started_def advance_worker_def op_bind_split
          assert_transition_Inr require_request_def)
  qed
  ultimately show ?thesis by blast
qed

definition example_beating :: session_store where
  "example_beating =
     snd (record_heartbeat example_sha [] ''w'' ''p'' ''s'' ''t1'' [] example_requested)"

theorem worker_heartbeat_before_start_witness:
  "\<exists>e s'. record_completed example_sha [] ''w'' ''p'' ''s'' ''m'' [] ''h'' ''k'' ''t2'' example_beating =
     (Inl e, s')"
proof -
  have "worker_reachable example_beating"
    unfolding example_beating_def
    by (rule worker_reachable.step [OF example_worker_reachable(1) worker_step.heartbeat])
  moreover have "worker_lifecycle ''s'' ''w'' example_beating =
      [''future_worker_requested'', ''future_worker_heartbeat'']" by code_simp
  ultimately show ?thesis using worker_heartbeat_before_start by blast
qed

end
