(* ===== verification/ContinuationPacket.thy ===== *)
theory ContinuationPacket
  imports SessionService
begin

text \<open>
  The frozen continuation packet of
  \<^verbatim>\<open>src/watchdog/services/session_spine/continuation_packet.py\<close>: the schema of the packet, its
  validation, and the hash of its canonical JSON. A model is described by its fields, as the
  pydantic classes describe it, and one validator interprets the description; a packet is
  represented by what \<open>model_dump(mode="json", exclude_none=True)\<close> makes of it.
\<close>

section \<open>Canonical JSON\<close>

definition json_escape :: "char \<Rightarrow> string" where
  "json_escape c =
     (let n = char_code c; bs = char_of (92 :: int) in
      if n = 34 \<or> n = 92 then [bs, c]
      else if n = 10 then [bs, CHR ''n'']
      else if n = 13 then [bs, CHR ''r'']
      else if n = 9 then [bs, CHR ''t'']
      else if n = 8 then [bs, CHR ''b'']
      else if n = 12 then [bs, CHR ''f'']
      else if n < 32
        then [bs, CHR ''u'', CHR ''0'', CHR ''0'', hex_digit (n div 16), hex_digit (n mod 16)]
      else [c])"

definition json_string :: "string \<Rightarrow> string" where
  "json_string s = (let q = char_of (34 :: int) in [q] @ concat (map json_escape s) @ [q])"

text \<open>\<open>json.dumps(x, ensure_ascii=False, sort_keys=True, separators=(",", ":"))\<close>.\<close>

fun stable_json :: "json \<Rightarrow> string" where
  "stable_json JNull = ''null''"
| "stable_json (JBool b) = (if b then ''true'' else ''false'')"
| "stable_json (JInt i) = str_of_int i"
| "stable_json (JStr s) = json_string s"
| "stable_json (JList xs) = ''['' @ join '','' (map stable_json xs) @ '']''"
| "stable_json (JObj d) =
     ''{'' @ join '',''
       (map (\<lambda>(k, t). json_string k @ '':'' @ t)
         (sort_key fst (map (\<lambda>(k, v). (k, stable_json v)) d))) @ ''}''"

definition hash_text :: "(string \<Rightarrow> string) \<Rightarrow> string \<Rightarrow> string" where
  "hash_text sha s = ''sha256:'' @ sha s"

section \<open>Schemas\<close>

text \<open>
  The kinds of fields the packet classes declare: required non-empty text, optional text, text
  with a default, a list of texts, a dictionary of any values, and a nested model. A field that
  is not declared is refused (\<open>extra="forbid"\<close>).
\<close>

datatype field_kind =
    TextField
  | OptTextField
  | DefaultTextField string
  | TextListField
  | DictField
  | ModelField "(string \<times> field_kind) list"

definition is_text :: "json \<Rightarrow> bool" where
  "is_text j = (case j of JStr _ \<Rightarrow> True | _ \<Rightarrow> False)"

fun validate_field :: "field_kind \<Rightarrow> json option \<Rightarrow> json option"
  and validate_fields :: "(string \<times> field_kind) list \<Rightarrow> jdict \<Rightarrow> jdict option"
where
  "validate_field TextField v =
     (case v of Some (JStr s) \<Rightarrow> if s = [] then None else Some (JStr s) | _ \<Rightarrow> None)"
| "validate_field OptTextField v =
     (case v of None \<Rightarrow> Some JNull | Some JNull \<Rightarrow> Some JNull | Some (JStr s) \<Rightarrow> Some (JStr s)
      | _ \<Rightarrow> None)"
| "validate_field (DefaultTextField d) v =
     (case v of None \<Rightarrow> Some (JStr d) | Some (JStr s) \<Rightarrow> Some (JStr s) | _ \<Rightarrow> None)"
| "validate_field TextListField v =
     (case v of None \<Rightarrow> Some (JList [])
      | Some (JList xs) \<Rightarrow> if list_all is_text xs then Some (JList xs) else None
      | _ \<Rightarrow> None)"
| "validate_field DictField v =
     (case v of None \<Rightarrow> Some (JObj []) | Some (JObj d) \<Rightarrow> Some (JObj d) | _ \<Rightarrow> None)"
| "validate_field (ModelField fs) v =
     (case v of
        Some (JObj d) \<Rightarrow>
          if list_all (\<lambda>(k, _). k \<in> set (map fst fs)) d
          then map_option JObj (validate_fields fs d) else None
      | _ \<Rightarrow> None)"
| "validate_fields [] d = Some []"
| "validate_fields ((k, f) # fs) d =
     (case validate_field f (map_of d k) of
        None \<Rightarrow> None
      | Some v \<Rightarrow>
          (case validate_fields fs d of
             None \<Rightarrow> None
           | Some rest \<Rightarrow> Some (if v = JNull then rest else (k, v) # rest)))"

definition packet_route_fields :: "(string \<times> field_kind) list" where
  "packet_route_fields =
     [(''route_kind'', TextField), (''target_project_id'', TextField),
      (''target_session_id'', TextField), (''target_thread_id'', TextField),
      (''target_work_item_id'', OptTextField)]"

definition packet_source_refs_fields :: "(string \<times> field_kind) list" where
  "packet_source_refs_fields =
     [(''decision_source'', TextField), (''goal_contract_version'', TextField),
      (''authoritative_snapshot_version'', OptTextField), (''snapshot_epoch'', OptTextField),
      (''decision_trace_ref'', OptTextField), (''lineage_refs'', TextListField)]"

definition packet_freshness_fields :: "(string \<times> field_kind) list" where
  "packet_freshness_fields = [(''generated_at'', TextField), (''expires_at'', TextField)]"

definition packet_dedupe_fields :: "(string \<times> field_kind) list" where
  "packet_dedupe_fields = [(''dedupe_key'', TextField), (''supersedes_packet_id'', OptTextField)]"

definition packet_fields :: "(string \<times> field_kind) list" where
  "packet_fields =
     [(''packet_id'', TextField), (''packet_version'', DefaultTextField ''continuation-packet/v1''),
      (''packet_state'', DefaultTextField ''issued''), (''decision_class'', TextField),
      (''continuation_identity'', TextField), (''project_id'', TextField),
      (''session_id'', TextField), (''native_thread_id'', TextField), (''route_key'', OptTextField),
      (''target_route'', ModelField packet_route_fields), (''project_total_goal'', TextField),
      (''branch_goal'', TextField), (''current_progress_summary'', TextField),
      (''files_touched'', TextListField), (''completed_work'', TextListField),
      (''remaining_tasks'', TextListField), (''first_action'', TextField),
      (''execution_mode'', TextField), (''action_ref'', TextField), (''action_args'', DictField),
      (''expected_next_state'', TextField), (''continue_boundary'', TextField),
      (''stop_conditions'', TextListField), (''operator_boundary'', TextField),
      (''approval_boundary'', OptTextField), (''approval_risk'', OptTextField),
      (''last_error_signature'', OptTextField),
      (''source_refs'', ModelField packet_source_refs_fields),
      (''freshness'', ModelField packet_freshness_fields),
      (''dedupe'', ModelField packet_dedupe_fields),
      (''render_contract_ref'', DefaultTextField ''continuation-packet-markdown/v1'')]"

section \<open>The packet\<close>

definition model_validate_continuation_packet :: "jdict \<Rightarrow> py_error + jdict" where
  "model_validate_continuation_packet d =
     (case validate_field (ModelField packet_fields) (Some (JObj d)) of
        Some (JObj p) \<Rightarrow> Inr p
      | _ \<Rightarrow> Inl (ValueError ''continuation packet''))"

definition continuation_packet_hash :: "(string \<Rightarrow> string) \<Rightarrow> jdict \<Rightarrow> string" where
  "continuation_packet_hash sha p = hash_text sha (stable_json (JObj p))"

definition rendered_markdown_hash :: "(string \<Rightarrow> string) \<Rightarrow> string \<Rightarrow> string" where
  "rendered_markdown_hash sha markdown = hash_text sha markdown"

text \<open>\<open>packet.source_refs.goal_contract_version\<close> of a validated packet.\<close>

definition packet_goal_contract_version :: "jdict \<Rightarrow> json" where
  "packet_goal_contract_version p =
     (case jget p ''source_refs'' of JObj r \<Rightarrow> jget r ''goal_contract_version'' | _ \<Rightarrow> JNull)"

lemma validate_fields_keys:
  "validate_fields fs d = Some p \<Longrightarrow> set (map fst p) \<subseteq> set (map fst fs)"
proof (induction fs arbitrary: p)
  case (Cons g fs)
  obtain k f where g: "g = (k, f)" by fastforce
  from Cons.prems g obtain v rest where "validate_fields fs d = Some rest"
    and p: "p = (if v = JNull then rest else (k, v) # rest)"
    by (auto split: option.splits)
  from Cons.IH [OF this(1)] p g show ?case by auto
qed simp

lemma validate_fields_lookup:
  "validate_fields fs d = Some p \<Longrightarrow> distinct (map fst fs) \<Longrightarrow> (k, f) \<in> set fs \<Longrightarrow>
     validate_field f (map_of d k) = Some (jget p k)"
proof (induction fs arbitrary: p)
  case (Cons g fs)
  obtain k' f' where g: "g = (k', f')" by fastforce
  from Cons.prems(1) g obtain v rest where v: "validate_field f' (map_of d k') = Some v"
    and rest: "validate_fields fs d = Some rest"
    and p: "p = (if v = JNull then rest else (k', v) # rest)"
    by (auto split: option.splits)
  have new: "k' \<notin> fst ` set rest"
    using validate_fields_keys [OF rest] Cons.prems(2) g by auto
  show ?case
  proof (cases "k = k'")
    case True
    with Cons.prems(2,3) g have "f = f'" by (auto simp: image_iff)
    with True v p new show ?thesis
      by (auto simp: jget_def dest: map_of_eq_None_iff [THEN iffD2])
  next
    case False
    with Cons.IH [OF rest] Cons.prems(2,3) g have "validate_field f (map_of d k) = Some (jget rest k)"
      by auto
    with False p show ?thesis by auto
  qed
qed simp

lemma packet_fields_distinct: "distinct (map fst packet_fields)"
  by (simp add: packet_fields_def)

text \<open>A validated packet has an id, which the input gave.\<close>

lemma validated_packet_id:
  assumes "model_validate_continuation_packet d = Inr p"
  shows "\<exists>i. i \<noteq> [] \<and> jget p ''packet_id'' = JStr i \<and> map_of d ''packet_id'' = Some (JStr i)"
proof -
  from assms have "validate_fields packet_fields d = Some p"
    by (auto simp: model_validate_continuation_packet_def split: option.splits json.splits if_splits)
  then have "validate_field TextField (map_of d ''packet_id'') = Some (jget p ''packet_id'')"
    by (rule validate_fields_lookup) (simp_all add: packet_fields_def)
  then show ?thesis by (auto split: option.splits json.splits if_splits)
qed

end
