(* ===== verification/RecoveryExecution.thy ===== *)
theory RecoveryExecution
  imports ContinuationPacket
begin

text \<open>
  \<open>SessionService.record_recovery_execution\<close> of
  \<^verbatim>\<open>src/watchdog/services/session_service/service.py\<close> and its helpers: one recovery attempt is
  recorded as a transaction that walks through the statuses of a recovery, with session events,
  a lineage record and the continuation identity along the way. The method is not one atomic
  step: each append is, and an append that raises leaves the earlier ones behind. The definitions
  follow the method in order; \<open>clock n\<close> is what its n-th call of \<open>_utcnow()\<close> returns.
\<close>

section \<open>The outcome of a resume\<close>

definition terminal_recovery_statuses :: "string list" where
  "terminal_recovery_statuses = [''completed'', ''failed_retryable'', ''failed_manual'']"

definition normalize_resume_outcome :: "json \<Rightarrow> string option" where
  "normalize_resume_outcome v =
     (let n = stripped_text v in
      if n \<in> {''same_thread_resume'', ''new_child_session''} then Some n else None)"

definition resume_native_thread_id :: "jdict option \<Rightarrow> string option" where
  "resume_native_thread_id resume =
     (case resume of
        None \<Rightarrow> None
      | Some r \<Rightarrow>
          (let native = stripped_text (jget r ''native_thread_id'');
               thread = stripped_text (jget r ''thread_id'')
           in if native \<noteq> [] then Some native
              else if starts_with thread ''session:'' then None
              else if thread = [] then None else Some thread))"

definition resume_session_id :: "jdict option \<Rightarrow> string option" where
  "resume_session_id resume =
     (case resume of
        None \<Rightarrow> None
      | Some r \<Rightarrow>
          map_option (\<lambda>k. stripped_text (jget r k))
            (find (\<lambda>k. stripped_text (jget r k) \<noteq> []) [''session_id'', ''child_session_id'']))"

definition resume_session_thread_id :: "jdict option \<Rightarrow> string option" where
  "resume_session_thread_id resume =
     (case resume of
        None \<Rightarrow> None
      | Some r \<Rightarrow>
          (let thread = stripped_text (jget r ''thread_id'')
           in if starts_with thread ''session:'' then Some thread else None))"

text \<open>The test \<open>x and y and x != y\<close> on an optional text and a text.\<close>

definition names_other :: "string option \<Rightarrow> string \<Rightarrow> bool" where
  "names_other x y \<longleftrightarrow> or_empty x \<noteq> [] \<and> y \<noteq> [] \<and> or_empty x \<noteq> y"

definition resolve_resume_outcome ::
    "string option \<Rightarrow> string option \<Rightarrow> jdict option \<Rightarrow> string option \<Rightarrow> string option" where
  "resolve_resume_outcome parent_session_id parent_native_thread_id resume explicit =
     (case resume of
        None \<Rightarrow> None
      | Some r \<Rightarrow>
          (case normalize_resume_outcome (jopt explicit) of
             Some n \<Rightarrow> Some n
           | None \<Rightarrow>
               (case normalize_resume_outcome (jget r ''resume_outcome'') of
                  Some n \<Rightarrow> Some n
                | None \<Rightarrow>
                    (let parent = strip (or_empty parent_session_id);
                         thread = strip (or_empty parent_native_thread_id);
                         resumed = strip (or_empty (resume_native_thread_id resume))
                     in if names_other (resume_session_id resume) parent
                          \<or> names_other (resume_session_thread_id resume) parent
                          \<or> names_other (Some resumed) thread
                        then Some ''new_child_session'' else Some ''same_thread_resume''))))"

definition resolve_child_session_id ::
    "(string \<Rightarrow> string) \<Rightarrow> string \<Rightarrow> jdict option \<Rightarrow> string option \<Rightarrow> string \<Rightarrow> string option" where
  "resolve_child_session_id sha project_id resume outcome tx =
     (if resume = None \<or> outcome \<noteq> Some ''new_child_session'' then None
      else
        (let session_id = or_empty (resume_session_id resume);
             native = strip (or_empty (resume_native_thread_id resume));
             thread = or_empty (resume_session_thread_id resume)
         in if session_id \<noteq> [] then Some session_id
            else if native \<noteq> [] then Some (''session:'' @ project_id @ '':'' @ native)
            else if thread \<noteq> [] then Some thread
            else Some (stable_id sha ''session'' [project_id, tx, ''child''])))"

section \<open>Arguments and derived values\<close>

record recovery_args =
  ra_project_id :: string
  ra_parent_session_id :: string
  ra_parent_native_thread_id :: "string option"
  ra_recovery_reason :: string
  ra_failure_family :: string
  ra_failure_signature :: string
  ra_handoff :: jdict
  ra_resume :: "jdict option"
  ra_resume_outcome :: "string option"
  ra_resume_error :: "string option"
  ra_goal_contract_version :: string
  ra_source_packet_id :: "string option"
  ra_continuation_identity :: "string option"
  ra_route_key :: "string option"
  ra_snapshot_version :: "string option"
  ra_snapshot_epoch :: "string option"

text \<open>
  The local variables of the method. The continuation identity always ends in
  \<open>:recover_current_branch\<close> or is a non-empty argument, so the method's tests of it hold.
\<close>

record recovery_plan =
  rp_handoff_file :: string
  rp_handoff_summary :: string
  rp_packet :: "jdict option"
  rp_tx :: string
  rp_correlation :: string
  rp_source_packet :: string
  rp_version :: "string option"
  rp_epoch :: "string option"
  rp_goal :: string
  rp_identity :: string
  rp_route :: "string option"
  rp_outcome :: "string option"
  rp_child :: "string option"
  rp_lineage :: "string option"
  rp_key :: string

definition handoff_packet :: "jdict \<Rightarrow> py_error + jdict option" where
  "handoff_packet handoff =
     (case jget handoff ''continuation_packet'' of
        JObj d \<Rightarrow>
          (case model_validate_continuation_packet d of Inl e \<Rightarrow> Inl e | Inr p \<Rightarrow> Inr (Some p))
      | _ \<Rightarrow> Inr None)"

definition plan_with_packet ::
    "(string \<Rightarrow> string) \<Rightarrow> recovery_args \<Rightarrow> string \<Rightarrow> jdict option \<Rightarrow> recovery_plan" where
  "plan_with_packet sha a handoff_file packet =
     (let pr = ra_project_id a; se = ra_parent_session_id a;
          tx = stable_id sha ''recovery-tx''
            [pr, se, or_empty (ra_parent_native_thread_id a), ra_recovery_reason a,
             ra_failure_family a, ra_failure_signature a, handoff_file];
          packet_id = (case packet of None \<Rightarrow> [] | Some p \<Rightarrow> text_or_empty (jget p ''packet_id''));
          source = strip (if packet_id \<noteq> [] then packet_id else or_empty (ra_source_packet_id a));
          source = (if source \<noteq> [] then source
                    else stable_id sha ''packet:handoff'' [tx, handoff_file]);
          version = norm_arg (ra_snapshot_version a);
          packet_goal = (case packet of None \<Rightarrow> JNull | Some p \<Rightarrow> packet_goal_contract_version p);
          goal = or_else (normalize_optional_text
              (if truthy packet_goal then packet_goal else JStr (ra_goal_contract_version a)))
            ''goal-contract:unknown'';
          identity = or_else (norm_arg (ra_continuation_identity a))
            (pr @ '':'' @ se @ '':'' @ or_else (ra_parent_native_thread_id a) ''none'' @
             '':recover_current_branch'');
          route = (case (norm_arg (ra_route_key a), version) of
              (Some r, _) \<Rightarrow> Some r
            | (None, Some v) \<Rightarrow> Some (identity @ '':'' @ v)
            | (None, None) \<Rightarrow> None);
          outcome = resolve_resume_outcome (Some se) (ra_parent_native_thread_id a) (ra_resume a)
            (ra_resume_outcome a);
          child = resolve_child_session_id sha pr (ra_resume a) outcome tx
      in \<lparr>rp_handoff_file = handoff_file,
          rp_handoff_summary = stripped_text (jget (ra_handoff a) ''summary''),
          rp_packet = packet, rp_tx = tx, rp_correlation = stable_id sha ''corr:recovery'' [tx],
          rp_source_packet = source, rp_version = version,
          rp_epoch = norm_arg (ra_snapshot_epoch a), rp_goal = goal, rp_identity = identity,
          rp_route = route, rp_outcome = outcome, rp_child = child,
          rp_lineage = map_option (\<lambda>c. stable_id sha ''lineage'' [tx, c]) child,
          rp_key = join ''|'' [se, ra_recovery_reason a, ra_failure_signature a]\<rparr>)"

definition plan_recovery :: "(string \<Rightarrow> string) \<Rightarrow> recovery_args \<Rightarrow> py_error + recovery_plan" where
  "plan_recovery sha a =
     (let handoff_file = stripped_text (jget (ra_handoff a) ''handoff_file'') in
      case handoff_packet (ra_handoff a) of
        Inl e \<Rightarrow> Inl e
      | Inr packet \<Rightarrow>
          if handoff_file = [] then Inl (ValueError ''handoff.handoff_file is required'')
          else Inr (plan_with_packet sha a handoff_file packet))"

section \<open>The guard against a second active transaction\<close>

definition matching_recoveries :: "string \<Rightarrow> string \<Rightarrow> session_store \<Rightarrow> recovery_tx list" where
  "matching_recoveries parent key s =
     filter (\<lambda>r. rt_recovery_key r = key) (list_recovery_transactions (Some parent) None None None s)"

definition assert_no_conflicting_active_recovery_transaction ::
    "string \<Rightarrow> string \<Rightarrow> string \<Rightarrow> (unit, session_store) op" where
  "assert_no_conflicting_active_recovery_transaction parent key tx s =
     (case matching_recoveries parent key s of
        [] \<Rightarrow> (Inr (), s)
      | r # rs \<Rightarrow>
          (let latest = max_by (\<lambda>r. seq_or_zero (rt_log_seq r)) r rs in
           if rt_recovery_transaction_id latest = tx
             \<or> rt_status latest \<in> set terminal_recovery_statuses
           then (Inr (), s)
           else (Inl (ValueError
                  (''active recovery transaction already exists for recovery_key '' @ key @ '': '' @
                   rt_recovery_transaction_id latest)), s)))"

section \<open>The steps of a recovery\<close>

definition recovery_draft ::
    "recovery_args \<Rightarrow> recovery_plan \<Rightarrow> string option \<Rightarrow> string \<Rightarrow> string \<Rightarrow> string \<Rightarrow> string option \<Rightarrow>
     jdict \<Rightarrow> string option \<Rightarrow> recovery_tx" where
  "recovery_draft a p child status started updated lineage metadata completed =
     \<lparr>rt_recovery_transaction_id = rp_tx p, rt_recovery_key = rp_key p,
      rt_project_id = ra_project_id a, rt_parent_session_id = ra_parent_session_id a,
      rt_child_session_id = child, rt_source_packet_id = Some (rp_source_packet p),
      rt_recovery_reason = ra_recovery_reason a, rt_failure_family = ra_failure_family a,
      rt_failure_signature = ra_failure_signature a, rt_status = status,
      rt_started_at = started, rt_updated_at = updated, rt_completed_at = completed,
      rt_lineage_id = lineage, rt_causation_id = Some (rp_tx p),
      rt_correlation_id = rp_correlation p,
      rt_idempotency_key = ''idem:recovery:'' @ rp_tx p @ '':'' @ status, rt_metadata = metadata,
      rt_log_seq = None\<rparr>"

definition append_recovery_status ::
    "recovery_args \<Rightarrow> recovery_plan \<Rightarrow> string option \<Rightarrow> string \<Rightarrow> string \<Rightarrow> string \<Rightarrow> string option \<Rightarrow>
     jdict \<Rightarrow> string option \<Rightarrow> (recovery_tx, session_store) op" where
  "append_recovery_status a p child status started updated lineage metadata completed =
     op_bind
       (op_lift (validate_recovery
         (recovery_draft a p child status started updated lineage metadata completed)))
       append_recovery_transaction"

definition native_ids :: "string option \<Rightarrow> (string, string) dict" where
  "native_ids v = (if or_empty v = [] then [] else [(''native_thread_id'', or_empty v)])"

abbreviation parent_ids :: "recovery_args \<Rightarrow> (string, string) dict" where
  "parent_ids a \<equiv> native_ids (ra_parent_native_thread_id a)"

abbreviation parent_event ::
    "(string \<Rightarrow> string) \<Rightarrow> recovery_args \<Rightarrow> recovery_plan \<Rightarrow> string \<Rightarrow> string \<Rightarrow>
     (string, string) dict \<Rightarrow> jdict \<Rightarrow> (session_event, session_store) op" where
  "parent_event sha a p ty at related payload \<equiv>
     svc_append_event sha ty (ra_project_id a) (ra_parent_session_id a) at (Some (rp_tx p))
       (rp_correlation p) related payload"

definition recovery_start ::
    "(string \<Rightarrow> string) \<Rightarrow> (nat \<Rightarrow> string) \<Rightarrow> recovery_args \<Rightarrow> recovery_plan \<Rightarrow>
     (recovery_tx, session_store) op" where
  "recovery_start sha clock a p =
     op_bind
       (svc_append_event sha ''recovery_tx_started'' (ra_project_id a) (ra_parent_session_id a)
          (clock 0) None (rp_correlation p)
          ((''recovery_transaction_id'', rp_tx p) # parent_ids a)
          [(''recovery_reason'', JStr (ra_recovery_reason a)),
           (''failure_family'', JStr (ra_failure_family a)),
           (''failure_signature'', JStr (ra_failure_signature a)),
           (''parent_native_thread_id'', jopt (ra_parent_native_thread_id a))])
       (\<lambda>_. append_recovery_status a p None ''started'' (clock 0) (clock 0) None
              [(''parent_native_thread_id'', jopt (ra_parent_native_thread_id a))] None)"

text \<open>The keyword arguments the recorders of continuation state get.\<close>

definition plan_args :: "recovery_args \<Rightarrow> recovery_plan \<Rightarrow> string \<Rightarrow> continuation_args" where
  "plan_args a p at =
     \<lparr>ca_project_id = ra_project_id a, ca_session_id = ra_parent_session_id a,
      ca_decision_source = ''recovery_guard'', ca_decision_class = ''recover_current_branch'',
      ca_action_ref = Some ''execute_recovery'', ca_snapshot_version = rp_version p,
      ca_snapshot_epoch = rp_epoch p, ca_goal_contract_version = Some (rp_goal p),
      ca_suppression_reason = None, ca_identity = Some (rp_identity p),
      ca_route_key = rp_route p, ca_branch_switch_token = None,
      ca_source_packet_id = Some (rp_source_packet p),
      ca_lineage_refs = [JStr (rp_tx p), JStr (rp_source_packet p)], ca_consumed_at = None,
      ca_causation_id = Some (rp_tx p), ca_correlation_id = Some (rp_correlation p),
      ca_occurred_at = Some at\<rparr>"

definition frozen_packet_payload :: "(string \<Rightarrow> string) \<Rightarrow> recovery_plan \<Rightarrow> jdict" where
  "frozen_packet_payload sha p =
     (case rp_packet p of
        None \<Rightarrow> []
      | Some packet \<Rightarrow>
          [(''continuation_packet'', JObj packet),
           (''packet_hash'', JStr (continuation_packet_hash sha packet)),
           (''rendered_markdown_hash'', JStr (rendered_markdown_hash sha (rp_handoff_summary p))),
           (''rendered_from_packet_id'', jget packet ''packet_id'')])"

definition recovery_freeze ::
    "(string \<Rightarrow> string) \<Rightarrow> (nat \<Rightarrow> string) \<Rightarrow> recovery_args \<Rightarrow> recovery_plan \<Rightarrow>
     (session_event, session_store) op" where
  "recovery_freeze sha clock a p =
     op_bind
       (parent_event sha a p ''handoff_packet_frozen'' (clock 1)
          (dict_set_opt ''route_key'' (rp_route p)
            (dict_set ''continuation_identity'' (rp_identity p)
              ([(''recovery_transaction_id'', rp_tx p),
                (''source_packet_id'', rp_source_packet p)] @ parent_ids a)))
          ([(''handoff_file'', JStr (rp_handoff_file p)),
            (''summary'', JStr (rp_handoff_summary p)),
            (''decision_source'', JStr ''recovery_guard''),
            (''decision_class'', JStr ''recover_current_branch''),
            (''authoritative_snapshot_version'', jopt (rp_version p)),
            (''snapshot_epoch'', jopt (rp_epoch p)),
            (''goal_contract_version'', JStr (rp_goal p)),
            (''lineage_refs'', jtexts [rp_tx p, rp_source_packet p])] @
           frozen_packet_payload sha p))
       (\<lambda>_. op_bind
          (append_recovery_status a p None ''packet_frozen'' (clock 0) (clock 1) None
             [(''handoff_file'', JStr (rp_handoff_file p))] None)
          (\<lambda>_. record_continuation_identity_state sha (clock 1) (rp_identity p) ''issued''
             (plan_args a p (clock 1))))"

section \<open>A new child session\<close>

definition child_payload :: "recovery_plan \<Rightarrow> jdict \<Rightarrow> jdict" where
  "child_payload p resume =
     (case rp_outcome p of
        None \<Rightarrow> resume
      | Some o' \<Rightarrow> dict_setdefault ''resume_outcome'' (JStr o') resume)"

definition child_ids :: "jdict \<Rightarrow> (string, string) dict" where
  "child_ids resume = native_ids (Some (strip (or_empty (resume_native_thread_id (Some resume)))))"

abbreviation child_event ::
    "(string \<Rightarrow> string) \<Rightarrow> recovery_args \<Rightarrow> recovery_plan \<Rightarrow> string \<Rightarrow> string \<Rightarrow> string \<Rightarrow>
     (string, string) dict \<Rightarrow> jdict \<Rightarrow> (session_event, session_store) op" where
  "child_event sha a p child ty at related payload \<equiv>
     svc_append_event sha ty (ra_project_id a) child at (Some (rp_tx p)) (rp_correlation p)
       related payload"

definition recovery_child_created ::
    "(string \<Rightarrow> string) \<Rightarrow> (nat \<Rightarrow> string) \<Rightarrow> recovery_args \<Rightarrow> recovery_plan \<Rightarrow> string \<Rightarrow> string \<Rightarrow>
     jdict \<Rightarrow> (recovery_tx, session_store) op" where
  "recovery_child_created sha clock a p child lineage resume =
     op_bind
       (child_event sha a p child ''child_session_created'' (clock 2)
          ([(''recovery_transaction_id'', rp_tx p),
            (''parent_session_id'', ra_parent_session_id a),
            (''source_packet_id'', rp_source_packet p)] @ child_ids resume)
          (child_payload p resume))
       (\<lambda>_. op_bind
          (append_recovery_status a p (Some child) ''child_created'' (clock 0) (clock 2) None
             (child_payload p resume) None)
          (\<lambda>_. append_recovery_status a p (Some child) ''lineage_pending'' (clock 0) (clock 3)
             (Some lineage) [(''goal_contract_version'', JStr (rp_goal p))] None))"

definition lineage_draft ::
    "recovery_args \<Rightarrow> recovery_plan \<Rightarrow> string \<Rightarrow> string \<Rightarrow> string \<Rightarrow> session_lineage" where
  "lineage_draft a p child lineage at =
     \<lparr>ln_lineage_id = lineage, ln_project_id = ra_project_id a,
      ln_parent_session_id = ra_parent_session_id a, ln_child_session_id = child,
      ln_relation = ''resumes_after_interruption'', ln_source_packet_id = rp_source_packet p,
      ln_recovery_reason = ra_recovery_reason a, ln_goal_contract_version = rp_goal p,
      ln_recovery_transaction_id = Some (rp_tx p), ln_committed_at = at,
      ln_causation_id = Some (rp_tx p), ln_correlation_id = rp_correlation p,
      ln_idempotency_key = ''idem:lineage:'' @ lineage,
      ln_metadata = [(''handoff_file'', JStr (rp_handoff_file p))], ln_log_seq = None\<rparr>"

definition recovery_commit_lineage ::
    "(string \<Rightarrow> string) \<Rightarrow> (nat \<Rightarrow> string) \<Rightarrow> recovery_args \<Rightarrow> recovery_plan \<Rightarrow> string \<Rightarrow> string \<Rightarrow>
     jdict \<Rightarrow> (recovery_tx, session_store) op" where
  "recovery_commit_lineage sha clock a p child lineage resume =
     op_bind
       (op_bind (op_lift (validate_lineage (lineage_draft a p child lineage (clock 4))))
          append_lineage)
       (\<lambda>_. op_bind
          (child_event sha a p child ''lineage_committed'' (clock 4)
             ([(''recovery_transaction_id'', rp_tx p), (''lineage_id'', lineage),
               (''parent_session_id'', ra_parent_session_id a)] @ child_ids resume)
             [(''goal_contract_version'', JStr (rp_goal p)),
              (''relation'', JStr ''resumes_after_interruption'')])
          (\<lambda>_. append_recovery_status a p (Some child) ''lineage_committed'' (clock 0) (clock 4)
             (Some lineage) [(''goal_contract_version'', JStr (rp_goal p))] None))"

definition recovery_cool_parent ::
    "(string \<Rightarrow> string) \<Rightarrow> (nat \<Rightarrow> string) \<Rightarrow> recovery_args \<Rightarrow> recovery_plan \<Rightarrow> string \<Rightarrow> string \<Rightarrow>
     (recovery_tx, session_store) op" where
  "recovery_cool_parent sha clock a p child lineage =
     op_bind
       (parent_event sha a p ''parent_session_closed_or_cooled'' (clock 5)
          ([(''recovery_transaction_id'', rp_tx p), (''child_session_id'', child),
            (''lineage_id'', lineage)] @ parent_ids a)
          [(''status'', JStr ''cooled'')])
       (\<lambda>_. append_recovery_status a p (Some child) ''parent_cooling'' (clock 0) (clock 5)
          (Some lineage) [(''status'', JStr ''cooled'')] None)"

record recorded_recovery =
  rr_tx :: string
  rr_correlation :: string
  rr_parent :: string
  rr_child :: "string option"
  rr_source_packet :: string
  rr_lineage :: "string option"

definition recovery_result ::
    "recovery_args \<Rightarrow> recovery_plan \<Rightarrow> string option \<Rightarrow> string option \<Rightarrow> recorded_recovery" where
  "recovery_result a p child lineage =
     \<lparr>rr_tx = rp_tx p, rr_correlation = rp_correlation p, rr_parent = ra_parent_session_id a,
      rr_child = child, rr_source_packet = rp_source_packet p, rr_lineage = lineage\<rparr>"

definition recovery_complete_child ::
    "(string \<Rightarrow> string) \<Rightarrow> (nat \<Rightarrow> string) \<Rightarrow> recovery_args \<Rightarrow> recovery_plan \<Rightarrow> string \<Rightarrow> string \<Rightarrow>
     jdict \<Rightarrow> (recovery_tx, session_store) op" where
  "recovery_complete_child sha clock a p child lineage resume =
     op_bind
       (parent_event sha a p ''recovery_tx_completed'' (clock 6)
          ([(''recovery_transaction_id'', rp_tx p), (''child_session_id'', child),
            (''lineage_id'', lineage), (''source_packet_id'', rp_source_packet p)] @ parent_ids a)
          [(''status'', JStr ''completed''), (''resume_outcome'', jopt (rp_outcome p))])
       (\<lambda>_. op_bind
          (record_continuation_identity_state sha (clock 6) (rp_identity p) ''consumed''
             ((plan_args a p (clock 6))
                \<lparr>ca_lineage_refs := [JStr (rp_tx p), JStr (rp_source_packet p), JStr lineage],
                 ca_consumed_at := Some (clock 6)\<rparr>))
          (\<lambda>_. append_recovery_status a p (Some child) ''completed'' (clock 0) (clock 6)
             (Some lineage)
             [(''resume_status'', JStr (text_or_empty (jget resume ''status''))),
              (''resume_outcome'', jopt (rp_outcome p))] (Some (clock 6))))"

definition recovery_with_child ::
    "(string \<Rightarrow> string) \<Rightarrow> (nat \<Rightarrow> string) \<Rightarrow> recovery_args \<Rightarrow> recovery_plan \<Rightarrow> string \<Rightarrow> string \<Rightarrow>
     jdict \<Rightarrow> (recorded_recovery, session_store) op" where
  "recovery_with_child sha clock a p child lineage resume =
     op_bind (recovery_child_created sha clock a p child lineage resume)
       (\<lambda>_. op_bind (recovery_commit_lineage sha clock a p child lineage resume)
         (\<lambda>_. op_bind (recovery_cool_parent sha clock a p child lineage)
           (\<lambda>_. op_bind (recovery_complete_child sha clock a p child lineage resume)
             (\<lambda>_. op_return (recovery_result a p (Some child) (Some lineage))))))"

section \<open>The same thread, or a failed resume\<close>

definition recovery_terminal_status :: "recovery_args \<Rightarrow> string" where
  "recovery_terminal_status a =
     (if or_empty (ra_resume_error a) \<noteq> [] then ''failed_retryable'' else ''completed'')"

definition recovery_identity_state ::
    "(string \<Rightarrow> string) \<Rightarrow> (nat \<Rightarrow> string) \<Rightarrow> recovery_args \<Rightarrow> recovery_plan \<Rightarrow>
     (session_event, session_store) op" where
  "recovery_identity_state sha clock a p =
     (if recovery_terminal_status a = ''completed''
      then record_continuation_identity_state sha (clock 2) (rp_identity p) ''consumed''
             ((plan_args a p (clock 2))\<lparr>ca_consumed_at := Some (clock 2)\<rparr>)
      else op_bind
             (record_continuation_identity_state sha (clock 2) (rp_identity p) ''invalidated''
                ((plan_args a p (clock 2))\<lparr>ca_suppression_reason := ra_resume_error a\<rparr>))
             (\<lambda>_. record_continuation_replay_invalidated sha (clock 2)
                (or_else (ra_resume_error a) (recovery_terminal_status a))
                (plan_args a p (clock 2))))"

definition recovery_without_child ::
    "(string \<Rightarrow> string) \<Rightarrow> (nat \<Rightarrow> string) \<Rightarrow> recovery_args \<Rightarrow> recovery_plan \<Rightarrow>
     (recorded_recovery, session_store) op" where
  "recovery_without_child sha clock a p =
     (let status = recovery_terminal_status a in
      op_bind (recovery_identity_state sha clock a p)
        (\<lambda>_. op_bind
          (parent_event sha a p ''recovery_tx_completed'' (clock 2)
             ([(''recovery_transaction_id'', rp_tx p),
               (''source_packet_id'', rp_source_packet p)] @ parent_ids a)
             [(''status'', JStr status), (''resume_error'', jopt (ra_resume_error a)),
              (''resume_outcome'', jopt (rp_outcome p))])
          (\<lambda>_. op_bind
            (append_recovery_status a p None status (clock 0) (clock 2) None
               [(''resume_error'', jopt (ra_resume_error a)),
                (''resume_outcome'', jopt (rp_outcome p))]
               (if status = ''completed'' then Some (clock 2) else None))
            (\<lambda>_. op_return (recovery_result a p None None)))))"

section \<open>The method\<close>

definition run_recovery ::
    "(string \<Rightarrow> string) \<Rightarrow> (nat \<Rightarrow> string) \<Rightarrow> recovery_args \<Rightarrow> recovery_plan \<Rightarrow>
     (recorded_recovery, session_store) op" where
  "run_recovery sha clock a p =
     op_bind (recovery_start sha clock a p)
       (\<lambda>_. op_bind (recovery_freeze sha clock a p)
         (\<lambda>_. case (rp_child p, rp_lineage p, ra_resume a) of
              (Some child, Some lineage, Some resume) \<Rightarrow>
                recovery_with_child sha clock a p child lineage resume
            | _ \<Rightarrow> recovery_without_child sha clock a p))"

definition record_recovery_execution ::
    "(string \<Rightarrow> string) \<Rightarrow> (nat \<Rightarrow> string) \<Rightarrow> recovery_args \<Rightarrow> (recorded_recovery, session_store) op"
where
  "record_recovery_execution sha clock a s =
     (case plan_recovery sha a of
        Inl e \<Rightarrow> (Inl e, s)
      | Inr p \<Rightarrow>
          op_bind
            (assert_no_conflicting_active_recovery_transaction (ra_parent_session_id a)
               (rp_key p) (rp_tx p))
            (\<lambda>_. run_recovery sha clock a p) s)"

end
