(* ===== verification/RecoveryTheorems.thy ===== *)
theory RecoveryTheorems
  imports RecoveryExecution
begin

text \<open>
  What a recovery transaction leaves in the store, whether the call returns or raises. A step is
  judged by the statuses it appends (\<open>walks\<close>); the judgement composes along \<^const>\<open>op_bind\<close>, so
  the walk of the whole method is read off its steps.
\<close>

section \<open>The walk of an operation\<close>

text \<open>
  The operation appends records that satisfy \<open>P\<close> and whose statuses are, in order, some of
  \<open>sts\<close>; when it returns, a record of every status of \<open>sts\<close> is in the store.
\<close>

definition status_recorded :: "(recovery_tx \<Rightarrow> bool) \<Rightarrow> session_store \<Rightarrow> string \<Rightarrow> bool" where
  "status_recorded P s t \<longleftrightarrow> (\<exists>r \<in> set (st_recovery s). P r \<and> rt_status r = t)"

definition walks ::
    "(recovery_tx \<Rightarrow> bool) \<Rightarrow> string list \<Rightarrow> ('a, session_store) op \<Rightarrow> bool" where
  "walks P sts m \<longleftrightarrow>
     (\<forall>s. \<exists>rs. st_recovery (snd (m s)) = st_recovery s @ rs \<and>
        subseq (map rt_status rs) sts \<and> list_all P rs \<and>
        (returned (m s) \<longrightarrow> list_all (status_recorded P (snd (m s))) sts))"

named_theorems walk_rules \<open>the walks of the steps of a recovery\<close>

lemma status_recorded_extends:
  "status_recorded P s t \<Longrightarrow> st_recovery s' = st_recovery s @ rs \<Longrightarrow> status_recorded P s' t"
  by (auto simp: status_recorded_def)

lemma walks_quiet:
  assumes "\<And>s. st_recovery (snd (m s)) = st_recovery s"
  shows "walks P [] m"
  using assms by (simp add: walks_def)

lemma walks_bind:
  assumes m: "walks P as m" and f: "\<And>a. walks P bs (f a)"
  shows "walks P (as @ bs) (op_bind m f)"
  unfolding walks_def
proof
  fix s
  obtain r s1 where ms: "m s = (r, s1)" by fastforce
  from m ms obtain rs where 1: "st_recovery s1 = st_recovery s @ rs" "subseq (map rt_status rs) as"
    "list_all P rs" "returned (m s) \<longrightarrow> list_all (status_recorded P s1) as"
    unfolding walks_def by (metis snd_conv)
  show "\<exists>rs. st_recovery (snd (op_bind m f s)) = st_recovery s @ rs \<and>
      subseq (map rt_status rs) (as @ bs) \<and> list_all P rs \<and>
      (returned (op_bind m f s) \<longrightarrow> list_all (status_recorded P (snd (op_bind m f s))) (as @ bs))"
  proof (cases r)
    case (Inl e)
    with ms 1 show ?thesis by (auto simp: returned_def intro: subseq_order.trans)
  next
    case (Inr a)
    with ms have bind: "op_bind m f s = f a s1" by simp
    from f [of a] obtain rs' where 2: "st_recovery (snd (f a s1)) = st_recovery s1 @ rs'"
      "subseq (map rt_status rs') bs" "list_all P rs'"
      "returned (f a s1) \<longrightarrow> list_all (status_recorded P (snd (f a s1))) bs"
      unfolding walks_def by blast
    have "list_all (status_recorded P s1) as" using 1(4) ms Inr by (simp add: returned_def)
    then have "list_all (status_recorded P (snd (f a s1))) as"
      using status_recorded_extends [OF _ 2(1)] by (auto simp: list_all_iff)
    with 1 2 bind show ?thesis
      by (intro exI [of _ "rs @ rs'"]) (auto intro: list_emb_append_mono)
  qed
qed

lemma walks_bind_quiet: "walks P [] m \<Longrightarrow> (\<And>a. walks P bs (f a)) \<Longrightarrow> walks P bs (op_bind m f)"
  using walks_bind [of P "[]" m bs f] by simp

lemma walks_snoc_quiet: "walks P as m \<Longrightarrow> (\<And>a. walks P [] (f a)) \<Longrightarrow> walks P as (op_bind m f)"
  using walks_bind [of P as m "[]" f] by simp

section \<open>The walks of the steps\<close>

definition of_plan :: "recovery_args \<Rightarrow> recovery_plan \<Rightarrow> recovery_tx \<Rightarrow> bool" where
  "of_plan a p r \<longleftrightarrow>
     rt_recovery_transaction_id r = rp_tx p \<and> rt_recovery_key r = rp_key p \<and>
     rt_parent_session_id r = ra_parent_session_id a"

lemma append_recovery_cases:
  assumes "append_recovery_transaction q s = (res, s')"
  obtains (kept) "s' = s" and "\<And>r. res = Inr r \<Longrightarrow> r \<in> set (st_recovery s) \<and> same_recovery r q"
  | (added) n where "st_recovery s' = st_recovery s @ [q\<lparr>rt_log_seq := Some n\<rparr>]"
proof (cases "find (\<lambda>x. rt_idempotency_key x = rt_idempotency_key q) (st_recovery s)")
  case None
  with assms show thesis
    by (intro added [of "next_log_seq s"])
      (auto simp: append_recovery_transaction_def dedupe_find Let_def)
next
  case (Some x)
  then have "x \<in> set (st_recovery s)" by (simp add: find_SomeD)
  with Some assms show thesis
    by (intro kept) (auto simp: append_recovery_transaction_def dedupe_find split: if_splits)
qed

lemma append_status_walks [walk_rules]:
  "walks (of_plan a p) [t] (append_recovery_status a p c t at up l md co)"
  unfolding walks_def
proof
  fix s
  let ?q = "recovery_draft a p c t at up l md co"
  have q: "of_plan a p (?q\<lparr>rt_log_seq := n\<rparr>)" "rt_status (?q\<lparr>rt_log_seq := n\<rparr>) = t" for n
    by (simp_all add: recovery_draft_def of_plan_def)
  have same: "same_recovery r ?q \<Longrightarrow> of_plan a p r \<and> rt_status r = t" for r
    by (simp add: same_recovery_def recovery_draft_def of_plan_def)
  show "\<exists>rs. st_recovery (snd (append_recovery_status a p c t at up l md co s)) = st_recovery s @ rs \<and>
      subseq (map rt_status rs) [t] \<and> list_all (of_plan a p) rs \<and>
      (returned (append_recovery_status a p c t at up l md co s) \<longrightarrow>
         list_all (status_recorded (of_plan a p)
           (snd (append_recovery_status a p c t at up l md co s))) [t])"
  proof (cases "validate_recovery ?q")
    case (Inl e)
    then show ?thesis by (simp add: append_recovery_status_def returned_def)
  next
    case (Inr q')
    then have run: "append_recovery_status a p c t at up l md co s = append_recovery_transaction ?q s"
      by (auto simp: append_recovery_status_def dest: validate_recovery_Inr)
    obtain res s' where app: "append_recovery_transaction ?q s = (res, s')" by fastforce
    then show ?thesis
    proof (cases rule: append_recovery_cases)
      case kept
      with same run app show ?thesis
        by (cases res) (auto simp: returned_def status_recorded_def)
    next
      case (added n)
      with q run app show ?thesis by (simp add: status_recorded_def)
    qed
  qed
qed

lemma svc_append_event_recovery:
  "st_recovery (snd (svc_append_event sha ty pr se at ca co re pa s)) = st_recovery s"
proof (cases "validate_event (event_draft sha ty pr se at ca co re pa)")
  case (Inl e)
  then show ?thesis by (simp add: svc_append_event_def)
next
  case (Inr r)
  then show ?thesis
    using append_event_frame [OF prod.collapse [symmetric], of r s] by (simp add: svc_append_event_def)
qed

lemma record_event_once_recovery:
  "st_recovery (snd (record_event_once sha now ty pr se co pa ca re at s)) = st_recovery s"
  by (auto simp: record_event_once_def Let_def record_event_def svc_append_event_recovery
      split: option.split)

lemma event_walks [walk_rules]: "walks P [] (svc_append_event sha ty pr se at ca co re pa)"
  by (rule walks_quiet) (rule svc_append_event_recovery)

lemma identity_walks [walk_rules]: "walks P [] (record_continuation_identity_state sha now i st a)"
  by (rule walks_quiet)
    (auto simp: record_continuation_identity_state_def Let_def record_event_once_recovery
      split: option.split)

lemma replay_walks [walk_rules]: "walks P [] (record_continuation_replay_invalidated sha now r a)"
  by (rule walks_quiet)
    (auto simp: record_continuation_replay_invalidated_def Let_def record_event_once_recovery)

lemma lineage_walks [walk_rules]: "walks P [] (op_bind (op_lift (validate_lineage l)) append_lineage)"
proof (rule walks_quiet)
  fix s
  show "st_recovery (snd (op_bind (op_lift (validate_lineage l)) append_lineage s)) = st_recovery s"
    using append_lineage_frame [OF prod.collapse [symmetric], of l s]
    by (cases "validate_lineage l") (auto dest: validate_lineage_Inr)
qed

lemma return_walks [walk_rules]: "walks P [] (op_return a)"
  by (rule walks_quiet) simp

lemma start_walks: "walks (of_plan a p) [''started''] (recovery_start sha clock a p)"
  unfolding recovery_start_def by (intro walks_bind_quiet walk_rules)

lemma freeze_walks: "walks (of_plan a p) [''packet_frozen''] (recovery_freeze sha clock a p)"
  unfolding recovery_freeze_def by (intro walks_bind_quiet [OF event_walks] walks_snoc_quiet walk_rules)

lemma child_created_walks:
  "walks (of_plan a p) [''child_created'', ''lineage_pending'']
     (recovery_child_created sha clock a p c l r)"
  unfolding recovery_child_created_def
  using walks_bind [OF append_status_walks append_status_walks]
  by (intro walks_bind_quiet [OF event_walks]) simp

lemma commit_lineage_walks:
  "walks (of_plan a p) [''lineage_committed''] (recovery_commit_lineage sha clock a p c l r)"
  unfolding recovery_commit_lineage_def
  by (intro walks_bind_quiet [OF lineage_walks] walks_bind_quiet [OF event_walks] walk_rules)

lemma cool_parent_walks:
  "walks (of_plan a p) [''parent_cooling''] (recovery_cool_parent sha clock a p c l)"
  unfolding recovery_cool_parent_def by (intro walks_bind_quiet [OF event_walks] walk_rules)

lemma complete_child_walks:
  "walks (of_plan a p) [''completed''] (recovery_complete_child sha clock a p c l r)"
  unfolding recovery_complete_child_def
  by (intro walks_bind_quiet [OF event_walks] walks_bind_quiet [OF identity_walks] walk_rules)

lemma with_child_walks:
  "walks (of_plan a p)
     [''child_created'', ''lineage_pending'', ''lineage_committed'', ''parent_cooling'', ''completed'']
     (recovery_with_child sha clock a p c l r)"
proof -
  have "walks (of_plan a p)
      ([''child_created'', ''lineage_pending''] @ [''lineage_committed''] @ [''parent_cooling''] @
       [''completed'']) (recovery_with_child sha clock a p c l r)"
    unfolding recovery_with_child_def
    by (intro walks_bind child_created_walks commit_lineage_walks cool_parent_walks
        walks_snoc_quiet complete_child_walks return_walks)
  then show ?thesis by simp
qed

lemma identity_state_walks: "walks P [] (recovery_identity_state sha clock a p)"
  by (auto simp: recovery_identity_state_def intro!: walks_bind_quiet walk_rules)

lemma without_child_walks:
  "walks (of_plan a p) [recovery_terminal_status a] (recovery_without_child sha clock a p)"
  unfolding recovery_without_child_def Let_def
  by (intro walks_bind_quiet [OF identity_state_walks] walks_bind_quiet [OF event_walks]
      walks_snoc_quiet walk_rules)

definition recovery_path :: "recovery_args \<Rightarrow> recovery_plan \<Rightarrow> string list" where
  "recovery_path a p =
     [''started'', ''packet_frozen''] @
     (case (rp_child p, rp_lineage p, ra_resume a) of
        (Some _, Some _, Some _) \<Rightarrow>
          [''child_created'', ''lineage_pending'', ''lineage_committed'', ''parent_cooling'',
           ''completed'']
      | _ \<Rightarrow> [recovery_terminal_status a])"

lemma run_walks: "walks (of_plan a p) (recovery_path a p) (run_recovery sha clock a p)"
proof -
  let ?rest = "\<lambda>_ :: session_event. case (rp_child p, rp_lineage p, ra_resume a) of
      (Some child, Some lineage, Some resume) \<Rightarrow> recovery_with_child sha clock a p child lineage resume
    | _ \<Rightarrow> recovery_without_child sha clock a p"
  have rest: "walks (of_plan a p)
      (case (rp_child p, rp_lineage p, ra_resume a) of
        (Some _, Some _, Some _) \<Rightarrow>
          [''child_created'', ''lineage_pending'', ''lineage_committed'', ''parent_cooling'',
           ''completed'']
      | _ \<Rightarrow> [recovery_terminal_status a]) (?rest x)" for x
    by (auto intro: with_child_walks without_child_walks split: option.split)
  have "walks (of_plan a p) ([''started''] @ [''packet_frozen''] @
      (case (rp_child p, rp_lineage p, ra_resume a) of
        (Some _, Some _, Some _) \<Rightarrow>
          [''child_created'', ''lineage_pending'', ''lineage_committed'', ''parent_cooling'',
           ''completed'']
      | _ \<Rightarrow> [recovery_terminal_status a])) (run_recovery sha clock a p)"
    unfolding run_recovery_def
    by (rule walks_bind [OF start_walks], rule walks_bind [OF freeze_walks], rule rest)
  then show ?thesis by (simp add: recovery_path_def)
qed

section \<open>The method as a sequence of store steps\<close>

abbreviation store_steps :: "session_store \<Rightarrow> session_store \<Rightarrow> bool" where
  "store_steps \<equiv> store_step\<^sup>*\<^sup>*"

named_theorems step_rules \<open>operations that are sequences of store steps\<close>

lemma respects_steps_bind [step_rules]:
  "op_respects store_steps m \<Longrightarrow> (\<And>a. op_respects store_steps (f a)) \<Longrightarrow>
     op_respects store_steps (op_bind m f)"
  by (rule op_respects_bind) (auto simp: transp_def)

lemma respects_steps_lift [step_rules]:
  "op_respects store_steps (op_lift r)" "op_respects store_steps (op_return a)"
  by (simp_all add: op_respects_def)

lemma respects_steps_append [step_rules]:
  "op_respects store_steps (append_event e)"
  "op_respects store_steps (append_lineage l)"
  "op_respects store_steps (append_recovery_transaction t)"
  by (auto simp: op_respects_def intro: r_into_rtranclp store_step.intros [OF prod.collapse [symmetric]])

lemma respects_steps_event [step_rules]:
  "op_respects store_steps (svc_append_event sha ty pr se at ca co re pa)"
  unfolding svc_append_event_def by (intro step_rules)

lemma respects_steps_once:
  "op_respects store_steps (record_event_once sha now ty pr se co pa ca re at)"
proof -
  have "store_steps s (snd (record_event_once sha now ty pr se co pa ca re at s))" for s
    using record_event_once_step [OF prod.collapse [symmetric], of sha now ty pr se co pa ca re at s]
    by auto
  then show ?thesis by (simp add: op_respects_def)
qed

lemma respects_steps_identity [step_rules]:
  "op_respects store_steps (record_continuation_identity_state sha now i st a)"
  by (auto simp: record_continuation_identity_state_def Let_def op_respects_def
      split: option.split intro: respects_steps_once [unfolded op_respects_def, rule_format])

lemma respects_steps_replay [step_rules]:
  "op_respects store_steps (record_continuation_replay_invalidated sha now r a)"
  by (simp add: record_continuation_replay_invalidated_def Let_def respects_steps_once)

lemma respects_steps_status [step_rules]:
  "op_respects store_steps (append_recovery_status a p c t at up l md co)"
  unfolding append_recovery_status_def by (intro step_rules)

lemma respects_steps_identity_state [step_rules]:
  "op_respects store_steps (recovery_identity_state sha clock a p)"
  by (auto simp: recovery_identity_state_def intro!: step_rules)

lemma respects_steps_parts [step_rules]:
  "op_respects store_steps (recovery_start sha clock a p)"
  "op_respects store_steps (recovery_freeze sha clock a p)"
  "op_respects store_steps (recovery_child_created sha clock a p c l r)"
  "op_respects store_steps (recovery_commit_lineage sha clock a p c l r)"
  "op_respects store_steps (recovery_cool_parent sha clock a p c l)"
  "op_respects store_steps (recovery_complete_child sha clock a p c l r)"
  "op_respects store_steps (recovery_without_child sha clock a p)"
  unfolding recovery_start_def recovery_freeze_def recovery_child_created_def
    recovery_commit_lineage_def recovery_cool_parent_def recovery_complete_child_def
    recovery_without_child_def Let_def
  by (intro step_rules)+

lemma respects_steps_with_child [step_rules]:
  "op_respects store_steps (recovery_with_child sha clock a p c l r)"
  unfolding recovery_with_child_def by (intro step_rules)

lemma respects_steps_rest:
  "op_respects store_steps (case (rp_child p, rp_lineage p, ra_resume a) of
      (Some child, Some lineage, Some resume) \<Rightarrow> recovery_with_child sha clock a p child lineage resume
    | _ \<Rightarrow> recovery_without_child sha clock a p)"
  by (auto split: option.split intro: step_rules)

lemma respects_steps_run: "op_respects store_steps (run_recovery sha clock a p)"
  unfolding run_recovery_def by (intro step_rules respects_steps_rest)

text \<open>What the guard lets pass.\<close>

lemma guard_Inr:
  "assert_no_conflicting_active_recovery_transaction se k tx s = (Inr u, s') \<Longrightarrow> s' = s"
  by (auto simp: assert_no_conflicting_active_recovery_transaction_def Let_def
      split: list.splits if_splits)

lemma guard_Inl:
  "assert_no_conflicting_active_recovery_transaction se k tx s = (Inl e, s') \<Longrightarrow> s' = s"
  by (auto simp: assert_no_conflicting_active_recovery_transaction_def Let_def
      split: list.splits if_splits)

lemma record_recovery_cases:
  assumes "plan_recovery sha a = Inr p"
  obtains (refused) e where "record_recovery_execution sha clock a s = (Inl e, s)"
      "assert_no_conflicting_active_recovery_transaction (ra_parent_session_id a) (rp_key p) (rp_tx p) s
         = (Inl e, s)"
  | (ran) "record_recovery_execution sha clock a s = run_recovery sha clock a p s"
      "assert_no_conflicting_active_recovery_transaction (ra_parent_session_id a) (rp_key p) (rp_tx p) s
         = (Inr (), s)"
proof (cases "assert_no_conflicting_active_recovery_transaction (ra_parent_session_id a) (rp_key p)
    (rp_tx p) s")
  case (Pair r s')
  then show thesis
    using assms refused ran
    by (cases r) (auto simp: record_recovery_execution_def dest: guard_Inl guard_Inr)
qed

lemma record_recovery_steps: "store_steps s (snd (record_recovery_execution sha clock a s))"
proof (cases "plan_recovery sha a")
  case (Inl e)
  then show ?thesis by (simp add: record_recovery_execution_def)
next
  case (Inr p)
  then show ?thesis
    by (cases rule: record_recovery_cases [of sha a p clock s])
      (use respects_steps_run in \<open>auto simp: op_respects_def\<close>)
qed

lemma store_steps_inv: "store_steps s s' \<Longrightarrow> store_inv s \<Longrightarrow> store_inv s'"
  by (induction rule: rtranclp_induct) (auto intro: store_step_inv)

lemma store_steps_extend:
  "store_steps s s' \<Longrightarrow>
     prefix (st_events s) (st_events s') \<and> prefix (st_lineage s) (st_lineage s') \<and>
     prefix (st_recovery s) (st_recovery s')"
proof (induction rule: rtranclp_induct)
  case (step t u)
  with store_step_extends [OF step(2)] show ?case by (auto intro: prefix_order.trans)
qed simp

section \<open>The guard on a well-formed store\<close>

lemma matching_filter:
  "matching_recoveries se k s =
     filter (\<lambda>r. rt_recovery_key r = k \<and> rt_parent_session_id r = se) (st_recovery s)"
  by (simp add: matching_recoveries_def list_recovery_transactions_def opt_match_def conj_commute)

definition recovery_open_for :: "string \<Rightarrow> recovery_tx list \<Rightarrow> bool" where
  "recovery_open_for tx rs \<longleftrightarrow>
     rs = [] \<or> rt_recovery_transaction_id (last rs) = tx \<or>
     rt_status (last rs) \<in> set terminal_recovery_statuses"

lemma latest_matching:
  assumes "store_inv s" and "matching_recoveries se k s = r # rs"
  shows "max_by (\<lambda>r. seq_or_zero (rt_log_seq r)) r rs = last (r # rs)"
proof -
  from assms(1) have "log_ok rt_idempotency_key rt_log_seq (next_log_seq s) (st_recovery s)"
    by (simp add: store_inv_def)
  then have "sorted_wrt (\<lambda>a b. seq_or_zero (rt_log_seq a) < seq_or_zero (rt_log_seq b))
      (matching_recoveries se k s)"
    unfolding matching_filter by (rule log_ok_filter)
  then show ?thesis unfolding assms(2) by (rule max_by_last)
qed

lemma guard_open:
  assumes "store_inv s"
  shows "assert_no_conflicting_active_recovery_transaction se k tx s = (Inr (), s) \<longleftrightarrow>
           recovery_open_for tx (matching_recoveries se k s)"
proof (cases "matching_recoveries se k s")
  case (Cons r rs)
  from latest_matching [OF assms Cons] show ?thesis
    by (simp add: assert_no_conflicting_active_recovery_transaction_def Cons recovery_open_for_def
        Let_def)
qed (simp add: assert_no_conflicting_active_recovery_transaction_def recovery_open_for_def)

section \<open>Runs of recoveries\<close>

text \<open>
  Stores that recoveries produce, one after the other, whether they return or raise, beside any
  appends of events and lineage records.
\<close>

inductive recovery_run :: "session_store \<Rightarrow> bool" where
  start: "recovery_run empty_session_store"
| recover: "recovery_run s \<Longrightarrow> recovery_run (snd (record_recovery_execution sha clock a s))"
| event: "recovery_run s \<Longrightarrow> recovery_run (snd (append_event e s))"
| lineage: "recovery_run s \<Longrightarrow> recovery_run (snd (append_lineage l s))"

lemma recovery_run_inv: "recovery_run s \<Longrightarrow> store_inv s"
proof (induction rule: recovery_run.induct)
  case start
  show ?case by (rule store_inv_empty)
next
  case (recover s sha clock a)
  from store_steps_inv [OF record_recovery_steps this(2)] show ?case .
next
  case (event s e)
  then show ?case using store_inv_event [OF prod.collapse [symmetric]] by blast
next
  case (lineage s l)
  then show ?case using store_inv_lineage [OF prod.collapse [symmetric]] by blast
qed

text \<open>Neighbours of different transactions: the earlier one has ended.\<close>

definition hands_over :: "recovery_tx list \<Rightarrow> bool" where
  "hands_over rs \<longleftrightarrow>
     (\<forall>xs r q ys. rs = xs @ r # q # ys \<longrightarrow>
        rt_recovery_transaction_id r \<noteq> rt_recovery_transaction_id q \<longrightarrow>
        rt_status r \<in> set terminal_recovery_statuses)"

lemma hands_over_Nil [simp]: "hands_over []"
  by (simp add: hands_over_def)

lemma hands_over_snoc:
  assumes "hands_over rs" and "recovery_open_for (rt_recovery_transaction_id q) rs"
  shows "hands_over (rs @ [q])"
  unfolding hands_over_def
proof (intro allI impI)
  fix xs r q' ys
  assume eq: "rs @ [q] = xs @ r # q' # ys"
    and tx: "rt_recovery_transaction_id r \<noteq> rt_recovery_transaction_id q'"
  show "rt_status r \<in> set terminal_recovery_statuses"
  proof (cases ys rule: rev_cases)
    case Nil
    with eq have "rs = xs @ [r]" "q' = q" by simp_all
    with assms(2) tx show ?thesis by (simp add: recovery_open_for_def)
  next
    case (snoc zs z)
    with eq have "rs = xs @ r # q' # zs" by simp
    with assms(1) tx show ?thesis by (auto simp: hands_over_def)
  qed
qed

lemma hands_over_append:
  assumes "hands_over rs" and "recovery_open_for tx rs"
    and "list_all (\<lambda>q. rt_recovery_transaction_id q = tx) qs"
  shows "hands_over (rs @ qs)"
  using assms
proof (induction qs arbitrary: rs)
  case (Cons q qs)
  from Cons.prems have "hands_over (rs @ [q])" by (intro hands_over_snoc) auto
  moreover have "recovery_open_for tx (rs @ [q])" using Cons.prems(3) by (simp add: recovery_open_for_def)
  ultimately show ?case using Cons.IH [of "rs @ [q]"] Cons.prems(3) by simp
qed simp

lemma recovery_run_hands_over: "recovery_run s \<Longrightarrow> hands_over (matching_recoveries se k s)"
proof (induction rule: recovery_run.induct)
  case start
  show ?case by (simp add: matching_filter empty_session_store_def)
next
  case (recover s sha clock a)
  show ?case
  proof (cases "plan_recovery sha a")
    case (Inl e)
    with recover show ?thesis by (simp add: record_recovery_execution_def)
  next
    case (Inr p)
    then show ?thesis
    proof (cases rule: record_recovery_cases [of sha a p clock s])
      case (refused e)
      with recover show ?thesis by simp
    next
      case ran
      from run_walks obtain qs where qs: "st_recovery (snd (run_recovery sha clock a p s)) =
          st_recovery s @ qs" "list_all (of_plan a p) qs"
        unfolding walks_def by blast
      show ?thesis
      proof (cases "k = rp_key p \<and> se = ra_parent_session_id a")
        case True
        with qs ran(1) have "matching_recoveries se k (snd (record_recovery_execution sha clock a s)) =
            matching_recoveries se k s @ qs"
          by (auto simp: matching_filter of_plan_def list_all_iff filter_id_conv)
        moreover have "recovery_open_for (rp_tx p) (matching_recoveries se k s)"
          using ran(2) guard_open [OF recovery_run_inv [OF recover(1)]] True by simp
        ultimately show ?thesis
          using hands_over_append [OF recover(2)] qs(2) by (simp add: of_plan_def list_all_iff)
      next
        case False
        with qs ran(1) have "matching_recoveries se k (snd (record_recovery_execution sha clock a s)) =
            matching_recoveries se k s"
          by (auto simp: matching_filter of_plan_def list_all_iff filter_empty_conv)
        with recover show ?thesis by simp
      qed
    qed
  qed
next
  case (event s e)
  then show ?case using append_event_frame [OF prod.collapse [symmetric], of e s] by (simp add: matching_filter)
next
  case (lineage s l)
  then show ?case using append_lineage_frame [OF prod.collapse [symmetric], of l s] by (simp add: matching_filter)
qed

section \<open>Retrying a recovery\<close>

text \<open>The event that opens the transaction.\<close>

abbreviation started_event ::
    "(string \<Rightarrow> string) \<Rightarrow> string \<Rightarrow> recovery_args \<Rightarrow> recovery_plan \<Rightarrow> session_event" where
  "started_event sha at a p \<equiv>
     event_draft sha ''recovery_tx_started'' (ra_project_id a) (ra_parent_session_id a) at None
       (rp_correlation p) ((''recovery_transaction_id'', rp_tx p) # parent_ids a)
       [(''recovery_reason'', JStr (ra_recovery_reason a)),
        (''failure_family'', JStr (ra_failure_family a)),
        (''failure_signature'', JStr (ra_failure_signature a)),
        (''parent_native_thread_id'', jopt (ra_parent_native_thread_id a))]"

lemma started_event_wf: "event_wf (started_event sha at a p)"
  by (auto simp: native_ids_def jopt_def split: option.split)

text \<open>A run that changed the store has recorded the opening event.\<close>

lemma run_recovery_opened:
  assumes "run_recovery sha clock a p s = (res, s')" and "s' \<noteq> s"
  shows "\<exists>x s1. append_event (started_event sha (clock 0) a p) s = (Inr x, s1) \<and> store_steps s1 s'"
proof -
  let ?e = "svc_append_event sha ''recovery_tx_started'' (ra_project_id a) (ra_parent_session_id a)
    (clock 0) None (rp_correlation p) ((''recovery_transaction_id'', rp_tx p) # parent_ids a)
    [(''recovery_reason'', JStr (ra_recovery_reason a)),
     (''failure_family'', JStr (ra_failure_family a)),
     (''failure_signature'', JStr (ra_failure_signature a)),
     (''parent_native_thread_id'', jopt (ra_parent_native_thread_id a))]"
  let ?st = "\<lambda>_ :: session_event. append_recovery_status a p None ''started'' (clock 0) (clock 0) None
    [(''parent_native_thread_id'', jopt (ra_parent_native_thread_id a))] None"
  let ?rest = "\<lambda>_ :: recovery_tx. op_bind (recovery_freeze sha clock a p)
    (\<lambda>_. case (rp_child p, rp_lineage p, ra_resume a) of
        (Some child, Some lineage, Some resume) \<Rightarrow> recovery_with_child sha clock a p child lineage resume
      | _ \<Rightarrow> recovery_without_child sha clock a p)"
  have run: "op_bind (op_bind ?e ?st) ?rest s = (res, s')"
    using assms(1) unfolding run_recovery_def recovery_start_def .
  obtain q s1 where e: "?e s = (q, s1)" by fastforce
  show ?thesis
  proof (cases q)
    case (Inl err)
    with e have "s1 = s" by (auto dest: svc_append_event_Inl)
    with run e Inl assms(2) show ?thesis by (simp add: op_bind_def)
  next
    case (Inr x)
    have "op_respects store_steps (op_bind (?st x) ?rest)"
      by (intro step_rules respects_steps_rest)
    then have "store_steps s1 (snd (op_bind (?st x) ?rest s1))" by (simp add: op_respects_def)
    moreover have "op_bind (?st x) ?rest s1 = (res, s')"
      using run e Inr by (simp add: op_bind_def)
    ultimately have "store_steps s1 s'" by simp
    moreover have "append_event (started_event sha (clock 0) a p) s = (Inr x, s1)"
      using e Inr by (simp add: svc_append_event_Inr)
    ultimately show ?thesis by blast
  qed
qed

lemma find_prefix: "find P xs = Some x \<Longrightarrow> prefix xs ys \<Longrightarrow> find P ys = Some x"
  by (auto elim!: prefixE)

lemma run_recovery_reopened:
  assumes "append_event (started_event sha at a p) s = (Inr x, s1)" and "store_steps s1 s2"
    and "clock' 0 \<noteq> at"
  shows "\<exists>e. run_recovery sha clock' a p s2 = (Inl e, s2)"
proof -
  from events.app_same [OF assms(1) started_event_wf]
  have other: "\<not> same_event x (started_event sha (clock' 0) a p)"
    using assms(3) by (auto simp: same_event_def)
  from events.app_stored [OF assms(1)] store_steps_extend [OF assms(2)]
  have "find (\<lambda>y. ev_idempotency_key y = ev_idempotency_key (started_event sha (clock' 0) a p))
      (st_events s2) = Some x"
    by (auto intro: find_prefix)
  from events.app_conflict [OF this other]
  obtain e where "append_event (started_event sha (clock' 0) a p) s2 = (Inl e, s2)" by blast
  then show ?thesis
    by (cases "validate_event (started_event sha (clock' 0) a p)")
      (auto simp: run_recovery_def recovery_start_def svc_append_event_def op_bind_def
        dest: validate_event_Inr)
qed

section \<open>The lineage of a child\<close>

lemma commit_lineage_recorded:
  assumes "recovery_commit_lineage sha clock a p c l r s = (Inr x, s')"
  shows "\<exists>q \<in> set (st_lineage s'). ln_lineage_id q = l \<and> ln_child_session_id q = c \<and>
    ln_parent_session_id q = ra_parent_session_id a \<and> ln_recovery_transaction_id q = Some (rp_tx p)"
proof -
  let ?q = "lineage_draft a p c l (clock 4)"
  from assms obtain q s1 where app: "append_lineage ?q s = (Inr q, s1)"
    and rest: "op_bind (child_event sha a p c ''lineage_committed'' (clock 4)
             ([(''recovery_transaction_id'', rp_tx p), (''lineage_id'', l),
               (''parent_session_id'', ra_parent_session_id a)] @ child_ids r)
             [(''goal_contract_version'', JStr (rp_goal p)),
              (''relation'', JStr ''resumes_after_interruption'')])
          (\<lambda>_. append_recovery_status a p (Some c) ''lineage_committed'' (clock 0) (clock 4)
             (Some l) [(''goal_contract_version'', JStr (rp_goal p))] None) s1 = (Inr x, s')"
    unfolding recovery_commit_lineage_def
    by (auto elim!: op_bind_InrE dest!: validate_lineage_Inr)
  from rest have "store_steps s1 s'"
    by (rule op_respectsD [rotated]) (intro step_rules)
  then have ext: "prefix (st_lineage s1) (st_lineage s')" by (simp add: store_steps_extend)
  have "jdict_wf (ln_metadata ?q)" by (simp add: lineage_draft_def)
  with app have "same_lineage q ?q" by (rule lineage.app_same)
  moreover from lineage.app_stored [OF app] have "q \<in> set (st_lineage s1)" by (auto dest: find_SomeD)
  ultimately show ?thesis
    using set_mono_prefix [OF ext]
    by (intro bexI [of _ q]) (auto simp: same_lineage_def lineage_draft_def)
qed

section \<open>Properties\<close>

text \<open>A recovery for the witnesses: the resume names a new session.\<close>

text \<open>A digest that keeps the identifiers of the witnesses apart: it mixes two ends of its input.\<close>

definition mix_sha :: "string \<Rightarrow> string" where
  "mix_sha s = concat (map2 (\<lambda>a b. [a, b]) (rev s) (drop 12 s @ s))"

definition example_clock :: "int \<Rightarrow> nat \<Rightarrow> string" where
  "example_clock i n = ''t'' @ str_of_int i"

definition example_recovery :: recovery_args where
  "example_recovery =
     \<lparr>ra_project_id = ''p'', ra_parent_session_id = ''s'', ra_parent_native_thread_id = Some ''n'',
      ra_recovery_reason = ''r'', ra_failure_family = ''f'', ra_failure_signature = ''g'',
      ra_handoff = [(''handoff_file'', JStr ''h'')],
      ra_resume = Some [(''session_id'', JStr ''c'')], ra_resume_outcome = None,
      ra_resume_error = None, ra_goal_contract_version = ''v'', ra_source_packet_id = None,
      ra_continuation_identity = None, ra_route_key = None, ra_snapshot_version = None,
      ra_snapshot_epoch = None\<rparr>"

lemma example_recovery_returned:
  "returned (record_recovery_execution mix_sha (example_clock 1) example_recovery empty_session_store)"
  by code_simp

definition example_recovered :: session_store where
  "example_recovered =
     snd (record_recovery_execution mix_sha (example_clock 1) example_recovery empty_session_store)"

lemma example_recovered_run: "recovery_run example_recovered"
  unfolding example_recovered_def by (intro recovery_run.intros)

lemma example_plan:
  "\<exists>p. plan_recovery mix_sha example_recovery = Inr p \<and>
     recovery_path example_recovery p =
       [''started'', ''packet_frozen'', ''child_created'', ''lineage_pending'', ''lineage_committed'',
        ''parent_cooling'', ''completed'']"
proof -
  have "case plan_recovery mix_sha example_recovery of Inl e \<Rightarrow> False | Inr p \<Rightarrow>
      recovery_path example_recovery p =
       [''started'', ''packet_frozen'', ''child_created'', ''lineage_pending'', ''lineage_committed'',
        ''parent_cooling'', ''completed'']" by code_simp
  then show ?thesis by (auto split: sum.splits)
qed

text \<open>
  C16: A recovery walks through the statuses of its transaction in order. Whether the call returns
  or raises, it only adds records of its own transaction to the recovery log, and their statuses
  are, in order, some of the path "started", "packet_frozen", and then either the five statuses of
  a new child session or the one terminal status; when it returns, every status of the path is
  recorded for the transaction.
\<close>

theorem recovery_walks_path:
  assumes "plan_recovery sha a = Inr p"
  shows "\<exists>rs. st_recovery (snd (record_recovery_execution sha clock a s)) = st_recovery s @ rs \<and>
           subseq (map rt_status rs) (recovery_path a p) \<and> list_all (of_plan a p) rs \<and>
           (returned (record_recovery_execution sha clock a s) \<longrightarrow>
              list_all (status_recorded (of_plan a p) (snd (record_recovery_execution sha clock a s)))
                (recovery_path a p))"
proof -
  from assms show ?thesis
  proof (cases rule: record_recovery_cases [of sha a p clock s])
    case (refused e)
    then show ?thesis by (simp add: returned_def)
  next
    case ran
    with run_walks [of a p sha clock] show ?thesis by (simp add: walks_def)
  qed
qed

theorem recovery_walks_path_witness:
  "\<exists>p. status_recorded (of_plan example_recovery p) example_recovered ''completed'' \<and>
       status_recorded (of_plan example_recovery p) example_recovered ''lineage_committed''"
proof -
  obtain p where p: "plan_recovery mix_sha example_recovery = Inr p"
    "recovery_path example_recovery p =
       [''started'', ''packet_frozen'', ''child_created'', ''lineage_pending'', ''lineage_committed'',
        ''parent_cooling'', ''completed'']"
    using example_plan by blast
  from recovery_walks_path [OF p(1), of "example_clock 1" empty_session_store] p(2)
    example_recovery_returned
  show ?thesis by (auto simp: example_recovered_def)
qed

text \<open>
  C14: At most one recovery of a parent session and recovery key is active. In every store that
  recoveries produce, where the recovery log passes from one transaction of a key to another, the
  record of the first is terminal: a new recovery starts only once the one before has completed or
  failed.
\<close>

theorem recovery_one_active:
  assumes "recovery_run s" and "matching_recoveries se k s = xs @ r # q # ys"
    and "rt_recovery_transaction_id r \<noteq> rt_recovery_transaction_id q"
  shows "rt_status r \<in> set terminal_recovery_statuses"
  using recovery_run_hands_over [OF assms(1), of se k] assms(2,3) by (auto simp: hands_over_def)

definition example_resumed :: "string \<Rightarrow> recovery_args" where
  "example_resumed h =
     example_recovery\<lparr>ra_handoff := [(''handoff_file'', JStr h)], ra_resume := None\<rparr>"

definition example_resumed_once :: session_store where
  "example_resumed_once =
     snd (record_recovery_execution mix_sha (example_clock 1) (example_resumed ''h'')
       empty_session_store)"

definition example_recovered_twice :: session_store where
  "example_recovered_twice =
     snd (record_recovery_execution mix_sha (example_clock 2) (example_resumed ''i'')
       example_resumed_once)"

lemma example_resumed_run: "recovery_run example_resumed_once"
  unfolding example_resumed_once_def by (intro recovery_run.intros)

definition example_matching :: "recovery_tx list" where
  "example_matching = matching_recoveries ''s'' ''s|r|g'' example_recovered_twice"

lemma example_matching_handover:
  "case example_matching of
     r0 # r1 # r # q # qs \<Rightarrow> rt_recovery_transaction_id r \<noteq> rt_recovery_transaction_id q
   | _ \<Rightarrow> False"
  by code_simp

theorem recovery_one_active_witness:
  "\<exists>r q. r \<in> set example_matching \<and> q \<in> set example_matching \<and>
     rt_recovery_transaction_id r \<noteq> rt_recovery_transaction_id q \<and>
     rt_status r \<in> set terminal_recovery_statuses"
proof -
  have run: "recovery_run example_recovered_twice"
    unfolding example_recovered_twice_def by (intro recovery_run.intros example_resumed_run)
  obtain r0 r1 r q qs where m: "example_matching = [r0, r1] @ r # q # qs"
    and tx: "rt_recovery_transaction_id r \<noteq> rt_recovery_transaction_id q"
    using example_matching_handover by (auto split: list.splits)
  have "r \<in> set example_matching" "q \<in> set example_matching" unfolding m by simp_all
  with recovery_one_active [OF run m [unfolded example_matching_def] tx] tx show ?thesis by blast
qed

text \<open>
  C20: A recovery is refused while another one of its parent session and key is active: the call
  raises and writes nothing. "Active" is read off the record that was appended last.
\<close>

theorem recovery_conflict_refused:
  assumes "store_reachable s" and "plan_recovery sha a = Inr p"
    and "matching_recoveries (ra_parent_session_id a) (rp_key p) s = rs @ [r]"
    and "rt_recovery_transaction_id r \<noteq> rp_tx p"
    and "rt_status r \<notin> set terminal_recovery_statuses"
  shows "\<exists>e. record_recovery_execution sha clock a s = (Inl e, s)"
proof -
  from assms(1) have "store_inv s"
    by (induction rule: store_reachable.induct) (auto simp: store_inv_empty dest: store_step_inv)
  then have "assert_no_conflicting_active_recovery_transaction (ra_parent_session_id a) (rp_key p)
      (rp_tx p) s \<noteq> (Inr (), s)"
    using assms(3-5) by (simp add: guard_open recovery_open_for_def)
  with assms(2) show ?thesis by (cases rule: record_recovery_cases [of sha a p clock s]) auto
qed

text \<open>A transaction that another recovery left in the status "packet_frozen".\<close>

definition example_active_tx :: recovery_tx where
  "example_active_tx =
     (example_tx ''packet_frozen'')\<lparr>rt_recovery_key := ''s|r|g'', rt_log_seq := Some 1\<rparr>"

definition example_active_store :: session_store where
  "example_active_store = empty_session_store\<lparr>next_log_seq := 2, st_recovery := [example_active_tx]\<rparr>"

lemma example_active_reachable: "store_reachable example_active_store"
proof -
  have "append_recovery_transaction (example_active_tx\<lparr>rt_log_seq := None\<rparr>) empty_session_store =
      (Inr example_active_tx, example_active_store)"
    by (simp add: append_recovery_transaction_def empty_session_store_def Let_def
        example_active_store_def example_active_tx_def)
  then show ?thesis by (blast intro: store_reachable.intros store_step.recovery)
qed

theorem recovery_conflict_refused_witness:
  "\<exists>e. record_recovery_execution mix_sha (example_clock 1) example_recovery example_active_store =
     (Inl e, example_active_store)"
proof -
  obtain p where p: "plan_recovery mix_sha example_recovery = Inr p" using example_plan by blast
  have key: "rp_key p = ''s|r|g''" "ra_parent_session_id example_recovery = ''s''"
    using p by (auto simp: plan_recovery_def plan_with_packet_def Let_def example_recovery_def
        split: sum.splits if_splits)
  have tx: "rp_tx p \<noteq> ''tx''"
    using p by (auto simp: plan_recovery_def plan_with_packet_def Let_def stable_id_def
        split: sum.splits if_splits)
  show ?thesis
    by (rule recovery_conflict_refused [OF example_active_reachable p, of "[]" example_active_tx])
      (use key tx in \<open>simp_all add: matching_filter example_active_store_def example_active_tx_def
         example_tx_def terminal_recovery_statuses_def\<close>)
qed

text \<open>
  Note: A recovery that wrote anything cannot be taken up again later. Whether the first call
  returned or raised midway, and whatever was appended since, a second call with the same
  arguments in another second raises before it writes: its opening event has a new moment under
  the old identity. The guard lets the same transaction through, but no status is ever added.
\<close>

theorem recovery_retry_refused:
  assumes "record_recovery_execution sha clock a s = (res, s1)" and "s1 \<noteq> s"
    and "store_step\<^sup>*\<^sup>* s1 s2" and "clock' 0 \<noteq> clock 0"
  shows "\<exists>e. record_recovery_execution sha clock' a s2 = (Inl e, s2)"
proof (cases "plan_recovery sha a")
  case (Inl e)
  then show ?thesis by (simp add: record_recovery_execution_def)
next
  case (Inr p)
  then have "run_recovery sha clock a p s = (res, s1)"
    using assms(1,2) by (cases rule: record_recovery_cases [of sha a p clock s]) auto
  then obtain x s0 where "append_event (started_event sha (clock 0) a p) s = (Inr x, s0)"
    and "store_steps s0 s1" using run_recovery_opened assms(2) by blast
  with assms(3,4) have again: "\<exists>e. run_recovery sha clock' a p s2 = (Inl e, s2)"
    by (intro run_recovery_reopened [where at = "clock 0" and s = s and x = x and ?s1.0 = s0]) auto
  from Inr show ?thesis
    by (cases rule: record_recovery_cases [of sha a p clock' s2]) (use again in auto)
qed

theorem recovery_retry_refused_witness:
  "\<exists>e. record_recovery_execution mix_sha (example_clock 2) (example_resumed ''h'') example_resumed_once =
     (Inl e, example_resumed_once)"
proof -
  let ?run = "record_recovery_execution mix_sha (example_clock 1) (example_resumed ''h'') empty_session_store"
  have "st_events (snd ?run) \<noteq> []" by code_simp
  then have changed: "example_resumed_once \<noteq> empty_session_store"
    by (auto simp: example_resumed_once_def empty_session_store_def)
  have run: "?run = (fst ?run, example_resumed_once)" by (simp add: example_resumed_once_def)
  have later: "example_clock 2 0 \<noteq> example_clock 1 0" by (simp add: example_clock_def)
  show ?thesis
    by (rule recovery_retry_refused [where clock = "example_clock 1" and clock' = "example_clock 2",
          OF run changed rtranclp.rtrancl_refl later])
qed

text \<open>
  Note: A recovery that returns a child session has recorded its lineage: the lineage log links the
  parent session to the child under the returned lineage id and transaction.
\<close>

theorem recovery_lineage_recorded:
  assumes "record_recovery_execution sha clock a s = (Inr r, s')" and "rr_child r = Some c"
  shows "\<exists>l \<in> set (st_lineage s'). rr_lineage r = Some (ln_lineage_id l) \<and>
           ln_child_session_id l = c \<and> ln_parent_session_id l = ra_parent_session_id a \<and>
           ln_recovery_transaction_id l = Some (rr_tx r)"
proof -
  obtain p where p: "plan_recovery sha a = Inr p"
    using assms(1) by (cases "plan_recovery sha a") (auto simp: record_recovery_execution_def)
  then have "run_recovery sha clock a p s = (Inr r, s')"
    using assms(1) by (cases rule: record_recovery_cases [of sha a p clock s]) auto
  then obtain s1 where rest: "(case (rp_child p, rp_lineage p, ra_resume a) of
      (Some child, Some lineage, Some resume) \<Rightarrow> recovery_with_child sha clock a p child lineage resume
    | _ \<Rightarrow> recovery_without_child sha clock a p) s1 = (Inr r, s')"
    unfolding run_recovery_def by (auto elim!: op_bind_InrE)
  have "\<not> (\<exists>s1. recovery_without_child sha clock a p s1 = (Inr r, s'))"
    using assms(2) by (auto simp: recovery_without_child_def Let_def recovery_result_def
        elim!: op_bind_InrE)
  with rest obtain d l q where child: "recovery_with_child sha clock a p d l q s1 = (Inr r, s')"
    by (auto split: option.splits)
  then obtain s2 where "op_bind (recovery_commit_lineage sha clock a p d l q)
      (\<lambda>_. op_bind (recovery_cool_parent sha clock a p d l)
        (\<lambda>_. op_bind (recovery_complete_child sha clock a p d l q)
          (\<lambda>_. op_return (recovery_result a p (Some d) (Some l))))) s2 = (Inr r, s')"
    unfolding recovery_with_child_def by (rule op_bind_InrE)
  then obtain s3 x where x: "recovery_commit_lineage sha clock a p d l q s2 = (Inr x, s3)"
    and tail: "op_bind (recovery_cool_parent sha clock a p d l)
        (\<lambda>_. op_bind (recovery_complete_child sha clock a p d l q)
          (\<lambda>_. op_return (recovery_result a p (Some d) (Some l)))) s3 = (Inr r, s')"
    by (rule op_bind_InrE)
  from tail have r: "r = recovery_result a p (Some d) (Some l)" by (auto elim!: op_bind_InrE)
  from tail have "store_steps s3 s'" by (rule op_respectsD [rotated]) (intro step_rules)
  then have "set (st_lineage s3) \<subseteq> set (st_lineage s')"
    by (auto dest!: store_steps_extend set_mono_prefix)
  with commit_lineage_recorded [OF x] r assms(2) show ?thesis by (auto simp: recovery_result_def)
qed

theorem recovery_lineage_recorded_witness:
  "\<exists>r s'. record_recovery_execution mix_sha (example_clock 1) example_recovery empty_session_store =
     (Inr r, s') \<and> rr_child r = Some ''c'' \<and> st_lineage s' \<noteq> []"
proof -
  obtain r s' where run: "record_recovery_execution mix_sha (example_clock 1) example_recovery
      empty_session_store = (Inr r, s')"
    using example_recovery_returned by (rule returnedE)
  have "case fst (record_recovery_execution mix_sha (example_clock 1) example_recovery
      empty_session_store) of Inl e \<Rightarrow> False | Inr r \<Rightarrow> rr_child r = Some ''c''" by code_simp
  with run have child: "rr_child r = Some ''c''" by simp
  from recovery_lineage_recorded [OF run child] run child show ?thesis by auto
qed

end
