(* ===== verification/RiskClassifier.thy ===== *)
theory RiskClassifier
  imports PyText
begin

text \<open>
  The risk classifier of \<^verbatim>\<open>src/a_control_agent/risk/classifier.py\<close>, which decides whether a
  command may run without a human: a command is graded L0 to L3, and L0 and L1 are approved
  automatically. \<open>shlex.split\<close> and the one regular expression of the file are written out; the
  command is ASCII text, or its UTF-8 bytes.
\<close>

section \<open>Splitting a command\<close>

text \<open>
  \<open>shlex.split\<close>: the POSIX tokenizer of Python's standard library without comments. The state is
  the tokenizer's; \<open>Escaped q\<close> returns to the quote \<open>q\<close>, or to the word. A token is emitted when it
  has characters or was quoted; an open quote or a trailing backslash raises.
\<close>

datatype lex_state = Blank | InWord | Quoted char | Escaped "char option"

definition shlex_space :: "char \<Rightarrow> bool" where
  "shlex_space c \<longleftrightarrow> char_code c \<in> {9, 10, 13, 32}"

definition is_quote :: "char \<Rightarrow> bool" where
  "is_quote c \<longleftrightarrow> char_code c \<in> {34, 39}"

definition is_backslash :: "char \<Rightarrow> bool" where
  "is_backslash c \<longleftrightarrow> char_code c = 92"

definition emit :: "bool \<Rightarrow> string \<Rightarrow> string list \<Rightarrow> string list" where
  "emit quoted tok ts = (if tok = [] \<and> \<not> quoted then ts else tok # ts)"

fun shlex_from :: "lex_state \<Rightarrow> bool \<Rightarrow> string \<Rightarrow> string \<Rightarrow> string list option" where
  "shlex_from Blank quoted tok [] = Some (emit quoted tok [])"
| "shlex_from InWord quoted tok [] = Some (emit quoted tok [])"
| "shlex_from (Quoted q) quoted tok [] = None"
| "shlex_from (Escaped q) quoted tok [] = None"
| "shlex_from Blank quoted tok (c # cs) =
     (if shlex_space c then map_option (emit quoted tok) (shlex_from Blank False [] cs)
      else if is_backslash c then shlex_from (Escaped None) quoted tok cs
      else if is_quote c then shlex_from (Quoted c) quoted tok cs
      else shlex_from InWord quoted [c] cs)"
| "shlex_from InWord quoted tok (c # cs) =
     (if shlex_space c then map_option (emit quoted tok) (shlex_from Blank False [] cs)
      else if is_quote c then shlex_from (Quoted c) quoted tok cs
      else if is_backslash c then shlex_from (Escaped None) quoted tok cs
      else shlex_from InWord quoted (tok @ [c]) cs)"
| "shlex_from (Quoted q) quoted tok (c # cs) =
     (if c = q then shlex_from InWord True tok cs
      else if is_backslash c \<and> char_code q = 34 then shlex_from (Escaped (Some q)) True tok cs
      else shlex_from (Quoted q) True (tok @ [c]) cs)"
| "shlex_from (Escaped None) quoted tok (c # cs) = shlex_from InWord quoted (tok @ [c]) cs"
| "shlex_from (Escaped (Some q)) quoted tok (c # cs) =
     shlex_from (Quoted q) quoted
       (if \<not> is_backslash c \<and> c \<noteq> q then tok @ [char_of (92 :: int), c] else tok @ [c]) cs"

definition shlex_split :: "string \<Rightarrow> string list option" where
  "shlex_split s = shlex_from Blank False [] s"

definition split_command :: "string \<Rightarrow> string list" where
  "split_command command =
     (case shlex_split command of None \<Rightarrow> split_ws command | Some ts \<Rightarrow> ts)"

definition normalized_command_tokens :: "string \<Rightarrow> string list" where
  "normalized_command_tokens command =
     map (\<lambda>token. py_lower (dropWhile (\<lambda>c. c = CHR ''-'') (takeWhile (\<lambda>c. c \<noteq> CHR ''='') token)))
       (split_command command)"

section \<open>Command words\<close>

text \<open>
  The pattern \<open>(^|[\s"';|&()])(?:[^\s"';|&()]+/)*marker\b\<close>: at the start or after a separator, an
  optional path, the marker, and a word boundary. A non-empty path is a text without separators of
  length two or more that ends in a slash.
\<close>

definition word_separator :: "char \<Rightarrow> bool" where
  "word_separator c \<longleftrightarrow> is_space c \<or> char_code c \<in> {34, 39, 59, 124, 38, 40, 41}"

definition marker_here :: "string \<Rightarrow> string \<Rightarrow> bool" where
  "marker_here marker s \<longleftrightarrow>
     prefix marker s \<and>
     (case drop (length marker) s of
        [] \<Rightarrow> is_word_char (last marker)
      | c # _ \<Rightarrow> is_word_char (last marker) \<noteq> is_word_char c)"

fun path_then_marker :: "string \<Rightarrow> string \<Rightarrow> bool" where
  "path_then_marker marker [] = False"
| "path_then_marker marker (c # cs) =
     (\<not> word_separator c \<and>
      (c = CHR ''/'' \<and> marker_here marker cs \<or> path_then_marker marker cs))"

definition command_word_here :: "string \<Rightarrow> string \<Rightarrow> bool" where
  "command_word_here marker s \<longleftrightarrow>
     marker_here marker s \<or>
     (case s of [] \<Rightarrow> False | c # cs \<Rightarrow> \<not> word_separator c \<and> path_then_marker marker cs)"

fun command_word_from :: "string \<Rightarrow> bool \<Rightarrow> string \<Rightarrow> bool" where
  "command_word_from marker b [] = (b \<and> command_word_here marker [])"
| "command_word_from marker b (c # cs) =
     (b \<and> command_word_here marker (c # cs) \<or> command_word_from marker (word_separator c) cs)"

definition contains_command_word :: "string \<Rightarrow> string \<Rightarrow> bool" where
  "contains_command_word command marker = command_word_from marker True command"

section \<open>Permission requests\<close>

definition safe_file_permissions :: "string list" where
  "safe_file_permissions = [''fs.read'', ''fs.write'']"

definition classify_permissions_request :: "string \<Rightarrow> string option" where
  "classify_permissions_request command =
     (if \<not> starts_with command ''permissions:'' then None
      else
        (let raw = drop (length ''permissions:'') command;
             permissions = map strip (split_on (CHR '','') raw)
         in if raw = [] then Some ''L2''
            else if [] \<in> set permissions then Some ''L2''
            else if list_ex (\<lambda>p. starts_with p ''credentials.'') permissions then Some ''L3''
            else if list_ex (\<lambda>p. starts_with p ''network.'') permissions then Some ''L2''
            else if list_all (\<lambda>p. p \<in> set safe_file_permissions) permissions then Some ''L1''
            else Some ''L2''))"

section \<open>Local pytest runs\<close>

definition pytest_path_flags :: "string list" where
  "pytest_path_flags = [''--rootdir'', ''--basetemp'', ''--confcutdir'', ''-c'']"

definition is_path_boundary_escape :: "string \<Rightarrow> bool" where
  "is_path_boundary_escape arg =
     (let n = py_lower (strip arg) in
      if n = [] then False
      else if starts_with n ''/'' \<or> starts_with n ''~'' then True
      else if (case n of
          d # colon # s # _ \<Rightarrow>
            is_lower d \<and> colon = CHR '':'' \<and> (s = CHR ''/'' \<or> is_backslash s)
        | _ \<Rightarrow> False) then True
      else n \<in> {''..'', ''.''} \<or> starts_with n ''../'' \<or>
           starts_with n [CHR ''.'', CHR ''.'', char_of (92 :: int)])"

definition pytest_arg_char :: "char \<Rightarrow> bool" where
  "pytest_arg_char c \<longleftrightarrow> is_word_char c \<or> c \<in> set ''./:-[]''"

text \<open>The loop over the arguments; the flag is \<open>expect_flag_value\<close>.\<close>

fun pytest_args_ok :: "bool \<Rightarrow> string list \<Rightarrow> bool" where
  "pytest_args_ok expect [] = (\<not> expect)"
| "pytest_args_ok expect (arg # args) =
     (if expect then False
      else if arg \<in> set pytest_path_flags then pytest_args_ok True args
      else if list_ex (\<lambda>flag. starts_with arg (flag @ ''='')) pytest_path_flags then False
      else if is_path_boundary_escape arg then False
      else if \<not> starts_with arg ''-'' \<and> \<not> (arg \<noteq> [] \<and> list_all pytest_arg_char arg) then False
      else pytest_args_ok False args)"

definition is_safe_local_pytest_command :: "string \<Rightarrow> bool" where
  "is_safe_local_pytest_command command =
     (case split_command command of
        [] \<Rightarrow> False
      | t # ts \<Rightarrow>
          (let executable = py_lower (after_last (CHR ''/'') t) in
           if executable = ''pytest'' then pytest_args_ok False ts
           else (case ts of
               t1 # t2 # args \<Rightarrow>
                 if executable \<in> {''python'', ''python3''} \<and> t1 = ''-m'' \<and> t2 = ''pytest''
                   \<or> executable = ''uv'' \<and> t1 = ''run'' \<and> t2 = ''pytest''
                 then pytest_args_ok False args else False
             | _ \<Rightarrow> False)))"

section \<open>Markers\<close>

text \<open>The two markers in Chinese are given by their UTF-8 bytes.\<close>

definition bypass_marker :: string where
  "bypass_marker = map char_of [0xE7, 0xBB, 0x95, 0xE8, 0xBF, 0x87 :: int]"

definition bypass_approval_marker :: string where
  "bypass_approval_marker =
     bypass_marker @ map char_of [0xE5, 0xAE, 0xA1, 0xE6, 0x89, 0xB9 :: int]"

definition l3_phrase_markers :: "string list" where
  "l3_phrase_markers =
     [''rm -rf'', ''git push'', bypass_marker, bypass_approval_marker, ''sandbox off'', ''sudo '',
      ''chmod 777'', ''/etc/'', ''launchctl'']"

definition l3_token_markers :: "string list" where
  "l3_token_markers =
     [''publish'', ''deploy'', ''release'', ''token'', ''secret'', ''credential'', ''credentials.'',
      ''api_key'', ''openai_api_key'', ''password'']"

definition sensitive_path_markers :: "string list" where
  "sensitive_path_markers =
     [''~/.ssh'', ''/.ssh/'', ''.aws/credentials'', ''.kube/config'', ''/proc/self/environ'',
      ''/proc/self/cmdline'', ''id_rsa'', ''id_ed25519'', ''.pypirc'', ''.npmrc'']"

definition fail_closed_network_commands :: "string list" where
  "fail_closed_network_commands =
     [''ssh'', ''ssh-keyscan'', ''scp'', ''rsync'', ''ftp'', ''telnet'', ''ping'', ''dig'',
      ''nslookup'', ''nc'', ''netcat'']"

definition fail_closed_system_commands :: "string list" where
  "fail_closed_system_commands =
     [''systemctl'', ''service'', ''rc-service'', ''systemd-run'', ''shutdown'', ''reboot'',
      ''poweroff'', ''halt'']"

definition l2_fail_closed_markers :: "string list" where
  "l2_fail_closed_markers =
     [''../'', [CHR ''.'', CHR ''.'', char_of (92 :: int)], ''http://'', ''https://'', ''network.'',
      ''permissions:network'']"

definition l2_markers :: "string list" where
  "l2_markers =
     [''pip install'', ''npm install'', ''pnpm '', ''yarn '', ''curl '', ''wget '']"

text \<open>The shell operators: two ampersands, two bars, and the rest of the condition.\<close>

definition shell_operators :: "string list" where
  "shell_operators =
     [''&&'', ''||'', '';'', ''|'', ''&'', [char_of (10 :: int)], [char_of (13 :: int)],
      [char_of (9 :: int)], [char_of (11 :: int)], [char_of (12 :: int)], ''$('', ''<('', ''>('',
      [char_of (96 :: int)]]"

section \<open>Classification\<close>

definition command_executable :: "string \<Rightarrow> string" where
  "command_executable c =
     (case split_ws c of [] \<Rightarrow> [] | t # _ \<Rightarrow> after_last (CHR ''/'') t)"

definition reversible_git :: "string list \<Rightarrow> bool" where
  "reversible_git parts \<longleftrightarrow>
     (case parts of
        _ # p1 # ps \<Rightarrow>
          p1 = ''add'' \<or> p1 = ''checkout'' \<and> (case ps of [] \<Rightarrow> False | p2 # _ \<Rightarrow> p2 = ''-b'')
      | _ \<Rightarrow> False)"

definition classify_risk :: "string \<Rightarrow> string" where
  "classify_risk command =
     (let c = strip (py_lower command) in
      if c = [] then ''L2''
      else (case classify_permissions_request c of
        Some level \<Rightarrow> level
      | None \<Rightarrow>
          (let parts = split_ws c; executable = command_executable c in
           if list_ex (contains c) l3_phrase_markers then ''L3''
           else if list_ex (\<lambda>m. m \<in> set (normalized_command_tokens c)) l3_token_markers then ''L3''
           else if list_ex (contains c) sensitive_path_markers then ''L3''
           else if executable \<in> set fail_closed_network_commands
             \<or> executable \<in> set fail_closed_system_commands then ''L2''
           else if list_ex (contains_command_word c) fail_closed_network_commands then ''L2''
           else if list_ex (contains_command_word c) fail_closed_system_commands then ''L2''
           else if executable = ''init'' \<and> list_ex (\<lambda>a. a \<in> {''0'', ''6''}) (tl parts) then ''L2''
           else if contains_command_word c ''init 0'' \<or> contains_command_word c ''init 6'' then ''L2''
           else if list_ex (contains c) l2_fail_closed_markers then ''L2''
           else if list_ex (contains c) l2_markers then ''L2''
           else if list_ex (contains c) shell_operators then ''L2''
           else if is_safe_local_pytest_command c then ''L0''
           else if executable = ''git'' \<and> reversible_git parts then ''L1''
           else if executable = ''snapshot'' then ''L1''
           else if executable = ''pwd'' then ''L0''
           else ''L2'')))"

definition auto_approve_allowed :: "string \<Rightarrow> bool" where
  "auto_approve_allowed risk_level \<longleftrightarrow> risk_level \<in> {''L0'', ''L1''}"

end
