(* ===== verification/RiskTheorems.thy ===== *)
theory RiskTheorems
  imports RiskClassifier
begin

text \<open>
  What an automatic approval says about a command, and which commands never get one.
\<close>

section \<open>The tokenizer\<close>

text \<open>Single quotes protect: whatever stands between them is one argument.\<close>

lemma shlex_quoted_body:
  "q \<notin> set s \<Longrightarrow> char_code q = 39 \<Longrightarrow>
     shlex_from (Quoted q) b tok (s @ [q]) = Some [tok @ s]"
proof (induction s arbitrary: b tok)
  case Nil
  then show ?case by (simp add: emit_def)
next
  case (Cons c s)
  then have "c \<noteq> q" by auto
  with Cons show ?case by simp
qed

lemma shlex_single_quoted:
  assumes "char_code q = 39" and "q \<notin> set s"
  shows "shlex_split (q # s @ [q]) = Some [s]"
  using shlex_quoted_body [OF assms(2,1), of False "[]"] assms(1)
  by (simp add: shlex_split_def shlex_space_def is_backslash_def is_quote_def)

section \<open>Permission requests\<close>

lemma split_by_set: "set s \<subseteq> \<Union> (set ` set (split_by P s)) \<union> {c. P c}"
proof (induction s)
  case (Cons c s)
  obtain w ws where w: "split_by P s = w # ws" by (cases "split_by P s") auto
  with Cons show ?case by auto
qed simp

lemma strip_set: "set s \<subseteq> set (strip s) \<union> {c. is_space c}"
proof -
  have drop: "set t \<subseteq> set (dropWhile P t) \<union> {c. P c}" for P and t :: string
    by (induction t) auto
  show ?thesis
    using drop [of s is_space] drop [of "rev (lstrip s)" is_space]
    by (auto simp: strip_def rstrip_def lstrip_def)
qed

text \<open>A request that is approved consists of these characters and blanks.\<close>

definition safe_request_chars :: string where
  "safe_request_chars = ''permissions:fs.readwrite,''"

lemma permissions_L1:
  assumes "classify_permissions_request c = Some ''L1''"
  shows "list_all (\<lambda>p. p \<in> set safe_file_permissions)
      (map strip (split_on (CHR '','') (drop (length ''permissions:'') c)))"
    and "starts_with c ''permissions:''"
  using assms by (auto simp: classify_permissions_request_def Let_def split: if_splits)

lemma permissions_L0: "classify_permissions_request c \<noteq> Some ''L0''"
  by (simp add: classify_permissions_request_def Let_def)

lemma permissions_L1_chars:
  assumes "classify_permissions_request c = Some ''L1''"
  shows "set c \<subseteq> set safe_request_chars \<union> {x. is_space x}"
proof -
  let ?raw = "drop (length ''permissions:'') c"
  from permissions_L1(2) [OF assms] have c: "c = ''permissions:'' @ ?raw"
    by (auto simp: starts_with_def elim!: prefixE)
  have "x \<in> set safe_request_chars \<union> {x. is_space x}" if x: "x \<in> set ?raw" for x
  proof (cases "x = CHR '',''")
    case True
    then show ?thesis by (simp add: safe_request_chars_def)
  next
    case False
    with x split_by_set [of ?raw "\<lambda>c. c = CHR '',''"] obtain w
      where w: "w \<in> set (split_on (CHR '','') ?raw)" and "x \<in> set w"
      by (auto simp: split_on_def)
    with strip_set have "x \<in> set (strip w) \<union> {x. is_space x}" by blast
    moreover from w permissions_L1(1) [OF assms] have "strip w \<in> set safe_file_permissions"
      by (simp add: list_all_iff)
    then have "set (strip w) \<subseteq> set safe_request_chars"
      by (auto simp: safe_file_permissions_def safe_request_chars_def)
    ultimately show ?thesis by blast
  qed
  moreover have "set ''permissions:'' \<subseteq> set safe_request_chars"
    by (simp add: safe_request_chars_def)
  ultimately have "set (''permissions:'' @ ?raw) \<subseteq> set safe_request_chars \<union> {x. is_space x}"
    by auto
  with c show ?thesis by simp
qed

lemma contains_set: "contains s p \<Longrightarrow> set p \<subseteq> set s"
  by (auto simp: contains_def sublist_def)

definition l3_text_markers :: "string list" where
  "l3_text_markers = l3_phrase_markers @ sensitive_path_markers"

lemma l3_markers_foreign:
  "list_all (\<lambda>m. list_ex (\<lambda>x. x \<notin> set safe_request_chars \<and> \<not> is_space x) m) l3_text_markers"
  by code_simp

lemma permissions_L1_no_marker:
  assumes "classify_permissions_request c = Some ''L1''"
  shows "\<not> list_ex (contains c) l3_text_markers"
proof
  assume "list_ex (contains c) l3_text_markers"
  then obtain m where "m \<in> set l3_text_markers" and "contains c m" by (auto simp: list_ex_iff)
  with l3_markers_foreign permissions_L1_chars [OF assms] contains_set [of c m] show False
    by (fastforce simp: list_all_iff list_ex_iff)
qed

section \<open>The arguments of pytest\<close>

definition pytest_arg_ok :: "string \<Rightarrow> bool" where
  "pytest_arg_ok arg \<longleftrightarrow>
     arg \<notin> set pytest_path_flags \<and>
     list_all (\<lambda>flag. \<not> starts_with arg (flag @ ''='')) pytest_path_flags \<and>
     \<not> is_path_boundary_escape arg \<and>
     (starts_with arg ''-'' \<or> arg \<noteq> [] \<and> list_all pytest_arg_char arg)"

lemma pytest_args_expect: "\<not> pytest_args_ok True args"
  by (cases args) auto

section \<open>The cases of an automatic approval\<close>

text \<open>The text the classifier looks at.\<close>

abbreviation folded :: "string \<Rightarrow> string" where
  "folded command \<equiv> strip (py_lower command)"

lemma auto_approved_cases:
  assumes "auto_approve_allowed (classify_risk command)"
  shows "classify_permissions_request (folded command) = Some ''L1'' \<or>
    (\<not> list_ex (contains (folded command))
        (l3_text_markers @ l2_fail_closed_markers @ l2_markers @ shell_operators) \<and>
     \<not> list_ex (\<lambda>m. m \<in> set (normalized_command_tokens (folded command))) l3_token_markers \<and>
     \<not> list_ex (contains_command_word (folded command))
        (fail_closed_network_commands @ fail_closed_system_commands) \<and>
     (is_safe_local_pytest_command (folded command) \<or>
      command_executable (folded command) = ''git'' \<and> reversible_git (split_ws (folded command)) \<or>
      command_executable (folded command) \<in> {''snapshot'', ''pwd''}))"
proof (cases "classify_permissions_request (folded command)")
  case None
  then show ?thesis
    using assms
    by (auto simp: classify_risk_def Let_def auto_approve_allowed_def l3_text_markers_def
        split: if_splits)
next
  case (Some level)
  then show ?thesis
    using assms permissions_L0 [of "folded command"]
    by (auto simp: classify_risk_def Let_def auto_approve_allowed_def split: if_splits)
qed

section \<open>Properties\<close>

text \<open>
  C15: What an automatic approval means. The command is a request for the permissions \<open>fs.read\<close>
  and \<open>fs.write\<close> alone, or it has no marker of an L3 phrase, a sensitive path, a network or
  system command, an escape from the workspace, an installer, or a shell operator, and it is one
  of: a local pytest run, \<open>git add\<close>, \<open>git checkout -b\<close>, \<open>snapshot\<close>, \<open>pwd\<close>.
\<close>

theorem risk_auto_approved_shape:
  assumes "auto_approve_allowed (classify_risk command)"
  shows "classify_permissions_request (folded command) = Some ''L1'' \<or>
    (\<not> list_ex (contains (folded command))
        (l3_text_markers @ l2_fail_closed_markers @ l2_markers @ shell_operators) \<and>
     \<not> list_ex (\<lambda>m. m \<in> set (normalized_command_tokens (folded command))) l3_token_markers \<and>
     \<not> list_ex (contains_command_word (folded command))
        (fail_closed_network_commands @ fail_closed_system_commands) \<and>
     (is_safe_local_pytest_command (folded command) \<or>
      command_executable (folded command) = ''git'' \<and> reversible_git (split_ws (folded command)) \<or>
      command_executable (folded command) \<in> {''snapshot'', ''pwd''}))"
  using assms by (rule auto_approved_cases)

theorem risk_auto_approved_shape_witness:
  "\<not> list_ex (contains ''git add src'') shell_operators \<and>
   command_executable ''git add src'' = ''git''"
proof -
  have "auto_approve_allowed (classify_risk ''git add src'')" by code_simp
  moreover have "folded ''git add src'' = ''git add src''" by code_simp
  moreover have "classify_permissions_request ''git add src'' \<noteq> Some ''L1''" by code_simp
  moreover have "\<not> is_safe_local_pytest_command ''git add src''" by code_simp
  moreover have "command_executable ''git add src'' \<notin> {''snapshot'', ''pwd''}" by code_simp
  ultimately show ?thesis using risk_auto_approved_shape [of "''git add src''"] by auto
qed

text \<open>
  Note: A command whose folded text has a phrase of the L3 list (such as \<open>rm -rf\<close>, \<open>git push\<close>,
  \<open>sudo\<close>, \<open>/etc/\<close>) or the path of a secret is never approved automatically, not even inside a
  request for permissions.
\<close>

theorem risk_marker_never_auto:
  assumes "list_ex (contains (folded command)) (l3_phrase_markers @ sensitive_path_markers)"
  shows "\<not> auto_approve_allowed (classify_risk command)"
proof
  assume auto: "auto_approve_allowed (classify_risk command)"
  from auto_approved_cases [OF auto] show False
    using assms permissions_L1_no_marker [of "folded command"] by (auto simp: l3_text_markers_def)
qed

theorem risk_marker_never_auto_witness:
  "\<not> auto_approve_allowed (classify_risk ''permissions:fs.read,RM -RF x'')"
proof -
  have "list_ex (contains (folded ''permissions:fs.read,RM -RF x''))
      (l3_phrase_markers @ sensitive_path_markers)" by code_simp
  then show ?thesis by (rule risk_marker_never_auto)
qed

text \<open>
  Note: The loop over the arguments of a pytest run accepts exactly the lists in which every
  argument passes on its own: it is no path flag, with or without a value, it does not leave the
  workspace, and it is an option or a plain path.
\<close>

theorem pytest_args_each: "pytest_args_ok False args \<longleftrightarrow> list_all pytest_arg_ok args"
  by (induction args)
    (auto simp: pytest_arg_ok_def pytest_args_expect list_all_iff list_ex_iff)

text \<open>
  Note: Text in single quotes is one argument of \<open>shlex.split\<close>, whatever it contains.
\<close>

theorem shlex_quoted_argument:
  assumes "char_code q = 39" and "q \<notin> set s"
  shows "shlex_split (q # s @ [q]) = Some [s]"
  using assms by (rule shlex_single_quoted)

theorem shlex_quoted_argument_witness:
  "shlex_split (CHR 0x27 # ''a; b | c'' @ [CHR 0x27]) = Some [''a; b | c'']"
  by (rule shlex_quoted_argument) (simp_all add: char_code_def)


end
