(* ===== verification/Approvals.thy ===== *)
theory Approvals
  imports RiskTheorems Json
begin

text \<open>
  \<open>ApprovalsStore\<close> of \<^verbatim>\<open>src/a_control_agent/storage/approvals_store.py\<close>: the table of approval
  requests and the audit log beside it. A record is the JSON object the store writes. The lock
  makes the change of the table atomic; the audit line follows it. \<open>aid\<close> is the identifier that
  \<open>uuid4\<close> yields, \<open>now\<close> and \<open>now'\<close> what \<open>_now_iso()\<close> returns.
\<close>

section \<open>State\<close>

record approvals_world =
  ap_data :: "(string, jdict) dict"
  ap_audit :: "jdict list"

definition empty_approvals :: approvals_world where
  "empty_approvals = \<lparr>ap_data = [], ap_audit = []\<rparr>"

text \<open>Writing the table, then appending the audit line.\<close>

definition approvals_write :: "string \<Rightarrow> jdict \<Rightarrow> jdict \<Rightarrow> approvals_world \<Rightarrow> approvals_world" where
  "approvals_write aid rec line w =
     \<lparr>ap_data = dict_set aid rec (ap_data w), ap_audit = ap_audit w @ [line]\<rparr>"

section \<open>Operations\<close>

record approval_request =
  aq_project_id :: string
  aq_thread_id :: string
  aq_command :: string
  aq_reason :: string
  aq_alternative :: string
  aq_bridge_request_id :: "string option"
  aq_bridge_request_id_type :: "string option"
  aq_bridge_request_method :: "string option"

definition approval_record :: "string \<Rightarrow> string \<Rightarrow> approval_request \<Rightarrow> jdict" where
  "approval_record aid now q =
     (let risk = classify_risk (aq_command q);
          rec =
            [(''approval_id'', JStr aid), (''project_id'', JStr (aq_project_id q)),
             (''thread_id'', JStr (aq_thread_id q)), (''risk_level'', JStr risk),
             (''command'', JStr (aq_command q)), (''reason'', JStr (aq_reason q)),
             (''alternative'', JStr (aq_alternative q)),
             (''bridge_request_id'', jopt (aq_bridge_request_id q)),
             (''bridge_request_id_type'', jopt (aq_bridge_request_id_type q)),
             (''bridge_request_method'', jopt (aq_bridge_request_method q)),
             (''requested_at'', JStr now), (''status'', JStr ''pending''), (''decided_at'', JNull),
             (''decided_by'', JNull), (''callback_status'', JNull), (''callback_error'', JNull)]
      in if auto_approve_allowed risk
         then dict_set ''decided_by'' (JStr ''policy-auto'')
                (dict_set ''decided_at'' (JStr now) (dict_set ''status'' (JStr ''approved'') rec))
         else rec)"

definition create_request ::
    "string \<Rightarrow> string \<Rightarrow> approval_request \<Rightarrow> approvals_world \<Rightarrow> jdict \<times> approvals_world" where
  "create_request aid now q w =
     (let rec = approval_record aid now q in
      (rec, approvals_write aid rec
         [(''ts'', JStr now), (''approval_id'', JStr aid), (''action'', JStr ''approval_created''),
          (''risk_level'', JStr (classify_risk (aq_command q))),
          (''auto'', JBool (jget rec ''decided_by'' = JStr ''policy-auto''))] w))"

definition update_callback_status ::
    "string \<Rightarrow> string \<Rightarrow> string \<Rightarrow> string \<Rightarrow> string \<Rightarrow> approvals_world \<Rightarrow>
     jdict option \<times> approvals_world" where
  "update_callback_status now now' aid status error w =
     (case map_of (ap_data w) aid of
        None \<Rightarrow> (None, w)
      | Some rec \<Rightarrow>
          (let err = (if error = [] then JNull else JStr error);
               rec = dict_set ''callback_updated_at'' (JStr now)
                 (dict_set ''callback_error'' err (dict_set ''callback_status'' (JStr status) rec))
           in (Some rec, approvals_write aid rec
                [(''ts'', JStr now'), (''approval_id'', JStr aid),
                 (''action'', JStr ''approval_callback_status_updated''),
                 (''callback_status'', JStr status), (''callback_error'', err)] w)))"

definition mark_callback_deferred ::
    "string \<Rightarrow> string \<Rightarrow> string \<Rightarrow> string \<Rightarrow> approvals_world \<Rightarrow> jdict option \<times> approvals_world" where
  "mark_callback_deferred now now' aid error = update_callback_status now now' aid ''deferred'' error"

definition mark_callback_delivered ::
    "string \<Rightarrow> string \<Rightarrow> string \<Rightarrow> approvals_world \<Rightarrow> jdict option \<times> approvals_world" where
  "mark_callback_delivered now now' aid = update_callback_status now now' aid ''delivered'' []"

definition apply_decision ::
    "string \<Rightarrow> string \<Rightarrow> string \<Rightarrow> string \<Rightarrow> string \<Rightarrow> approvals_world \<Rightarrow>
     jdict option \<times> approvals_world" where
  "apply_decision now aid decision operator note w =
     (case map_of (ap_data w) aid of
        None \<Rightarrow> (None, w)
      | Some rec \<Rightarrow>
          if jget rec ''status'' \<noteq> JStr ''pending'' then (None, w)
          else if decision \<notin> {''approve'', ''reject''} then (None, w)
          else
            (let rec = dict_set ''status''
                   (JStr (if decision = ''approve'' then ''approved'' else ''rejected'')) rec;
                 rec = dict_set ''decided_by'' (JStr operator) (dict_set ''decided_at'' (JStr now) rec);
                 rec = (if note = [] then rec else dict_set ''decision_note'' (JStr note) rec)
             in (Some rec, approvals_write aid rec
                  [(''ts'', JStr now), (''approval_id'', JStr aid),
                   (''action'', JStr ''approval_decided''), (''decision'', JStr decision),
                   (''operator'', JStr operator)] w)))"

section \<open>Queries\<close>

definition text_filter :: "string \<Rightarrow> string option \<Rightarrow> jdict list \<Rightarrow> jdict list" where
  "text_filter k v rows =
     (if or_empty v = [] then rows else filter (\<lambda>r. jget r k = JStr (or_empty v)) rows)"

definition requested_at_key :: "jdict \<Rightarrow> string" where
  "requested_at_key r = (case jget r ''requested_at'' of JStr s \<Rightarrow> s | _ \<Rightarrow> [])"

text \<open>Newest first; \<open>sort(reverse=True)\<close> keeps the order of rows with equal keys.\<close>

definition list_filtered ::
    "string option \<Rightarrow> string option \<Rightarrow> string option \<Rightarrow> string option \<Rightarrow> approvals_world \<Rightarrow>
     jdict list" where
  "list_filtered status project_id decided_by callback_status w =
     rev (sort_key requested_at_key (rev
       (text_filter ''callback_status'' callback_status
         (text_filter ''decided_by'' decided_by
           (text_filter ''project_id'' project_id
             (text_filter ''status'' status (dict_values (ap_data w))))))))"

definition get_approval :: "string \<Rightarrow> approvals_world \<Rightarrow> jdict option" where
  "get_approval aid w = map_of (ap_data w) aid"

section \<open>Runs\<close>

text \<open>
  The steps of the store. A new request gets an identifier that is not in use, which is what
  \<open>uuid4\<close> is for.
\<close>

inductive approvals_step :: "approvals_world \<Rightarrow> approvals_world \<Rightarrow> bool" where
  create: "aid \<notin> set (dict_keys (ap_data w)) \<Longrightarrow> approvals_step w (snd (create_request aid now q w))"
| deferred: "approvals_step w (snd (mark_callback_deferred now now' aid error w))"
| delivered: "approvals_step w (snd (mark_callback_delivered now now' aid w))"
| decide: "approvals_step w (snd (apply_decision now aid decision operator note w))"

inductive approvals_reachable :: "approvals_world \<Rightarrow> bool" where
  start: "approvals_reachable empty_approvals"
| step: "approvals_reachable w \<Longrightarrow> approvals_step w w' \<Longrightarrow> approvals_reachable w'"

inductive_cases approvals_stepE: "approvals_step w w'"

text \<open>The audit lines of decisions on an approval.\<close>

definition decision_lines :: "string \<Rightarrow> approvals_world \<Rightarrow> jdict list" where
  "decision_lines aid w =
     filter (\<lambda>l. jget l ''action'' = JStr ''approval_decided'' \<and> jget l ''approval_id'' = JStr aid)
       (ap_audit w)"

text \<open>
  How a record and the decisions in the audit log fit: a pending request has no decision; a
  rejected one has one decision, to reject; an approved one was graded harmless and has no
  decision, or it has one decision, to approve.
\<close>

definition auto_approved :: "jdict \<Rightarrow> bool" where
  "auto_approved rec \<longleftrightarrow>
     (case jget rec ''command'' of JStr c \<Rightarrow> auto_approve_allowed (classify_risk c) | _ \<Rightarrow> False)"

definition decided_once :: "string \<Rightarrow> jdict list \<Rightarrow> bool" where
  "decided_once decision ls \<longleftrightarrow>
     (case ls of [l] \<Rightarrow> jget l ''decision'' = JStr decision | _ \<Rightarrow> False)"

definition approval_ok :: "jdict \<Rightarrow> jdict list \<Rightarrow> bool" where
  "approval_ok rec ls \<longleftrightarrow>
     (case jget rec ''status'' of
        JStr st \<Rightarrow>
          (if st = ''pending'' then ls = [] \<and> \<not> auto_approved rec
           else if st = ''rejected'' then decided_once ''reject'' ls \<and> \<not> auto_approved rec
           else if st = ''approved'' then
             (if auto_approved rec then ls = [] else decided_once ''approve'' ls)
           else False)
      | _ \<Rightarrow> False)"

definition entry_ok :: "string \<Rightarrow> approvals_world \<Rightarrow> bool" where
  "entry_ok aid w \<longleftrightarrow>
     (case map_of (ap_data w) aid of
        None \<Rightarrow> decision_lines aid w = []
      | Some rec \<Rightarrow> approval_ok rec (decision_lines aid w))"

definition approvals_inv :: "approvals_world \<Rightarrow> bool" where
  "approvals_inv w \<longleftrightarrow> (\<forall>aid. entry_ok aid w)"

lemma entry_ok_simps:
  "map_of (ap_data w) aid = None \<Longrightarrow> entry_ok aid w \<longleftrightarrow> decision_lines aid w = []"
  "map_of (ap_data w) aid = Some rec \<Longrightarrow> entry_ok aid w \<longleftrightarrow> approval_ok rec (decision_lines aid w)"
  by (simp_all add: entry_ok_def)

lemma approvals_invD: "approvals_inv w \<Longrightarrow> entry_ok aid w"
  by (simp add: approvals_inv_def)

lemma write_decisions:
  "decision_lines aid' (approvals_write aid rec line w) =
     decision_lines aid' w @
       (if jget line ''action'' = JStr ''approval_decided'' \<and> jget line ''approval_id'' = JStr aid'
        then [line] else [])"
  by (simp add: approvals_write_def decision_lines_def)

lemma write_inv:
  assumes "approvals_inv w" and "jget line ''approval_id'' = JStr aid"
    and "approval_ok rec (decision_lines aid w @
           (if jget line ''action'' = JStr ''approval_decided'' then [line] else []))"
  shows "approvals_inv (approvals_write aid rec line w)"
  unfolding approvals_inv_def
proof
  fix aid'
  show "entry_ok aid' (approvals_write aid rec line w)"
  proof (cases "aid' = aid")
    case True
    have "map_of (ap_data (approvals_write aid rec line w)) aid = Some rec"
      by (simp add: approvals_write_def)
    with True assms(2,3) show ?thesis by (simp add: entry_ok_simps write_decisions)
  next
    case False
    then have "decision_lines aid' (approvals_write aid rec line w) = decision_lines aid' w"
      using assms(2) by (simp add: write_decisions)
    moreover from False have
      "map_of (ap_data (approvals_write aid rec line w)) aid' = map_of (ap_data w) aid'"
      by (simp add: approvals_write_def)
    moreover have "entry_ok aid' w" using assms(1) by (rule approvals_invD)
    ultimately show ?thesis by (simp add: entry_ok_def split: option.splits)
  qed
qed

lemma approval_ok_cong:
  assumes "jget rec' ''status'' = jget rec ''status''" and "jget rec' ''command'' = jget rec ''command''"
  shows "approval_ok rec' ls = approval_ok rec ls"
  unfolding approval_ok_def auto_approved_def assms ..

lemma create_inv:
  assumes "approvals_inv w" and "aid \<notin> set (dict_keys (ap_data w))"
  shows "approvals_inv (snd (create_request aid now q w))"
proof -
  have "map_of (ap_data w) aid = None" using assms(2) by (simp add: map_of_eq_None_iff)
  then have new: "decision_lines aid w = []"
    using approvals_invD [OF assms(1), of aid] by (simp add: entry_ok_simps)
  have "approval_ok (approval_record aid now q) []"
    by (simp add: approval_ok_def approval_record_def Let_def auto_approved_def)
  with new show ?thesis
    unfolding create_request_def Let_def snd_conv by (intro write_inv assms(1)) simp_all
qed

lemma callback_inv:
  assumes "approvals_inv w"
  shows "approvals_inv (snd (update_callback_status now now' aid status error w))"
proof (cases "map_of (ap_data w) aid")
  case None
  with assms show ?thesis by (simp add: update_callback_status_def)
next
  case (Some rec)
  with approvals_invD [OF assms, of aid] have ok: "approval_ok rec (decision_lines aid w)"
    by (simp add: entry_ok_simps)
  let ?rec = "dict_set ''callback_updated_at'' (JStr now)
    (dict_set ''callback_error'' (if error = [] then JNull else JStr error)
      (dict_set ''callback_status'' (JStr status) rec))"
  have "approval_ok ?rec (decision_lines aid w) = approval_ok rec (decision_lines aid w)"
    by (rule approval_ok_cong) simp_all
  with ok Some show ?thesis
    unfolding update_callback_status_def Let_def option.case(2) Some snd_conv
    by (intro write_inv assms) simp_all
qed

lemma decide_inv:
  assumes "approvals_inv w"
  shows "approvals_inv (snd (apply_decision now aid decision operator note w))"
proof (cases "map_of (ap_data w) aid")
  case None
  with assms show ?thesis by (simp add: apply_decision_def)
next
  case (Some rec)
  with approvals_invD [OF assms, of aid] have ok: "approval_ok rec (decision_lines aid w)"
    by (simp add: entry_ok_simps)
  show ?thesis
  proof (cases "jget rec ''status'' = JStr ''pending'' \<and> decision \<in> {''approve'', ''reject''}")
    case True
    with ok have "decision_lines aid w = []" "\<not> auto_approved rec" by (auto simp: approval_ok_def)
    with True Some show ?thesis
      by (auto simp: apply_decision_def Let_def approval_ok_def auto_approved_def decided_once_def
          intro!: write_inv assms)
  next
    case False
    with Some assms show ?thesis by (auto simp: apply_decision_def)
  qed
qed

lemma approvals_reachable_inv: "approvals_reachable w \<Longrightarrow> approvals_inv w"
proof (induction rule: approvals_reachable.induct)
  case start
  show ?case by (simp add: approvals_inv_def entry_ok_def empty_approvals_def decision_lines_def)
next
  case (step w w')
  from step(2,3) show ?case
    by (cases rule: approvals_step.cases)
      (auto simp: mark_callback_deferred_def mark_callback_delivered_def
        intro: create_inv callback_inv decide_inv)
qed

section \<open>A decision is final\<close>

definition same_decision :: "jdict \<Rightarrow> jdict \<Rightarrow> bool" where
  "same_decision a b \<longleftrightarrow>
     list_all (\<lambda>k. jget a k = jget b k)
       [''status'', ''decided_at'', ''decided_by'', ''decision_note'', ''command'', ''risk_level'']"

lemma same_decision_refl [simp]: "same_decision a a"
  by (simp add: same_decision_def)

lemma decided_step:
  assumes "approvals_step w w'" and "map_of (ap_data w) aid = Some rec"
    and "jget rec ''status'' \<noteq> JStr ''pending''"
  shows "\<exists>rec'. map_of (ap_data w') aid = Some rec' \<and> same_decision rec' rec"
  using assms(1)
proof (cases rule: approvals_step.cases)
  case (create aid' now q)
  with assms(2) have "aid' \<noteq> aid" by (force dest: map_of_SomeD)
  with create assms(2) show ?thesis by (simp add: create_request_def Let_def approvals_write_def)
next
  case (deferred now now' aid' error)
  with assms(2) show ?thesis
    by (auto simp: mark_callback_deferred_def update_callback_status_def Let_def approvals_write_def
        same_decision_def split: option.split)
next
  case (delivered now now' aid')
  with assms(2) show ?thesis
    by (auto simp: mark_callback_delivered_def update_callback_status_def Let_def approvals_write_def
        same_decision_def split: option.split)
next
  case (decide now aid' decision operator n)
  with assms(2,3) show ?thesis
    by (auto simp: apply_decision_def Let_def approvals_write_def split: option.split)
qed

lemma decided_steps:
  assumes "approvals_step\<^sup>*\<^sup>* w w'" and "map_of (ap_data w) aid = Some rec"
    and "jget rec ''status'' \<noteq> JStr ''pending''"
  shows "\<exists>rec'. map_of (ap_data w') aid = Some rec' \<and> same_decision rec' rec"
  using assms(1)
proof (induction rule: rtranclp_induct)
  case base
  with assms(2) show ?case by simp
next
  case (step v u)
  then obtain rec' where "map_of (ap_data v) aid = Some rec'" and same: "same_decision rec' rec" by blast
  with decided_step [OF step(2), of aid rec'] assms(3) obtain rec'' where
    "map_of (ap_data u) aid = Some rec''" and "same_decision rec'' rec'"
    by (auto simp: same_decision_def)
  with same show ?case by (auto simp: same_decision_def)
qed

section \<open>Properties\<close>

text \<open>
  C1: No command runs unapproved. In every reachable table an approved request is one whose
  command was graded L0 or L1, or one for which the audit log has exactly one decision, to
  approve; a rejected one has exactly one decision, to reject; a pending one has none, and its
  command was not graded L0 or L1.
\<close>

theorem approval_backed_by_audit:
  assumes "approvals_reachable w" and "map_of (ap_data w) aid = Some rec"
  shows "(jget rec ''status'' = JStr ''approved'' \<and>
            (if auto_approved rec then decision_lines aid w = []
             else decided_once ''approve'' (decision_lines aid w))) \<or>
         (jget rec ''status'' = JStr ''rejected'' \<and> \<not> auto_approved rec \<and>
            decided_once ''reject'' (decision_lines aid w)) \<or>
         (jget rec ''status'' = JStr ''pending'' \<and> \<not> auto_approved rec \<and>
            decision_lines aid w = [])"
  using approvals_invD [OF approvals_reachable_inv [OF assms(1)], of aid] assms(2)
  by (auto simp: entry_ok_simps approval_ok_def split: json.splits if_splits)

definition example_approval :: "string \<Rightarrow> approval_request" where
  "example_approval c =
     \<lparr>aq_project_id = ''p'', aq_thread_id = ''t'', aq_command = c, aq_reason = ''r'',
      aq_alternative = [], aq_bridge_request_id = None, aq_bridge_request_id_type = None,
      aq_bridge_request_method = None\<rparr>"

definition example_pending :: approvals_world where
  "example_pending = snd (create_request ''a'' ''t0'' (example_approval ''rm -rf x'') empty_approvals)"

definition example_decided :: approvals_world where
  "example_decided = snd (apply_decision ''t1'' ''a'' ''approve'' ''op'' [] example_pending)"

lemma example_pending_reachable: "approvals_reachable example_pending"
  unfolding example_pending_def
  by (rule approvals_reachable.step [OF approvals_reachable.start approvals_step.create])
    (simp add: empty_approvals_def)

lemma example_decided_reachable: "approvals_reachable example_decided"
  unfolding example_decided_def
  by (rule approvals_reachable.step [OF example_pending_reachable approvals_step.decide])

lemma example_decided_record:
  "case map_of (ap_data example_decided) ''a'' of None \<Rightarrow> False
   | Some rec \<Rightarrow> jget rec ''status'' = JStr ''approved'' \<and> \<not> auto_approved rec"
  by code_simp

theorem approval_backed_by_audit_witness:
  "decided_once ''approve'' (decision_lines ''a'' example_decided)"
proof -
  obtain rec where rec: "map_of (ap_data example_decided) ''a'' = Some rec"
    and st: "jget rec ''status'' = JStr ''approved''" "\<not> auto_approved rec"
    using example_decided_record by (auto split: option.splits)
  from approval_backed_by_audit [OF example_decided_reachable rec] st show ?thesis by auto
qed

text \<open>
  C21: A decision is final. Once a request is approved or rejected, by policy or by an operator, no
  sequence of steps changes its status, who decided it, when, its note, its command or its grade.
\<close>

theorem approval_decision_final:
  assumes "approvals_step\<^sup>*\<^sup>* w w'" and "map_of (ap_data w) aid = Some rec"
    and "jget rec ''status'' \<noteq> JStr ''pending''"
  shows "\<exists>rec'. map_of (ap_data w') aid = Some rec' \<and> same_decision rec' rec"
  using assms by (rule decided_steps)

theorem approval_decision_final_witness:
  "map_option (\<lambda>rec. jget rec ''status'')
     (map_of (ap_data (snd (apply_decision ''t2'' ''a'' ''reject'' ''other'' [] example_decided))) ''a'') =
   Some (JStr ''approved'')"
proof -
  obtain rec where rec: "map_of (ap_data example_decided) ''a'' = Some rec"
    and st: "jget rec ''status'' = JStr ''approved''"
    using example_decided_record by (auto split: option.splits)
  have run: "approvals_step\<^sup>*\<^sup>* example_decided
      (snd (apply_decision ''t2'' ''a'' ''reject'' ''other'' [] example_decided))"
    by (rule r_into_rtranclp, rule approvals_step.decide)
  from st have decided: "jget rec ''status'' \<noteq> JStr ''pending''" by simp
  from approval_decision_final [OF run rec decided] st show ?thesis
    by (auto simp: same_decision_def)
qed

end
