(* ===== verification/SeqTable.thy ===== *)
theory SeqTable
  imports Prelude
begin

text \<open>
  The contract of a file that keeps records by identifier and numbers new ones from a counter, as
  the delivery outbox and the memory ingest queue do: a new record takes the counter, and the
  counter moves on; a record that is stored again keeps its number. Under it the numbers stay
  unique and below the counter, so they order the records.
\<close>

definition seq_table_ok :: "('r \<Rightarrow> string) \<Rightarrow> ('r \<Rightarrow> int) \<Rightarrow> int \<Rightarrow> (string, 'r) dict \<Rightarrow> bool" where
  "seq_table_ok rid seq n t \<longleftrightarrow>
     distinct (dict_keys t) \<and> distinct (map (\<lambda>p. seq (snd p)) t) \<and>
     (\<forall>p \<in> set t. rid (snd p) = fst p \<and> seq (snd p) < n)"

lemma seq_table_ok_Nil [simp]: "seq_table_ok rid seq n []"
  by (simp add: seq_table_ok_def)

lemma dict_set_new: "k \<notin> set (dict_keys d) \<Longrightarrow> dict_set k v d = d @ [(k, v)]"
  by (induction d) auto

lemma dict_set_old_map:
  "map_of d k = Some v0 \<Longrightarrow> f v = f v0 \<Longrightarrow>
     map (\<lambda>p. f (snd p)) (dict_set k v d) = map (\<lambda>p. f (snd p)) d"
  by (induction d) (auto split: if_splits)

lemma dict_set_old_keys: "map_of d k = Some v0 \<Longrightarrow> dict_keys (dict_set k v d) = dict_keys d"
  by (induction d) (auto split: if_splits)

lemma dict_set_old_mem: "p \<in> set (dict_set k v d) \<Longrightarrow> p = (k, v) \<or> p \<in> set d"
  by (induction d) (auto split: if_splits)

lemma seq_table_ok_mono: "seq_table_ok rid seq n t \<Longrightarrow> n \<le> m \<Longrightarrow> seq_table_ok rid seq m t"
  by (fastforce simp: seq_table_ok_def)

lemma seq_table_ok_new:
  assumes "seq_table_ok rid seq n t" and "rid r \<notin> set (dict_keys t)" and "seq r = n"
  shows "seq_table_ok rid seq (n + 1) (dict_set (rid r) r t)"
  using assms by (fastforce simp: seq_table_ok_def dict_set_new)

lemma seq_table_ok_old:
  assumes "seq_table_ok rid seq n t" and "map_of t (rid r) = Some r0" and "seq r = seq r0"
  shows "seq_table_ok rid seq n (dict_set (rid r) r t)"
proof -
  from assms(2) have "(rid r, r0) \<in> set t" by (rule map_of_SomeD)
  with assms(1) have "seq r0 < n" by (auto simp: seq_table_ok_def)
  with assms show ?thesis
    by (auto simp: seq_table_ok_def dict_set_old_keys dict_set_old_map [where f = seq]
        dest!: dict_set_old_mem)
qed

lemma seq_table_ok_map:
  assumes "\<And>r. rid (g r) = rid r" and "\<And>r. seq (g r) = seq r"
  shows "seq_table_ok rid seq n (map (\<lambda>(k, r). (k, g r)) t) = seq_table_ok rid seq n t"
proof -
  have k: "dict_keys (map (\<lambda>(k, r). (k, g r)) t) = dict_keys t" by (induction t) auto
  have q: "map (\<lambda>p. seq (snd p)) (map (\<lambda>(k, r). (k, g r)) t) = map (\<lambda>p. seq (snd p)) t"
    by (induction t) (auto simp: assms)
  have "(\<forall>p \<in> set (map (\<lambda>(k, r). (k, g r)) t). rid (snd p) = fst p \<and> seq (snd p) < n) \<longleftrightarrow>
      (\<forall>p \<in> set t. rid (snd p) = fst p \<and> seq (snd p) < n)"
    by (induction t) (auto simp: assms)
  then show ?thesis unfolding seq_table_ok_def k q by (rule arg_cong)
qed

text \<open>Rewriting the selected entries of a dictionary one by one is a map over it.\<close>

lemma dict_set_append: "k \<notin> set (dict_keys xs) \<Longrightarrow> dict_set k v (xs @ d) = xs @ dict_set k v d"
  by (induction xs) auto

lemma fold_dict_set_map:
  assumes "distinct (dict_keys d)"
  shows "fold (\<lambda>p. dict_set (fst p) (snd p)) (map (\<lambda>(k, r). (k, g r)) (filter (\<lambda>p. P (snd p)) d)) d =
     map (\<lambda>(k, r). (k, if P r then g r else r)) d"
proof -
  have "fold (\<lambda>p. dict_set (fst p) (snd p)) (map (\<lambda>(k, r). (k, g r)) (filter (\<lambda>p. P (snd p)) d))
      (xs @ d) = xs @ map (\<lambda>(k, r). (k, if P r then g r else r)) d"
    if "distinct (dict_keys (xs @ d))" for xs
    using that
  proof (induction d arbitrary: xs)
    case (Cons p d)
    obtain k r where p: "p = (k, r)" by (cases p)
    with Cons.prems have k: "k \<notin> set (dict_keys xs)" by auto
    show ?case
      using Cons.IH [of "xs @ [(k, g r)]"] Cons.IH [of "xs @ [(k, r)]"] Cons.prems p
      by (auto simp: dict_set_append [OF k])
  qed simp
  from this [of "[]"] assms show ?thesis by simp
qed

text \<open>The interface: how a client stores a new record and stores a record again.\<close>

locale seq_table =
  fixes table :: "'s \<Rightarrow> (string, 'r) dict"
    and nxt :: "'s \<Rightarrow> int"
    and rid :: "'r \<Rightarrow> string"
    and seq :: "'r \<Rightarrow> int"
    and put_new :: "'r \<Rightarrow> 's \<Rightarrow> 's"
    and put_old :: "'r \<Rightarrow> 's \<Rightarrow> 's"
  assumes table_new [simp]: "table (put_new r s) = dict_set (rid r) r (table s)"
    and nxt_new [simp]: "nxt (put_new r s) = nxt s + 1"
    and table_old [simp]: "table (put_old r s) = dict_set (rid r) r (table s)"
    and nxt_old [simp]: "nxt (put_old r s) = nxt s"
begin

lemma put_new_ok:
  "seq_table_ok rid seq (nxt s) (table s) \<Longrightarrow> map_of (table s) (rid r) = None \<Longrightarrow> seq r = nxt s \<Longrightarrow>
     seq_table_ok rid seq (nxt (put_new r s)) (table (put_new r s))"
  by (simp add: seq_table_ok_new map_of_eq_None_iff)

lemma put_old_ok:
  "seq_table_ok rid seq (nxt s) (table s) \<Longrightarrow> map_of (table s) (rid r) = Some r0 \<Longrightarrow>
     seq r = seq r0 \<Longrightarrow> seq_table_ok rid seq (nxt (put_old r s)) (table (put_old r s))"
  by (simp add: seq_table_ok_old)

text \<open>Storing records again, one after the other, keeps every number.\<close>

lemma put_old_all_ok:
  assumes "seq_table_ok rid seq (nxt s) (table s)"
    and "\<And>r. r \<in> set rs \<Longrightarrow> \<exists>r0. map_of (table s) (rid r) = Some r0 \<and> seq r = seq r0"
  shows "seq_table_ok rid seq (nxt (fold put_old rs s)) (table (fold put_old rs s))"
  using assms
proof (induction rs arbitrary: s)
  case (Cons r rs)
  obtain r0 where r0: "map_of (table s) (rid r) = Some r0" "seq r = seq r0"
    using Cons.prems(2) [of r] by auto
  have "\<exists>q0. map_of (table (put_old r s)) (rid q) = Some q0 \<and> seq q = seq q0" if "q \<in> set rs" for q
    using Cons.prems(2) [of q] that r0 by auto
  with Cons.IH [of "put_old r s"] put_old_ok [OF Cons.prems(1) r0] show ?case by simp
qed simp

end

end
