(* ===== verification/IngestQueue.thy ===== *)
theory IngestQueue
  imports SeqTable SessionService Timestamps "HOL-Library.Product_Lexorder"
begin

text \<open>
  The memory ingest queue of \<^verbatim>\<open>src/watchdog/services/memory_hub/ingest_queue.py\<close>: session events
  wait in a file until a worker claims them, oldest first; a failed one waits for its retry time,
  and what a crashed worker had claimed is put back. Every method holds the file lock from its
  read to its write. \<open>now\<close> is what \<open>_utcnow()\<close> returns in the call.
\<close>

section \<open>State\<close>

record ingest_record =
  ir_event_id :: string
  ir_project_id :: string
  ir_session_id :: string
  ir_event_type :: string
  ir_occurred_at :: string
  ir_queue_seq :: int
  ir_status :: string
  ir_attempts :: int
  ir_failure_code :: "string option"
  ir_failure_detail :: "string option"
  ir_next_retry_at :: "string option"
  ir_enqueued_at :: string
  ir_updated_at :: string
  ir_event_payload :: jdict

record ingest_failure =
  if_event_id :: string
  if_project_id :: string
  if_session_id :: string
  if_event_type :: string
  if_failure_code :: string
  if_failure_detail :: "string option"
  if_recorded_at :: string
  if_event_payload :: jdict

record ingest_queue =
  iq_next_seq :: int
  iq_records :: "(string, ingest_record) dict"

type_synonym ingest_failures = "(string, ingest_failure) dict"

definition empty_ingest_queue :: ingest_queue where
  "empty_ingest_queue = \<lparr>iq_next_seq = 1, iq_records = []\<rparr>"

text \<open>The two ways the queue is written: a new record, and a record that is stored again.\<close>

definition iq_put_at :: "string \<Rightarrow> ingest_record \<Rightarrow> ingest_queue \<Rightarrow> ingest_queue" where
  "iq_put_at k r q = q\<lparr>iq_records := dict_set k r (iq_records q)\<rparr>"

definition iq_put_old :: "ingest_record \<Rightarrow> ingest_queue \<Rightarrow> ingest_queue" where
  "iq_put_old r = iq_put_at (ir_event_id r) r"

definition iq_put_new :: "ingest_record \<Rightarrow> ingest_queue \<Rightarrow> ingest_queue" where
  "iq_put_new r q =
     q\<lparr>iq_next_seq := iq_next_seq q + 1, iq_records := dict_set (ir_event_id r) r (iq_records q)\<rparr>"

section \<open>Helpers\<close>

text \<open>\<open>event.model_dump(mode="json")\<close>.\<close>

definition dump_event :: "session_event \<Rightarrow> jdict" where
  "dump_event e =
     [(''event_id'', JStr (ev_event_id e)), (''project_id'', JStr (ev_project_id e)),
      (''session_id'', JStr (ev_session_id e)), (''event_type'', JStr (ev_event_type e)),
      (''occurred_at'', JStr (ev_occurred_at e)), (''causation_id'', jopt (ev_causation_id e)),
      (''correlation_id'', JStr (ev_correlation_id e)),
      (''idempotency_key'', JStr (ev_idempotency_key e)),
      (''related_ids'', JObj (map (\<lambda>(k, v). (k, JStr v)) (ev_related_ids e))),
      (''payload'', JObj (ev_payload e)),
      (''log_seq'', case ev_log_seq e of None \<Rightarrow> JNull | Some n \<Rightarrow> JInt n)]"

text \<open>A text that cannot be read is no time; leaving the calendar on the way to UTC raises.\<close>

definition parse_iso :: "string option \<Rightarrow> py_error + int option" where
  "parse_iso value =
     (if or_empty value = [] then Inr None
      else (case fromisoformat (replace_char (CHR ''Z'') ''+00:00'' (or_empty value)) of
          None \<Rightarrow> Inr None
        | Some p \<Rightarrow> (case to_utc p of Inl e \<Rightarrow> Inl e | Inr t \<Rightarrow> Inr (Some t))))"

definition claimable :: "int \<Rightarrow> ingest_record \<Rightarrow> py_error + bool" where
  "claimable current r =
     (if ir_status r = ''pending'' then Inr True
      else if ir_status r \<noteq> ''retrying'' then Inr False
      else (case parse_iso (ir_next_retry_at r) of
          Inl e \<Rightarrow> Inl e
        | Inr None \<Rightarrow> Inr True
        | Inr (Some t) \<Rightarrow> Inr (t \<le> current)))"

fun claimable_records :: "int \<Rightarrow> ingest_record list \<Rightarrow> py_error + ingest_record list" where
  "claimable_records current [] = Inr []"
| "claimable_records current (r # rs) =
     (case claimable current r of
        Inl e \<Rightarrow> Inl e
      | Inr b \<Rightarrow>
          (case claimable_records current rs of
             Inl e \<Rightarrow> Inl e
           | Inr qs \<Rightarrow> Inr (if b then r # qs else qs)))"

section \<open>Operations\<close>

definition queued_record :: "string \<Rightarrow> session_event \<Rightarrow> int \<Rightarrow> ingest_record" where
  "queued_record now e n =
     \<lparr>ir_event_id = ev_event_id e, ir_project_id = ev_project_id e,
      ir_session_id = ev_session_id e, ir_event_type = ev_event_type e,
      ir_occurred_at = ev_occurred_at e, ir_queue_seq = n, ir_status = ''pending'',
      ir_attempts = 0, ir_failure_code = None, ir_failure_detail = None, ir_next_retry_at = None,
      ir_enqueued_at = now, ir_updated_at = now, ir_event_payload = dump_event e\<rparr>"

definition enqueue_event :: "string \<Rightarrow> session_event \<Rightarrow> ingest_queue \<Rightarrow> ingest_record \<times> ingest_queue" where
  "enqueue_event now e q =
     (case map_of (iq_records q) (ev_event_id e) of
        Some r \<Rightarrow> (r, q)
      | None \<Rightarrow> (let r = queued_record now e (iq_next_seq q) in (r, iq_put_new r q)))"

definition list_ingest_records :: "ingest_queue \<Rightarrow> ingest_record list" where
  "list_ingest_records q = sort_key ir_queue_seq (dict_values (iq_records q))"

definition list_pending :: "string option \<Rightarrow> ingest_queue \<Rightarrow> ingest_record list" where
  "list_pending session_id q =
     filter (\<lambda>r. ir_status r = ''pending'' \<and> opt_match session_id (ir_session_id r))
       (list_ingest_records q)"

definition claimed_record :: "string \<Rightarrow> ingest_record \<Rightarrow> ingest_record" where
  "claimed_record now r =
     r\<lparr>ir_status := ''processing'', ir_attempts := ir_attempts r + 1, ir_failure_code := None,
       ir_failure_detail := None, ir_next_retry_at := None, ir_updated_at := now\<rparr>"

definition claim_next :: "string \<Rightarrow> int \<Rightarrow> (ingest_record option, ingest_queue) op" where
  "claim_next now current q =
     (case claimable_records current (dict_values (iq_records q)) of
        Inl e \<Rightarrow> (Inl e, q)
      | Inr rs \<Rightarrow>
          (case sort_key ir_queue_seq rs of
             [] \<Rightarrow> (Inr None, q)
           | r # _ \<Rightarrow> (Inr (Some (claimed_record now r)), iq_put_old (claimed_record now r) q)))"

definition mark_record ::
    "(ingest_record \<Rightarrow> ingest_record) \<Rightarrow> string \<Rightarrow> ingest_queue \<Rightarrow>
     ingest_record option \<times> ingest_queue" where
  "mark_record f event_id q =
     (case map_of (iq_records q) event_id of
        None \<Rightarrow> (None, q)
      | Some r \<Rightarrow> (Some (f r), iq_put_at event_id (f r) q))"

definition mark_processed :: "string \<Rightarrow> string \<Rightarrow> ingest_queue \<Rightarrow> ingest_record option \<times> ingest_queue"
where
  "mark_processed now =
     mark_record (\<lambda>r. r\<lparr>ir_status := ''processed'', ir_failure_code := None,
       ir_failure_detail := None, ir_next_retry_at := None, ir_updated_at := now\<rparr>)"

definition mark_failed ::
    "string \<Rightarrow> string \<Rightarrow> string option \<Rightarrow> string \<Rightarrow> ingest_queue \<Rightarrow>
     ingest_record option \<times> ingest_queue" where
  "mark_failed now failure_code failure_detail =
     mark_record (\<lambda>r. r\<lparr>ir_status := ''failed'', ir_failure_code := Some failure_code,
       ir_failure_detail := failure_detail, ir_updated_at := now\<rparr>)"

definition mark_retrying ::
    "string \<Rightarrow> string \<Rightarrow> string \<Rightarrow> string option \<Rightarrow> string \<Rightarrow> ingest_queue \<Rightarrow>
     ingest_record option \<times> ingest_queue" where
  "mark_retrying now next_retry_at failure_code failure_detail =
     mark_record (\<lambda>r. r\<lparr>ir_status := ''retrying'', ir_failure_code := Some failure_code,
       ir_failure_detail := failure_detail, ir_next_retry_at := Some next_retry_at,
       ir_updated_at := now\<rparr>)"

definition recovered_record :: "string \<Rightarrow> ingest_record \<Rightarrow> ingest_record" where
  "recovered_record now r =
     r\<lparr>ir_status := ''pending'', ir_failure_code := Some ''worker_interrupted'',
       ir_failure_detail := Some ''processing record recovered after restart'',
       ir_next_retry_at := None, ir_updated_at := now\<rparr>"

text \<open>\<open>clock i\<close> is the time at which the i-th record is put back.\<close>

definition recover_inflight ::
    "(nat \<Rightarrow> string) \<Rightarrow> ingest_queue \<Rightarrow> ingest_record list \<times> ingest_queue" where
  "recover_inflight clock q =
     (let inflight = filter (\<lambda>p. ir_status (snd p) = ''processing'') (iq_records q);
          recovered = map (\<lambda>(i, p). (fst p, recovered_record (clock i) (snd p))) (enumerate 0 inflight)
      in (dict_values recovered, fold (\<lambda>p. iq_put_at (fst p) (snd p)) recovered q))"

section \<open>Failures to enqueue\<close>

definition record_failure ::
    "string \<Rightarrow> session_event \<Rightarrow> string \<Rightarrow> string option \<Rightarrow> ingest_failures \<Rightarrow>
     ingest_failure \<times> ingest_failures" where
  "record_failure now e failure_code failure_detail fs =
     (let r = \<lparr>if_event_id = ev_event_id e, if_project_id = ev_project_id e,
               if_session_id = ev_session_id e, if_event_type = ev_event_type e,
               if_failure_code = failure_code, if_failure_detail = failure_detail,
               if_recorded_at = now, if_event_payload = dump_event e\<rparr>
      in (r, dict_set (ev_event_id e) r fs))"

definition list_failures :: "ingest_failures \<Rightarrow> ingest_failure list" where
  "list_failures fs = sort_key (\<lambda>r. (if_recorded_at r, if_event_id r)) (dict_values fs)"

text \<open>
  The enqueuer: what goes wrong while the queue file is read or written (\<open>broken\<close>, with the text
  of the exception) is recorded and raised again.
\<close>

definition enqueuer_enqueue ::
    "(py_error \<times> string) option \<Rightarrow> string \<Rightarrow> session_event \<Rightarrow>
     (ingest_record, ingest_queue \<times> ingest_failures option) op" where
  "enqueuer_enqueue broken now e s =
     (case (broken, s) of
        (None, q, fs) \<Rightarrow> (case enqueue_event now e q of (r, q') \<Rightarrow> (Inr r, q', fs))
      | (Some (err, detail), q, fs) \<Rightarrow>
          (Inl err, q,
           map_option (\<lambda>f. snd (record_failure now e ''memory_ingest_enqueue_failed'' (Some detail) f))
             fs))"

section \<open>The queue is a numbered table\<close>

lemma iq_put_simps [simp]:
  "iq_records (iq_put_new r q) = dict_set (ir_event_id r) r (iq_records q)"
  "iq_next_seq (iq_put_new r q) = iq_next_seq q + 1"
  "iq_records (iq_put_old r q) = dict_set (ir_event_id r) r (iq_records q)"
  "iq_next_seq (iq_put_old r q) = iq_next_seq q"
  by (simp_all add: iq_put_new_def iq_put_old_def iq_put_at_def)

interpretation queue: seq_table iq_records iq_next_seq ir_event_id ir_queue_seq iq_put_new iq_put_old
  by unfold_locales simp_all

definition queue_ok :: "ingest_queue \<Rightarrow> bool" where
  "queue_ok q \<longleftrightarrow> seq_table_ok ir_event_id ir_queue_seq (iq_next_seq q) (iq_records q)"

inductive queue_step :: "ingest_queue \<Rightarrow> ingest_queue \<Rightarrow> bool" where
  enqueue: "queue_step q (snd (enqueue_event now e q))"
| claim: "queue_step q (snd (claim_next now current q))"
| processed: "queue_step q (snd (mark_processed now i q))"
| failed: "queue_step q (snd (mark_failed now fc fd i q))"
| retrying: "queue_step q (snd (mark_retrying now at fc fd i q))"
| recover: "queue_step q (snd (recover_inflight clock q))"

inductive queue_reachable :: "ingest_queue \<Rightarrow> bool" where
  start: "queue_reachable empty_ingest_queue"
| step: "queue_reachable q \<Longrightarrow> queue_step q q' \<Longrightarrow> queue_reachable q'"

lemma queue_ok_key: "queue_ok q \<Longrightarrow> map_of (iq_records q) k = Some r \<Longrightarrow> ir_event_id r = k"
  by (auto simp: queue_ok_def seq_table_ok_def dest!: map_of_SomeD)

text \<open>
  Where every record is kept under its id, storing it under the key it was found under and under
  its own id is the same.
\<close>

lemma mark_record_Some:
  assumes "queue_ok q" and "map_of (iq_records q) i = Some r" and "ir_event_id (f r) = ir_event_id r"
  shows "mark_record f i q = (Some (f r), iq_put_old (f r) q)"
  using queue_ok_key [OF assms(1,2)] assms(2,3) by (simp add: mark_record_def iq_put_old_def)

lemma recovered_values:
  "map snd (map (\<lambda>(i, p). (fst p, f i (snd p))) (enumerate n xs)) =
     map (\<lambda>(i, r). f i r) (enumerate n (map snd xs))"
  by (induction xs arbitrary: n) auto

lemma recover_inflight_values:
  assumes "queue_ok q"
  shows "recover_inflight clock q =
     (let inflight = filter (\<lambda>r. ir_status r = ''processing'') (dict_values (iq_records q));
          recovered = map (\<lambda>(i, r). recovered_record (clock i) r) (enumerate 0 inflight)
      in (recovered, fold iq_put_old recovered q))"
proof -
  let ?fl = "filter (\<lambda>p. ir_status (snd p) = ''processing'') (iq_records q)"
  let ?rec = "map (\<lambda>(i, p). (fst p, recovered_record (clock i) (snd p))) (enumerate 0 ?fl)"
  have vals: "map snd ?rec = map (\<lambda>(i, r). recovered_record (clock i) r)
      (enumerate 0 (filter (\<lambda>r. ir_status r = ''processing'') (dict_values (iq_records q))))"
    using recovered_values [of "\<lambda>i. recovered_record (clock i)" 0 ?fl]
    by (simp only: filter_map o_def)
  have key: "ir_event_id (snd p) = fst p" if p: "p \<in> set ?rec" for p
  proof -
    from p obtain i x where "(i, x) \<in> set (enumerate 0 ?fl)" and e: "p = (fst x, recovered_record (clock i) (snd x))"
      by auto
    then have "x \<in> set ?fl" by (metis in_set_enumerate_eq nth_mem snd_conv add_0 le_add_diff_inverse2
        less_diff_conv2 prod.sel(2) diff_zero)
    with assms e show ?thesis by (auto simp: recovered_record_def queue_ok_def seq_table_ok_def)
  qed
  have "fold (\<lambda>p. iq_put_at (fst p) (snd p)) ?rec q = fold (\<lambda>p. iq_put_old (snd p)) ?rec q"
    by (rule fold_cong) (simp_all add: iq_put_old_def key)
  also have "\<dots> = fold iq_put_old (map snd ?rec) q" by (simp add: fold_map o_def)
  finally show ?thesis unfolding recover_inflight_def Let_def vals [symmetric] by simp
qed

lemma queue_ok_value:
  assumes "queue_ok q" and "r \<in> set (dict_values (iq_records q))"
  shows "map_of (iq_records q) (ir_event_id r) = Some r"
proof -
  from assms(2) obtain k where k: "(k, r) \<in> set (iq_records q)" by auto
  with assms(1) have "k = ir_event_id r" "distinct (dict_keys (iq_records q))"
    by (auto simp: queue_ok_def seq_table_ok_def)
  with k show ?thesis by simp
qed

lemma claimable_records_Inr:
  "claimable_records c rs = Inr qs \<Longrightarrow>
     qs = filter (\<lambda>r. claimable c r = Inr True) rs \<and> list_all (\<lambda>r. claimable c r \<in> range Inr) rs"
  by (induction rs arbitrary: qs) (auto split: sum.splits if_splits)

lemma claim_next_cases:
  assumes "claim_next now c q = (Inr res, q')"
  obtains (idle) "res = None" "q' = q" "list_all (\<lambda>r. claimable c r = Inr False) (dict_values (iq_records q))"
  | (claimed) r where "res = Some (claimed_record now r)" "q' = iq_put_old (claimed_record now r) q"
      "r \<in> set (dict_values (iq_records q))" "claimable c r = Inr True"
      "\<And>p. p \<in> set (dict_values (iq_records q)) \<Longrightarrow> claimable c p = Inr True \<Longrightarrow>
         ir_queue_seq r \<le> ir_queue_seq p"
proof -
  obtain rs where rs: "claimable_records c (dict_values (iq_records q)) = Inr rs"
    using assms by (auto simp: claim_next_def split: sum.splits)
  from claimable_records_Inr [OF rs]
  have f: "rs = filter (\<lambda>r. claimable c r = Inr True) (dict_values (iq_records q))"
    and a: "list_all (\<lambda>r. claimable c r \<in> range Inr) (dict_values (iq_records q))" by auto
  show thesis
  proof (cases "sort_key ir_queue_seq rs")
    case Nil
    then have "set rs = {}" by (metis set_sort set_empty2 list.set(1))
    with f a have "list_all (\<lambda>r. claimable c r = Inr False) (dict_values (iq_records q))"
      by (fastforce simp: list_all_iff filter_empty_conv)
    with assms rs Nil show thesis by (intro idle) (auto simp: claim_next_def)
  next
    case (Cons r qs)
    have mem: "set (r # qs) = set rs" by (simp add: Cons [symmetric])
    have "sorted (map ir_queue_seq (r # qs))" by (simp only: Cons [symmetric] sorted_sort_key)
    then have "ir_queue_seq r \<le> ir_queue_seq p" if "p \<in> set rs" for p
      using that mem by auto
    with assms rs Cons f mem show thesis by (intro claimed [of r]) (auto simp: claim_next_def)
  qed
qed

lemma claim_next_Inl: "claim_next now c q = (Inl e, q') \<Longrightarrow> q' = q"
  by (auto simp: claim_next_def split: sum.splits list.splits)

lemma mark_record_ok:
  assumes "queue_ok q" and "\<And>r. ir_event_id (f r) = ir_event_id r" "\<And>r. ir_queue_seq (f r) = ir_queue_seq r"
  shows "queue_ok (snd (mark_record f i q))"
proof (cases "map_of (iq_records q) i")
  case None
  with assms(1) show ?thesis by (simp add: mark_record_def)
next
  case (Some r)
  with assms show ?thesis
    using queue.put_old_ok [of q "f r" r] queue_ok_key [OF assms(1) Some]
      mark_record_Some [OF assms(1) Some, of f]
    by (simp add: queue_ok_def)
qed

lemma recover_inflight_ok:
  assumes "queue_ok q"
  shows "queue_ok (snd (recover_inflight clock q))"
proof -
  let ?in = "filter (\<lambda>r. ir_status r = ''processing'') (dict_values (iq_records q))"
  let ?rs = "map (\<lambda>(i, r). recovered_record (clock i) r) (enumerate 0 ?in)"
  have "\<exists>r0. map_of (iq_records q) (ir_event_id r) = Some r0 \<and> ir_queue_seq r = ir_queue_seq r0"
    if r: "r \<in> set ?rs" for r
  proof -
    from r obtain i r0 where "(i, r0) \<in> set (enumerate 0 ?in)" and e: "r = recovered_record (clock i) r0"
      by auto
    then have "r0 \<in> set ?in" by (metis in_set_enumerate_eq nth_mem snd_conv add_0 le_add_diff_inverse2
        less_diff_conv2 prod.sel(2) diff_zero)
    then have "map_of (iq_records q) (ir_event_id r0) = Some r0"
      by (intro queue_ok_value [OF assms]) auto
    with e show ?thesis by (simp add: recovered_record_def)
  qed
  with assms queue.put_old_all_ok [of q ?rs] show ?thesis
    by (simp add: recover_inflight_values [OF assms] Let_def queue_ok_def)
qed

lemma claim_next_ok:
  assumes "queue_ok q"
  shows "queue_ok (snd (claim_next now c q))"
proof (cases "claim_next now c q")
  case (Pair res q')
  show ?thesis
  proof (cases res)
    case (Inl e)
    with Pair assms show ?thesis by (auto dest: claim_next_Inl)
  next
    case (Inr a)
    with Pair have "claim_next now c q = (Inr a, q')" by simp
    then show ?thesis
    proof (cases rule: claim_next_cases)
      case idle
      with Pair assms show ?thesis by simp
    next
      case (claimed r)
      have "map_of (iq_records q) (ir_event_id (claimed_record now r)) = Some r"
        using queue_ok_value [OF assms claimed(3)] by (simp add: claimed_record_def)
      with assms claimed Pair show ?thesis
        using queue.put_old_ok [of q "claimed_record now r" r]
        by (simp add: queue_ok_def claimed_record_def)
    qed
  qed
qed

lemma queued_record_simps [simp]:
  "ir_event_id (queued_record now e n) = ev_event_id e"
  "ir_queue_seq (queued_record now e n) = n"
  "ir_status (queued_record now e n) = ''pending''"
  by (simp_all add: queued_record_def)

lemma enqueue_event_ok:
  assumes "queue_ok q"
  shows "queue_ok (snd (enqueue_event now e q))"
proof (cases "map_of (iq_records q) (ev_event_id e)")
  case None
  then show ?thesis
    using assms queue.put_new_ok [of q "queued_record now e (iq_next_seq q)"]
    by (simp add: enqueue_event_def queue_ok_def Let_def)
next
  case (Some r)
  with assms show ?thesis by (simp add: enqueue_event_def)
qed

lemma queue_step_ok: "queue_step q q' \<Longrightarrow> queue_ok q \<Longrightarrow> queue_ok q'"
  by (induction rule: queue_step.induct)
    (auto simp: mark_processed_def mark_failed_def mark_retrying_def
      intro: enqueue_event_ok claim_next_ok recover_inflight_ok mark_record_ok)

lemma queue_reachable_ok: "queue_reachable q \<Longrightarrow> queue_ok q"
  by (induction rule: queue_reachable.induct)
    (auto simp: queue_ok_def empty_ingest_queue_def intro: queue_step_ok [unfolded queue_ok_def])

section \<open>A claimed record is not claimed again\<close>

text \<open>The steps of other workers: everything but a mark on the record and a recovery.\<close>

inductive bystander :: "string \<Rightarrow> ingest_queue \<Rightarrow> ingest_queue \<Rightarrow> bool" for i where
  enqueue: "bystander i q (snd (enqueue_event now e q))"
| claim: "bystander i q (snd (claim_next now c q))"
| processed: "j \<noteq> i \<Longrightarrow> bystander i q (snd (mark_processed now j q))"
| failed: "j \<noteq> i \<Longrightarrow> bystander i q (snd (mark_failed now fc fd j q))"
| retrying: "j \<noteq> i \<Longrightarrow> bystander i q (snd (mark_retrying now at fc fd j q))"

definition processing :: "string \<Rightarrow> ingest_queue \<Rightarrow> bool" where
  "processing i q \<longleftrightarrow>
     (case map_of (iq_records q) i of None \<Rightarrow> False | Some r \<Rightarrow> ir_status r = ''processing'')"

lemma bystander_step: "bystander i q q' \<Longrightarrow> queue_step q q'"
  by (induction rule: bystander.induct) (rule queue_step.intros)+

lemma mark_record_other:
  "j \<noteq> i \<Longrightarrow> map_of (iq_records (snd (mark_record f j q))) i = map_of (iq_records q) i"
  by (auto simp: mark_record_def iq_put_at_def split: option.split)

lemma claim_next_skips:
  assumes "queue_ok q" and "processing i q" and "claim_next now c q = (Inr (Some r), q')"
  shows "ir_event_id r \<noteq> i \<and> map_of (iq_records q') i = map_of (iq_records q) i"
  using assms(3)
proof (cases rule: claim_next_cases)
  case (claimed r0)
  from queue_ok_value [OF assms(1) claimed(3)]
  have m: "map_of (iq_records q) (ir_event_id r0) = Some r0" .
  from claimed(4) have "ir_status r0 \<noteq> ''processing''" by (auto simp: claimable_def)
  with m assms(2) have "ir_event_id r0 \<noteq> i" by (auto simp: processing_def)
  with claimed show ?thesis by (simp add: claimed_record_def)
qed simp

lemma bystander_processing:
  assumes "bystander i q q'" and "queue_ok q" and "processing i q"
  shows "processing i q'"
  using assms(1)
proof cases
  case (enqueue now e)
  with assms(3) show ?thesis
    by (auto simp: enqueue_event_def processing_def Let_def split: option.splits)
next
  case (claim now c)
  obtain res q1 where p: "claim_next now c q = (res, q1)" by fastforce
  show ?thesis
  proof (cases res)
    case (Inl e)
    with p claim assms(3) show ?thesis by (auto dest: claim_next_Inl)
  next
    case (Inr a)
    show ?thesis
    proof (cases a)
      case None
      with p Inr have "claim_next now c q = (Inr None, q1)" by simp
      then have "q1 = q" by (cases rule: claim_next_cases) auto
      with p claim assms(3) show ?thesis by simp
    next
      case (Some r)
      with p Inr claim_next_skips [OF assms(2,3), of now c r q1] claim assms(3)
      show ?thesis by (simp add: processing_def)
    qed
  qed
next
  case (processed j now)
  with assms show ?thesis by (simp add: processing_def mark_processed_def mark_record_other)
next
  case (failed j now fc fd)
  with assms show ?thesis by (simp add: processing_def mark_failed_def mark_record_other)
next
  case (retrying j now at fc fd)
  with assms show ?thesis by (simp add: processing_def mark_retrying_def mark_record_other)
qed

lemma bystanders_processing:
  assumes "(bystander i)\<^sup>*\<^sup>* q q'" and "queue_ok q" and "processing i q"
  shows "queue_ok q' \<and> processing i q'"
  using assms(1)
proof (induction rule: rtranclp_induct)
  case (step u v)
  with bystander_processing [OF step(2)] queue_step_ok [OF bystander_step [OF step(2)]]
  show ?case by simp
qed (simp add: assms)

section \<open>Putting records back\<close>

lemma fold_put_old_lookup:
  "distinct (map ir_event_id rs) \<Longrightarrow>
     map_of (iq_records (fold iq_put_old rs q)) k =
       (case find (\<lambda>r. ir_event_id r = k) rs of
          None \<Rightarrow> map_of (iq_records q) k
        | Some r \<Rightarrow> Some r)"
proof (induction rs arbitrary: q)
  case (Cons r rs)
  have "find (\<lambda>x. ir_event_id x = k) rs = None" if k: "k = ir_event_id r"
  proof -
    from Cons.prems k have "\<not> k \<in> ir_event_id ` set rs" by simp
    then show ?thesis unfolding find_None_iff by blast
  qed
  with Cons show ?case by (auto split: option.splits)
qed simp

lemma queue_ok_distinct_ids:
  assumes "queue_ok q"
  shows "distinct (map ir_event_id (dict_values (iq_records q)))"
proof -
  have ids: "map ir_event_id (dict_values (iq_records q)) = dict_keys (iq_records q)"
    using assms by (auto simp: queue_ok_def seq_table_ok_def)
  show ?thesis unfolding ids using assms by (simp add: queue_ok_def seq_table_ok_def)
qed

definition inflight :: "ingest_queue \<Rightarrow> ingest_record list" where
  "inflight q = filter (\<lambda>r. ir_status r = ''processing'') (dict_values (iq_records q))"

lemma recover_inflight_snd:
  assumes "queue_ok q"
  shows "recover_inflight clock q =
     (map2 (\<lambda>i r. recovered_record (clock i) r) [0..<length (inflight q)] (inflight q),
      fold iq_put_old
        (map2 (\<lambda>i r. recovered_record (clock i) r) [0..<length (inflight q)] (inflight q)) q)"
  by (simp add: recover_inflight_values [OF assms] Let_def inflight_def enumerate_eq_zip)

lemma recovered_ids:
  "map ir_event_id (map2 (\<lambda>i r. recovered_record (clock i) r) [0..<length rs] rs) = map ir_event_id rs"
  by (rule nth_equalityI) (simp_all add: recovered_record_def)

lemma recover_lookup:
  assumes "queue_ok q"
  shows "map_of (iq_records (snd (recover_inflight clock q))) k =
           (case map_of (iq_records q) k of
              None \<Rightarrow> None
            | Some r \<Rightarrow>
                if ir_status r = ''processing'' then map_of (iq_records (snd (recover_inflight clock q))) k
                else Some r) \<and>
         (\<forall>r. map_of (iq_records (snd (recover_inflight clock q))) k = Some r \<longrightarrow>
            ir_status r \<noteq> ''processing'')"
proof -
  let ?rs = "map2 (\<lambda>i r. recovered_record (clock i) r) [0..<length (inflight q)] (inflight q)"
  have "distinct (map ir_event_id (inflight q))"
    using queue_ok_distinct_ids [OF assms] by (simp add: inflight_def distinct_map_filter)
  then have "distinct (map ir_event_id ?rs)" by (simp only: recovered_ids)
  from fold_put_old_lookup [OF this, of q k]
  have look: "map_of (iq_records (snd (recover_inflight clock q))) k =
      (case find (\<lambda>r. ir_event_id r = k) ?rs of
         None \<Rightarrow> map_of (iq_records q) k | Some r \<Rightarrow> Some r)"
    by (simp add: recover_inflight_snd [OF assms])
  show ?thesis
  proof (cases "find (\<lambda>r. ir_event_id r = k) ?rs")
    case None
    then have "k \<notin> set (map ir_event_id ?rs)" by (auto simp: find_None_iff)
    then have out: "k \<notin> ir_event_id ` set (inflight q)" by (simp only: recovered_ids) simp
    have "ir_status r \<noteq> ''processing''" if "map_of (iq_records q) k = Some r" for r
      using out queue_ok_key [OF assms that] map_of_SomeD [OF that] by (force simp: inflight_def)
    with look None show ?thesis by (auto split: option.splits)
  next
    case (Some x)
    then have x: "x \<in> set ?rs" "ir_event_id x = k" by (auto dest: find_SomeD)
    then have st: "ir_status x = ''pending''" by (auto simp: recovered_record_def set_zip)
    from x(1) have "ir_event_id x \<in> set (map ir_event_id ?rs)" by (simp only: set_map imageI)
    with x(2) have "k \<in> set (map ir_event_id ?rs)" by (simp only:)
    then have "k \<in> ir_event_id ` set (inflight q)" by (simp only: recovered_ids) simp
    then obtain r where "r \<in> set (dict_values (iq_records q))" "ir_status r = ''processing''"
      "ir_event_id r = k" by (auto simp: inflight_def)
    with queue_ok_value [OF assms, of r] have "map_of (iq_records q) k = Some r" by simp
    with look Some st \<open>ir_status r = ''processing''\<close> show ?thesis by simp
  qed
qed

section \<open>Properties\<close>

text \<open>
  Note: Every queue the operations reach keeps each record under its event id, and numbers the
  records uniquely, below the counter.
\<close>

theorem queue_numbered:
  "queue_reachable q \<Longrightarrow>
     seq_table_ok ir_event_id ir_queue_seq (iq_next_seq q) (iq_records q)"
  using queue_reachable_ok by (simp add: queue_ok_def)

definition example_queue :: ingest_queue where
  "example_queue =
     snd (enqueue_event ''t1'' (example_event ''t0''\<lparr>ev_event_id := ''event:2''\<rparr>)
       (snd (enqueue_event ''t0'' (example_event ''t0'') empty_ingest_queue)))"

lemma example_queue_reachable: "queue_reachable example_queue"
  unfolding example_queue_def
  by (rule queue_reachable.start queue_reachable.step [OF _ queue_step.enqueue])+

lemma example_queue_records:
  "iq_records example_queue =
     [(''event:1'', queued_record ''t0'' (example_event ''t0'') 1),
      (''event:2'', queued_record ''t1'' (example_event ''t0''\<lparr>ev_event_id := ''event:2''\<rparr>) 2)]"
  by (simp add: example_queue_def enqueue_event_def empty_ingest_queue_def Let_def
      example_event_def)

theorem queue_numbered_witness: "distinct (map (\<lambda>p. ir_queue_seq (snd p)) (iq_records example_queue))"
  using queue_numbered [OF example_queue_reachable] by (simp add: seq_table_ok_def)

text \<open>
  Note: \<open>claim_next\<close> serves the oldest. It returns a record exactly when one can be claimed: pending,
  or waiting for a retry whose time has come or cannot be read. The record it returns is the one
  with the smallest number among those, marked as processing with one attempt more; nothing else
  changes.
\<close>

theorem claim_next_oldest:
  assumes "queue_reachable q" and "claim_next now c q = (Inr res, q')"
  shows "case res of
           None \<Rightarrow> q' = q \<and> list_all (\<lambda>r. claimable c r = Inr False) (dict_values (iq_records q))
         | Some p \<Rightarrow>
             (\<exists>r \<in> set (dict_values (iq_records q)). claimable c r = Inr True \<and>
                p = claimed_record now r \<and>
                list_all (\<lambda>s. claimable c s = Inr True \<longrightarrow> ir_queue_seq r \<le> ir_queue_seq s)
                  (dict_values (iq_records q)) \<and>
                map_of (iq_records q') = (map_of (iq_records q))(ir_event_id r \<mapsto> p))"
  using assms(2)
proof (cases rule: claim_next_cases)
  case (claimed r)
  then show ?thesis by (auto simp: list_all_iff claimed_record_def intro!: bexI [of _ r])
qed simp

lemma example_claimable:
  "claimable 0 (queued_record now e n) = Inr True"
  by (simp add: claimable_def)

lemma example_queue_claim:
  "claim_next ''t2'' 0 example_queue =
     (Inr (Some (claimed_record ''t2'' (queued_record ''t0'' (example_event ''t0'') 1))),
      iq_put_old (claimed_record ''t2'' (queued_record ''t0'' (example_event ''t0'') 1)) example_queue)"
  by (simp add: claim_next_def example_queue_records example_claimable)

theorem claim_next_oldest_witness:
  "\<exists>r \<in> set (dict_values (iq_records example_queue)). claimable 0 r = Inr True \<and>
     ir_event_id r = ''event:1''"
proof -
  from claim_next_oldest [OF example_queue_reachable example_queue_claim] obtain r where
    "r \<in> set (dict_values (iq_records example_queue))" and "claimable 0 r = Inr True"
    and "claimed_record ''t2'' (queued_record ''t0'' (example_event ''t0'') 1) = claimed_record ''t2'' r"
    by auto
  moreover from arg_cong [OF this(3), of ir_event_id] have "ir_event_id r = ''event:1''"
    by (simp add: claimed_record_def example_event_def)
  ultimately show ?thesis by blast
qed


definition example_claimed_queue :: ingest_queue where
  "example_claimed_queue = snd (claim_next ''t2'' 0 example_queue)"

lemma example_claimed_queue_reachable: "queue_reachable example_claimed_queue"
  unfolding example_claimed_queue_def
  by (rule queue_reachable.step [OF example_queue_reachable queue_step.claim])


text \<open>
  Note: After a restart nothing is lost and nothing stays in flight: \<open>recover_inflight\<close> leaves no
  record processing, keeps every other record as it was, and keeps every record in the queue.
\<close>

theorem recover_inflight_complete:
  assumes "queue_reachable q"
  shows "list_all (\<lambda>p. ir_status (snd p) \<noteq> ''processing'')
           (iq_records (snd (recover_inflight clock q))) \<and>
         (map_of (iq_records q) k = Some r \<longrightarrow> ir_status r \<noteq> ''processing'' \<longrightarrow>
            map_of (iq_records (snd (recover_inflight clock q))) k = Some r) \<and>
         (map_of (iq_records q) k = None \<longrightarrow>
            map_of (iq_records (snd (recover_inflight clock q))) k = None)"
proof -
  note ok = queue_reachable_ok [OF assms]
  have "list_all (\<lambda>p. ir_status (snd p) \<noteq> ''processing'')
      (iq_records (snd (recover_inflight clock q)))"
    unfolding list_all_iff
  proof
    fix p assume p: "p \<in> set (iq_records (snd (recover_inflight clock q)))"
    have "distinct (dict_keys (iq_records (snd (recover_inflight clock q))))"
      using recover_inflight_ok [OF ok, of clock] by (simp add: queue_ok_def seq_table_ok_def)
    with p have "map_of (iq_records (snd (recover_inflight clock q))) (fst p) = Some (snd p)" by simp
    with recover_lookup [OF ok] show "ir_status (snd p) \<noteq> ''processing''" by blast
  qed
  with recover_lookup [OF ok, of clock k] show ?thesis by auto
qed

theorem recover_inflight_complete_witness:
  "list_all (\<lambda>p. ir_status (snd p) \<noteq> ''processing'')
     (iq_records (snd (recover_inflight (\<lambda>_. ''t3'') example_claimed_queue)))"
  using recover_inflight_complete [OF example_claimed_queue_reachable] by blast

end
