(* ===== verification/DeliveryStore.thy ===== *)
theory DeliveryStore
  imports SeqTable Json "HOL-Library.Product_Lexorder"
begin

text \<open>
  The delivery outbox of \<^verbatim>\<open>src/watchdog/services/delivery/store.py\<close>: envelopes wait in a file until
  the delivery worker sends them. The file keeps every record in two dictionaries and a counter
  for their sequence numbers; every method holds the file lock from its read to its write.
\<close>

section \<open>Envelopes and records\<close>

text \<open>
  An envelope: the fields of \<open>EnvelopeBase\<close>, and the further fields of the three kinds in the
  order of their class (\<open>en_rest\<close>).
\<close>

record envelope =
  en_envelope_id :: string
  en_envelope_type :: string
  en_envelope_version :: string
  en_correlation_id :: string
  en_session_id :: string
  en_project_id :: string
  en_native_thread_id :: "string option"
  en_policy_version :: string
  en_fact_snapshot_version :: string
  en_idempotency_key :: string
  en_audit_ref :: string
  en_created_at :: string
  en_interaction_context_id :: "string option"
  en_interaction_family_id :: "string option"
  en_actor_id :: "string option"
  en_channel_kind :: "string option"
  en_action_window_expires_at :: "string option"
  en_receive_id :: "string option"
  en_receive_id_type :: "string option"
  en_rest :: jdict

definition dump_envelope :: "envelope \<Rightarrow> jdict" where
  "dump_envelope e =
     [(''envelope_id'', JStr (en_envelope_id e)),
      (''envelope_type'', JStr (en_envelope_type e)),
      (''envelope_version'', JStr (en_envelope_version e)),
      (''correlation_id'', JStr (en_correlation_id e)),
      (''session_id'', JStr (en_session_id e)),
      (''project_id'', JStr (en_project_id e)),
      (''native_thread_id'', jopt (en_native_thread_id e)),
      (''policy_version'', JStr (en_policy_version e)),
      (''fact_snapshot_version'', JStr (en_fact_snapshot_version e)),
      (''idempotency_key'', JStr (en_idempotency_key e)),
      (''audit_ref'', JStr (en_audit_ref e)),
      (''created_at'', JStr (en_created_at e)),
      (''interaction_context_id'', jopt (en_interaction_context_id e)),
      (''interaction_family_id'', jopt (en_interaction_family_id e)),
      (''actor_id'', jopt (en_actor_id e)),
      (''channel_kind'', jopt (en_channel_kind e)),
      (''action_window_expires_at'', jopt (en_action_window_expires_at e)),
      (''receive_id'', jopt (en_receive_id e)),
      (''receive_id_type'', jopt (en_receive_id_type e))] @ en_rest e"

record delivery_record =
  dr_envelope_id :: string
  dr_envelope_type :: string
  dr_correlation_id :: string
  dr_session_id :: string
  dr_project_id :: string
  dr_native_thread_id :: "string option"
  dr_policy_version :: string
  dr_fact_snapshot_version :: string
  dr_idempotency_key :: string
  dr_audit_ref :: string
  dr_created_at :: string
  dr_updated_at :: "string option"
  dr_outbox_seq :: int
  dr_delivery_status :: string
  dr_delivery_attempt :: int
  dr_receipt_id :: "string option"
  dr_next_retry_at :: "string option"
  dr_failure_code :: "string option"
  dr_operator_notes :: "string list"
  dr_envelope_payload :: jdict

definition effective_native_thread_id :: "delivery_record \<Rightarrow> string option" where
  "effective_native_thread_id r =
     (let own = strip (or_empty (dr_native_thread_id r));
          payload = stripped_text (jget (dr_envelope_payload r) ''native_thread_id'')
      in if own \<noteq> [] then Some own else if payload \<noteq> [] then Some payload else None)"

record delivery_file =
  df_next_seq :: int
  df_decision :: "(string, delivery_record) dict"
  df_delivery :: "(string, delivery_record) dict"

definition empty_delivery_file :: delivery_file where
  "empty_delivery_file = \<lparr>df_next_seq = 1, df_decision = [], df_delivery = []\<rparr>"

section \<open>The order of snapshots\<close>

text \<open>
  \<open>fact-v<n>\<close> is ordered by its number, every other version comes behind \<open>2^31 - 1\<close>; the text
  itself decides ties.
\<close>

definition fact_snapshot_order :: "string \<Rightarrow> int \<times> string" where
  "fact_snapshot_order v =
     (let n = drop 6 v in
      if starts_with v ''fact-v'' \<and> n \<noteq> [] \<and> list_all is_digit n then (int_of_digits n, v)
      else (2 ^ 31 - 1, v))"

section \<open>Operations\<close>

definition df_put :: "string \<Rightarrow> delivery_record \<Rightarrow> delivery_file \<Rightarrow> delivery_file" where
  "df_put k r f =
     f\<lparr>df_decision := dict_set k r (df_decision f), df_delivery := dict_set k r (df_delivery f)\<rparr>"

definition df_put_old :: "delivery_record \<Rightarrow> delivery_file \<Rightarrow> delivery_file" where
  "df_put_old r = df_put (dr_envelope_id r) r"

definition df_put_new :: "delivery_record \<Rightarrow> delivery_file \<Rightarrow> delivery_file" where
  "df_put_new r f = df_put (dr_envelope_id r) r (f\<lparr>df_next_seq := df_next_seq f + 1\<rparr>)"

definition outbox_record :: "envelope \<Rightarrow> int \<Rightarrow> delivery_record" where
  "outbox_record e n =
     \<lparr>dr_envelope_id = en_envelope_id e, dr_envelope_type = en_envelope_type e,
      dr_correlation_id = en_correlation_id e, dr_session_id = en_session_id e,
      dr_project_id = en_project_id e, dr_native_thread_id = en_native_thread_id e,
      dr_policy_version = en_policy_version e,
      dr_fact_snapshot_version = en_fact_snapshot_version e,
      dr_idempotency_key = en_idempotency_key e, dr_audit_ref = en_audit_ref e,
      dr_created_at = en_created_at e, dr_updated_at = Some (en_created_at e), dr_outbox_seq = n,
      dr_delivery_status = ''pending'', dr_delivery_attempt = 0, dr_receipt_id = None,
      dr_next_retry_at = None, dr_failure_code = None, dr_operator_notes = [],
      dr_envelope_payload = dump_envelope e\<rparr>"

definition refreshed_record :: "delivery_record \<Rightarrow> envelope \<Rightarrow> delivery_record" where
  "refreshed_record r e =
     r\<lparr>dr_envelope_type := en_envelope_type e, dr_correlation_id := en_correlation_id e,
       dr_session_id := en_session_id e, dr_project_id := en_project_id e,
       dr_native_thread_id := en_native_thread_id e, dr_policy_version := en_policy_version e,
       dr_fact_snapshot_version := en_fact_snapshot_version e,
       dr_idempotency_key := en_idempotency_key e, dr_audit_ref := en_audit_ref e,
       dr_created_at := en_created_at e, dr_updated_at := Some (en_created_at e),
       dr_delivery_status := ''pending'', dr_delivery_attempt := 0, dr_receipt_id := None,
       dr_next_retry_at := None, dr_failure_code := None,
       dr_operator_notes := dr_operator_notes r @
         [''delivery_payload_refreshed previous_snapshot='' @ dr_fact_snapshot_version r @
          '' new_snapshot='' @ en_fact_snapshot_version e],
       dr_envelope_payload := dump_envelope e\<rparr>"

definition refresh_existing_record :: "delivery_record \<Rightarrow> envelope \<Rightarrow> delivery_record option" where
  "refresh_existing_record r e =
     (let incoming = fact_snapshot_order (en_fact_snapshot_version e);
          existing = fact_snapshot_order (dr_fact_snapshot_version r) in
      if incoming < existing then None
      else if dr_envelope_type r = ''approval'' \<and>
              dr_delivery_status r \<in> {''delivered'', ''superseded''} then None
      else if incoming = existing \<and> dr_idempotency_key r = en_idempotency_key e \<and>
              jdict_eq (dr_envelope_payload r) (dump_envelope e) then None
      else Some (refreshed_record r e))"

definition enqueue_envelope ::
    "envelope \<Rightarrow> delivery_file \<Rightarrow> delivery_record \<times> delivery_file" where
  "enqueue_envelope e f =
     (case map_of (df_delivery f) (en_envelope_id e) of
        Some r \<Rightarrow>
          (case refresh_existing_record r e of
             Some r' \<Rightarrow> (r', df_put_old r' f)
           | None \<Rightarrow> (r, f))
      | None \<Rightarrow> (let r = outbox_record e (df_next_seq f) in (r, df_put_new r f)))"

fun enqueue_envelopes ::
    "envelope list \<Rightarrow> delivery_file \<Rightarrow> delivery_record list \<times> delivery_file" where
  "enqueue_envelopes [] f = ([], f)"
| "enqueue_envelopes (e # es) f =
     (case enqueue_envelope e f of
        (r, f1) \<Rightarrow> (case enqueue_envelopes es f1 of (rs, f2) \<Rightarrow> (r # rs, f2)))"

definition get_delivery_record :: "string \<Rightarrow> delivery_file \<Rightarrow> delivery_record option" where
  "get_delivery_record i f = map_of (df_delivery f) i"

definition update_delivery_record ::
    "delivery_record \<Rightarrow> delivery_file \<Rightarrow> delivery_record \<times> delivery_file" where
  "update_delivery_record r f =
     (r, (df_put_old r f)\<lparr>df_next_seq := max (df_next_seq f) (dr_outbox_seq r + 1)\<rparr>)"

definition reserve_outbox_seq :: "delivery_file \<Rightarrow> int \<times> delivery_file" where
  "reserve_outbox_seq f = (df_next_seq f, f\<lparr>df_next_seq := df_next_seq f + 1\<rparr>)"

definition list_delivery_records :: "delivery_file \<Rightarrow> delivery_record list" where
  "list_delivery_records f = dict_values (df_delivery f)"

definition is_pending_record :: "delivery_record \<Rightarrow> bool" where
  "is_pending_record r \<longleftrightarrow> dr_delivery_status r \<in> {''pending'', ''retrying''}"

definition delivery_key :: "delivery_record \<Rightarrow> string \<times> (int \<times> string) \<times> int" where
  "delivery_key r =
     (dr_session_id r, fact_snapshot_order (dr_fact_snapshot_version r), dr_outbox_seq r)"

definition list_pending_delivery_records ::
    "string option \<Rightarrow> delivery_file \<Rightarrow> delivery_record list" where
  "list_pending_delivery_records session_id f =
     sort_key delivery_key
       (filter (\<lambda>r. is_pending_record r \<and>
            (case session_id of None \<Rightarrow> True | Some s \<Rightarrow> dr_session_id r = s))
          (list_delivery_records f))"

definition is_requeueable_transport_failure :: "string \<Rightarrow> bool" where
  "is_requeueable_transport_failure c \<longleftrightarrow>
     (if c \<in> {''transport_error'', ''transport_timeout'', ''transport_configuration_error''}
      then True
      else if starts_with c ''http_''
      then removeprefix c ''http_'' \<in>
        {''408'', ''409'', ''425'', ''429'', ''500'', ''502'', ''503'', ''504''}
      else starts_with c ''upstream_'')"

definition requeueable :: "delivery_record \<Rightarrow> bool" where
  "requeueable r \<longleftrightarrow> dr_delivery_status r = ''delivery_failed'' \<and>
     is_requeueable_transport_failure (or_empty (dr_failure_code r))"

definition requeued_record :: "string \<Rightarrow> string \<Rightarrow> delivery_record \<Rightarrow> delivery_record" where
  "requeued_record reason updated_at r =
     r\<lparr>dr_delivery_status := ''pending'', dr_delivery_attempt := 0, dr_failure_code := None,
       dr_next_retry_at := None,
       dr_operator_notes := dr_operator_notes r @
         [''delivery_requeued reason='' @ reason @ '' previous_failure_code='' @
          or_else (Some (or_empty (dr_failure_code r))) ''unknown''],
       dr_updated_at := Some updated_at\<rparr>"

definition requeue_transport_failures ::
    "string \<Rightarrow> string \<Rightarrow> delivery_file \<Rightarrow> delivery_record list \<times> delivery_file" where
  "requeue_transport_failures reason updated_at f =
     (let requeued = map (\<lambda>(k, r). (k, requeued_record reason updated_at r))
            (filter (\<lambda>p. requeueable (snd p)) (df_delivery f))
      in (map snd requeued, fold (\<lambda>p. df_put (fst p) (snd p)) requeued f))"

definition superseded_record :: "string \<Rightarrow> string \<Rightarrow> delivery_record \<Rightarrow> delivery_record" where
  "superseded_record reason updated_at r =
     r\<lparr>dr_delivery_status := ''superseded'', dr_failure_code := None, dr_next_retry_at := None,
       dr_operator_notes := dr_operator_notes r @ [''delivery_superseded reason='' @ reason],
       dr_updated_at := Some updated_at\<rparr>"

fun supersede_records ::
    "string \<Rightarrow> (string \<times> string) list \<Rightarrow> delivery_file \<Rightarrow> delivery_record list \<times> delivery_file"
where
  "supersede_records updated_at [] f = ([], f)"
| "supersede_records updated_at ((envelope_id, reason) # reasons) f =
     (case map_of (df_delivery f) envelope_id of
        None \<Rightarrow> supersede_records updated_at reasons f
      | Some r \<Rightarrow>
          if dr_delivery_status r \<in> {''delivered'', ''superseded''}
          then supersede_records updated_at reasons f
          else (let r' = superseded_record reason updated_at r in
                case supersede_records updated_at reasons (df_put envelope_id r' f) of
                  (rs, f') \<Rightarrow> (r' # rs, f')))"

section \<open>The outbox is a numbered table\<close>

lemma df_put_simps [simp]:
  "df_delivery (df_put k r f) = dict_set k r (df_delivery f)"
  "df_decision (df_put k r f) = dict_set k r (df_decision f)"
  "df_next_seq (df_put k r f) = df_next_seq f"
  by (simp_all add: df_put_def)

lemma df_put_old_simps [simp]:
  "df_delivery (df_put_old r f) = dict_set (dr_envelope_id r) r (df_delivery f)"
  "df_decision (df_put_old r f) = dict_set (dr_envelope_id r) r (df_decision f)"
  "df_next_seq (df_put_old r f) = df_next_seq f"
  by (simp_all add: df_put_old_def)

lemma df_put_new_simps [simp]:
  "df_delivery (df_put_new r f) = dict_set (dr_envelope_id r) r (df_delivery f)"
  "df_decision (df_put_new r f) = dict_set (dr_envelope_id r) r (df_decision f)"
  "df_next_seq (df_put_new r f) = df_next_seq f + 1"
  by (simp_all add: df_put_new_def)

interpretation outbox: seq_table df_delivery df_next_seq dr_envelope_id dr_outbox_seq df_put_new df_put_old
  by unfold_locales simp_all

definition outbox_ok :: "delivery_file \<Rightarrow> bool" where
  "outbox_ok f \<longleftrightarrow> df_decision f = df_delivery f \<and>
     seq_table_ok dr_envelope_id dr_outbox_seq (df_next_seq f) (df_delivery f)"

text \<open>
  What \<open>update_delivery_record\<close> may store: a new version of a stored record, which keeps its
  number, or a record under a number that no other record has.
\<close>

definition update_allowed :: "delivery_record \<Rightarrow> delivery_file \<Rightarrow> bool" where
  "update_allowed r f \<longleftrightarrow>
     (case map_of (df_delivery f) (dr_envelope_id r) of
        Some r0 \<Rightarrow> dr_outbox_seq r = dr_outbox_seq r0
      | None \<Rightarrow> dr_outbox_seq r \<notin> set (map dr_outbox_seq (dict_values (df_delivery f))))"

inductive outbox_step :: "delivery_file \<Rightarrow> delivery_file \<Rightarrow> bool" where
  enqueue: "outbox_step f (snd (enqueue_envelopes es f))"
| update: "update_allowed r f \<Longrightarrow> outbox_step f (snd (update_delivery_record r f))"
| reserve: "outbox_step f (snd (reserve_outbox_seq f))"
| requeue: "outbox_step f (snd (requeue_transport_failures reason at f))"
| supersede: "outbox_step f (snd (supersede_records at reasons f))"

inductive outbox_reachable :: "delivery_file \<Rightarrow> bool" where
  start: "outbox_reachable empty_delivery_file"
| step: "outbox_reachable f \<Longrightarrow> outbox_step f f' \<Longrightarrow> outbox_reachable f'"

lemma outbox_ok_key: "outbox_ok f \<Longrightarrow> map_of (df_delivery f) k = Some r \<Longrightarrow> dr_envelope_id r = k"
  by (auto simp: outbox_ok_def seq_table_ok_def dest!: map_of_SomeD)

lemma outbox_ok_value:
  assumes "outbox_ok f" and "r \<in> set (dict_values (df_delivery f))"
  shows "map_of (df_delivery f) (dr_envelope_id r) = Some r"
proof -
  from assms(2) obtain k where k: "(k, r) \<in> set (df_delivery f)" by auto
  with assms(1) have "k = dr_envelope_id r" "distinct (dict_keys (df_delivery f))"
    by (auto simp: outbox_ok_def seq_table_ok_def)
  with k show ?thesis by simp
qed

lemma outbox_ok_put_old:
  assumes "outbox_ok f" and "map_of (df_delivery f) (dr_envelope_id r) = Some r0"
    and "dr_outbox_seq r = dr_outbox_seq r0"
  shows "outbox_ok (df_put_old r f)"
  using assms outbox.put_old_ok [of f r r0] by (simp add: outbox_ok_def)

lemma outbox_ok_put:
  assumes "outbox_ok f" and "map_of (df_delivery f) k = Some r0"
    and "dr_envelope_id r = dr_envelope_id r0" and "dr_outbox_seq r = dr_outbox_seq r0"
  shows "outbox_ok (df_put k r f)"
  using assms outbox_ok_put_old [of f r r0] outbox_ok_key [OF assms(1,2)]
  by (simp add: df_put_old_def)

lemma refresh_Some:
  "refresh_existing_record r e = Some r' \<Longrightarrow>
     r' = refreshed_record r e \<and>
     fact_snapshot_order (dr_fact_snapshot_version r) \<le>
       fact_snapshot_order (en_fact_snapshot_version e) \<and>
     \<not> (dr_envelope_type r = ''approval'' \<and> dr_delivery_status r \<in> {''delivered'', ''superseded''})"
  by (auto simp: refresh_existing_record_def Let_def split: if_splits)

lemma refreshed_record_simps [simp]:
  "dr_envelope_id (refreshed_record r e) = dr_envelope_id r"
  "dr_outbox_seq (refreshed_record r e) = dr_outbox_seq r"
  "dr_fact_snapshot_version (refreshed_record r e) = en_fact_snapshot_version e"
  by (simp_all add: refreshed_record_def)

lemma outbox_record_simps [simp]:
  "dr_envelope_id (outbox_record e n) = en_envelope_id e"
  "dr_outbox_seq (outbox_record e n) = n"
  by (simp_all add: outbox_record_def)

lemma enqueue_envelope_ok:
  assumes "outbox_ok f"
  shows "outbox_ok (snd (enqueue_envelope e f))"
proof (cases "map_of (df_delivery f) (en_envelope_id e)")
  case None
  then show ?thesis
    using assms outbox.put_new_ok [of f "outbox_record e (df_next_seq f)"]
    by (simp add: enqueue_envelope_def outbox_ok_def Let_def)
next
  case (Some r)
  note key = outbox_ok_key [OF assms Some]
  show ?thesis
  proof (cases "refresh_existing_record r e")
    case None
    with Some assms show ?thesis by (simp add: enqueue_envelope_def)
  next
    case (Some r')
    with refresh_Some [OF Some] key \<open>map_of (df_delivery f) (en_envelope_id e) = Some r\<close> assms
    show ?thesis
      by (auto simp: enqueue_envelope_def intro: outbox_ok_put_old)
  qed
qed

lemma enqueue_envelopes_ok: "outbox_ok f \<Longrightarrow> outbox_ok (snd (enqueue_envelopes es f))"
proof (induction es arbitrary: f)
  case (Cons e es)
  from enqueue_envelope_ok [OF Cons.prems, of e] Cons.IH show ?case
    by (simp add: prod.case_eq_if)
qed simp

lemma update_delivery_ok:
  assumes "outbox_ok f" and "update_allowed r f"
  shows "outbox_ok (snd (update_delivery_record r f))"
proof (cases "map_of (df_delivery f) (dr_envelope_id r)")
  case (Some r0)
  with assms have "outbox_ok (df_put_old r f)"
    by (intro outbox_ok_put_old) (simp_all add: update_allowed_def)
  then show ?thesis
    by (auto simp: update_delivery_record_def outbox_ok_def elim: seq_table_ok_mono)
next
  case None
  then have new: "dr_envelope_id r \<notin> set (dict_keys (df_delivery f))"
    by (simp add: map_of_eq_None_iff)
  with None assms show ?thesis
    by (fastforce simp: update_delivery_record_def outbox_ok_def seq_table_ok_def dict_set_new
        update_allowed_def)
qed

lemma superseded_record_simps [simp]:
  "dr_envelope_id (superseded_record reason at r) = dr_envelope_id r"
  "dr_outbox_seq (superseded_record reason at r) = dr_outbox_seq r"
  by (simp_all add: superseded_record_def)

lemma requeued_record_simps [simp]:
  "dr_envelope_id (requeued_record reason at r) = dr_envelope_id r"
  "dr_outbox_seq (requeued_record reason at r) = dr_outbox_seq r"
  by (simp_all add: requeued_record_def)

lemma supersede_ok: "outbox_ok f \<Longrightarrow> outbox_ok (snd (supersede_records at reasons f))"
  by (induction at reasons f rule: supersede_records.induct)
    (auto simp: Let_def prod.case_eq_if outbox_ok_put split: option.splits)

lemma fold_df_put:
  "df_delivery (fold (\<lambda>p. df_put (fst p) (snd p)) ps f) =
     fold (\<lambda>p. dict_set (fst p) (snd p)) ps (df_delivery f)"
  "df_decision (fold (\<lambda>p. df_put (fst p) (snd p)) ps f) =
     fold (\<lambda>p. dict_set (fst p) (snd p)) ps (df_decision f)"
  "df_next_seq (fold (\<lambda>p. df_put (fst p) (snd p)) ps f) = df_next_seq f"
  by (induction ps arbitrary: f) simp_all

lemma requeue_file:
  assumes "outbox_ok f"
  shows "df_delivery (snd (requeue_transport_failures reason at f)) =
      map (\<lambda>(k, r). (k, if requeueable r then requeued_record reason at r else r)) (df_delivery f)"
    and "df_decision (snd (requeue_transport_failures reason at f)) =
      df_delivery (snd (requeue_transport_failures reason at f))"
    and "df_next_seq (snd (requeue_transport_failures reason at f)) = df_next_seq f"
  using assms fold_dict_set_map [of "df_delivery f" "requeued_record reason at" requeueable]
  by (simp_all add: requeue_transport_failures_def Let_def fold_df_put outbox_ok_def seq_table_ok_def)

lemma requeue_ok:
  assumes "outbox_ok f"
  shows "outbox_ok (snd (requeue_transport_failures reason at f))"
  using assms seq_table_ok_map [of dr_envelope_id "\<lambda>r. if requeueable r then requeued_record reason at r else r"
      dr_outbox_seq "df_next_seq f" "df_delivery f"]
  unfolding outbox_ok_def by (simp add: requeue_file [OF assms])

lemma reserve_ok: "outbox_ok f \<Longrightarrow> outbox_ok (snd (reserve_outbox_seq f))"
  by (auto simp: reserve_outbox_seq_def outbox_ok_def elim: seq_table_ok_mono)

lemma outbox_step_ok: "outbox_step f f' \<Longrightarrow> outbox_ok f \<Longrightarrow> outbox_ok f'"
  by (induction rule: outbox_step.induct)
    (simp_all add: enqueue_envelopes_ok update_delivery_ok reserve_ok requeue_ok supersede_ok)

lemma outbox_reachable_ok: "outbox_reachable f \<Longrightarrow> outbox_ok f"
proof (induction rule: outbox_reachable.induct)
  case start
  show ?case by (simp add: outbox_ok_def empty_delivery_file_def)
next
  case (step f f')
  then show ?case by (simp add: outbox_step_ok)
qed

end
