(* ===== verification/IsoTime.thy ===== *)
theory IsoTime
  imports Timestamps Json
begin

text \<open>
  The text of an instant, \<open>value.astimezone(UTC).replace(microsecond=0).isoformat()\<close> with \<open>Z\<close> for
  the offset, as \<open>_iso_z\<close> of \<^verbatim>\<open>src/watchdog/services/delivery/worker.py\<close> and its copies write it,
  and the comparison-only parser \<open>_parse_iso\<close> of the same file. The round trip: what is written
  is read back as the instant, less its fraction of a second.
\<close>

section \<open>The date of a day\<close>

text \<open>A day's ordinal is split into cycles of 400, 100, 4 and 1 years, as \<open>datetime\<close> does.\<close>

definition year_of_ordinal :: "int \<Rightarrow> int \<times> int" where
  "year_of_ordinal n =
     (let n0 = n - 1; a = n0 div 146097; r = n0 mod 146097;
          b = min (r div 36524) 3; r1 = r - b * 36524;
          c = r1 div 1461; r2 = r1 mod 1461;
          d = min (r2 div 365) 3
      in (400 * a + 100 * b + 4 * c + d + 1, r2 - d * 365))"

definition month_of_yday :: "int \<Rightarrow> int \<Rightarrow> int" where
  "month_of_yday y k = int (length (takeWhile (\<lambda>m. days_before_month y m \<le> k) [1..12]))"

definition ordinal_ymd :: "int \<Rightarrow> int \<times> int \<times> int" where
  "ordinal_ymd n =
     (case year_of_ordinal n of
        (y, k) \<Rightarrow> (let m = month_of_yday y k in (y, m, k - days_before_month y m + 1)))"

definition iso_z :: "int \<Rightarrow> string" where
  "iso_z t =
     (let s = (t mod day_micros) div 1000000 in
      case ordinal_ymd (t div day_micros) of
        (y, m, d) \<Rightarrow> format_utc y m d (s div 3600) (s div 60 mod 60) (s mod 60))"

text \<open>
  \<open>_parse_iso\<close> of the delivery worker: an aware instant that is only compared, so nothing can
  leave the calendar; \<open>astimezone(UTC)\<close> may.
\<close>

definition parse_instant :: "string option \<Rightarrow> int option" where
  "parse_instant value =
     (if or_empty value = [] then None
      else map_option (\<lambda>(t, off). t - (case off of None \<Rightarrow> 0 | Some o' \<Rightarrow> o'))
        (fromisoformat (replace_char (CHR ''Z'') ''+00:00'' (or_empty value))))"

definition astimezone_utc :: "int \<Rightarrow> py_error + int" where
  "astimezone_utc t =
     (if in_range t then Inr t else Inl (OverflowError ''date value out of range''))"

section \<open>Correctness of the date\<close>

lemma upto_months: "[1..12::int] = [1, 2, 3, 4, 5, 6, 7, 8, 9, 10, 11, 12]"
  by (simp add: upto.simps)

lemma takeWhile_bounds:
  assumes "n = length (takeWhile P xs)" and "xs \<noteq> []" and "P (hd xs)"
  shows "0 < n" "n \<le> length xs" "P (xs ! (n - 1))" "n < length xs \<Longrightarrow> \<not> P (xs ! n)"
proof -
  show n: "0 < n" using assms by (cases xs) auto
  show "n \<le> length xs" by (simp add: assms(1) length_takeWhile_le)
  have "takeWhile P xs ! (n - 1) \<in> set (takeWhile P xs)" using n assms(1) by (intro nth_mem) simp
  then have "P (takeWhile P xs ! (n - 1))" by (rule set_takeWhileD [THEN conjunct2])
  then show "P (xs ! (n - 1))" using n assms(1) by (simp add: takeWhile_nth)
  show "n < length xs \<Longrightarrow> \<not> P (xs ! n)" unfolding assms(1) by (rule nth_length_takeWhile)
qed

lemma month_ends:
  assumes "m \<in> {1..11}"
  shows "days_before_month y m + days_in_month y m = days_before_month y (m + 1)"
proof -
  have "m = 1 \<or> m = 2 \<or> m = 3 \<or> m = 4 \<or> m = 5 \<or> m = 6 \<or> m = 7 \<or> m = 8 \<or> m = 9 \<or> m = 10 \<or> m = 11"
    using assms by (simp add: upto.simps flip: set_upto)
  then show ?thesis by (elim disjE) (simp_all add: days_before_month_def days_in_month_def)
qed

lemma month_of_yday_ok:
  assumes "0 \<le> k" and "k < 365 + (if is_leap y then 1 else 0)"
  shows "1 \<le> month_of_yday y k \<and> month_of_yday y k \<le> 12 \<and>
         days_before_month y (month_of_yday y k) \<le> k \<and>
         k < days_before_month y (month_of_yday y k) + days_in_month y (month_of_yday y k)"
proof -
  define n where "n = length (takeWhile (\<lambda>m. days_before_month y m \<le> k) [1..12])"
  have m: "month_of_yday y k = int n" by (simp add: month_of_yday_def n_def)
  have "[1..12::int] \<noteq> []" "days_before_month y (hd [1..12]) \<le> k" "length [1..12::int] = 12"
    using assms(1) by (simp_all add: upto_months days_before_month_def)
  note b = takeWhile_bounds [OF n_def this(1,2), unfolded this(3)]
  have nth: "[1..12] ! i = int i + 1" if "i < 12" for i using that by (simp add: nth_upto)
  have lo: "days_before_month y (int n) \<le> k" using b(1,2,3) nth [of "n - 1"] by simp
  have hi: "k < days_before_month y (int n) + days_in_month y (int n)"
  proof (cases "n < 12")
    case True
    then have "k < days_before_month y (int n + 1)" using b(4) nth [of n] by (simp add: not_le add.commute)
    then show ?thesis using month_ends [of "int n" y] b(1) True by simp
  next
    case False
    with b(2) have "n = 12" by simp
    with assms(2) show ?thesis by (simp add: days_before_month_def days_in_month_def split: if_splits)
  qed
  from b(1,2) lo hi show ?thesis by (simp add: m)
qed

lemma year_of_ordinal_ok:
  assumes "1 \<le> n" and "year_of_ordinal n = (y, k)"
  shows "1 \<le> y \<and> 0 \<le> k \<and> k < 365 + (if is_leap y then 1 else 0) \<and> days_before_year y + k + 1 = n"
proof -
  define a r where "a = (n - 1) div 146097" and "r = (n - 1) mod 146097"
  define b r1 where "b = min (r div 36524) 3" and "r1 = r - b * 36524"
  define c r2 where "c = r1 div 1461" and "r2 = r1 mod 1461"
  define d where "d = min (r2 div 365) 3"
  have "year_of_ordinal n = (400 * a + 100 * b + 4 * c + d + 1, r2 - d * 365)"
    unfolding year_of_ordinal_def Let_def a_def r_def b_def r1_def c_def r2_def d_def by (rule refl)
  with assms(2) have yk: "(y, k) = (400 * a + 100 * b + 4 * c + d + 1, r2 - d * 365)" by (simp only:)
  from yk have y: "y = 400 * a + 100 * b + 4 * c + d + 1" by (rule Pair_inject)
  from yk have k: "k = r2 - d * 365" by (rule Pair_inject)
  have "n - 1 = 146097 * a + r" unfolding a_def r_def by (rule mult_div_mod_eq [symmetric])
  then have n: "n = 146097 * a + r + 1" by linarith
  have r: "0 \<le> r" "r < 146097"
    unfolding r_def by (rule pos_mod_sign, simp, rule pos_mod_bound, simp)
  have a: "0 \<le> a" using assms(1) by (simp add: a_def)
  have b: "0 \<le> b" "b \<le> 3" and r1: "0 \<le> r1" "r1 \<le> 36524" "b < 3 \<Longrightarrow> r1 < 36524"
    using r by (auto simp: b_def r1_def min_def)
  have c: "0 \<le> c" "c \<le> 24" and r2: "0 \<le> r2" "r2 < 1461" "r1 = 1461 * c + r2"
    using r1 by (auto simp: c_def r2_def)
  have d: "0 \<le> d" "d \<le> 3" and kk: "0 \<le> k" "k \<le> 365" "d < 3 \<Longrightarrow> k < 365"
    using r2 by (auto simp: d_def k min_def)
  have z4: "(y - 1) div 4 = 100 * a + 25 * b + c"
    using d by (simp add: y)
  have z100: "(y - 1) div 100 = 4 * a + b" using b c d by (simp add: y)
  have z400: "(y - 1) div 400 = a" using b c d by (simp add: y)
  have days: "days_before_year y = 146097 * a + 36524 * b + 1461 * c + 365 * d"
    unfolding days_before_year_def Let_def z4 z100 z400 by (simp add: y)
  have "days_before_year y + k + 1 = n"
    using days n r2(3) by (simp add: k r1_def)
  moreover have "k < 365 + (if is_leap y then 1 else 0)"
  proof (cases "d < 3")
    case True
    with kk show ?thesis by simp
  next
    case False
    with d have d3: "d = 3" by simp
    have "is_leap y" if "k = 365"
    proof -
      have y4: "y = 4 * (100 * a + 25 * b + c + 1)" by (simp add: y d3)
      have "y mod 400 = 0" if "y mod 100 = 0"
      proof -
        have "y = (4 * c + 4) + 100 * (4 * a + b)" by (simp add: y d3)
        with that have "(4 * c + 4) mod 100 = 0" by (simp only: mod_mult_self2)
        with c have "c = 24" by presburger
        with \<open>k = 365\<close> r2 have "r1 = 36524" by (simp add: k d3)
        with r1 b have "b = 3" by force
        with \<open>c = 24\<close> have "y = 400 * (a + 1)" by (simp add: y d3)
        then show ?thesis by simp
      qed
      moreover have "y mod 4 = 0" by (simp add: y4)
      ultimately show ?thesis by (auto simp: is_leap_def)
    qed
    with kk show ?thesis by force
  qed
  ultimately show ?thesis using a b c d kk by (auto simp: y)
qed

lemma days_before_year_large:
  assumes "9999 \<le> y - 1"
  shows "3652059 \<le> days_before_year y"
proof -
  define z where "z = y - 1"
  define q r where "q = z div 100" and "r = z mod 100"
  have zq: "z = 100 * q + r" "0 \<le> r" "r < 100" by (simp_all add: q_def r_def)
  have "z div 4 = 25 * q + r div 4"
    using zq(1) by (simp add: div_mult_self3 [of 4 r "25 * q"] algebra_simps)
  moreover have "99 \<le> q" using assms zq by (simp add: z_def)
  moreover have "r = 99" if "q = 99" using assms zq that by (simp add: z_def)
  moreover have "24 \<le> z div 400" using assms zdiv_mono1 [of 9999 z 400] by (simp add: z_def)
  moreover have "0 \<le> r div 4" using zq by simp
  ultimately have "9999 * 365 + 2400 + 24 \<le> z * 365 + z div 4 - q + z div 400"
    using assms by (cases "q = 99") (auto simp: z_def)
  then show ?thesis by (simp add: days_before_year_def Let_def z_def q_def)
qed

lemma ordinal_ymd_ok:
  assumes "1 \<le> n" and "n \<le> max_ordinal" and "ordinal_ymd n = (y, m, d)"
  shows "valid_date y m d \<and> ymd_ordinal y m d = n"
proof -
  obtain k where yk: "year_of_ordinal n = (y, k)" and m: "m = month_of_yday y k"
    and d: "d = k - days_before_month y m + 1"
    using assms(3) by (auto simp: ordinal_ymd_def Let_def split: prod.splits)
  from year_of_ordinal_ok [OF assms(1) yk]
  have y: "1 \<le> y" "0 \<le> k" "k < 365 + (if is_leap y then 1 else 0)" "days_before_year y + k + 1 = n"
    by auto
  from month_of_yday_ok [OF y(2,3)]
  have mo: "1 \<le> m" "m \<le> 12" "days_before_month y m \<le> k" "k < days_before_month y m + days_in_month y m"
    by (auto simp: m)
  have "y \<le> 9999"
  proof (rule ccontr)
    assume "\<not> y \<le> 9999"
    then have z: "9999 \<le> y - 1" by simp
    have "3652059 \<le> days_before_year y" by (rule days_before_year_large [OF z])
    with y assms(2) show False
      by (simp add: max_ordinal_def ymd_ordinal_def days_before_year_def days_before_month_def is_leap_def)
  qed
  with y mo show ?thesis by (simp add: valid_date_def ymd_ordinal_def d)
qed

section \<open>Round trip\<close>

lemma pad_no_Z: "c \<in> set (pad2 n) \<Longrightarrow> c \<noteq> CHR ''Z''" "c \<in> set (pad4 n) \<Longrightarrow> c \<noteq> CHR ''Z''"
  using pad2_no_tz by (auto simp: pad4_def is_tz_char_def)

lemma replace_char_id: "c \<notin> set s \<Longrightarrow> replace_char c r s = s"
  by (induction s) auto

lemma replace_char_append: "replace_char c r (s @ t) = replace_char c r s @ replace_char c r t"
  by (induction s) auto

lemma replace_pads: "replace_char (CHR ''Z'') r (pad2 n) = pad2 n" "replace_char (CHR ''Z'') r (pad4 n) = pad4 n"
  using pad_no_Z by (auto intro!: replace_char_id)

lemma replace_Z_format:
  "replace_char (CHR ''Z'') ''+00:00'' (format_utc y mo d h mi s) =
     pad4 y @ ''-'' @ pad2 mo @ ''-'' @ pad2 d @ ''T'' @
       pad2 h @ '':'' @ pad2 mi @ '':'' @ pad2 s @ ''+00:00''"
  by (simp add: format_utc_def replace_char_append replace_pads)

lemma parse_offset_zero: "parse_offset ''+00:00'' = Some 0"
  by (simp add: parse_offset_def) code_simp

lemma iso_z_fields:
  assumes "in_range t" and "ordinal_ymd (t div day_micros) = (y, m, d)"
    and "s = (t mod day_micros) div 1000000"
  shows "valid_date y m d" and "utc_micros y m d (s div 3600) (s div 60 mod 60) (s mod 60) = t - t mod 1000000"
    and "0 \<le> s div 3600" "s div 3600 < 24"
proof -
  from assms(1) have "1 \<le> t div day_micros" "t div day_micros \<le> max_ordinal"
    by (auto simp: in_range_def day_micros_def)
  from ordinal_ymd_ok [OF this assms(2)]
  have o: "valid_date y m d" "ymd_ordinal y m d = t div day_micros" by auto
  then show "valid_date y m d" by simp
  have "hms_micros (s div 3600, s div 60 mod 60, s mod 60, 0) = s * 1000000"
  proof -
    have "s div 3600 = s div 60 div 60" using zdiv_zmult2_eq [of 60 s 60] by simp
    then have "(s div 3600 * 60 + s div 60 mod 60) * 60 + s mod 60 = s"
      by (simp only: div_mult_mod_eq)
    then show ?thesis unfolding hms_micros_def by (simp only: prod.case add_0_right)
  qed
  moreover have "t div day_micros * day_micros + s * 1000000 = t - t mod 1000000"
  proof -
    have "(t mod day_micros) mod 1000000 = t mod 1000000"
      by (rule mod_mod_cancel) (simp add: day_micros_def)
    then show ?thesis unfolding assms(3)
      using div_mult_mod_eq [of t day_micros] div_mult_mod_eq [of "t mod day_micros" 1000000] by linarith
  qed
  ultimately show "utc_micros y m d (s div 3600) (s div 60 mod 60) (s mod 60) = t - t mod 1000000"
    by (simp add: utc_micros_def o)
  show "0 \<le> s div 3600" "s div 3600 < 24" unfolding assms(3) day_micros_def by auto
qed

text \<open>What is written is read back, less the fraction of a second.\<close>

lemma parse_instant_iso_z:
  assumes "in_range t"
  shows "parse_instant (Some (iso_z t)) = Some (t - t mod 1000000)"
proof -
  obtain y m d where o: "ordinal_ymd (t div day_micros) = (y, m, d)" by (cases "ordinal_ymd (t div day_micros)")
  define s where "s = (t mod day_micros) div 1000000"
  note f = iso_z_fields [OF assms o s_def]
  have iso: "iso_z t = format_utc y m d (s div 3600) (s div 60 mod 60) (s mod 60)"
    by (simp only: iso_z_def o Let_def s_def prod.case)
  have "fromisoformat (replace_char (CHR ''Z'') ''+00:00'' (iso_z t)) =
      Some (utc_micros y m d (s div 3600) (s div 60 mod 60) (s mod 60), Some 0)"
    unfolding iso replace_Z_format
    by (rule fromisoformat_suffix [OF f(1,3,4)])
      (simp_all add: parse_offset_zero is_tz_char_def)
  moreover have "iso_z t \<noteq> []" by (simp add: iso_z_def o Let_def format_utc_def pad4_def pad2_def)
  ultimately show ?thesis by (simp add: parse_instant_def or_empty_def f(2))
qed

section \<open>Property\<close>

text \<open>
  C31: Timestamps survive storage: the text the worker writes for an instant of the calendar is
  read back by its parser as the same instant, less its fraction of a second.
\<close>

theorem iso_round_trip:
  assumes "day_micros \<le> t" and "t < (max_ordinal + 1) * day_micros"
  shows "parse_instant (Some (iso_z t)) = Some (t - t mod 1000000)"
  using assms by (intro parse_instant_iso_z) (simp add: in_range_def)

theorem iso_round_trip_witness:
  "parse_instant (Some (iso_z 63902908810500000)) = Some 63902908810000000"
  using iso_round_trip [of 63902908810500000]
  by (simp add: day_micros_def max_ordinal_def ymd_ordinal_def days_before_year_def
      days_before_month_def is_leap_def)

end
