(* ===== verification/DeliveryPolicy.thy ===== *)
theory DeliveryPolicy
  imports DeliveryStore IsoTime ContinuationPacket
begin

text \<open>
  What the delivery worker of \<^verbatim>\<open>src/watchdog/services/delivery/worker.py\<close> decides without writing:
  which waiting record is ready, which one is stale, suppressed by policy, belongs to an inactive
  project, has to wait for a quiet local machine, or repeats a delivered one; and where it is to
  be sent.

  Durations of the settings are in microseconds, the resolution of \<open>timedelta\<close>. What the worker
  reads of a project's session record is a parameter (\<open>spine_lookup\<close>): \<open>None\<close> when the worker has
  no spine store, and a look-up that may raise otherwise.
\<close>

section \<open>Configuration and what is read elsewhere\<close>

record delivery_settings =
  ds_max_attempts :: int
  ds_initial_backoff :: int
  ds_progress_max_age :: int
  ds_duplicate_window :: int
  ds_quiet_window :: int
  ds_transport :: string
  ds_receive_id :: "string option"
  ds_receive_id_type :: string

record spine_record =
  sp_fact_codes :: "string list"
  sp_local_manual_activity_at :: "string option"
  sp_approval_queue :: "(string \<times> string) list"

type_synonym spine_lookup = "(string \<Rightarrow> py_error + spine_record option) option"

definition session_directory_project_id :: string where
  "session_directory_project_id = ''__portfolio__''"

definition session_directory_session_id :: string where
  "session_directory_session_id = ''session:directory''"

definition is_directory_record :: "delivery_record \<Rightarrow> bool" where
  "is_directory_record r \<longleftrightarrow>
     dr_project_id r = session_directory_project_id \<and>
     dr_session_id r = session_directory_session_id"

section \<open>Reading a payload\<close>

abbreviation payload_text :: "jdict \<Rightarrow> string \<Rightarrow> string" where
  "payload_text p k \<equiv> stripped_text (jget p k)"

definition j_or :: "json \<Rightarrow> json \<Rightarrow> json" where
  "j_or a b = (if truthy a then a else b)"

definition payload_reason :: "jdict \<Rightarrow> string" where
  "payload_reason p = stripped_text (j_or (jget p ''reason'') (jget p ''summary''))"

definition notification_payload :: "delivery_record \<Rightarrow> jdict option" where
  "notification_payload r =
     (if jget (dr_envelope_payload r) ''envelope_type'' = JStr ''notification''
      then Some (dr_envelope_payload r) else None)"

definition payload_fact_codes :: "jdict \<Rightarrow> string list" where
  "payload_fact_codes p =
     (case jget p ''facts'' of
        JList facts \<Rightarrow>
          filter (\<lambda>c. c \<noteq> [])
            (List.map_filter (\<lambda>f. case f of JObj d \<Rightarrow> Some (payload_text d ''fact_code'') | _ \<Rightarrow> None)
               facts)
      | _ \<Rightarrow> [])"

definition matched_policy_rules :: "jdict \<Rightarrow> string list" where
  "matched_policy_rules p =
     (case jget p ''matched_policy_rules'' of
        JList rules \<Rightarrow> filter (\<lambda>c. c \<noteq> []) (map stripped_text rules)
      | _ \<Rightarrow> [])"

definition intersects :: "'a list \<Rightarrow> 'a list \<Rightarrow> bool" where
  "intersects xs ys \<longleftrightarrow> list_ex (\<lambda>x. x \<in> set ys) xs"

section \<open>Suppression by policy\<close>

definition approval_fact_codes :: "string list" where
  "approval_fact_codes = [''approval_pending'', ''awaiting_human_direction'']"

definition nonactionable_approval_reasons :: "string list" where
  "nonactionable_approval_reasons =
     [''brain requested explicit human approval'',
      ''brain approval request suppressed without actionable approval'',
      ''resident expert dual gate requires explicit human decision'',
      ''resident expert gate blocked autonomous external-model execution'']"

definition nonactionable_block_reasons :: "string list" where
  "nonactionable_block_reasons =
     [''brain approval request suppressed without actionable approval'',
      ''operator guidance blocked by resident expert dual gate'',
      ''resident expert gate blocked autonomous external-model execution'']"

definition nonactionable_approval_rules :: "string list" where
  "nonactionable_approval_rules = [''brain_requires_approval'', ''resident_expert_dual_gate'']"

definition approval_prompt_is_nonactionable :: "jdict \<Rightarrow> bool" where
  "approval_prompt_is_nonactionable p \<longleftrightarrow>
     (if payload_text p ''envelope_type'' \<noteq> ''approval'' then False
      else if payload_text p ''requested_action'' = ''post_operator_guidance'' then True
      else (let rules = matched_policy_rules p; codes = payload_fact_codes p in
        if ''resident_expert_dual_gate'' \<in> set rules then True
        else if intersects rules nonactionable_approval_rules \<and>
                \<not> intersects codes approval_fact_codes then True
        else payload_reason p \<in> set nonactionable_approval_reasons \<and>
             \<not> intersects codes approval_fact_codes))"

definition decision_notification_is_nonactionable :: "jdict \<Rightarrow> bool" where
  "decision_notification_is_nonactionable p \<longleftrightarrow>
     (if payload_text p ''envelope_type'' \<noteq> ''notification'' then False
      else if payload_text p ''notification_kind'' \<noteq> ''decision_result'' then False
      else if payload_text p ''decision_result'' \<noteq> ''block_and_alert'' then False
      else payload_reason p \<in> set nonactionable_block_reasons)"

definition routine_recovery_notification_is_nonactionable :: "jdict \<Rightarrow> bool" where
  "routine_recovery_notification_is_nonactionable p \<longleftrightarrow>
     (if payload_text p ''envelope_type'' \<noteq> ''notification'' then False
      else if payload_text p ''notification_kind'' \<noteq> ''decision_result'' then False
      else if payload_text p ''decision_result'' \<noteq> ''auto_execute_and_notify'' then False
      else if payload_text p ''action_name'' \<noteq> ''execute_recovery'' then False
      else if payload_reason p \<noteq> ''registered action and complete evidence'' then False
      else ''context_critical'' \<in> set (payload_fact_codes p) \<and>
           ''recovery_available'' \<in> set (payload_fact_codes p))"

definition suppressed_by_notification_policy :: "delivery_record \<Rightarrow> string option" where
  "suppressed_by_notification_policy r =
     (let p = dr_envelope_payload r; t = payload_text p ''envelope_type'';
          kind = payload_text p ''notification_kind'';
          s = Some ''suppressed_notification_policy'' in
      if t = ''decision'' then s
      else if approval_prompt_is_nonactionable p then s
      else if t \<noteq> ''notification'' then None
      else if kind = ''decision_result'' \<and> payload_text p ''decision_result'' = [] then s
      else if kind = ''decision_result'' \<and> payload_text p ''decision_result'' = ''block_and_alert'' \<and>
              payload_text p ''action_name'' = ''post_operator_guidance'' then s
      else if decision_notification_is_nonactionable p then s
      else if routine_recovery_notification_is_nonactionable p then s
      else None)"

section \<open>Staleness, inactive projects, local activity\<close>

text \<open>\<open>int(delta.total_seconds())\<close>: towards zero.\<close>

definition whole_seconds :: "int \<Rightarrow> int" where
  "whole_seconds us = (if us < 0 then - (- us div 1000000) else us div 1000000)"

definition json_instant :: "json \<Rightarrow> py_error + int option" where
  "json_instant j =
     (case j of
        JStr s \<Rightarrow> Inr (parse_instant (Some s))
      | _ \<Rightarrow> if truthy j then Inl (AttributeError ''replace'') else Inr None)"

definition stale_progress_summary ::
    "delivery_settings \<Rightarrow> int \<Rightarrow> delivery_record \<Rightarrow> py_error + (json \<times> int) option" where
  "stale_progress_summary cfg now r =
     (let p = dr_envelope_payload r in
      if jget p ''envelope_type'' \<noteq> JStr ''notification'' then Inr None
      else if jget p ''notification_kind'' \<noteq> JStr ''progress_summary'' then Inr None
      else (let occurred_at = j_or (jget p ''occurred_at'')
                  (j_or (jget p ''created_at'') (JStr (dr_created_at r))) in
        case json_instant occurred_at of
          Inl e \<Rightarrow> Inl e
        | Inr None \<Rightarrow> Inr None
        | Inr (Some t) \<Rightarrow>
            (case astimezone_utc t of
               Inl e \<Rightarrow> Inl e
             | Inr u \<Rightarrow>
                 (let age = whole_seconds (now - u) in
                  if age * 1000000 \<le> max (ds_progress_max_age cfg) 0 then Inr None
                  else Inr (Some (occurred_at, age))))))"

definition inactive_project_suppression_reason ::
    "spine_lookup \<Rightarrow> delivery_record \<Rightarrow> string option" where
  "inactive_project_suppression_reason spine r =
     (case spine of
        None \<Rightarrow> None
      | Some get \<Rightarrow>
          (let p = dr_envelope_payload r; t = payload_text p ''envelope_type'';
               kind = payload_text p ''notification_kind'' in
           if t \<noteq> ''approval'' \<and>
              \<not> (t = ''notification'' \<and>
                 kind \<in> {''approval_result'', ''decision_result'', ''progress_summary''}) then None
           else if is_directory_record r then None
           else (case get (dr_project_id r) of
                   Inl e \<Rightarrow> None
                 | Inr None \<Rightarrow> Some ''project_record_missing''
                 | Inr (Some sp) \<Rightarrow>
                     if ''project_not_active'' \<in> set (map strip (sp_fact_codes sp))
                     then Some ''project_not_active'' else None)))"

definition suppressed_for_local_manual_activity ::
    "delivery_settings \<Rightarrow> spine_lookup \<Rightarrow> int \<Rightarrow> delivery_record \<Rightarrow>
     py_error + (string \<times> int \<times> string) option" where
  "suppressed_for_local_manual_activity cfg spine now r =
     (case spine of
        None \<Rightarrow> Inr None
      | Some get \<Rightarrow>
          (let p = dr_envelope_payload r in
           if jget p ''envelope_type'' \<noteq> JStr ''notification'' then Inr None
           else if text_or_empty (jget p ''severity'') = ''critical'' then Inr None
           else if text_or_empty (jget p ''notification_kind'') \<notin>
                   {''progress_summary'', ''decision_result'', ''approval_result''} then Inr None
           else (case get (dr_project_id r) of
                   Inl e \<Rightarrow> Inr None
                 | Inr None \<Rightarrow> Inr None
                 | Inr (Some sp) \<Rightarrow>
                     (case parse_instant (sp_local_manual_activity_at sp) of
                        None \<Rightarrow> Inr None
                      | Some t \<Rightarrow>
                          (case astimezone_utc t of
                             Inl e \<Rightarrow> Inl e
                           | Inr u \<Rightarrow>
                               (let age = whole_seconds (now - u);
                                    quiet = max (ds_quiet_window cfg) 0 in
                                if age < 0 then Inr None
                                else if quiet \<le> 0 then Inr None
                                else (case astimezone_utc (u + quiet) of
                                    Inl e \<Rightarrow> Inl e
                                  | Inr next \<Rightarrow>
                                      if next \<le> now then Inr None
                                      else Inr (Some (or_empty (sp_local_manual_activity_at sp), age,
                                        iso_z next)))))))))"

section \<open>Which record is next\<close>

definition retry_due :: "int \<Rightarrow> delivery_record \<Rightarrow> bool" where
  "retry_due now r \<longleftrightarrow>
     (case parse_instant (dr_next_retry_at r) of None \<Rightarrow> True | Some t \<Rightarrow> t \<le> now)"

text \<open>
  The scan over all sessions: the first record of a session that is not due blocks its session,
  unless it only waits for a quiet machine.
\<close>

fun next_ready_in :: "int \<Rightarrow> string list \<Rightarrow> delivery_record list \<Rightarrow> delivery_record option" where
  "next_ready_in now seen [] = None"
| "next_ready_in now seen (r # rs) =
     (if dr_session_id r \<in> set seen then next_ready_in now seen rs
      else if retry_due now r then Some r
      else if dr_failure_code r = Some ''suppressed_local_manual_activity''
      then next_ready_in now seen rs
      else next_ready_in now (dr_session_id r # seen) rs)"

definition next_ready_record ::
    "int \<Rightarrow> string option \<Rightarrow> delivery_file \<Rightarrow> delivery_record option" where
  "next_ready_record now session_id f =
     (case list_pending_delivery_records session_id f of
        [] \<Rightarrow> None
      | head # rest \<Rightarrow>
          if session_id \<noteq> None then (if retry_due now head then Some head else None)
          else next_ready_in now [] (head # rest))"

section \<open>Duplicates\<close>

definition fact_signature_entry :: "json \<Rightarrow> (string \<times> string) list option" where
  "fact_signature_entry j =
     (case j of
        JObj d \<Rightarrow>
          (let related = (case jget d ''related_ids'' of JObj e \<Rightarrow> e | _ \<Rightarrow> []) in
           Some [(''fact_code'', payload_text d ''fact_code''),
                 (''fact_kind'', payload_text d ''fact_kind''),
                 (''severity'', payload_text d ''severity''),
                 (''summary'', payload_text d ''summary''),
                 (''detail'', payload_text d ''detail''),
                 (''source'', payload_text d ''source''),
                 (''project_execution_state'', payload_text related ''project_execution_state'')])
      | _ \<Rightarrow> None)"

definition entry_key :: "(string \<times> string) list \<Rightarrow> string list" where
  "entry_key d =
     map (\<lambda>k. or_empty (map_of d k))
       [''fact_code'', ''severity'', ''summary'', ''detail'', ''source'', ''project_execution_state'']"

definition semantic_fact_signature :: "json \<Rightarrow> json" where
  "semantic_fact_signature facts =
     (case facts of
        JList fs \<Rightarrow>
          JList (map (\<lambda>d. JObj (map (\<lambda>(k, v). (k, JStr v)) d))
            (sort_key entry_key (List.map_filter fact_signature_entry fs)))
      | _ \<Rightarrow> JList [])"

definition object_or_empty :: "json \<Rightarrow> json" where
  "object_or_empty j = (case j of JObj d \<Rightarrow> JObj d | _ \<Rightarrow> JObj [])"

definition list_or_empty :: "json \<Rightarrow> json" where
  "list_or_empty j = (case j of JList xs \<Rightarrow> JList xs | _ \<Rightarrow> JList [])"

text \<open>
  The fingerprint is canonical JSON; it is only compared, so that the worker escapes characters
  outside ASCII and \<^const>\<open>stable_json\<close> does not is of no consequence.
\<close>

definition duplicate_delivery_fingerprint :: "delivery_record \<Rightarrow> string option" where
  "duplicate_delivery_fingerprint r =
     (let p = dr_envelope_payload r; t = payload_text p ''envelope_type'';
          thread = JStr (or_empty (effective_native_thread_id r));
          kind = payload_text p ''notification_kind'' in
      if t = ''approval'' then
        Some (stable_json (JList
          [JStr ''approval'', JStr (dr_project_id r), JStr (dr_session_id r), thread,
           JStr (payload_text p ''receive_id''), JStr (payload_text p ''receive_id_type''),
           JStr (payload_text p ''requested_action''),
           object_or_empty (jget p ''requested_action_args''), JStr (payload_reason p)]))
      else if t = ''notification'' then
        (if kind \<noteq> ''decision_result'' then None
         else Some (stable_json (JList
          [JStr ''notification'', JStr kind, JStr (dr_project_id r), JStr (dr_session_id r), thread,
           JStr (payload_text p ''receive_id''), JStr (payload_text p ''receive_id_type''),
           JStr (payload_text p ''decision_result''), JStr (payload_text p ''action_name''),
           object_or_empty (jget p ''action_args''), JStr (payload_reason p),
           semantic_fact_signature (jget p ''facts''),
           list_or_empty (jget p ''recommended_actions'')])))
      else None)"

definition uses_sticky_duplicate_suppression :: "delivery_record \<Rightarrow> bool" where
  "uses_sticky_duplicate_suppression r \<longleftrightarrow>
     (let p = dr_envelope_payload r in
      if payload_text p ''envelope_type'' \<noteq> ''notification'' then False
      else if payload_text p ''notification_kind'' \<noteq> ''decision_result'' then False
      else if payload_text p ''decision_result'' \<noteq> ''block_and_alert'' then False
      else payload_reason p \<in> {''brain observed state without proposing execution'',
             ''brain suggested a non-executing follow-up''})"

definition within_duplicate_suppression_window ::
    "delivery_settings \<Rightarrow> delivery_record \<Rightarrow> delivery_record \<Rightarrow> py_error + bool" where
  "within_duplicate_suppression_window cfg r c =
     (let window = max (ds_duplicate_window cfg) 0 in
      if uses_sticky_duplicate_suppression r then Inr True
      else if window \<le> 0 then Inr False
      else (case (parse_instant (Some (dr_created_at r)), parse_instant (Some (dr_created_at c))) of
          (Some t, Some u) \<Rightarrow>
            (case (astimezone_utc t, astimezone_utc u) of
               (Inl e, _) \<Rightarrow> Inl e
             | (_, Inl e) \<Rightarrow> Inl e
             | (Inr t', Inr u') \<Rightarrow> Inr (abs (t' - u') \<le> window))
        | _ \<Rightarrow> Inr False))"

definition approval_id_of :: "delivery_record \<Rightarrow> string" where
  "approval_id_of r =
     (let p = dr_envelope_payload r in
      if payload_text p ''envelope_type'' \<noteq> ''approval'' then [] else payload_text p ''approval_id'')"

definition current_pending_approval_ids ::
    "spine_lookup \<Rightarrow> delivery_record \<Rightarrow> string list option" where
  "current_pending_approval_ids spine r =
     (case spine of
        None \<Rightarrow> Some []
      | Some get \<Rightarrow>
          (case get (dr_project_id r) of
             Inl e \<Rightarrow> None
           | Inr None \<Rightarrow> Some []
           | Inr (Some sp) \<Rightarrow>
               Some (List.map_filter
                 (\<lambda>(i, st). if strip i \<noteq> [] \<and> strip st = ''pending'' then Some (strip i) else None)
                 (sp_approval_queue sp))))"

definition approval_duplicate_suppression_should_be_skipped ::
    "spine_lookup \<Rightarrow> delivery_record \<Rightarrow> delivery_record \<Rightarrow> bool" where
  "approval_duplicate_suppression_should_be_skipped spine r c \<longleftrightarrow>
     (let i = approval_id_of r; j = approval_id_of c in
      if i = [] \<or> j = [] then False
      else if i = j then False
      else (case current_pending_approval_ids spine r of
              None \<Rightarrow> True
            | Some ids \<Rightarrow> if ids = [] then False else i \<in> set ids \<and> j \<notin> set ids))"

fun duplicate_among ::
    "delivery_settings \<Rightarrow> spine_lookup \<Rightarrow> delivery_record \<Rightarrow> string \<Rightarrow> delivery_record list \<Rightarrow>
     py_error + string option" where
  "duplicate_among cfg spine r fingerprint [] = Inr None"
| "duplicate_among cfg spine r fingerprint (c # cs) =
     (if dr_envelope_id c = dr_envelope_id r then duplicate_among cfg spine r fingerprint cs
      else if dr_delivery_status c \<noteq> ''delivered'' then duplicate_among cfg spine r fingerprint cs
      else if duplicate_delivery_fingerprint c \<noteq> Some fingerprint
      then duplicate_among cfg spine r fingerprint cs
      else (case within_duplicate_suppression_window cfg r c of
              Inl e \<Rightarrow> Inl e
            | Inr w \<Rightarrow>
                if \<not> w then duplicate_among cfg spine r fingerprint cs
                else if approval_duplicate_suppression_should_be_skipped spine r c
                then duplicate_among cfg spine r fingerprint cs
                else Inr (Some (dr_envelope_id c))))"

definition duplicate_delivered_record ::
    "delivery_settings \<Rightarrow> spine_lookup \<Rightarrow> delivery_record \<Rightarrow> delivery_file \<Rightarrow>
     py_error + string option" where
  "duplicate_delivered_record cfg spine r f =
     (case duplicate_delivery_fingerprint r of
        None \<Rightarrow> Inr None
      | Some fp \<Rightarrow> duplicate_among cfg spine r fp (list_delivery_records f))"

end
