(* ===== verification/DeliveryWorker.thy ===== *)
theory DeliveryWorker
  imports DeliveryPolicy
begin

text \<open>
  The delivery worker of \<^verbatim>\<open>src/watchdog/services/delivery/worker.py\<close>: one call of
  \<open>process_next_ready\<close> takes the next ready record, suppresses or defers it, or sends it and
  records what came of it, in the outbox and in the session log.

  The client that sends (\<open>de_deliver\<close>), the project's session record (\<open>de_spine\<close>), sha256
  (\<open>de_sha\<close>) and the times at which session events are recorded (\<open>de_clock\<close>) are parameters.
\<close>

section \<open>State and parameters\<close>

record delivery_result =
  at_delivery_status :: string
  at_accepted :: bool
  at_receipt_id :: "string option"
  at_received_at :: "string option"
  at_failure_code :: "string option"
  at_status_code :: "int option"

record delivery_env =
  de_cfg :: delivery_settings
  de_spine :: spine_lookup
  de_deliver :: "delivery_record \<Rightarrow> py_error + delivery_result"
  de_sha :: "string \<Rightarrow> string"
  de_clock :: "nat \<Rightarrow> string"
  de_now :: int

record delivery_world =
  dw_outbox :: delivery_file
  dw_session :: "session_store option"

definition op_get :: "('s \<Rightarrow> 'a) \<Rightarrow> ('a, 's) op" where
  "op_get f s = (Inr (f s), s)"

definition store_update :: "delivery_record \<Rightarrow> (delivery_record, delivery_world) op" where
  "store_update r w =
     (case update_delivery_record r (dw_outbox w) of
        (r', f) \<Rightarrow> (Inr r', w\<lparr>dw_outbox := f\<rparr>))"

definition on_session :: "('a, session_store) op \<Rightarrow> (unit, delivery_world) op" where
  "on_session m w =
     (case dw_session w of
        None \<Rightarrow> (Inr (), w)
      | Some s \<Rightarrow> (case m s of (res, s') \<Rightarrow> (map_sum id (\<lambda>_. ()) res, w\<lparr>dw_session := Some s'\<rparr>)))"

section \<open>Session events of a notification\<close>

definition payload_str :: "jdict \<Rightarrow> string \<Rightarrow> string option" where
  "payload_str p k = (case jget p k of JStr s \<Rightarrow> if s = [] then None else Some s | _ \<Rightarrow> None)"

definition notification_related_ids ::
    "delivery_record \<Rightarrow> jdict \<Rightarrow> (string, string) dict \<Rightarrow> (string, string) dict" where
  "notification_related_ids r p extra =
     (let ids = [(''envelope_id'', dr_envelope_id r)];
          thread = strip (or_empty (effective_native_thread_id r));
          ids = dict_set_opt ''native_thread_id'' (if thread = [] then None else Some thread) ids;
          ids = dict_set_opt ''notification_event_id'' (payload_str p ''event_id'') ids;
          ids = dict_set_opt ''notification_kind'' (payload_str p ''notification_kind'') ids;
          ids = fold (\<lambda>k. dict_set_opt k (payload_str p k))
            [''interaction_context_id'', ''interaction_family_id'', ''actor_id''] ids
      in dict_update ids extra)"

definition mirrored_fields :: "string list" where
  "mirrored_fields =
     [''event_id'', ''notification_kind'', ''severity'', ''title'', ''summary'', ''reason'',
      ''audit_ref'', ''created_at'', ''occurred_at'', ''decision_result'', ''action_name'',
      ''interaction_context_id'', ''interaction_family_id'', ''actor_id'', ''channel_kind'',
      ''action_window_expires_at'', ''facts'', ''recommended_actions'']"

definition mirror_fields :: "jdict \<Rightarrow> jdict \<Rightarrow> jdict" where
  "mirror_fields p d =
     fold (\<lambda>k. dict_set_opt k (if jget p k = JNull then None else Some (jget p k)))
       mirrored_fields d"

definition notification_payload_fields :: "delivery_record \<Rightarrow> jdict \<Rightarrow> jdict" where
  "notification_payload_fields r p =
     mirror_fields p
       [(''outbox_seq'', JInt (dr_outbox_seq r)),
        (''delivery_status'', JStr (dr_delivery_status r)),
        (''delivery_attempt'', JInt (dr_delivery_attempt r))]"

definition notification_announcement_payload_fields :: "delivery_record \<Rightarrow> jdict \<Rightarrow> jdict" where
  "notification_announcement_payload_fields r p =
     mirror_fields p
       [(''outbox_seq'', JInt (dr_outbox_seq r)), (''delivery_status'', JStr ''pending''),
        (''delivery_attempt'', JInt 0)]"

definition record_notification_event ::
    "delivery_env \<Rightarrow> nat \<Rightarrow> string \<Rightarrow> delivery_record \<Rightarrow> jdict \<Rightarrow> string \<Rightarrow>
     (string, string) dict \<Rightarrow> jdict \<Rightarrow> (unit, delivery_world) op" where
  "record_notification_event env i event_type r p correlation_id extra event_payload =
     on_session
       (record_event_once (de_sha env) (de_clock env i) event_type (dr_project_id r)
         (dr_session_id r) correlation_id event_payload
         (Some (py_str (j_or (jget p ''event_id'') (JStr (dr_envelope_id r)))))
         (notification_related_ids r p extra) (Some (de_clock env i)))"

definition notification_correlation :: "delivery_record \<Rightarrow> string \<Rightarrow> string" where
  "notification_correlation r what =
     ''corr:notification:'' @ dr_envelope_id r @ '':'' @ what"

definition record_notification_announced ::
    "delivery_env \<Rightarrow> delivery_record \<Rightarrow> jdict \<Rightarrow> (unit, delivery_world) op" where
  "record_notification_announced env r p =
     (let announce = notification_announcement_payload_fields r p;
          version = take 16 (de_sha env (stable_json (JObj announce)))
      in record_notification_event env 0 ''notification_announced'' r p
           (notification_correlation r (''announce:'' @ version)) [] announce)"

definition delivery_result_payload :: "delivery_record \<Rightarrow> jdict \<Rightarrow> delivery_result \<Rightarrow> jdict" where
  "delivery_result_payload r p res =
     (let d = notification_payload_fields r p;
          d = dict_set ''delivery_status'' (JStr (at_delivery_status res)) d;
          d = dict_set ''accepted'' (JBool (at_accepted res)) d;
          d = dict_set_opt ''failure_code'' (map_option JStr (at_failure_code res)) d
      in dict_set_opt ''status_code'' (map_option JInt (at_status_code res)) d)"

definition record_notification_delivery_result ::
    "delivery_env \<Rightarrow> delivery_record \<Rightarrow> jdict \<Rightarrow> delivery_result \<Rightarrow> (unit, delivery_world) op"
where
  "record_notification_delivery_result env r p res =
     op_bind
       (record_notification_event env 1
         (if at_delivery_status res = ''delivered'' then ''notification_delivery_succeeded''
          else ''notification_delivery_failed'')
         r p (notification_correlation r (''attempt:'' @ str_of_int (dr_delivery_attempt r))) []
         (delivery_result_payload r p res))
       (\<lambda>_. let receipt = or_empty (at_receipt_id res) in
          if receipt = [] then op_return ()
          else record_notification_event env 2 ''notification_receipt_recorded'' r p
            (notification_correlation r (''receipt:'' @ receipt)) [(''receipt_id'', receipt)]
            (dict_set_opt ''received_at'' (map_option JStr (at_received_at res))
              (dict_set ''receipt_id'' (JStr receipt) (notification_payload_fields r p))))"

definition record_notification_requeued ::
    "delivery_env \<Rightarrow> delivery_record \<Rightarrow> jdict \<Rightarrow> string \<Rightarrow> string option \<Rightarrow> string option \<Rightarrow>
     (unit, delivery_world) op" where
  "record_notification_requeued env r p reason next_retry_at failure_code =
     (let d = dict_set ''reason'' (JStr reason) (notification_payload_fields r p);
          d = dict_set_opt ''next_retry_at'' (map_option JStr next_retry_at) d;
          d = dict_set_opt ''failure_code'' (map_option JStr failure_code) d;
          retry_point = or_else next_retry_at (''attempt:'' @ str_of_int (dr_delivery_attempt r))
      in record_notification_event env 3 ''notification_requeued'' r p
           (notification_correlation r (''requeue:'' @ retry_point)) [] d)"

section \<open>Outcomes\<close>

definition add_note :: "string \<Rightarrow> delivery_record \<Rightarrow> delivery_record" where
  "add_note note r = r\<lparr>dr_operator_notes := dr_operator_notes r @ [note]\<rparr>"

text \<open>The shape of every suppression: the record ends as failed, its attempts untouched.\<close>

definition skipped_record :: "int \<Rightarrow> string \<Rightarrow> string \<Rightarrow> delivery_record \<Rightarrow> delivery_record" where
  "skipped_record now failure_code note r =
     (add_note note r)\<lparr>dr_delivery_status := ''delivery_failed'',
       dr_failure_code := Some failure_code, dr_next_retry_at := None,
       dr_updated_at := Some (iso_z now)\<rparr>"

definition apply_stale_progress_summary ::
    "int \<Rightarrow> delivery_record \<Rightarrow> json \<Rightarrow> int \<Rightarrow> (delivery_record, delivery_world) op" where
  "apply_stale_progress_summary now r occurred_at age =
     store_update (skipped_record now ''stale_progress_summary''
       (''delivery_skipped failure_code=stale_progress_summary occurred_at='' @
        py_str occurred_at @ '' age_seconds='' @ str_of_int age) r)"

definition apply_inactive_project_suppression ::
    "int \<Rightarrow> delivery_record \<Rightarrow> string \<Rightarrow> (delivery_record, delivery_world) op" where
  "apply_inactive_project_suppression now r reason =
     store_update (skipped_record now ''inactive_project''
       (''delivery_skipped failure_code=inactive_project reason='' @ reason) r)"

definition apply_duplicate_delivery_suppression ::
    "int \<Rightarrow> delivery_record \<Rightarrow> string \<Rightarrow> (delivery_record, delivery_world) op" where
  "apply_duplicate_delivery_suppression now r duplicate_of =
     store_update (skipped_record now ''duplicate_delivery_notice''
       (''delivery_skipped failure_code=duplicate_delivery_notice duplicate_of='' @ duplicate_of) r)"

definition apply_notification_policy_suppression ::
    "int \<Rightarrow> delivery_record \<Rightarrow> string \<Rightarrow> (delivery_record, delivery_world) op" where
  "apply_notification_policy_suppression now r failure_code =
     store_update (skipped_record now failure_code
       (''delivery_skipped failure_code='' @ failure_code @ '' envelope_type='' @
        dr_envelope_type r) r)"

definition deferred_record ::
    "int \<Rightarrow> string \<Rightarrow> int \<Rightarrow> string \<Rightarrow> delivery_record \<Rightarrow> delivery_record" where
  "deferred_record now last_at age next_retry_at r =
     (add_note (''delivery_deferred failure_code=suppressed_local_manual_activity '' @
        ''last_local_manual_activity_at='' @ last_at @ '' age_seconds='' @ str_of_int age @
        '' next_retry_at='' @ next_retry_at) r)
       \<lparr>dr_delivery_status := ''retrying'',
        dr_failure_code := Some ''suppressed_local_manual_activity'',
        dr_next_retry_at := Some next_retry_at, dr_updated_at := Some (iso_z now)\<rparr>"

definition apply_local_manual_activity_deferral ::
    "delivery_env \<Rightarrow> delivery_record \<Rightarrow> string \<Rightarrow> int \<Rightarrow> string \<Rightarrow>
     (delivery_record, delivery_world) op" where
  "apply_local_manual_activity_deferral env r last_at age next_retry_at =
     op_bind (store_update (deferred_record (de_now env) last_at age next_retry_at r))
       (\<lambda>u. op_bind
          (case notification_payload r of
             None \<Rightarrow> op_return ()
           | Some p \<Rightarrow>
               record_notification_requeued env u p ''suppressed_local_manual_activity''
                 (Some next_retry_at) (Some ''suppressed_local_manual_activity''))
          (\<lambda>_. op_return u))"

definition dead_letter_record :: "int \<Rightarrow> string option \<Rightarrow> delivery_record \<Rightarrow> delivery_record" where
  "dead_letter_record now failure_code r =
     (add_note (''delivery_dead_letter failure_code='' @
        or_else failure_code ''unknown'' @ '' attempts='' @ str_of_int (dr_delivery_attempt r + 1)) r)
       \<lparr>dr_delivery_status := ''delivery_failed'',
        dr_delivery_attempt := dr_delivery_attempt r + 1, dr_failure_code := failure_code,
        dr_next_retry_at := None, dr_updated_at := Some (iso_z now)\<rparr>"

definition retrying_record ::
    "int \<Rightarrow> string option \<Rightarrow> string \<Rightarrow> delivery_record \<Rightarrow> delivery_record" where
  "retrying_record now failure_code next_retry_at r =
     (add_note (''delivery_retry_scheduled failure_code='' @
        or_else failure_code ''unknown'' @ '' attempts='' @ str_of_int (dr_delivery_attempt r + 1) @
        '' next_retry_at='' @ next_retry_at) r)
       \<lparr>dr_delivery_status := ''retrying'',
        dr_delivery_attempt := dr_delivery_attempt r + 1, dr_failure_code := failure_code,
        dr_next_retry_at := Some next_retry_at, dr_updated_at := Some (iso_z now)\<rparr>"

definition backoff_delay :: "delivery_settings \<Rightarrow> int \<Rightarrow> int" where
  "backoff_delay cfg attempt = ds_initial_backoff cfg * 2 ^ nat (attempt - 1)"

definition apply_retryable_failure ::
    "delivery_settings \<Rightarrow> int \<Rightarrow> string option \<Rightarrow> delivery_record \<Rightarrow>
     (delivery_record, delivery_world) op" where
  "apply_retryable_failure cfg now failure_code r =
     (let attempt = dr_delivery_attempt r + 1 in
      if attempt \<ge> ds_max_attempts cfg then store_update (dead_letter_record now failure_code r)
      else op_bind (op_lift (astimezone_utc (now + backoff_delay cfg attempt)))
        (\<lambda>next. store_update (retrying_record now failure_code (iso_z next) r)))"

section \<open>Where to send\<close>

type_synonym route = "string \<times> string \<times> string"

fun route_scan ::
    "string \<Rightarrow> string option \<Rightarrow> string \<Rightarrow> bool \<Rightarrow> route option \<Rightarrow> session_event list \<Rightarrow> route option"
where
  "route_scan value_key type_key default_type require_unique selected [] = selected"
| "route_scan value_key type_key default_type require_unique selected (e # es) =
     (let receive_id = strip (or_empty (map_of (ev_related_ids e) value_key));
          given = (case type_key of None \<Rightarrow> [] | Some k \<Rightarrow> strip (or_empty (map_of (ev_related_ids e) k)));
          id_type = (if given = [] then strip default_type else given) in
      if receive_id = [] \<or> id_type = []
      then route_scan value_key type_key default_type require_unique selected es
      else (case selected of
          None \<Rightarrow>
            route_scan value_key type_key default_type require_unique
              (Some (receive_id, id_type, ev_event_id e)) es
        | Some (i, t, s) \<Rightarrow>
            if require_unique \<and> (receive_id, id_type) \<noteq> (i, t) then None
            else route_scan value_key type_key default_type require_unique selected es))"

definition unique_route_candidate ::
    "session_event list \<Rightarrow> string \<Rightarrow> string option \<Rightarrow> string \<Rightarrow> bool \<Rightarrow> route option" where
  "unique_route_candidate events value_key type_key default_type require_unique =
     route_scan value_key type_key default_type require_unique None (rev events)"

definition first_some :: "'a option \<Rightarrow> 'a option \<Rightarrow> 'a option" where
  "first_some a b = (case a of None \<Rightarrow> b | Some x \<Rightarrow> Some x)"

definition resolve_dynamic_route_candidate_set ::
    "session_event list \<Rightarrow> bool \<Rightarrow> route option" where
  "resolve_dynamic_route_candidate_set events u =
     first_some
       (unique_route_candidate events ''feishu_receive_id'' (Some ''feishu_receive_id_type'') [] u)
       (first_some (unique_route_candidate events ''feishu_chat_id'' None ''chat_id'' u)
         (unique_route_candidate events ''feishu_actor_id'' None ''open_id'' u))"

definition has_dynamic_route_candidate :: "session_event list \<Rightarrow> bool" where
  "has_dynamic_route_candidate events \<longleftrightarrow>
     list_ex (\<lambda>e. list_ex (\<lambda>k. strip (or_empty (map_of (ev_related_ids e) k)) \<noteq> [])
         [''feishu_receive_id'', ''feishu_chat_id'', ''feishu_actor_id'']) events"

text \<open>The events of the record's interaction or actor, and whether nothing was filtered out.\<close>

definition scope_dynamic_route_candidate_events ::
    "session_event list \<Rightarrow> delivery_record \<Rightarrow> session_event list \<times> bool" where
  "scope_dynamic_route_candidate_events events r =
     (let p = dr_envelope_payload r; family = payload_text p ''interaction_family_id'';
          actor = payload_text p ''actor_id'';
          of_key = (\<lambda>k v. filter (\<lambda>e. strip (or_empty (map_of (ev_related_ids e) k)) = v) events) in
      if family \<noteq> [] \<and> of_key ''interaction_family_id'' family \<noteq> []
      then (of_key ''interaction_family_id'' family, False)
      else if actor \<noteq> [] \<and> of_key ''feishu_actor_id'' actor \<noteq> []
      then (of_key ''feishu_actor_id'' actor, False)
      else (events, True))"

definition resolve_global_delivery_route :: "session_store \<Rightarrow> route option" where
  "resolve_global_delivery_route s =
     (let all_events = list_events None None None None s;
          portfolio = filter (\<lambda>e. ev_project_id e = session_directory_project_id \<and>
            ev_session_id e = session_directory_session_id) all_events;
          candidate = (\<lambda>es. if es = [] then None else resolve_dynamic_route_candidate_set es False)
      in if all_events = [] then None else first_some (candidate portfolio) (candidate all_events))"

definition resolve_dynamic_delivery_route :: "session_store \<Rightarrow> delivery_record \<Rightarrow> route option" where
  "resolve_dynamic_delivery_route s r =
     (let global_route = resolve_global_delivery_route s;
          events = filter (\<lambda>e. ev_project_id e = dr_project_id r)
            (list_events (Some (dr_session_id r)) None None None s);
          scoped = scope_dynamic_route_candidate_events events r in
      if is_directory_record r then global_route
      else if events = [] then global_route
      else (case resolve_dynamic_route_candidate_set (fst scoped) (snd scoped) of
          Some route \<Rightarrow> Some route
        | None \<Rightarrow>
            if snd scoped \<and> has_dynamic_route_candidate (fst scoped) then None else global_route))"

definition routed_record :: "int \<Rightarrow> string \<Rightarrow> string \<Rightarrow> string \<Rightarrow> delivery_record \<Rightarrow> delivery_record" where
  "routed_record now source receive_id receive_id_type r =
     (add_note (''delivery_route_resolved '' @ source @ '' receive_id_type='' @ receive_id_type) r)
       \<lparr>dr_envelope_payload :=
          dict_set ''receive_id_type'' (JStr receive_id_type)
            (dict_set ''receive_id'' (JStr receive_id) (dr_envelope_payload r)),
        dr_updated_at := Some (iso_z now)\<rparr>"

definition apply_dynamic_delivery_route ::
    "delivery_settings \<Rightarrow> int \<Rightarrow> delivery_record \<Rightarrow> (delivery_record, delivery_world) op" where
  "apply_dynamic_delivery_route cfg now r w =
     (let existing_id = payload_text (dr_envelope_payload r) ''receive_id'';
          existing_type = payload_text (dr_envelope_payload r) ''receive_id_type'';
          static_id = strip (or_empty (ds_receive_id cfg));
          static_type = strip (ds_receive_id_type cfg) in
      if py_lower (strip (ds_transport cfg)) \<notin> {''feishu'', ''feishu-app''} then (Inr r, w)
      else if static_id \<noteq> [] then
        (if static_type = [] then (Inr r, w)
         else if existing_id = static_id \<and> existing_type = static_type then (Inr r, w)
         else store_update (routed_record now ''source=settings'' static_id static_type r) w)
      else if existing_id \<noteq> [] \<and> existing_type \<noteq> [] then (Inr r, w)
      else (case dw_session w of
          None \<Rightarrow> (Inr r, w)
        | Some s \<Rightarrow>
            (case resolve_dynamic_delivery_route s r of
               None \<Rightarrow> (Inr r, w)
             | Some (i, t, source) \<Rightarrow>
                 store_update (routed_record now (''source_event_id='' @ source) i t r) w)))"

section \<open>One step of the worker\<close>

definition delivered_record :: "int \<Rightarrow> delivery_result \<Rightarrow> delivery_record \<Rightarrow> delivery_record" where
  "delivered_record now res r =
     (add_note (''delivery_succeeded receipt_id='' @ or_empty (at_receipt_id res) @ '' attempts='' @
        str_of_int (dr_delivery_attempt r + 1)) r)
       \<lparr>dr_delivery_status := ''delivered'', dr_delivery_attempt := dr_delivery_attempt r + 1,
        dr_receipt_id := at_receipt_id res, dr_failure_code := None, dr_next_retry_at := None,
        dr_updated_at := Some (iso_z now)\<rparr>"

definition failed_record :: "int \<Rightarrow> delivery_result \<Rightarrow> delivery_record \<Rightarrow> delivery_record" where
  "failed_record now res r =
     (add_note (''delivery_failed failure_code='' @ or_else (at_failure_code res) ''unknown'' @
        '' attempts='' @ str_of_int (dr_delivery_attempt r + 1)) r)
       \<lparr>dr_delivery_status := ''delivery_failed'', dr_delivery_attempt := dr_delivery_attempt r + 1,
        dr_failure_code := at_failure_code res, dr_next_retry_at := None,
        dr_updated_at := Some (iso_z now)\<rparr>"

definition for_notification ::
    "jdict option \<Rightarrow> (jdict \<Rightarrow> (unit, delivery_world) op) \<Rightarrow> (unit, delivery_world) op" where
  "for_notification p m = (case p of None \<Rightarrow> op_return () | Some d \<Rightarrow> m d)"

definition finish_delivery ::
    "delivery_env \<Rightarrow> delivery_record \<Rightarrow> delivery_result \<Rightarrow> (delivery_record, delivery_world) op" where
  "finish_delivery env r res =
     (let p = notification_payload r; now = de_now env in
      if at_delivery_status res = ''delivered'' then
        op_bind (store_update (delivered_record now res r))
          (\<lambda>u. op_bind
             (for_notification p (\<lambda>d. record_notification_delivery_result env u d res))
             (\<lambda>_. op_return u))
      else if at_delivery_status res = ''retryable_failure'' then
        op_bind (apply_retryable_failure (de_cfg env) now (at_failure_code res) r)
          (\<lambda>u. op_bind
             (for_notification p (\<lambda>d.
                op_bind (record_notification_delivery_result env u d res)
                  (\<lambda>_. if dr_delivery_status u = ''retrying''
                     then record_notification_requeued env u d ''retryable_delivery_failure''
                       (dr_next_retry_at u) (at_failure_code res)
                     else op_return ())))
             (\<lambda>_. op_return u))
      else
        op_bind (store_update (failed_record now res r))
          (\<lambda>u. op_bind
             (for_notification p (\<lambda>d. record_notification_delivery_result env u d res))
             (\<lambda>_. op_return u)))"

definition send_record ::
    "delivery_env \<Rightarrow> delivery_record \<Rightarrow> (delivery_record, delivery_world) op" where
  "send_record env r =
     op_bind (for_notification (notification_payload r) (record_notification_announced env r))
       (\<lambda>_. op_bind (op_lift (de_deliver env r)) (finish_delivery env r))"

definition route_and_send ::
    "delivery_env \<Rightarrow> delivery_record \<Rightarrow> (delivery_record, delivery_world) op" where
  "route_and_send env r0 =
     op_bind (apply_dynamic_delivery_route (de_cfg env) (de_now env) r0)
       (\<lambda>r. op_bind
          (\<lambda>w. (duplicate_delivered_record (de_cfg env) (de_spine env) r (dw_outbox w), w))
          (\<lambda>dup. case dup of
             Some duplicate_of \<Rightarrow> apply_duplicate_delivery_suppression (de_now env) r duplicate_of
           | None \<Rightarrow> send_record env r))"

definition process_record ::
    "delivery_env \<Rightarrow> delivery_record \<Rightarrow> (delivery_record, delivery_world) op" where
  "process_record env r =
     op_bind (op_lift (stale_progress_summary (de_cfg env) (de_now env) r))
       (\<lambda>stale. case stale of
          Some (occurred_at, age) \<Rightarrow> apply_stale_progress_summary (de_now env) r occurred_at age
        | None \<Rightarrow>
            (case suppressed_by_notification_policy r of
               Some code \<Rightarrow> apply_notification_policy_suppression (de_now env) r code
             | None \<Rightarrow>
                 (case inactive_project_suppression_reason (de_spine env) r of
                    Some reason \<Rightarrow> apply_inactive_project_suppression (de_now env) r reason
                  | None \<Rightarrow>
                      op_bind (op_lift (suppressed_for_local_manual_activity (de_cfg env)
                          (de_spine env) (de_now env) r))
                        (\<lambda>quiet. case quiet of
                           Some (last_at, age, next_retry_at) \<Rightarrow>
                             apply_local_manual_activity_deferral env r last_at age next_retry_at
                         | None \<Rightarrow> route_and_send env r))))"

definition process_next_ready ::
    "delivery_env \<Rightarrow> string option \<Rightarrow> (delivery_record option, delivery_world) op" where
  "process_next_ready env session_id w =
     (case next_ready_record (de_now env) session_id (dw_outbox w) of
        None \<Rightarrow> (Inr None, w)
      | Some r \<Rightarrow> op_bind (process_record env r) (\<lambda>u. op_return (Some u)) w)"

end
