(* ===== verification/DeliveryTheorems.thy ===== *)
theory DeliveryTheorems
  imports DeliveryStore "HOL-Library.Multiset"
begin

text \<open>
  What the delivery outbox guarantees: unique numbers, an exact and strictly ordered list of what
  is waiting, repeatable enqueueing, and snapshots that never go back.
\<close>

section \<open>The list of waiting records\<close>

lemma delivery_key_seq: "delivery_key r = delivery_key s \<Longrightarrow> dr_outbox_seq r = dr_outbox_seq s"
  by (simp add: delivery_key_def)

lemma distinct_delivery_keys:
  assumes "distinct (map dr_outbox_seq rs)"
  shows "distinct (map delivery_key rs)"
proof -
  have "inj_on delivery_key (set rs)"
    using assms by (auto simp: inj_on_def distinct_map dest: delivery_key_seq)
  with assms show ?thesis by (simp add: distinct_map)
qed

lemma outbox_ok_seqs: "outbox_ok f \<Longrightarrow> distinct (map dr_outbox_seq (list_delivery_records f))"
  by (simp add: outbox_ok_def seq_table_ok_def list_delivery_records_def o_def)

lemma sort_key_strict:
  fixes k :: "'a \<Rightarrow> 'b :: linorder"
  assumes "distinct (map k xs)"
  shows "sorted_wrt (\<lambda>x y. k x < k y) (sort_key k xs)"
proof -
  have "distinct (map k (sort_key k xs))"
    using assms by (metis distinct_map distinct_sort set_sort)
  moreover have "sorted (map k (sort_key k xs))" by simp
  ultimately have "sorted_wrt (<) (map k (sort_key k xs))" by (simp add: strict_sorted_iff)
  then show ?thesis by (simp add: sorted_wrt_map)
qed

section \<open>Enqueueing twice\<close>

definition settled :: "envelope \<Rightarrow> delivery_record \<Rightarrow> delivery_file \<Rightarrow> bool" where
  "settled e r f \<longleftrightarrow>
     map_of (df_delivery f) (en_envelope_id e) = Some r \<and> refresh_existing_record r e = None"

lemma settled_enqueue: "settled e r f \<Longrightarrow> enqueue_envelope e f = (r, f)"
  by (simp add: settled_def enqueue_envelope_def)

lemma refresh_own:
  assumes "jdict_wf (dump_envelope e)"
  shows "refresh_existing_record (outbox_record e n) e = None"
    and "refresh_existing_record (refreshed_record r e) e = None"
  using jdict_eq_refl [OF assms]
  by (simp_all add: refresh_existing_record_def Let_def outbox_record_def refreshed_record_def)

lemma enqueue_settles:
  assumes "outbox_ok f" and "jdict_wf (dump_envelope e)"
  shows "settled e (fst (enqueue_envelope e f)) (snd (enqueue_envelope e f))"
proof (cases "map_of (df_delivery f) (en_envelope_id e)")
  case None
  with assms(2) show ?thesis
    by (simp add: enqueue_envelope_def settled_def Let_def refresh_own)
next
  case (Some r)
  with outbox_ok_key [OF assms(1) Some] assms(2) show ?thesis
    by (auto simp: enqueue_envelope_def settled_def refresh_own split: option.split
        dest: refresh_Some)
qed

lemma enqueue_other:
  assumes "outbox_ok f" and "k \<noteq> en_envelope_id e"
  shows "map_of (df_delivery (snd (enqueue_envelope e f))) k = map_of (df_delivery f) k"
  using assms outbox_ok_key [OF assms(1), of "en_envelope_id e"]
  by (auto simp: enqueue_envelope_def Let_def split: option.split dest: refresh_Some)

lemma enqueue_keeps_others:
  "outbox_ok f \<Longrightarrow> k \<notin> set (map en_envelope_id es) \<Longrightarrow>
     map_of (df_delivery (snd (enqueue_envelopes es f))) k = map_of (df_delivery f) k"
proof (induction es arbitrary: f)
  case (Cons e es)
  with enqueue_envelope_ok [OF Cons.prems(1), of e] show ?case
    by (simp add: prod.case_eq_if enqueue_other)
qed simp

lemma enqueue_all_settle:
  assumes "outbox_ok f" and "distinct (map en_envelope_id es)"
    and "list_all (\<lambda>e. jdict_wf (dump_envelope e)) es"
  shows "list_all2 (\<lambda>e r. settled e r (snd (enqueue_envelopes es f))) es (fst (enqueue_envelopes es f))"
  using assms
proof (induction es arbitrary: f)
  case (Cons e es)
  obtain r f1 where e: "enqueue_envelope e f = (r, f1)" by fastforce
  obtain rs f2 where es: "enqueue_envelopes es f1 = (rs, f2)" by fastforce
  have ok: "outbox_ok f1" using enqueue_envelope_ok [OF Cons.prems(1), of e] e by simp
  have "settled e r f1" using enqueue_settles [OF Cons.prems(1), of e] Cons.prems(3) e by simp
  moreover have "map_of (df_delivery f2) (en_envelope_id e) = map_of (df_delivery f1) (en_envelope_id e)"
    using enqueue_keeps_others [OF ok, of "en_envelope_id e" es] Cons.prems(2) es by simp
  ultimately have "settled e r f2" by (simp add: settled_def)
  moreover have "list_all2 (\<lambda>e r. settled e r f2) es rs"
    using Cons.IH [OF ok] Cons.prems es by simp
  ultimately show ?case using e es by simp
qed simp

lemma enqueue_settled:
  "list_all2 (\<lambda>e r. settled e r f) es rs \<Longrightarrow> enqueue_envelopes es f = (rs, f)"
proof (induction es arbitrary: rs)
  case (Cons e es)
  then show ?case by (cases rs) (auto simp: settled_enqueue)
qed simp

section \<open>Snapshots\<close>

abbreviation snapshot_of :: "delivery_record \<Rightarrow> int \<times> string" where
  "snapshot_of r \<equiv> fact_snapshot_order (dr_fact_snapshot_version r)"

lemma enqueue_snapshot:
  assumes "outbox_ok f" and "map_of (df_delivery f) k = Some r"
  shows "\<exists>r'. map_of (df_delivery (snd (enqueue_envelope e f))) k = Some r' \<and>
    snapshot_of r \<le> snapshot_of r' \<and> (r' = r \<or> dr_delivery_status r' = ''pending'')"
proof (cases "en_envelope_id e = k")
  case False
  with assms show ?thesis by (simp add: enqueue_other)
next
  case True
  show ?thesis
  proof (cases "refresh_existing_record r e")
    case None
    with True assms show ?thesis by (simp add: enqueue_envelope_def)
  next
    case (Some r')
    with True assms outbox_ok_key [OF assms] refresh_Some [OF Some] show ?thesis
      by (simp add: enqueue_envelope_def) (simp add: refreshed_record_def)
  qed
qed

lemma enqueue_all_snapshot:
  "outbox_ok f \<Longrightarrow> map_of (df_delivery f) k = Some r \<Longrightarrow>
     \<exists>r'. map_of (df_delivery (snd (enqueue_envelopes es f))) k = Some r' \<and>
       snapshot_of r \<le> snapshot_of r' \<and> (r' = r \<or> dr_delivery_status r' = ''pending'')"
proof (induction es arbitrary: f r)
  case (Cons e es)
  obtain r1 where "map_of (df_delivery (snd (enqueue_envelope e f))) k = Some r1"
    "snapshot_of r \<le> snapshot_of r1" "r1 = r \<or> dr_delivery_status r1 = ''pending''"
    using enqueue_snapshot [OF Cons.prems] by blast
  with Cons.IH [OF enqueue_envelope_ok [OF Cons.prems(1), of e]] show ?case
    by (simp add: prod.case_eq_if) (metis order_trans)
qed auto

section \<open>Properties\<close>

text \<open>
  Note: Every outbox the operations reach holds the same records in both dictionaries, keeps each
  record under its envelope id, and numbers the records uniquely, below the counter.
\<close>

theorem outbox_numbered:
  "outbox_reachable f \<Longrightarrow>
     df_decision f = df_delivery f \<and>
     seq_table_ok dr_envelope_id dr_outbox_seq (df_next_seq f) (df_delivery f)"
  using outbox_reachable_ok by (simp add: outbox_ok_def)

definition example_envelope :: "string \<Rightarrow> string \<Rightarrow> envelope" where
  "example_envelope i v =
     \<lparr>en_envelope_id = i, en_envelope_type = ''notification'', en_envelope_version = ''v1'',
      en_correlation_id = ''corr'', en_session_id = ''session:p'', en_project_id = ''p'',
      en_native_thread_id = None, en_policy_version = ''policy-v1'',
      en_fact_snapshot_version = v, en_idempotency_key = ''key'', en_audit_ref = ''audit'',
      en_created_at = ''2026-01-01T00:00:00Z'', en_interaction_context_id = None,
      en_interaction_family_id = None, en_actor_id = None, en_channel_kind = None,
      en_action_window_expires_at = None, en_receive_id = None, en_receive_id_type = None,
      en_rest = [(''event_id'', JStr ''event:1''), (''severity'', JStr ''info''),
        (''notification_kind'', JStr ''progress_summary'')]\<rparr>"

definition example_outbox :: delivery_file where
  "example_outbox =
     snd (enqueue_envelopes
       [example_envelope ''e1'' ''fact-v10'', example_envelope ''e2'' ''fact-v9'']
       empty_delivery_file)"

lemma example_outbox_reachable: "outbox_reachable example_outbox"
  unfolding example_outbox_def
  by (rule outbox_reachable.step [OF outbox_reachable.start outbox_step.enqueue])

lemma example_envelope_id [simp]: "en_envelope_id (example_envelope i v) = i"
  by (simp add: example_envelope_def)

lemma example_outbox_delivery:
  "df_delivery example_outbox =
     [(''e1'', outbox_record (example_envelope ''e1'' ''fact-v10'') 1),
      (''e2'', outbox_record (example_envelope ''e2'' ''fact-v9'') 2)]"
  by (simp add: example_outbox_def enqueue_envelope_def empty_delivery_file_def Let_def)

lemma example_envelope_wf: "jdict_wf (dump_envelope (example_envelope i v))"
  by (simp add: dump_envelope_def example_envelope_def jopt_def)

theorem outbox_numbered_witness:
  "distinct (map (\<lambda>p. dr_outbox_seq (snd p)) (df_delivery example_outbox))"
  using outbox_numbered [OF example_outbox_reachable] by (simp add: seq_table_ok_def)

text \<open>
  C29: The list of waiting records holds exactly the pending and retrying records of the session,
  or of all sessions, and is strictly ordered by session, snapshot and number: no two records
  share a place.
\<close>

theorem pending_list_exact:
  assumes "outbox_reachable f"
  shows "sorted_wrt (\<lambda>r s. delivery_key r < delivery_key s) (list_pending_delivery_records sid f) \<and>
         mset (list_pending_delivery_records sid f) =
           filter_mset (\<lambda>r. is_pending_record r \<and>
               (case sid of None \<Rightarrow> True | Some s \<Rightarrow> dr_session_id r = s))
             (mset (list_delivery_records f))"
proof
  let ?P = "\<lambda>r. is_pending_record r \<and> (case sid of None \<Rightarrow> True | Some s \<Rightarrow> dr_session_id r = s)"
  have "distinct (map dr_outbox_seq (filter ?P (list_delivery_records f)))"
    using outbox_ok_seqs [OF outbox_reachable_ok [OF assms]] by (rule distinct_map_filter)
  then show "sorted_wrt (\<lambda>r s. delivery_key r < delivery_key s) (list_pending_delivery_records sid f)"
    unfolding list_pending_delivery_records_def
    by (intro sort_key_strict distinct_delivery_keys)
qed (simp add: list_pending_delivery_records_def mset_filter)

theorem pending_list_exact_witness:
  "map dr_envelope_id (list_pending_delivery_records None example_outbox) = [''e2'', ''e1''] \<and>
   sorted_wrt (\<lambda>r s. delivery_key r < delivery_key s) (list_pending_delivery_records None example_outbox)"
proof
  show "map dr_envelope_id (list_pending_delivery_records None example_outbox) = [''e2'', ''e1'']"
    by code_simp
qed (use pending_list_exact [OF example_outbox_reachable, of None] in blast)

text \<open>
  Note: Enqueueing is repeatable: enqueueing the same envelopes a second time returns the same
  records and leaves the file as it was, whatever had been delivered or superseded before.
\<close>

theorem enqueue_idempotent:
  assumes "outbox_reachable f" and "distinct (map en_envelope_id es)"
    and "list_all (\<lambda>e. jdict_wf (dump_envelope e)) es" and "enqueue_envelopes es f = (rs, f1)"
  shows "enqueue_envelopes es f1 = (rs, f1)"
  using enqueue_all_settle [OF outbox_reachable_ok [OF assms(1)] assms(2,3)] assms(4)
  by (simp add: enqueue_settled)

theorem enqueue_idempotent_witness:
  "\<exists>rs. enqueue_envelopes
     [example_envelope ''e1'' ''fact-v10'', example_envelope ''e2'' ''fact-v9''] example_outbox =
     (rs, example_outbox)"
proof -
  obtain rs where "enqueue_envelopes
     [example_envelope ''e1'' ''fact-v10'', example_envelope ''e2'' ''fact-v9'']
       empty_delivery_file = (rs, example_outbox)"
    using surjective_pairing unfolding example_outbox_def by blast
  from enqueue_idempotent [OF outbox_reachable.start _ _ this] show ?thesis
    by (auto simp: example_envelope_wf simp del: json_wf.simps)
qed

text \<open>
  Note: An envelope that is enqueued never replaces newer facts by older ones: the snapshot of a
  stored record only grows, and a record that is not left as it was waits for delivery again.
\<close>

theorem enqueue_never_goes_back:
  assumes "outbox_reachable f" and "get_delivery_record k f = Some r"
  shows "\<exists>r'. get_delivery_record k (snd (enqueue_envelopes es f)) = Some r' \<and>
    fact_snapshot_order (dr_fact_snapshot_version r) \<le>
      fact_snapshot_order (dr_fact_snapshot_version r') \<and>
    (r' = r \<or> dr_delivery_status r' = ''pending'')"
  using enqueue_all_snapshot [OF outbox_reachable_ok [OF assms(1)]] assms(2)
  by (simp add: get_delivery_record_def)

theorem enqueue_never_goes_back_witness:
  "\<exists>r'. get_delivery_record ''e1''
          (snd (enqueue_envelopes [example_envelope ''e1'' ''fact-v9''] example_outbox)) = Some r' \<and>
     (10, ''fact-v10'') \<le> fact_snapshot_order (dr_fact_snapshot_version r')"
proof -
  have g: "get_delivery_record ''e1'' example_outbox =
      Some (outbox_record (example_envelope ''e1'' ''fact-v10'') 1)"
    by (simp add: get_delivery_record_def example_outbox_delivery)
  have "fact_snapshot_order (dr_fact_snapshot_version
      (outbox_record (example_envelope ''e1'' ''fact-v10'') 1)) = (10, ''fact-v10'')"
    by code_simp
  with enqueue_never_goes_back [OF example_outbox_reachable g]
  show ?thesis by (metis (no_types, lifting))
qed

end
