(* ===== verification/DeliveryRuns.thy ===== *)
theory DeliveryRuns
  imports DeliveryWorker DeliveryTheorems
begin

text \<open>
  What a step of the delivery worker can do to the outbox: it stores versions of the one record
  it took, each an outcome of the delivery rules, and nothing else.
\<close>

section \<open>Versions of a record\<close>

inductive routed :: "delivery_env \<Rightarrow> delivery_record \<Rightarrow> delivery_record \<Rightarrow> bool" for env where
  same: "routed env r r"
| route: "routed env r (routed_record (de_now env) source i t r)"

inductive outcome :: "delivery_env \<Rightarrow> delivery_record \<Rightarrow> delivery_record \<Rightarrow> bool" for env where
  skipped: "outcome env r (skipped_record (de_now env) code text r)"
| deferred: "outcome env r (deferred_record (de_now env) last_at age next_at r)"
| dead: "ds_max_attempts (de_cfg env) \<le> dr_delivery_attempt r + 1 \<Longrightarrow>
    outcome env r (dead_letter_record (de_now env) code r)"
| retry: "dr_delivery_attempt r + 1 < ds_max_attempts (de_cfg env) \<Longrightarrow>
    astimezone_utc (de_now env + backoff_delay (de_cfg env) (dr_delivery_attempt r + 1)) = Inr next \<Longrightarrow>
    outcome env r (retrying_record (de_now env) code (iso_z next) r)"
| delivered: "outcome env r (delivered_record (de_now env) res r)"
| failed: "outcome env r (failed_record (de_now env) res r)"

definition version :: "delivery_env \<Rightarrow> delivery_record \<Rightarrow> delivery_record \<Rightarrow> bool" where
  "version env r v \<longleftrightarrow> routed env r v \<or> (\<exists>r1. routed env r r1 \<and> outcome env r1 v)"

lemma version_routed: "routed env r v \<Longrightarrow> version env r v"
  by (simp add: version_def)

lemma version_outcome: "routed env r r1 \<Longrightarrow> outcome env r1 v \<Longrightarrow> version env r v"
  by (auto simp: version_def)

lemmas outcome_record_defs =
  skipped_record_def deferred_record_def dead_letter_record_def retrying_record_def
  delivered_record_def failed_record_def routed_record_def add_note_def

text \<open>What no version changes.\<close>

definition same_place :: "delivery_record \<Rightarrow> delivery_record \<Rightarrow> bool" where
  "same_place r v \<longleftrightarrow>
     dr_envelope_id v = dr_envelope_id r \<and> dr_outbox_seq v = dr_outbox_seq r \<and>
     dr_session_id v = dr_session_id r \<and> dr_project_id v = dr_project_id r \<and>
     dr_fact_snapshot_version v = dr_fact_snapshot_version r \<and>
     dr_envelope_type v = dr_envelope_type r \<and> dr_created_at v = dr_created_at r \<and>
     dr_native_thread_id v = dr_native_thread_id r"

lemma routed_same_place: "routed env r v \<Longrightarrow> same_place r v"
  by (induction rule: routed.induct) (simp_all add: same_place_def outcome_record_defs)

lemma outcome_same_place: "outcome env r v \<Longrightarrow> same_place r v"
  by (induction rule: outcome.induct) (simp_all add: same_place_def outcome_record_defs)

lemma version_same_place: "version env r v \<Longrightarrow> same_place r v"
  using routed_same_place outcome_same_place by (fastforce simp: version_def same_place_def)

section \<open>Operations that store versions\<close>

definition put_all :: "delivery_record list \<Rightarrow> delivery_file \<Rightarrow> delivery_file" where
  "put_all us f = fold (\<lambda>u f. snd (update_delivery_record u f)) us f"

lemma put_all_simps [simp]:
  "put_all [] f = f"
  "put_all (u # us) f = put_all us (snd (update_delivery_record u f))"
  by (simp_all add: put_all_def)

lemma put_all_append: "put_all (us @ vs) f = put_all vs (put_all us f)"
  by (simp add: put_all_def)

definition stores :: "(delivery_record \<Rightarrow> bool) \<Rightarrow> delivery_world \<Rightarrow> delivery_world \<Rightarrow> bool" where
  "stores P w w' \<longleftrightarrow> (\<exists>us. list_all P us \<and> dw_outbox w' = put_all us (dw_outbox w))"

lemma stores_refl: "reflp (stores P)"
  by (auto simp: reflp_def stores_def intro: exI [of _ "[]"])

lemma stores_trans: "transp (stores P)"
  unfolding transp_def stores_def
proof (intro allI impI, elim exE conjE)
  fix w1 w2 w3 us vs
  assume "list_all P us" "dw_outbox w2 = put_all us (dw_outbox w1)"
    "list_all P vs" "dw_outbox w3 = put_all vs (dw_outbox w2)"
  then show "\<exists>us. list_all P us \<and> dw_outbox w3 = put_all us (dw_outbox w1)"
    by (intro exI [of _ "us @ vs"]) (simp add: put_all_append)
qed

lemmas stores_trivial =
  op_respects_return [OF stores_refl] op_respects_raise [OF stores_refl] op_respects_lift [OF stores_refl]

lemma stores_update [intro]: "P u \<Longrightarrow> op_respects (stores P) (store_update u)"
  by (auto simp: op_respects_def stores_def store_update_def prod.case_eq_if intro!: exI [of _ "[u]"])

lemma stores_session [intro]: "op_respects (stores P) (on_session m)"
  by (auto simp: op_respects_def stores_def on_session_def prod.case_eq_if
      split: option.splits intro!: exI [of _ "[]"])

text \<open>Binding, where the value that is passed on has a known property.\<close>

lemma op_respects_bind_post:
  assumes "transp R" and "op_respects R m" and "\<And>s a s'. m s = (Inr a, s') \<Longrightarrow> Q a"
    and "\<And>a. Q a \<Longrightarrow> op_respects R (f a)"
  shows "op_respects R (op_bind m f)"
  unfolding op_respects_def
proof
  fix s
  obtain r s' where m: "m s = (r, s')" by fastforce
  with assms(2) have 1: "R s s'" by (rule op_respectsD)
  show "R s (snd (op_bind m f s))"
  proof (cases r)
    case (Inl e)
    with m 1 show ?thesis by simp
  next
    case (Inr a)
    with m assms(3) have "Q a" by simp
    from assms(4) [OF this] have "R s' (snd (f a s'))" by (simp add: op_respects_def)
    with 1 have "R s (snd (f a s'))" by (rule transpD [OF assms(1)])
    with m Inr show ?thesis by simp
  qed
qed

lemmas stores_bind = op_respects_bind [OF stores_trans]
lemmas stores_bind_post = op_respects_bind_post [OF stores_trans]

lemma stores_events [intro]:
  "op_respects (stores P) (record_notification_event env i t r p c x d)"
  "op_respects (stores P) (record_notification_announced env r p)"
  "op_respects (stores P) (record_notification_delivery_result env r p res)"
  "op_respects (stores P) (record_notification_requeued env r p reason at code)"
  unfolding record_notification_event_def record_notification_announced_def
    record_notification_delivery_result_def record_notification_requeued_def Let_def
  by (auto intro!: stores_bind stores_session stores_trivial)

lemma stores_for_notification [intro]:
  "(\<And>d. op_respects (stores P) (m d)) \<Longrightarrow> op_respects (stores P) (for_notification p m)"
  by (auto simp: for_notification_def intro: stores_trivial split: option.splits)

section \<open>A step stores versions of the record it took\<close>

abbreviation stores_versions :: "delivery_env \<Rightarrow> delivery_record \<Rightarrow> ('a, delivery_world) op \<Rightarrow> bool" where
  "stores_versions env r m \<equiv> op_respects (stores (version env r)) m"

lemma retryable_versions:
  assumes "routed env r r1"
  shows "stores_versions env r (apply_retryable_failure (de_cfg env) (de_now env) code r1)"
proof (cases "ds_max_attempts (de_cfg env) \<le> dr_delivery_attempt r1 + 1")
  case True
  then show ?thesis
    unfolding apply_retryable_failure_def Let_def
    by (auto intro!: stores_update version_outcome [OF assms] outcome.dead)
next
  case False
  have "stores_versions env r (op_bind
      (op_lift (astimezone_utc (de_now env + backoff_delay (de_cfg env) (dr_delivery_attempt r1 + 1))))
      (\<lambda>next. store_update (retrying_record (de_now env) code (iso_z next) r1)))"
  proof (rule stores_bind_post [where Q = "\<lambda>n. astimezone_utc (de_now env +
      backoff_delay (de_cfg env) (dr_delivery_attempt r1 + 1)) = Inr n"])
    show "stores_versions env r (store_update (retrying_record (de_now env) code (iso_z n) r1))"
      if "astimezone_utc (de_now env + backoff_delay (de_cfg env) (dr_delivery_attempt r1 + 1)) = Inr n"
      for n
      using False that by (intro stores_update version_outcome [OF assms] outcome.retry) simp_all
  qed (auto intro: stores_trivial)
  with False show ?thesis by (simp add: apply_retryable_failure_def Let_def)
qed

lemma finish_versions:
  assumes "routed env r r1"
  shows "stores_versions env r (finish_delivery env r1 res)"
  unfolding finish_delivery_def Let_def
  by (auto intro!: stores_bind stores_update version_outcome [OF assms] outcome.delivered
      outcome.failed stores_for_notification stores_events stores_trivial retryable_versions [OF assms])

lemma route_versions: "stores_versions env r (apply_dynamic_delivery_route (de_cfg env) (de_now env) r)"
proof -
  have "stores (version env r) w (snd (apply_dynamic_delivery_route (de_cfg env) (de_now env) r w))" for w
  proof -
    have "\<exists>src i t. apply_dynamic_delivery_route (de_cfg env) (de_now env) r w =
        store_update (routed_record (de_now env) src i t r) w"
      if "apply_dynamic_delivery_route (de_cfg env) (de_now env) r w \<noteq> (Inr r, w)"
      using that unfolding apply_dynamic_delivery_route_def Let_def
      by (auto split: if_splits option.splits prod.splits)
    then show ?thesis
      using stores_update [of "version env r"] reflpD [OF stores_refl]
      by (metis op_respects_def routed.route snd_conv version_routed)
  qed
  then show ?thesis by (simp add: op_respects_def)
qed

lemma route_result:
  "apply_dynamic_delivery_route (de_cfg env) (de_now env) r w = (Inr r1, w') \<Longrightarrow> routed env r r1"
  unfolding apply_dynamic_delivery_route_def Let_def store_update_def update_delivery_record_def
  by (auto split: if_splits option.splits prod.splits intro: routed.intros)

lemma send_versions:
  assumes "routed env r r1"
  shows "stores_versions env r (send_record env r1)"
  unfolding send_record_def
  by (auto intro!: stores_bind stores_for_notification stores_events stores_trivial finish_versions [OF assms])

lemma respects_check: "reflp R \<Longrightarrow> op_respects R (\<lambda>w. (f w, w))"
  by (simp add: op_respects_def reflpD)

lemma route_and_send_versions: "stores_versions env r (route_and_send env r)"
  unfolding route_and_send_def
proof (rule stores_bind_post [where Q = "routed env r"])
  fix r1 assume r1: "routed env r r1"
  show "stores_versions env r
      (op_bind (\<lambda>w. (duplicate_delivered_record (de_cfg env) (de_spine env) r1 (dw_outbox w), w))
        (\<lambda>dup. case dup of
             Some d \<Rightarrow> apply_duplicate_delivery_suppression (de_now env) r1 d
           | None \<Rightarrow> send_record env r1))"
    by (auto intro!: stores_bind respects_check [OF stores_refl] send_versions [OF r1] stores_update
        version_outcome [OF r1] outcome.skipped
        simp: apply_duplicate_delivery_suppression_def split: option.split)
qed (auto intro: route_versions route_result)

lemma process_versions: "stores_versions env r (process_record env r)"
  unfolding process_record_def
  by (auto intro!: stores_bind stores_trivial stores_update version_outcome [OF routed.same]
      outcome.skipped outcome.deferred route_and_send_versions stores_events
      simp: apply_stale_progress_summary_def apply_notification_policy_suppression_def
        apply_inactive_project_suppression_def apply_local_manual_activity_deferral_def
      split: option.split prod.split)

lemma process_next_ready_versions:
  assumes "process_next_ready env sid w = (res, w')"
  shows "(next_ready_record (de_now env) sid (dw_outbox w) = None \<and> res = Inr None \<and> w' = w) \<or>
    (\<exists>r us. next_ready_record (de_now env) sid (dw_outbox w) = Some r \<and>
       list_all (version env r) us \<and> dw_outbox w' = put_all us (dw_outbox w))"
proof (cases "next_ready_record (de_now env) sid (dw_outbox w)")
  case None
  with assms show ?thesis by (simp add: process_next_ready_def)
next
  case (Some r)
  have "stores_versions env r (op_bind (process_record env r) (\<lambda>u. op_return (Some u)))"
    by (intro stores_bind process_versions stores_trivial)
  with assms Some have "stores (version env r) w w'"
    by (auto simp: process_next_ready_def intro: op_respectsD)
  with Some show ?thesis by (auto simp: stores_def)
qed

end
