(* ===== verification/DeliveryGuarantees.thy ===== *)
theory DeliveryGuarantees
  imports DeliveryRuns
begin

text \<open>
  The guarantees of outbox and worker together: the worker keeps the outbox well numbered and
  touches one record at a time; sessions are served in order; attempts are bounded, so the queue
  drains; a retry waits; a delivered approval stays delivered.
\<close>

section \<open>The record that is taken\<close>

lemma next_ready_in_split:
  "next_ready_in now seen rs = Some r \<Longrightarrow>
     \<exists>pre post. rs = pre @ r # post \<and> retry_due now r \<and> dr_session_id r \<notin> set seen \<and>
       (\<forall>p \<in> set pre. dr_session_id p = dr_session_id r \<longrightarrow>
          \<not> retry_due now p \<and> dr_failure_code p = Some ''suppressed_local_manual_activity'')"
proof (induction now seen rs rule: next_ready_in.induct)
  case (2 now seen q rs)
  have cons: ?case if "\<exists>pre post. rs = pre @ r # post \<and> retry_due now r \<and> dr_session_id r \<notin> set seen \<and>
       (\<forall>p \<in> set pre. dr_session_id p = dr_session_id r \<longrightarrow>
          \<not> retry_due now p \<and> dr_failure_code p = Some ''suppressed_local_manual_activity'')"
    and "dr_session_id q = dr_session_id r \<Longrightarrow>
          \<not> retry_due now q \<and> dr_failure_code q = Some ''suppressed_local_manual_activity''"
    using that by (metis append_Cons set_ConsD)
  show ?case
  proof (cases "dr_session_id q \<in> set seen")
    case True
    with 2(1) 2(4) show ?thesis by (intro cons) auto
  next
    case False
    show ?thesis
    proof (cases "retry_due now q")
      case True
      with False 2(4) show ?thesis by (auto intro: exI [of _ "[]"])
    next
      case notdue: False
      show ?thesis
      proof (cases "dr_failure_code q = Some ''suppressed_local_manual_activity''")
        case True
        with False notdue 2(2) 2(4) show ?thesis by (intro cons) auto
      next
        case other: False
        with False notdue 2(3) 2(4) obtain pre post where
          "rs = pre @ r # post" "retry_due now r" "dr_session_id r \<notin> set (dr_session_id q # seen)"
          "\<forall>p \<in> set pre. dr_session_id p = dr_session_id r \<longrightarrow>
             \<not> retry_due now p \<and> dr_failure_code p = Some ''suppressed_local_manual_activity''"
          by auto
        then show ?thesis by (intro cons) auto
      qed
    qed
  qed
qed simp

lemma next_ready_in_None:
  assumes "next_ready_in now seen rs = None" and "rs = pre @ r # post" and "retry_due now r"
    and "dr_session_id r \<notin> set seen"
  shows "\<exists>p \<in> set pre. dr_session_id p = dr_session_id r \<and> \<not> retry_due now p \<and>
    dr_failure_code p \<noteq> Some ''suppressed_local_manual_activity''"
  using assms
proof (induction now seen rs arbitrary: pre rule: next_ready_in.induct)
  case (2 now seen q rs)
  show ?case
  proof (cases pre)
    case Nil
    with 2 show ?thesis by auto
  next
    case (Cons p pre')
    with 2(5) have q: "p = q" "rs = pre' @ r # post" by auto
    show ?thesis
    proof (cases "dr_session_id q \<in> set seen")
      case True
      with 2(1) [OF _ _ q(2)] 2(4,6,7) Cons show ?thesis by auto
    next
      case False
      with 2(4) have nd: "\<not> retry_due now q" by (auto split: if_splits)
      show ?thesis
      proof (cases "dr_failure_code q = Some ''suppressed_local_manual_activity''")
        case True
        with 2(2) [OF False nd _ _ q(2)] 2(4,6,7) False nd Cons show ?thesis by auto
      next
        case other: False
        show ?thesis
        proof (cases "dr_session_id q = dr_session_id r")
          case True
          with nd other Cons q show ?thesis by auto
        next
          case diff: False
          with 2(3) [OF False nd other _ q(2)] 2(4,6,7) False nd other Cons show ?thesis by auto
        qed
      qed
    qed
  qed
qed simp

lemma pending_mem:
  "r \<in> set (list_pending_delivery_records sid f) \<longleftrightarrow>
     r \<in> set (dict_values (df_delivery f)) \<and> is_pending_record r \<and>
     (case sid of None \<Rightarrow> True | Some s \<Rightarrow> dr_session_id r = s)"
  by (auto simp: list_pending_delivery_records_def list_delivery_records_def)

lemma next_ready_split:
  assumes "next_ready_record now sid f = Some r"
  shows "\<exists>pre post. list_pending_delivery_records sid f = pre @ r # post \<and> retry_due now r \<and>
    (\<forall>p \<in> set pre. dr_session_id p = dr_session_id r \<longrightarrow>
       \<not> retry_due now p \<and> dr_failure_code p = Some ''suppressed_local_manual_activity'')"
proof (cases "list_pending_delivery_records sid f")
  case Nil
  with assms show ?thesis by (simp add: next_ready_record_def)
next
  case (Cons head rest)
  show ?thesis
  proof (cases sid)
    case None
    with assms Cons have "next_ready_in now [] (list_pending_delivery_records sid f) = Some r"
      by (simp add: next_ready_record_def)
    from next_ready_in_split [OF this] show ?thesis by blast
  next
    case (Some s)
    with assms Cons have "r = head" "retry_due now r"
      by (auto simp: next_ready_record_def split: if_splits)
    with Cons show ?thesis by (intro exI [of _ "[]"] exI [of _ rest]) auto
  qed
qed

lemma next_ready_mem:
  assumes "next_ready_record now sid f = Some r"
  shows "r \<in> set (dict_values (df_delivery f))" and "is_pending_record r" and "retry_due now r"
proof -
  from next_ready_split [OF assms] have "r \<in> set (list_pending_delivery_records sid f)"
    and "retry_due now r" by auto
  then show "r \<in> set (dict_values (df_delivery f))" "is_pending_record r" "retry_due now r"
    by (simp_all only: pending_mem)
qed

section \<open>Storing versions\<close>

lemma update_allowed_same:
  "outbox_ok f \<Longrightarrow> map_of (df_delivery f) (dr_envelope_id r) = Some r0 \<Longrightarrow>
     dr_outbox_seq r0 = dr_outbox_seq r \<Longrightarrow> same_place r u \<Longrightarrow> update_allowed u f"
  by (simp add: update_allowed_def same_place_def)

lemma update_delivery_lookup [simp]:
  "df_delivery (snd (update_delivery_record u f)) = dict_set (dr_envelope_id u) u (df_delivery f)"
  by (simp add: update_delivery_record_def)

lemma put_all_other:
  "list_all (same_place r) us \<Longrightarrow> k \<noteq> dr_envelope_id r \<Longrightarrow>
     map_of (df_delivery (put_all us f)) k = map_of (df_delivery f) k"
  by (induction us arbitrary: f) (simp_all add: same_place_def)

lemma put_all_own:
  "list_all (same_place r) us \<Longrightarrow>
     map_of (df_delivery (put_all us f)) (dr_envelope_id r) =
       (if us = [] then map_of (df_delivery f) (dr_envelope_id r) else Some (last us))"
  by (induction us arbitrary: f) (simp_all add: same_place_def)

lemma put_all_reachable:
  assumes "outbox_reachable f" and "map_of (df_delivery f) (dr_envelope_id r) = Some r0"
    and "dr_outbox_seq r0 = dr_outbox_seq r" and "list_all (same_place r) us"
  shows "outbox_reachable (put_all us f)"
  using assms
proof (induction us arbitrary: f r0)
  case (Cons u us)
  have ok: "outbox_ok f" using Cons.prems(1) by (rule outbox_reachable_ok)
  have u: "same_place r u" using Cons.prems(4) by simp
  have "outbox_reachable (snd (update_delivery_record u f))"
    using Cons.prems u by (intro outbox_reachable.step [OF Cons.prems(1)] outbox_step.update
        update_allowed_same [OF ok])
  moreover have "map_of (df_delivery (snd (update_delivery_record u f))) (dr_envelope_id r) = Some u"
    using u by (simp add: same_place_def)
  moreover have "dr_outbox_seq u = dr_outbox_seq r" using u by (simp add: same_place_def)
  ultimately show ?case using Cons.IH Cons.prems(4) by simp
qed simp

lemma versions_same_place: "list_all (version env r) us \<Longrightarrow> list_all (same_place r) us"
  by (auto simp: list_all_iff dest: version_same_place)

lemma worker_reachable:
  assumes "outbox_reachable (dw_outbox w)" and "process_next_ready env sid w = (res, w')"
  shows "outbox_reachable (dw_outbox w')"
  using process_next_ready_versions [OF assms(2)]
proof (elim disjE exE conjE)
  fix r us assume r: "next_ready_record (de_now env) sid (dw_outbox w) = Some r"
    and us: "list_all (version env r) us" "dw_outbox w' = put_all us (dw_outbox w)"
  note ok = outbox_reachable_ok [OF assms(1)]
  from outbox_ok_value [OF ok next_ready_mem(1) [OF r]] us show ?thesis
    by (simp add: put_all_reachable [OF assms(1) _ refl] versions_same_place)
qed (simp add: assms)

section \<open>What a returning call did\<close>

lemma quiet_outbox:
  assumes "op_respects (stores (\<lambda>_. False)) m" and "m w = (res, w')"
  shows "dw_outbox w' = dw_outbox w"
proof -
  from op_respectsD [OF assms] obtain us where "list_all (\<lambda>_. False) us"
    "dw_outbox w' = put_all us (dw_outbox w)" by (auto simp: stores_def)
  then show ?thesis by (cases us) auto
qed

lemma store_update_Inr:
  "store_update u w = (res, w') \<longleftrightarrow>
     res = Inr u \<and> w' = w\<lparr>dw_outbox := snd (update_delivery_record u (dw_outbox w))\<rparr>"
  by (auto simp: store_update_def update_delivery_record_def)

text \<open>The call ends by storing the outcome it returns.\<close>

definition ends :: "delivery_env \<Rightarrow> delivery_record \<Rightarrow> delivery_world \<Rightarrow> delivery_record \<Rightarrow>
    delivery_world \<Rightarrow> bool" where
  "ends env r w u w' \<longleftrightarrow>
     outcome env r u \<and> dw_outbox w' = snd (update_delivery_record u (dw_outbox w))"

lemma ends_then_events:
  assumes "op_bind m (\<lambda>u. op_bind (q u) (\<lambda>_. op_return u)) w = (Inr u, w')"
    and "\<And>u w1. m w = (Inr u, w1) \<Longrightarrow> ends env r w u w1"
    and "\<And>u. op_respects (stores (\<lambda>_. False)) (q u)"
  shows "ends env r w u w'"
proof -
  from assms(1) obtain u1 w1 where m: "m w = (Inr u1, w1)"
    and q: "op_bind (q u1) (\<lambda>_. op_return u1) w1 = (Inr u, w')"
    by (rule op_bind_InrE)
  from q obtain x w2 where x: "q u1 w1 = (Inr x, w2)" and "op_return u1 w2 = (Inr u, w')"
    by (rule op_bind_InrE)
  then have "u = u1" "w2 = w'" by simp_all
  with quiet_outbox [OF assms(3) x] assms(2) [OF m] show ?thesis by (simp add: ends_def)
qed

lemma ends_update:
  "outcome env r v \<Longrightarrow> store_update v w = (Inr u, w') \<Longrightarrow> ends env r w u w'"
  by (auto simp: store_update_Inr ends_def)

lemma ends_retryable:
  assumes "apply_retryable_failure (de_cfg env) (de_now env) code r w = (Inr u, w')"
  shows "ends env r w u w'"
proof (cases "ds_max_attempts (de_cfg env) \<le> dr_delivery_attempt r + 1")
  case True
  with assms show ?thesis
    by (intro ends_update [OF outcome.dead]) (auto simp: apply_retryable_failure_def Let_def)
next
  case False
  with assms obtain n where "astimezone_utc (de_now env +
      backoff_delay (de_cfg env) (dr_delivery_attempt r + 1)) = Inr n"
    and "store_update (retrying_record (de_now env) code (iso_z n) r) w = (Inr u, w')"
    by (auto simp: apply_retryable_failure_def Let_def op_bind_split)
  with False show ?thesis by (intro ends_update [OF outcome.retry]) simp_all
qed

lemma ends_finish:
  assumes "finish_delivery env r res w = (Inr u, w')"
  shows "ends env r w u w'"
proof -
  note quiet = stores_for_notification stores_events stores_bind stores_trivial
  consider "at_delivery_status res = ''delivered''" | "at_delivery_status res = ''retryable_failure''"
    | "at_delivery_status res \<noteq> ''delivered''" "at_delivery_status res \<noteq> ''retryable_failure''"
    by blast
  then show ?thesis
  proof cases
    case 1
    with assms show ?thesis
      by (auto simp: finish_delivery_def Let_def intro!: quiet
          elim!: ends_then_events intro: ends_update outcome.delivered)
  next
    case 2
    with assms show ?thesis
      by (auto simp: finish_delivery_def Let_def intro!: quiet
          elim!: ends_then_events intro: ends_retryable)
  next
    case 3
    with assms show ?thesis
      by (auto simp: finish_delivery_def Let_def intro!: quiet
          elim!: ends_then_events intro: ends_update outcome.failed)
  qed
qed

text \<open>A sent record: what the route step stored, no duplicate among the delivered, then an end.\<close>

definition took_route :: "delivery_env \<Rightarrow> delivery_record \<Rightarrow> delivery_record \<Rightarrow> delivery_world \<Rightarrow>
    delivery_world \<Rightarrow> bool" where
  "took_route env r r1 w w1 \<longleftrightarrow> routed env r r1 \<and>
     (r1 = r \<and> w1 = w \<or> w1 = w\<lparr>dw_outbox := snd (update_delivery_record r1 (dw_outbox w))\<rparr>)"

lemma route_took:
  assumes "apply_dynamic_delivery_route (de_cfg env) (de_now env) r w = (Inr r1, w1)"
  shows "took_route env r r1 w w1"
  using assms route_result [OF assms]
  unfolding apply_dynamic_delivery_route_def Let_def took_route_def
  by (auto simp: store_update_Inr split: if_splits option.splits prod.splits)

lemma send_Inr:
  assumes "send_record env r w = (Inr u, w')"
  shows "ends env r w u w'"
proof -
  from assms obtain w1 res w2 where
    a: "for_notification (notification_payload r) (record_notification_announced env r) w = (Inr (), w1)"
    and f: "finish_delivery env r res w1 = (Inr u, w')"
    by (auto simp: send_record_def op_bind_split)
  have "op_respects (stores (\<lambda>_. False))
      (for_notification (notification_payload r) (record_notification_announced env r))"
    by (intro stores_for_notification stores_events)
  then have "dw_outbox w1 = dw_outbox w" using a by (rule quiet_outbox)
  with ends_finish [OF f] show ?thesis by (simp add: ends_def)
qed

inductive worked :: "delivery_env \<Rightarrow> delivery_record \<Rightarrow> delivery_world \<Rightarrow> delivery_record \<Rightarrow>
    delivery_world \<Rightarrow> bool" for env r w where
  kept_back: "ends env r w u w' \<Longrightarrow> dr_delivery_status u \<noteq> ''delivered'' \<Longrightarrow> worked env r w u w'"
| duplicate: "took_route env r r1 w w1 \<Longrightarrow> ends env r1 w1 u w' \<Longrightarrow>
    dr_delivery_status u \<noteq> ''delivered'' \<Longrightarrow> worked env r w u w'"
| sent: "took_route env r r1 w w1 \<Longrightarrow>
    duplicate_delivered_record (de_cfg env) (de_spine env) r1 (dw_outbox w1) = Inr None \<Longrightarrow>
    ends env r1 w1 u w' \<Longrightarrow> worked env r w u w'"

lemma skipped_status: "dr_delivery_status (skipped_record now code text r) = ''delivery_failed''"
  by (simp add: skipped_record_def)

lemma route_and_send_Inr:
  assumes "route_and_send env r w = (Inr u, w')"
  shows "worked env r w u w'"
proof -
  from assms obtain r1 w1 dup where
    rt: "apply_dynamic_delivery_route (de_cfg env) (de_now env) r w = (Inr r1, w1)"
    and dup: "duplicate_delivered_record (de_cfg env) (de_spine env) r1 (dw_outbox w1) = Inr dup"
    and rest: "(case dup of Some d \<Rightarrow> apply_duplicate_delivery_suppression (de_now env) r1 d
           | None \<Rightarrow> send_record env r1) w1 = (Inr u, w')"
    by (auto simp: route_and_send_def op_bind_split)
  show ?thesis
  proof (cases dup)
    case None
    with rest route_took [OF rt] dup show ?thesis by (auto intro: worked.sent send_Inr)
  next
    case (Some d)
    with rest have "ends env r1 w1 u w'" "dr_delivery_status u \<noteq> ''delivered''"
      by (auto simp: apply_duplicate_delivery_suppression_def store_update_Inr skipped_status
          ends_def intro: outcome.skipped)
    with route_took [OF rt] show ?thesis by (rule worked.duplicate)
  qed
qed

lemma deferral_Inr:
  assumes "apply_local_manual_activity_deferral env r last_at age next_at w = (Inr u, w')"
  shows "worked env r w u w'"
proof -
  have "ends env r w u w'"
    using assms unfolding apply_local_manual_activity_deferral_def
    by (rule ends_then_events)
      (auto intro: ends_update outcome.deferred stores_trivial split: option.split)
  moreover have "dr_delivery_status u \<noteq> ''delivered''"
    using assms unfolding apply_local_manual_activity_deferral_def
    by (auto simp: op_bind_split store_update_Inr deferred_record_def add_note_def)
  ultimately show ?thesis by (rule worked.kept_back)
qed

lemma process_record_Inr:
  assumes "process_record env r w = (Inr u, w')"
  shows "worked env r w u w'"
proof -
  have skip: "worked env r w u w'"
    if "store_update (skipped_record (de_now env) code msg r) w = (Inr u, w')" for code msg
    using that ends_update [OF outcome.skipped that]
    by (intro worked.kept_back) (auto simp: store_update_Inr skipped_status)
  show ?thesis
    using assms
    by (auto simp: process_record_def op_bind_split apply_stale_progress_summary_def
        apply_notification_policy_suppression_def apply_inactive_project_suppression_def
        split: option.splits prod.splits intro: skip route_and_send_Inr deferral_Inr)
qed

lemma process_next_ready_Inr:
  assumes "process_next_ready env sid w = (Inr (Some u), w')"
  obtains r where "next_ready_record (de_now env) sid (dw_outbox w) = Some r" and "worked env r w u w'"
proof (cases "next_ready_record (de_now env) sid (dw_outbox w)")
  case None
  with assms show thesis by (simp add: process_next_ready_def)
next
  case (Some r)
  with assms have "process_record env r w = (Inr u, w')"
    by (auto simp: process_next_ready_def op_bind_split)
  from that [OF Some process_record_Inr [OF this]] show thesis .
qed

end
