(* ===== verification/DeliveryPromises.thy ===== *)
theory DeliveryPromises
  imports DeliveryGuarantees
begin

text \<open>
  The promises of outbox and delivery worker, over every interleaving of enqueueing, requeueing,
  superseding and worker steps.
\<close>

section \<open>Interleavings\<close>

text \<open>
  \<open>cfg\<close> is the configuration every worker step runs with; the session log may grow by what other
  components record.
\<close>

inductive delivery_step :: "delivery_settings \<Rightarrow> delivery_world \<Rightarrow> delivery_world \<Rightarrow> bool" for cfg where
  enqueue: "delivery_step cfg w (w\<lparr>dw_outbox := snd (enqueue_envelopes es (dw_outbox w))\<rparr>)"
| requeue: "delivery_step cfg w (w\<lparr>dw_outbox := snd (requeue_transport_failures reason at (dw_outbox w))\<rparr>)"
| supersede: "delivery_step cfg w (w\<lparr>dw_outbox := snd (supersede_records at reasons (dw_outbox w))\<rparr>)"
| reserve: "delivery_step cfg w (w\<lparr>dw_outbox := snd (reserve_outbox_seq (dw_outbox w))\<rparr>)"
| work: "de_cfg env = cfg \<Longrightarrow> delivery_step cfg w (snd (process_next_ready env sid w))"
| others: "delivery_step cfg w (w\<lparr>dw_session := s\<rparr>)"

inductive delivery_reachable :: "delivery_settings \<Rightarrow> delivery_world \<Rightarrow> bool" for cfg where
  start: "dw_outbox w = empty_delivery_file \<Longrightarrow> delivery_reachable cfg w"
| step: "delivery_reachable cfg w \<Longrightarrow> delivery_step cfg w w' \<Longrightarrow> delivery_reachable cfg w'"

inductive_cases delivery_stepE [elim]: "delivery_step cfg w w'"

lemma delivery_step_outbox:
  assumes "delivery_step cfg w w'" and "outbox_reachable (dw_outbox w)"
  shows "outbox_reachable (dw_outbox w')"
  using assms(1)
proof cases
  case (work env sid)
  with worker_reachable [OF assms(2)] show ?thesis by (metis surjective_pairing)
qed (auto intro: outbox_reachable.step [OF assms(2)] outbox_step.intros assms(2))

lemma delivery_steps_outbox:
  "(delivery_step cfg)\<^sup>*\<^sup>* w w' \<Longrightarrow> outbox_reachable (dw_outbox w) \<Longrightarrow> outbox_reachable (dw_outbox w')"
  by (induction rule: rtranclp_induct) (auto intro: delivery_step_outbox)

lemma delivery_reachable_outbox: "delivery_reachable cfg w \<Longrightarrow> outbox_reachable (dw_outbox w)"
proof (induction rule: delivery_reachable.induct)
  case (start w)
  then show ?case by (simp add: outbox_reachable.start)
next
  case (step w w')
  then show ?case by (simp add: delivery_step_outbox)
qed

section \<open>Closed approvals\<close>

definition closed_approval :: "delivery_record \<Rightarrow> bool" where
  "closed_approval r \<longleftrightarrow> dr_envelope_type r = ''approval'' \<and>
     dr_delivery_status r \<in> {''delivered'', ''superseded''}"

lemma closed_enqueue_one:
  assumes "outbox_ok f" and "map_of (df_delivery f) k = Some r" and "closed_approval r"
  shows "map_of (df_delivery (snd (enqueue_envelope e f))) k = Some r"
proof (cases "en_envelope_id e = k")
  case True
  from assms(3) have "refresh_existing_record r e = None"
    by (auto simp: refresh_existing_record_def Let_def closed_approval_def)
  with True assms(2) show ?thesis by (simp add: enqueue_envelope_def)
next
  case False
  with assms show ?thesis by (simp add: enqueue_other)
qed

lemma closed_enqueue:
  "outbox_ok f \<Longrightarrow> map_of (df_delivery f) k = Some r \<Longrightarrow> closed_approval r \<Longrightarrow>
     map_of (df_delivery (snd (enqueue_envelopes es f))) k = Some r"
  by (induction es arbitrary: f)
    (auto simp: prod.case_eq_if closed_enqueue_one enqueue_envelope_ok)

lemma requeue_lookup:
  assumes "outbox_ok f"
  shows "map_of (df_delivery (snd (requeue_transport_failures reason at f))) k =
    map_option (\<lambda>r. if requeueable r then requeued_record reason at r else r) (map_of (df_delivery f) k)"
  unfolding requeue_file [OF assms] by (simp add: map_of_map)

lemma closed_requeue:
  assumes "outbox_ok f" and "map_of (df_delivery f) k = Some r" and "closed_approval r"
  shows "map_of (df_delivery (snd (requeue_transport_failures reason at f))) k = Some r"
  using assms by (auto simp: requeue_lookup [OF assms(1)] requeueable_def closed_approval_def)

lemma closed_supersede:
  "map_of (df_delivery f) k = Some r \<Longrightarrow> closed_approval r \<Longrightarrow>
     map_of (df_delivery (snd (supersede_records at reasons f))) k = Some r"
proof (induction at reasons f rule: supersede_records.induct)
  case (2 at i reason reasons f)
  show ?case
  proof (cases "map_of (df_delivery f) i")
    case None
    with 2 show ?thesis by simp
  next
    case (Some q)
    show ?thesis
    proof (cases "dr_delivery_status q \<in> {''delivered'', ''superseded''}")
      case True
      with 2(2) [OF Some True] 2(4,5) Some show ?thesis by simp
    next
      case False
      with Some 2(4,5) have "i \<noteq> k" by (auto simp: closed_approval_def)
      with False Some 2(3) [OF Some False refl] 2(4,5) show ?thesis
        by (simp add: Let_def prod.case_eq_if)
    qed
  qed
qed simp

lemma worker_other:
  assumes "outbox_ok (dw_outbox w)" and "process_next_ready env sid w = (res, w')"
  shows "case next_ready_record (de_now env) sid (dw_outbox w) of
      None \<Rightarrow> res = Inr None \<and> w' = w
    | Some r \<Rightarrow> \<forall>k. k \<noteq> dr_envelope_id r \<longrightarrow>
        map_of (df_delivery (dw_outbox w')) k = map_of (df_delivery (dw_outbox w)) k"
  using process_next_ready_versions [OF assms(2)]
proof (elim disjE exE conjE)
  fix r us assume r: "next_ready_record (de_now env) sid (dw_outbox w) = Some r"
    and us: "list_all (version env r) us" "dw_outbox w' = put_all us (dw_outbox w)"
  with put_all_other [OF versions_same_place [OF us(1)]] show ?thesis by simp
qed simp

lemma waiting_not_closed: "is_pending_record r \<Longrightarrow> \<not> closed_approval r"
  by (auto simp: is_pending_record_def closed_approval_def)

lemma closed_step:
  assumes "delivery_step cfg w w'" and "outbox_ok (dw_outbox w)"
    and "map_of (df_delivery (dw_outbox w)) k = Some r" and "closed_approval r"
  shows "map_of (df_delivery (dw_outbox w')) k = Some r"
  using assms(1)
proof cases
  case (work env sid)
  obtain res w1 where p: "process_next_ready env sid w = (res, w1)" by fastforce
  with work have w': "w' = w1" by simp
  show ?thesis
  proof (cases "next_ready_record (de_now env) sid (dw_outbox w)")
    case None
    with worker_other [OF assms(2) p] w' assms(3) show ?thesis by simp
  next
    case (Some q)
    from outbox_ok_value [OF assms(2) next_ready_mem(1) [OF Some]] next_ready_mem(2) [OF Some]
    have "dr_envelope_id q \<noteq> k" using assms(3,4) waiting_not_closed by auto
    with worker_other [OF assms(2) p] Some w' assms(3) show ?thesis by simp
  qed
qed (use assms in \<open>simp_all add: closed_enqueue closed_requeue closed_supersede reserve_outbox_seq_def\<close>)

lemma closed_steps:
  assumes "(delivery_step cfg)\<^sup>*\<^sup>* w w'" and "outbox_reachable (dw_outbox w)"
    and "map_of (df_delivery (dw_outbox w)) k = Some r" and "closed_approval r"
  shows "map_of (df_delivery (dw_outbox w')) k = Some r"
  using assms(1)
proof (induction rule: rtranclp_induct)
  case (step u v)
  have "outbox_ok (dw_outbox u)"
    by (rule outbox_reachable_ok [OF delivery_steps_outbox [OF step(1) assms(2)]])
  from closed_step [OF step(2) this step(3) assms(4)] show ?case .
qed (rule assms(3))

section \<open>Attempts\<close>

definition attempts_ok :: "delivery_settings \<Rightarrow> delivery_record \<Rightarrow> bool" where
  "attempts_ok cfg r \<longleftrightarrow> 0 \<le> dr_delivery_attempt r \<and> dr_delivery_attempt r \<le> ds_max_attempts cfg \<and>
     (is_pending_record r \<longrightarrow> dr_delivery_attempt r < ds_max_attempts cfg)"

definition outbox_attempts_ok :: "delivery_settings \<Rightarrow> delivery_file \<Rightarrow> bool" where
  "outbox_attempts_ok cfg f \<longleftrightarrow> (\<forall>k r. map_of (df_delivery f) k = Some r \<longrightarrow> attempts_ok cfg r)"

lemma outcome_attempts:
  assumes "outcome env r v" and "is_pending_record r" and "attempts_ok (de_cfg env) r"
  shows "attempts_ok (de_cfg env) v"
  using assms by (cases rule: outcome.cases)
    (auto simp: attempts_ok_def is_pending_record_def outcome_record_defs)

lemma routed_pending:
  "routed env r v \<Longrightarrow> dr_delivery_attempt v = dr_delivery_attempt r \<and>
     dr_delivery_status v = dr_delivery_status r"
  by (cases rule: routed.cases) (auto simp: outcome_record_defs)

lemma routed_attempts:
  assumes "routed env r v"
  shows "attempts_ok cfg v = attempts_ok cfg r" and "is_pending_record v = is_pending_record r"
  using routed_pending [OF assms] by (simp_all add: attempts_ok_def is_pending_record_def)

lemma version_attempts:
  assumes "version env r v" and "is_pending_record r" and "attempts_ok (de_cfg env) r"
  shows "attempts_ok (de_cfg env) v"
  using assms(1) unfolding version_def
proof (elim disjE exE conjE)
  assume "routed env r v"
  from routed_attempts(1) [OF this] assms(3) show ?thesis by simp
next
  fix r1 assume r1: "routed env r r1" and o: "outcome env r1 v"
  from outcome_attempts [OF o] routed_attempts [OF r1] assms(2,3) show ?thesis by simp
qed

lemma fresh_attempts: "0 < ds_max_attempts cfg \<Longrightarrow> dr_delivery_attempt r = 0 \<Longrightarrow> attempts_ok cfg r"
  by (simp add: attempts_ok_def)

lemma put_attempts:
  "outbox_attempts_ok cfg f \<Longrightarrow> attempts_ok cfg r \<Longrightarrow>
     df_delivery g = dict_set k r (df_delivery f) \<Longrightarrow> outbox_attempts_ok cfg g"
  by (simp add: outbox_attempts_ok_def)

lemma enqueue_one_attempts:
  assumes "outbox_attempts_ok cfg f" and "0 < ds_max_attempts cfg"
  shows "outbox_attempts_ok cfg (snd (enqueue_envelope e f))"
proof (cases "map_of (df_delivery f) (en_envelope_id e)")
  case None
  have "attempts_ok cfg (outbox_record e (df_next_seq f))"
    by (rule fresh_attempts [OF assms(2)]) (simp add: outbox_record_def)
  from put_attempts [OF assms(1) this] None show ?thesis
    by (simp add: enqueue_envelope_def Let_def)
next
  case (Some r)
  show ?thesis
  proof (cases "refresh_existing_record r e")
    case None
    with Some assms show ?thesis by (simp add: enqueue_envelope_def)
  next
    case new: (Some r')
    have "attempts_ok cfg r'"
      using refresh_Some [OF new] by (intro fresh_attempts [OF assms(2)]) (simp add: refreshed_record_def)
    from put_attempts [OF assms(1) this] Some new show ?thesis by (simp add: enqueue_envelope_def)
  qed
qed

lemma enqueue_attempts:
  "outbox_attempts_ok cfg f \<Longrightarrow> 0 < ds_max_attempts cfg \<Longrightarrow>
     outbox_attempts_ok cfg (snd (enqueue_envelopes es f))"
  by (induction es arbitrary: f) (auto simp: prod.case_eq_if enqueue_one_attempts)

lemma supersede_attempts:
  "outbox_attempts_ok cfg f \<Longrightarrow> outbox_attempts_ok cfg (snd (supersede_records at reasons f))"
proof (induction at reasons f rule: supersede_records.induct)
  case (2 at i reason reasons f)
  show ?case
  proof (cases "map_of (df_delivery f) i")
    case None
    with 2 show ?thesis by simp
  next
    case (Some q)
    show ?thesis
    proof (cases "dr_delivery_status q \<in> {''delivered'', ''superseded''}")
      case True
      with 2(2) [OF Some True] 2(4) Some show ?thesis by simp
    next
      case False
      have "outbox_attempts_ok cfg (df_put i (superseded_record reason at q) f)"
        using 2(4) Some by (auto simp: outbox_attempts_ok_def attempts_ok_def superseded_record_def
            is_pending_record_def)
      with False Some 2(3) [OF Some False refl] show ?thesis
        by (simp add: Let_def prod.case_eq_if)
    qed
  qed
qed simp

lemma requeue_attempts:
  assumes "outbox_ok f" and "outbox_attempts_ok cfg f" and "0 < ds_max_attempts cfg"
  shows "outbox_attempts_ok cfg (snd (requeue_transport_failures reason at f))"
  using assms(2) fresh_attempts [OF assms(3), of "requeued_record reason at r" for r]
  by (auto simp: outbox_attempts_ok_def requeue_lookup [OF assms(1)] requeued_record_def)

lemma worker_attempts:
  assumes "outbox_ok (dw_outbox w)" and "outbox_attempts_ok (de_cfg env) (dw_outbox w)"
    and "process_next_ready env sid w = (res, w')"
  shows "outbox_attempts_ok (de_cfg env) (dw_outbox w')"
  using process_next_ready_versions [OF assms(3)]
proof (elim disjE exE conjE)
  fix r us assume r: "next_ready_record (de_now env) sid (dw_outbox w) = Some r"
    and us: "list_all (version env r) us" "dw_outbox w' = put_all us (dw_outbox w)"
  have at: "attempts_ok (de_cfg env) r"
    using assms(2) outbox_ok_value [OF assms(1) next_ready_mem(1) [OF r]]
    by (auto simp: outbox_attempts_ok_def)
  have "attempts_ok (de_cfg env) v" if "v \<in> set us" for v
    using version_attempts [OF _ next_ready_mem(2) [OF r] at] us(1) that by (auto simp: list_all_iff)
  then show ?thesis
    using assms(2) us put_all_other [OF versions_same_place [OF us(1)]]
      put_all_own [OF versions_same_place [OF us(1)], of "dw_outbox w"]
    unfolding outbox_attempts_ok_def by (metis last_in_set option.inject)
qed (use assms in simp)

lemma delivery_reachable_attempts:
  "delivery_reachable cfg w \<Longrightarrow> 0 < ds_max_attempts cfg \<Longrightarrow> outbox_attempts_ok cfg (dw_outbox w)"
proof (induction rule: delivery_reachable.induct)
  case (start w)
  then show ?case by (simp add: outbox_attempts_ok_def empty_delivery_file_def)
next
  case (step w w')
  note ok = outbox_reachable_ok [OF delivery_reachable_outbox [OF step(1)]]
  from step(2) show ?case
  proof cases
    case (work env sid)
    with worker_attempts [OF ok, of env] step show ?thesis by (metis surjective_pairing)
  next
    case reserve
    with step show ?thesis by (simp add: reserve_outbox_seq_def outbox_attempts_ok_def)
  qed (use step ok in \<open>simp_all add: enqueue_attempts requeue_attempts supersede_attempts\<close>)
qed

end
