(* ===== verification/DeliveryProperties.thy ===== *)
theory DeliveryProperties
  imports DeliveryPromises
begin

text \<open>
  The properties of the delivery outbox and its worker, each with a run at which it applies.
\<close>

section \<open>What is left to do\<close>

text \<open>
  The attempts that waiting records have left. Every call that takes a record lowers it, unless
  the record is put off because someone works at the machine.
\<close>

definition attempts_left :: "delivery_settings \<Rightarrow> delivery_record \<Rightarrow> nat" where
  "attempts_left cfg r =
     (if is_pending_record r then nat (ds_max_attempts cfg - dr_delivery_attempt r) else 0)"

definition delivery_budget :: "delivery_settings \<Rightarrow> delivery_file \<Rightarrow> nat" where
  "delivery_budget cfg f = sum_list (map (attempts_left cfg) (list_delivery_records f))"

definition put_off :: "delivery_record \<Rightarrow> bool" where
  "put_off u \<longleftrightarrow> dr_delivery_status u = ''retrying'' \<and>
     dr_failure_code u = Some ''suppressed_local_manual_activity''"

fun run_worker ::
    "delivery_env list \<Rightarrow> delivery_world \<Rightarrow> delivery_record list \<times> delivery_world" where
  "run_worker [] w = ([], w)"
| "run_worker (env # envs) w =
     (case process_next_ready env None w of
        (Inr (Some u), w1) \<Rightarrow> (case run_worker envs w1 of (us, w2) \<Rightarrow> (u # us, w2))
      | (_, w1) \<Rightarrow> run_worker envs w1)"

lemma sum_dict_set:
  fixes c :: "'r \<Rightarrow> nat"
  shows "map_of d k = Some r0 \<Longrightarrow>
     sum_list (map c (dict_values (dict_set k u d))) + c r0 = sum_list (map c (dict_values d)) + c u"
  by (induction d) (auto split: if_splits)

lemma budget_update:
  assumes "map_of (df_delivery f) (dr_envelope_id u) = Some r0"
  shows "delivery_budget cfg (snd (update_delivery_record u f)) + attempts_left cfg r0 =
    delivery_budget cfg f + attempts_left cfg u"
  using sum_dict_set [OF assms, of "attempts_left cfg" u]
  by (simp add: delivery_budget_def list_delivery_records_def o_def)

lemma outcome_left:
  assumes "outcome env r v" and "is_pending_record r" and "attempts_ok (de_cfg env) r"
  shows "attempts_left (de_cfg env) v \<le> attempts_left (de_cfg env) r \<and>
    (\<not> put_off v \<longrightarrow> attempts_left (de_cfg env) v < attempts_left (de_cfg env) r)"
  using assms by (cases rule: outcome.cases)
    (auto simp: attempts_left_def attempts_ok_def is_pending_record_def put_off_def outcome_record_defs)

lemma routed_left: "routed env r v \<Longrightarrow> attempts_left cfg v = attempts_left cfg r"
  using routed_pending routed_attempts(2) by (fastforce simp: attempts_left_def)

lemma version_left:
  assumes "version env r v" and "is_pending_record r" and "attempts_ok (de_cfg env) r"
  shows "attempts_left (de_cfg env) v \<le> attempts_left (de_cfg env) r"
  using assms(1) unfolding version_def
proof (elim disjE exE conjE)
  assume "routed env r v"
  then show ?thesis by (simp add: routed_left)
next
  fix r1 assume r1: "routed env r r1" and o: "outcome env r1 v"
  from outcome_left [OF o] routed_attempts [OF r1] routed_left [OF r1] assms(2,3) show ?thesis by simp
qed

lemma put_all_budget:
  "map_of (df_delivery f) (dr_envelope_id r) = Some r0 \<Longrightarrow> list_all (same_place r) us \<Longrightarrow>
     delivery_budget cfg (put_all us f) + attempts_left cfg r0 =
       delivery_budget cfg f + attempts_left cfg (last (r0 # us))"
proof (induction us arbitrary: f r0)
  case (Cons u us)
  let ?f = "snd (update_delivery_record u f)"
  have u: "dr_envelope_id u = dr_envelope_id r" using Cons.prems(2) by (simp add: same_place_def)
  have "delivery_budget cfg ?f + attempts_left cfg r0 = delivery_budget cfg f + attempts_left cfg u"
    using Cons.prems(1) by (intro budget_update) (simp add: u)
  moreover have "delivery_budget cfg (put_all us ?f) + attempts_left cfg u =
      delivery_budget cfg ?f + attempts_left cfg (last (u # us))"
    using Cons.prems(2) by (intro Cons.IH) (simp_all add: u)
  ultimately show ?case by simp
qed simp

lemma worker_budget:
  assumes "outbox_ok (dw_outbox w)" and "outbox_attempts_ok cfg (dw_outbox w)" and "de_cfg env = cfg"
    and "process_next_ready env sid w = (res, w')"
  shows "delivery_budget cfg (dw_outbox w') \<le> delivery_budget cfg (dw_outbox w)"
  using process_next_ready_versions [OF assms(4)]
proof (elim disjE exE conjE)
  fix r us assume r: "next_ready_record (de_now env) sid (dw_outbox w) = Some r"
    and us: "list_all (version env r) us" "dw_outbox w' = put_all us (dw_outbox w)"
  have m: "map_of (df_delivery (dw_outbox w)) (dr_envelope_id r) = Some r"
    by (rule outbox_ok_value [OF assms(1) next_ready_mem(1) [OF r]])
  with assms(2,3) have a: "attempts_ok (de_cfg env) r" by (auto simp: outbox_attempts_ok_def)
  have "attempts_left cfg (last (r # us)) \<le> attempts_left cfg r"
    using us(1) version_left [OF _ next_ready_mem(2) [OF r] a] assms(3)
    by (auto simp: list_all_iff)
  with put_all_budget [OF m versions_same_place [OF us(1)], of cfg] us(2) show ?thesis by simp
qed simp

text \<open>After a returning call the table holds the returned record in its place.\<close>

lemma took_route_lookup:
  assumes "took_route env r r1 w w1" and "outbox_ok (dw_outbox w)"
    and "map_of (df_delivery (dw_outbox w)) (dr_envelope_id r) = Some r"
  shows "map_of (df_delivery (dw_outbox w1)) =
      (map_of (df_delivery (dw_outbox w)))(dr_envelope_id r \<mapsto> r1)" and "same_place r r1"
proof -
  from assms(1) have "routed env r r1" by (simp add: took_route_def)
  then show "same_place r r1" by (rule routed_same_place)
  then show "map_of (df_delivery (dw_outbox w1)) =
      (map_of (df_delivery (dw_outbox w)))(dr_envelope_id r \<mapsto> r1)"
    using assms by (auto simp: took_route_def same_place_def fun_upd_idem)
qed

lemma worked_lookup:
  assumes "worked env r w u w'" and "outbox_ok (dw_outbox w)"
    and "map_of (df_delivery (dw_outbox w)) (dr_envelope_id r) = Some r"
  shows "map_of (df_delivery (dw_outbox w')) =
      (map_of (df_delivery (dw_outbox w)))(dr_envelope_id r \<mapsto> u)"
    and "\<exists>r1. routed env r r1 \<and> outcome env r1 u" and "dr_envelope_id u = dr_envelope_id r"
proof -
  have "map_of (df_delivery (dw_outbox w')) =
      (map_of (df_delivery (dw_outbox w)))(dr_envelope_id r \<mapsto> u) \<and>
      (\<exists>r1. routed env r r1 \<and> outcome env r1 u) \<and> dr_envelope_id u = dr_envelope_id r"
    using assms(1)
  proof (cases rule: worked.cases)
    case kept_back
    with outcome_same_place [of env r u] show ?thesis
      by (auto simp: ends_def same_place_def intro: routed.same)
  next
    case (duplicate r1 w1)
    with took_route_lookup [OF duplicate(1) assms(2,3)] outcome_same_place [of env r1 u] show ?thesis
      by (auto simp: ends_def same_place_def took_route_def)
  next
    case (sent r1 w1)
    with took_route_lookup [OF sent(1) assms(2,3)] outcome_same_place [of env r1 u] show ?thesis
      by (auto simp: ends_def same_place_def took_route_def)
  qed
  then show "map_of (df_delivery (dw_outbox w')) =
      (map_of (df_delivery (dw_outbox w)))(dr_envelope_id r \<mapsto> u)"
    and "\<exists>r1. routed env r r1 \<and> outcome env r1 u" and "dr_envelope_id u = dr_envelope_id r"
    by blast+
qed

lemma worked_budget:
  assumes "worked env r w u w'" and "outbox_ok (dw_outbox w)"
    and "map_of (df_delivery (dw_outbox w)) (dr_envelope_id r) = Some r"
    and "is_pending_record r" and "attempts_ok (de_cfg env) r" and "\<not> put_off u"
  shows "delivery_budget (de_cfg env) (dw_outbox w') < delivery_budget (de_cfg env) (dw_outbox w)"
proof -
  let ?b = "delivery_budget (de_cfg env)" and ?l = "attempts_left (de_cfg env)"
  have left: "?l u < ?l r" if r1: "routed env r r1" and o: "outcome env r1 u" for r1
    using outcome_left [OF o] routed_attempts [OF r1] routed_left [OF r1] assms(4-6) by simp
  have end1: "?b (dw_outbox w') + ?l r = ?b (dw_outbox w) + ?l u" if e: "ends env r w u w'"
    using e budget_update [of "dw_outbox w" u r] assms(3) outcome_same_place [of env r u]
    by (simp add: ends_def same_place_def)
  have end2: "?b (dw_outbox w') + ?l r = ?b (dw_outbox w) + ?l u"
    if t: "took_route env r r1 w w1" and e: "ends env r1 w1 u w'" for r1 w1
  proof -
    note l = took_route_lookup [OF t assms(2,3)]
    have "routed env r r1" using t by (simp add: took_route_def)
    then have "?l r1 = ?l r" by (rule routed_left)
    moreover have "?b (dw_outbox w1) + ?l r = ?b (dw_outbox w) + ?l r1"
      using t budget_update [of "dw_outbox w" r1 r] assms(3) l(2)
      by (auto simp: took_route_def same_place_def)
    moreover have "?b (dw_outbox w') + ?l r1 = ?b (dw_outbox w1) + ?l u"
      using e budget_update [of "dw_outbox w1" u r1] l outcome_same_place [of env r1 u]
      by (simp add: ends_def same_place_def)
    ultimately show ?thesis by simp
  qed
  from assms(1) show ?thesis
  proof (cases rule: worked.cases)
    case kept_back
    with left [OF routed.same] end1 show ?thesis by (simp add: ends_def)
  next
    case (duplicate r1 w1)
    with left [of r1] end2 [OF duplicate(1,2)] show ?thesis by (simp add: ends_def took_route_def)
  next
    case (sent r1 w1)
    with left [of r1] end2 [OF sent(1,3)] show ?thesis by (simp add: ends_def took_route_def)
  qed
qed

lemma run_worker_budget:
  assumes "outbox_reachable (dw_outbox w)" and "outbox_attempts_ok cfg (dw_outbox w)"
    and "list_all (\<lambda>env. de_cfg env = cfg) envs" and "run_worker envs w = (us, w')"
  shows "length (filter (\<lambda>u. \<not> put_off u) us) + delivery_budget cfg (dw_outbox w') \<le>
    delivery_budget cfg (dw_outbox w)"
  using assms
proof (induction envs arbitrary: w us)
  case (Cons env envs)
  obtain res w1 where p: "process_next_ready env None w = (res, w1)" by fastforce
  note ok = outbox_reachable_ok [OF Cons.prems(1)]
  have cfg: "de_cfg env = cfg" using Cons.prems(3) by simp
  have w1: "outbox_reachable (dw_outbox w1)" by (rule worker_reachable [OF Cons.prems(1) p])
  have a1: "outbox_attempts_ok cfg (dw_outbox w1)"
    using worker_attempts [OF ok _ p] Cons.prems(2) cfg by simp
  have le: "delivery_budget cfg (dw_outbox w1) \<le> delivery_budget cfg (dw_outbox w)"
    by (rule worker_budget [OF ok Cons.prems(2) cfg p])
  show ?case
  proof (cases "\<exists>u. res = Inr (Some u)")
    case True
    then obtain u where res: "res = Inr (Some u)" by blast
    obtain vs w2 where run: "run_worker envs w1 = (vs, w2)" by fastforce
    with Cons.prems(4) p res have us: "us = u # vs" "w' = w2" by auto
    from Cons.IH [OF w1 a1 _ run [folded us(2)]] Cons.prems(3)
    have ih: "length (filter (\<lambda>u. \<not> put_off u) vs) + delivery_budget cfg (dw_outbox w') \<le>
        delivery_budget cfg (dw_outbox w1)" by simp
    have "delivery_budget cfg (dw_outbox w1) < delivery_budget cfg (dw_outbox w)" if "\<not> put_off u"
    proof -
      obtain r where r: "next_ready_record (de_now env) None (dw_outbox w) = Some r"
        and wk: "worked env r w u w1"
        using process_next_ready_Inr [OF p [unfolded res]] by blast
      have m: "map_of (df_delivery (dw_outbox w)) (dr_envelope_id r) = Some r"
        by (rule outbox_ok_value [OF ok next_ready_mem(1) [OF r]])
      with Cons.prems(2) cfg have "attempts_ok (de_cfg env) r" by (auto simp: outbox_attempts_ok_def)
      from worked_budget [OF wk ok m next_ready_mem(2) [OF r] this that] cfg show ?thesis by simp
    qed
    with ih le us show ?thesis by auto
  next
    case False
    with Cons.prems(4) p have "run_worker envs w1 = (us, w')"
      by (auto split: sum.splits option.splits)
    from Cons.IH [OF w1 a1 _ this] Cons.prems(3) le show ?thesis by simp
  qed
qed simp

section \<open>Waiting for a retry\<close>

lemma retry_due_iso:
  assumes "astimezone_utc t = Inr n" and "dr_next_retry_at u = Some (iso_z n)"
  shows "retry_due now u \<longleftrightarrow> t - t mod 1000000 \<le> now"
proof -
  from assms(1) have "in_range t" "n = t" by (auto simp: astimezone_utc_def split: if_splits)
  with assms(2) parse_instant_iso_z [of t] show ?thesis by (simp add: retry_due_def)
qed

section \<open>Duplicates\<close>

lemma duplicate_among_None:
  "duplicate_among cfg spine r fp cs = Inr None \<Longrightarrow> c \<in> set cs \<Longrightarrow>
     dr_envelope_id c \<noteq> dr_envelope_id r \<Longrightarrow> dr_delivery_status c = ''delivered'' \<Longrightarrow>
     duplicate_delivery_fingerprint c = Some fp \<Longrightarrow>
     within_duplicate_suppression_window cfg r c = Inr False \<or>
       approval_duplicate_suppression_should_be_skipped spine r c"
  by (induction cs) (auto split: if_splits sum.splits)

text \<open>What the duplicate check reads of a record.\<close>

lemma same_content:
  assumes "dr_envelope_payload u = dr_envelope_payload r" and "same_place r u"
  shows "duplicate_delivery_fingerprint u = duplicate_delivery_fingerprint r"
    and "within_duplicate_suppression_window cfg u c = within_duplicate_suppression_window cfg r c"
    and "approval_duplicate_suppression_should_be_skipped spine u c =
      approval_duplicate_suppression_should_be_skipped spine r c"
proof -
  from assms(2) have eqs: "dr_project_id u = dr_project_id r" "dr_session_id u = dr_session_id r"
    "dr_native_thread_id u = dr_native_thread_id r" "dr_created_at u = dr_created_at r"
    by (simp_all add: same_place_def)
  note reads = effective_native_thread_id_def uses_sticky_duplicate_suppression_def approval_id_of_def
    current_pending_approval_ids_def
  show "duplicate_delivery_fingerprint u = duplicate_delivery_fingerprint r"
    unfolding duplicate_delivery_fingerprint_def reads assms(1) eqs ..
  show "within_duplicate_suppression_window cfg u c = within_duplicate_suppression_window cfg r c"
    unfolding within_duplicate_suppression_window_def reads assms(1) eqs ..
  show "approval_duplicate_suppression_should_be_skipped spine u c =
      approval_duplicate_suppression_should_be_skipped spine r c"
    unfolding approval_duplicate_suppression_should_be_skipped_def reads assms(1) eqs ..
qed

lemma outcome_payload: "outcome env r u \<Longrightarrow> dr_envelope_payload u = dr_envelope_payload r"
  by (cases rule: outcome.cases) (auto simp: outcome_record_defs)

section \<open>A run\<close>

definition example_cfg :: delivery_settings where
  "example_cfg = \<lparr>ds_max_attempts = 3, ds_initial_backoff = 5000000, ds_progress_max_age = 600000000,
    ds_duplicate_window = 600000000, ds_quiet_window = 600000000, ds_transport = ''feishu'',
    ds_receive_id = None, ds_receive_id_type = ''chat_id''\<rparr>"

definition example_result :: "string \<Rightarrow> delivery_result" where
  "example_result status =
     \<lparr>at_delivery_status = status, at_accepted = (status = ''delivered''), at_receipt_id = None,
      at_received_at = None, at_failure_code = None, at_status_code = None\<rparr>"

text \<open>2026-01-01T00:00:10Z\<close>
definition example_now :: int where "example_now = 63902908810000000"

definition example_env :: "string \<Rightarrow> int \<Rightarrow> delivery_env" where
  "example_env status now =
     \<lparr>de_cfg = example_cfg, de_spine = None, de_deliver = (\<lambda>_. Inr (example_result status)),
      de_sha = (\<lambda>_. []), de_clock = (\<lambda>_. ''2026-01-01T00:00:10Z''), de_now = now\<rparr>"

definition example_notice :: "string \<Rightarrow> string \<Rightarrow> envelope" where
  "example_notice i v = (example_envelope i v)\<lparr>en_rest := [(''event_id'', JStr ''event:1''),
     (''severity'', JStr ''info''), (''notification_kind'', JStr ''approval_result'')]\<rparr>"

definition example_waiting :: delivery_record where
  "example_waiting = outbox_record (example_notice ''e1'' ''fact-v1'') 1"

definition example_world :: delivery_world where
  "example_world =
     \<lparr>dw_outbox = snd (enqueue_envelopes [example_notice ''e1'' ''fact-v1''] empty_delivery_file),
      dw_session = None\<rparr>"

lemma example_world_outbox:
  "dw_outbox example_world = \<lparr>df_next_seq = 2, df_decision = [(''e1'', example_waiting)], df_delivery = [(''e1'', example_waiting)]\<rparr>"
  by (simp add: example_world_def enqueue_envelope_def empty_delivery_file_def Let_def example_notice_def
     example_envelope_def df_put_new_def df_put_def outbox_record_def example_waiting_def)

lemma example_payload:
  "dr_envelope_payload example_waiting = dump_envelope (example_notice ''e1'' ''fact-v1'')"
  by (simp add: example_waiting_def outbox_record_def)

lemma example_next: "next_ready_record now None (dw_outbox example_world) = Some example_waiting"
  by (simp add: next_ready_record_def list_pending_delivery_records_def list_delivery_records_def
   example_world_outbox is_pending_record_def retry_due_def parse_instant_def example_waiting_def outbox_record_def or_empty_def)

lemma example_process: "process_record (example_env s now) example_waiting example_world = finish_delivery (example_env s now) example_waiting (example_result s) example_world"
  by (simp add: process_record_def example_payload dump_envelope_def example_notice_def example_envelope_def
   stale_progress_summary_def suppressed_by_notification_policy_def approval_prompt_is_nonactionable_def decision_notification_is_nonactionable_def
   routine_recovery_notification_is_nonactionable_def
   Let_def strip_def lstrip_def rstrip_def is_space_def char_code_def inactive_project_suppression_reason_def example_env_def suppressed_for_local_manual_activity_def route_and_send_def apply_dynamic_delivery_route_def example_cfg_def
    or_empty_def example_world_def duplicate_delivered_record_def duplicate_delivery_fingerprint_def send_record_def for_notification_def notification_payload_def
    record_notification_announced_def record_notification_event_def on_session_def op_bind_def)

lemma example_env_simps [simp]:
  "de_cfg (example_env s now) = example_cfg" "de_spine (example_env s now) = None"
  "de_now (example_env s now) = now" "de_deliver (example_env s now) r = Inr (example_result s)"
  by (simp_all add: example_env_def)

lemma example_now_later: "astimezone_utc (example_now + 5000000) = Inr (example_now + 5000000)"
  by (simp add: astimezone_utc_def in_range_def example_now_def day_micros_def max_ordinal_def
      ymd_ordinal_def days_before_year_def days_before_month_def is_leap_def)

definition example_retrying :: delivery_record where
  "example_retrying = retrying_record example_now None (iso_z (example_now + 5000000)) example_waiting"

lemma example_retry:
  "process_next_ready (example_env ''retryable_failure'' example_now) None example_world =
     (Inr (Some example_retrying),
      example_world\<lparr>dw_outbox := snd (update_delivery_record example_retrying (dw_outbox example_world))\<rparr>)"
proof -
  have "dr_delivery_attempt example_waiting = 0" by (simp add: example_waiting_def outbox_record_def)
  moreover have "dr_delivery_status example_retrying = ''retrying''"
    by (simp add: example_retrying_def retrying_record_def)
  moreover have "dw_session example_world = None" by (simp add: example_world_def)
  ultimately show ?thesis
    unfolding process_next_ready_def
    by (simp add: example_next example_process op_bind_def finish_delivery_def Let_def
        example_result_def apply_retryable_failure_def example_cfg_def
        backoff_delay_def example_now_later store_update_def example_retrying_def
        update_delivery_record_def for_notification_def record_notification_delivery_result_def
        record_notification_requeued_def record_notification_event_def on_session_def or_empty_def
        split: option.split)
qed

definition example_delivered :: delivery_record where
  "example_delivered = delivered_record example_now (example_result ''delivered'') example_waiting"

lemma example_delivery:
  "process_next_ready (example_env ''delivered'' example_now) None example_world =
     (Inr (Some example_delivered),
      example_world\<lparr>dw_outbox := snd (update_delivery_record example_delivered (dw_outbox example_world))\<rparr>)"
proof -
  have "dw_session example_world = None" by (simp add: example_world_def)
  then show ?thesis
    unfolding process_next_ready_def
    by (simp add: example_next example_process op_bind_def finish_delivery_def Let_def
        example_result_def store_update_def example_delivered_def
        update_delivery_record_def for_notification_def record_notification_delivery_result_def
        record_notification_event_def on_session_def or_empty_def split: option.split)
qed

lemma example_world_reachable: "delivery_reachable example_cfg example_world"
proof -
  have "delivery_reachable example_cfg \<lparr>dw_outbox = empty_delivery_file, dw_session = None\<rparr>"
    by (rule delivery_reachable.start) simp
  from delivery_reachable.step [OF this delivery_step.enqueue] show ?thesis
    unfolding example_world_def by (metis (no_types, lifting) delivery_world.select_convs(1) delivery_world.update_convs(1))
qed

section \<open>Properties\<close>

text \<open>
  Note: A call of the worker keeps the outbox well formed and numbered, and changes at most the
  record it took: if none is ready it does nothing.
\<close>

theorem worker_touches_one:
  assumes "outbox_reachable (dw_outbox w)" and "process_next_ready env sid w = (res, w')"
  shows "outbox_reachable (dw_outbox w') \<and>
    (case next_ready_record (de_now env) sid (dw_outbox w) of
       None \<Rightarrow> res = Inr None \<and> w' = w
     | Some r \<Rightarrow> \<forall>k. k \<noteq> dr_envelope_id r \<longrightarrow>
         get_delivery_record k (dw_outbox w') = get_delivery_record k (dw_outbox w))"
  using worker_reachable [OF assms] worker_other [OF outbox_reachable_ok [OF assms(1)] assms(2)]
  unfolding get_delivery_record_def by blast

theorem worker_touches_one_witness:
  "outbox_reachable (dw_outbox (snd (process_next_ready (example_env ''delivered'' example_now) None
     example_world)))"
  using worker_touches_one [OF delivery_reachable_outbox [OF example_world_reachable] example_delivery]
  unfolding example_delivery by simp


definition example_closed_world :: delivery_world where
  "example_closed_world =
     (let w = \<lparr>dw_outbox = snd (enqueue_envelopes
            [(example_envelope ''a1'' ''fact-v1'')\<lparr>en_envelope_type := ''approval''\<rparr>]
            empty_delivery_file), dw_session = None\<rparr>
      in w\<lparr>dw_outbox := snd (supersede_records ''t'' [(''a1'', ''expired'')] (dw_outbox w))\<rparr>)"

lemma example_closed_reachable: "delivery_reachable cfg example_closed_world"
proof -
  let ?e = "(example_envelope ''a1'' ''fact-v1'')\<lparr>en_envelope_type := ''approval''\<rparr>"
  let ?w = "\<lparr>dw_outbox = snd (enqueue_envelopes [?e] empty_delivery_file), dw_session = None\<rparr>"
  have "delivery_reachable cfg \<lparr>dw_outbox = empty_delivery_file, dw_session = None\<rparr>"
    by (rule delivery_reachable.start) simp
  from delivery_reachable.step [OF this delivery_step.enqueue [where es = "[?e]"]]
  have "delivery_reachable cfg ?w"
    by (metis (no_types, lifting) delivery_world.select_convs(1) delivery_world.update_convs(1))
  from delivery_reachable.step [OF this delivery_step.supersede] show ?thesis
    unfolding example_closed_world_def Let_def .
qed


text \<open>
  C25: Attempts are bounded: a record never counts more attempts than the configured maximum, and
  a record that still waits has fewer.
\<close>

theorem attempts_bounded:
  assumes "delivery_reachable cfg w" and "0 < ds_max_attempts cfg"
    and "get_delivery_record k (dw_outbox w) = Some r"
  shows "0 \<le> dr_delivery_attempt r \<and> dr_delivery_attempt r \<le> ds_max_attempts cfg \<and>
    (is_pending_record r \<longrightarrow> dr_delivery_attempt r < ds_max_attempts cfg)"
  using delivery_reachable_attempts [OF assms(1,2)] assms(3)
  by (simp add: outbox_attempts_ok_def attempts_ok_def get_delivery_record_def)

theorem attempts_bounded_witness: "dr_delivery_attempt example_waiting < 3"
proof -
  have g: "get_delivery_record ''e1'' (dw_outbox example_world) = Some example_waiting"
    by (simp add: get_delivery_record_def example_world_outbox)
  have "0 < ds_max_attempts example_cfg" by (simp add: example_cfg_def)
  from attempts_bounded [OF example_world_reachable this g] show ?thesis
    by (auto simp: example_cfg_def is_pending_record_def example_waiting_def outbox_record_def)
qed



text \<open>
  Note: Sessions are served in order. The record that is taken waits and is due, and what waits
  before it in its session is only put off for a quiet machine. If no record is taken, every
  waiting record that is due stands behind one of its session that is not.
\<close>

theorem sessions_in_order:
  assumes "outbox_reachable f"
  shows "case next_ready_record now sid f of
      Some r \<Rightarrow> r \<in> set (list_pending_delivery_records sid f) \<and> retry_due now r \<and>
        list_all (\<lambda>p. dr_session_id p = dr_session_id r \<longrightarrow> delivery_key p < delivery_key r \<longrightarrow>
            \<not> retry_due now p \<and> dr_failure_code p = Some ''suppressed_local_manual_activity'')
          (list_pending_delivery_records sid f)
    | None \<Rightarrow>
        list_all (\<lambda>r. retry_due now r \<longrightarrow>
            list_ex (\<lambda>p. dr_session_id p = dr_session_id r \<and> delivery_key p < delivery_key r \<and>
              \<not> retry_due now p) (list_pending_delivery_records sid f))
          (list_pending_delivery_records sid f)"
proof -
  let ?L = "list_pending_delivery_records sid f"
  have "distinct (map dr_outbox_seq (filter (\<lambda>r. is_pending_record r \<and>
      (case sid of None \<Rightarrow> True | Some s \<Rightarrow> dr_session_id r = s)) (list_delivery_records f)))"
    using outbox_ok_seqs [OF outbox_reachable_ok [OF assms]] by (rule distinct_map_filter)
  then have strict: "sorted_wrt (\<lambda>r s. delivery_key r < delivery_key s) ?L"
    unfolding list_pending_delivery_records_def by (intro sort_key_strict distinct_delivery_keys)
  show ?thesis
  proof (cases "next_ready_record now sid f")
    case (Some r)
    from next_ready_split [OF Some] obtain pre post where L: "?L = pre @ r # post" "retry_due now r"
      and pre: "\<forall>p \<in> set pre. dr_session_id p = dr_session_id r \<longrightarrow>
       \<not> retry_due now p \<and> dr_failure_code p = Some ''suppressed_local_manual_activity''" by blast
    have "p \<in> set pre" if "p \<in> set ?L" "delivery_key p < delivery_key r" for p
      using strict that by (auto simp: L(1) sorted_wrt_append)
    with Some L pre show ?thesis by (auto simp: list_all_iff)
  next
    case None
    have "\<exists>p \<in> set ?L. dr_session_id p = dr_session_id r \<and> delivery_key p < delivery_key r \<and>
        \<not> retry_due now p" if r: "r \<in> set ?L" "retry_due now r" for r
    proof -
      from r(1) obtain pre post where L: "?L = pre @ r # post" by (auto simp: in_set_conv_decomp)
      have before: "delivery_key p < delivery_key r" "p \<in> set ?L" if "p \<in> set pre" for p
        using strict that by (auto simp: L sorted_wrt_append)
      show ?thesis
      proof (cases sid)
        case None
        then have "next_ready_in now [] ?L = None"
          using \<open>next_ready_record now sid f = None\<close> by (auto simp: next_ready_record_def split: list.splits)
        from next_ready_in_None [OF this L r(2)] before show ?thesis by auto
      next
        case (Some s)
        obtain h t where h: "?L = h # t" using L by (cases pre) auto
        with None Some have "\<not> retry_due now h" by (simp add: next_ready_record_def split: if_splits)
        with r(2) h L have "h \<in> set pre" by (cases pre) auto
        moreover have "dr_session_id h = dr_session_id r"
          using Some r(1) h pending_mem [of h sid f] pending_mem [of r sid f] by simp
        ultimately show ?thesis using before \<open>\<not> retry_due now h\<close> by blast
      qed
    qed
    with None show ?thesis by (simp add: list_all_iff list_ex_iff)
  qed
qed

theorem sessions_in_order_witness: "retry_due example_now example_waiting"
  using sessions_in_order [OF delivery_reachable_outbox [OF example_world_reachable],
      where now = example_now and sid = None]
  by (simp add: example_next)

text \<open>
  C28: A retry waits. A record whose attempt failed and is to be repeated has one attempt more,
  fewer than the maximum, and is not due before the backoff, which doubles with every attempt, has
  passed (to the second that the stored text can express).
\<close>

theorem retry_waits:
  assumes "outbox_reachable (dw_outbox w)" and "process_next_ready env sid w = (Inr (Some u), w')"
    and "get_delivery_record (dr_envelope_id u) (dw_outbox w) = Some r"
    and "is_pending_record u" and "dr_delivery_attempt u \<noteq> dr_delivery_attempt r"
  shows "dr_delivery_attempt u = dr_delivery_attempt r + 1 \<and>
    dr_delivery_attempt u < ds_max_attempts (de_cfg env) \<and>
    get_delivery_record (dr_envelope_id u) (dw_outbox w') = Some u \<and>
    (retry_due t u \<longleftrightarrow>
       de_now env + ds_initial_backoff (de_cfg env) * 2 ^ nat (dr_delivery_attempt r) -
         (de_now env + ds_initial_backoff (de_cfg env) * 2 ^ nat (dr_delivery_attempt r)) mod 1000000
       \<le> t)"
proof -
  note ok = outbox_reachable_ok [OF assms(1)]
  obtain r0 where r0: "next_ready_record (de_now env) sid (dw_outbox w) = Some r0"
    and wk: "worked env r0 w u w'" using process_next_ready_Inr [OF assms(2)] by blast
  have m: "map_of (df_delivery (dw_outbox w)) (dr_envelope_id r0) = Some r0"
    by (rule outbox_ok_value [OF ok next_ready_mem(1) [OF r0]])
  note l = worked_lookup [OF wk ok m]
  have r: "r0 = r" using l(3) m assms(3) by (simp add: get_delivery_record_def)
  obtain r1 where r1: "routed env r r1" and o: "outcome env r1 u" using l(2) r by blast
  from routed_pending [OF r1] have at: "dr_delivery_attempt r1 = dr_delivery_attempt r" by simp
  from o show ?thesis
  proof (cases rule: outcome.cases)
    case (retry n code)
    have "dr_next_retry_at u = Some (iso_z n)" and u: "dr_delivery_attempt u = dr_delivery_attempt r1 + 1"
      using retry(1) by (simp_all add: retrying_record_def)
    from retry_due_iso [OF retry(3) this(1), of t] show ?thesis
      using retry(2) u at l(1,3) by (simp add: backoff_delay_def get_delivery_record_def)
  qed (use assms(4,5) at in \<open>auto simp: is_pending_record_def outcome_record_defs\<close>)
qed

theorem retry_waits_witness:
  "\<not> retry_due (example_now + 4000000) example_retrying \<and>
   retry_due (example_now + 5000000) example_retrying"
proof -
  have i: "dr_envelope_id example_retrying = ''e1''"
    by (simp add: example_retrying_def retrying_record_def add_note_def example_waiting_def
        outbox_record_def example_notice_def example_envelope_def)
  have g: "get_delivery_record (dr_envelope_id example_retrying) (dw_outbox example_world) =
      Some example_waiting"
    by (simp add: get_delivery_record_def example_world_outbox i)
  have a: "dr_delivery_attempt example_waiting = 0" by (simp add: example_waiting_def outbox_record_def)
  have p: "is_pending_record example_retrying" "dr_delivery_attempt example_retrying \<noteq> dr_delivery_attempt example_waiting"
    by (simp_all add: is_pending_record_def example_retrying_def retrying_record_def add_note_def)
  note w = retry_waits [OF delivery_reachable_outbox [OF example_world_reachable] example_retry g p]
  show ?thesis
    using w [of "example_now + 4000000"] w [of "example_now + 5000000"]
    by (simp add: a example_cfg_def example_now_def)
qed


definition example_cfg_open :: delivery_settings where
  "example_cfg_open = example_cfg\<lparr>ds_duplicate_window := 0\<rparr>"

definition example_env_open :: delivery_env where
  "example_env_open = (example_env ''delivered'' example_now)\<lparr>de_cfg := example_cfg_open\<rparr>"

definition example_decision :: "string \<Rightarrow> int \<Rightarrow> delivery_record" where
  "example_decision i n = outbox_record ((example_envelope i ''fact-v1'')\<lparr>en_rest :=
     [(''notification_kind'', JStr ''decision_result''), (''decision_result'', JStr ''blocked'')]\<rparr>) n"

definition example_decisions :: delivery_world where
  "example_decisions = \<lparr>dw_outbox = snd (enqueue_envelopes
       (map (\<lambda>i. (example_envelope i ''fact-v1'')\<lparr>en_rest :=
          [(''notification_kind'', JStr ''decision_result''), (''decision_result'', JStr ''blocked'')]\<rparr>)
         [''e1'', ''e2'']) empty_delivery_file), dw_session = None\<rparr>"

lemma example_decisions_delivery:
  "df_delivery (dw_outbox example_decisions) = [(''e1'', example_decision ''e1'' 1), (''e2'', example_decision ''e2'' 2)]"
  by (simp add: example_decisions_def enqueue_envelope_def empty_delivery_file_def Let_def example_decision_def example_envelope_def)

lemma example_env_open_simps [simp]:
  "de_cfg example_env_open = example_cfg_open" "de_spine example_env_open = None"
  "de_now example_env_open = example_now" "de_deliver example_env_open r = Inr (example_result ''delivered'')"
  by (simp_all add: example_env_open_def)

lemma example_decision_payload:
  "dr_envelope_payload (example_decision i n) = dump_envelope ((example_envelope i ''fact-v1'')\<lparr>en_rest :=
     [(''notification_kind'', JStr ''decision_result''), (''decision_result'', JStr ''blocked'')]\<rparr>)"
  by (simp add: example_decision_def outbox_record_def)

lemma example_decision_sent:
  assumes "dw_session w = None" and "duplicate_delivered_record example_cfg_open None (example_decision i n) (dw_outbox w) = Inr None"
  shows "process_record example_env_open (example_decision i n) w =
    (Inr (delivered_record example_now (example_result ''delivered'') (example_decision i n)),
     w\<lparr>dw_outbox := snd (update_delivery_record (delivered_record example_now (example_result ''delivered'') (example_decision i n)) (dw_outbox w))\<rparr>)"
proof -
  have r: "process_record example_env_open (example_decision i n) w =
      route_and_send example_env_open (example_decision i n) w"
    by (simp add: process_record_def example_decision_payload dump_envelope_def example_envelope_def
     stale_progress_summary_def suppressed_by_notification_policy_def approval_prompt_is_nonactionable_def decision_notification_is_nonactionable_def
     routine_recovery_notification_is_nonactionable_def op_bind_def
     Let_def strip_def lstrip_def rstrip_def is_space_def char_code_def inactive_project_suppression_reason_def suppressed_for_local_manual_activity_def)
  have "apply_dynamic_delivery_route example_cfg_open example_now (example_decision i n) w = (Inr (example_decision i n), w)"
    using assms(1) by (simp add: apply_dynamic_delivery_route_def example_cfg_open_def example_cfg_def or_empty_def strip_def lstrip_def rstrip_def is_space_def char_code_def Let_def)
  with assms show ?thesis unfolding r route_and_send_def send_record_def
    by (simp add: op_bind_def for_notification_def record_notification_announced_def record_notification_event_def on_session_def Let_def
     finish_delivery_def example_result_def store_update_def update_delivery_record_def record_notification_delivery_result_def or_empty_def
      split: option.split)
qed

lemma example_decision_fields [simp]:
  "dr_project_id (example_decision i n) = ''p''" "dr_session_id (example_decision i n) = ''session:p''"
  "effective_native_thread_id (example_decision i n) = None"
  "dr_envelope_id (example_decision i n) = i" "dr_outbox_seq (example_decision i n) = n"
  "dr_delivery_status (example_decision i n) = ''pending''" "dr_next_retry_at (example_decision i n) = None"
  "dr_fact_snapshot_version (example_decision i n) = ''fact-v1''"
  by (simp_all add: example_decision_def outbox_record_def example_envelope_def effective_native_thread_id_def
    or_empty_def strip_def lstrip_def rstrip_def Let_def dump_envelope_def jopt_def)

lemma example_fp: "\<exists>fp. \<forall>i n. duplicate_delivery_fingerprint (example_decision i n) = Some fp"
  by (simp add: duplicate_delivery_fingerprint_def Let_def example_decision_payload dump_envelope_def example_envelope_def 
    strip_def lstrip_def rstrip_def is_space_def char_code_def payload_reason_def j_or_def del: stable_json.simps)

abbreviation example_sent :: "string \<Rightarrow> int \<Rightarrow> delivery_record" where
  "example_sent i n \<equiv> delivered_record example_now (example_result ''delivered'') (example_decision i n)"

definition example_told :: delivery_world where
  "example_told = example_decisions\<lparr>dw_outbox :=
     snd (update_delivery_record (example_sent ''e1'' 1) (dw_outbox example_decisions))\<rparr>"

lemma example_decisions_fresh:
  "duplicate_delivered_record example_cfg_open None (example_decision i n) (dw_outbox example_decisions) = Inr None"
  by (simp add: duplicate_delivered_record_def list_delivery_records_def example_decisions_delivery split: option.split)

lemma example_first_told:
  "process_next_ready example_env_open None example_decisions =
     (Inr (Some (example_sent ''e1'' 1)), example_told)"
proof -
  have "next_ready_record example_now None (dw_outbox example_decisions) = Some (example_decision ''e1'' 1)"
    by (simp add: next_ready_record_def list_pending_delivery_records_def list_delivery_records_def
        example_decisions_delivery is_pending_record_def delivery_key_def retry_due_def
        parse_instant_def or_empty_def)
  moreover have "dw_session example_decisions = None" by (simp add: example_decisions_def)
  ultimately show ?thesis
    unfolding process_next_ready_def
    by (simp add: op_bind_def example_decision_sent [OF _ example_decisions_fresh] example_told_def)
qed

lemma example_sent_fields [simp]:
  "dr_envelope_id (example_sent i n) = i" "dr_delivery_status (example_sent i n) = ''delivered''"
  by (simp_all add: delivered_record_def add_note_def)

lemma example_told_delivery:
  "df_delivery (dw_outbox example_told) =
     [(''e1'', example_sent ''e1'' 1), (''e2'', example_decision ''e2'' 2)]"
  by (simp add: example_told_def example_decisions_delivery)

lemma example_sent_fp:
  "duplicate_delivery_fingerprint (example_sent i n) = duplicate_delivery_fingerprint (example_decision i n)"
  by (rule same_content(1)) (simp_all add: same_place_def delivered_record_def add_note_def)

lemma example_window:
  "within_duplicate_suppression_window example_cfg_open (example_decision i n) c = Inr False"
  by (simp add: within_duplicate_suppression_window_def example_cfg_open_def
      uses_sticky_duplicate_suppression_def example_decision_payload dump_envelope_def Let_def
      example_envelope_def strip_def lstrip_def rstrip_def is_space_def char_code_def)

lemma example_second_told:
  "process_next_ready example_env_open None example_told =
     (Inr (Some (example_sent ''e2'' 2)), example_told\<lparr>dw_outbox :=
        snd (update_delivery_record (example_sent ''e2'' 2) (dw_outbox example_told))\<rparr>)"
proof -
  obtain fp where fp: "duplicate_delivery_fingerprint (example_decision i n) = Some fp" for i n
    using example_fp by blast
  have "next_ready_record example_now None (dw_outbox example_told) = Some (example_decision ''e2'' 2)"
    by (simp add: next_ready_record_def list_pending_delivery_records_def list_delivery_records_def
        example_told_delivery is_pending_record_def retry_due_def parse_instant_def or_empty_def)
  moreover have "dw_session example_told = None" by (simp add: example_told_def example_decisions_def)
  moreover have "duplicate_delivered_record example_cfg_open None (example_decision ''e2'' 2)
      (dw_outbox example_told) = Inr None"
    by (simp add: duplicate_delivered_record_def fp list_delivery_records_def example_told_delivery
        example_sent_fp example_window)
  ultimately show ?thesis
    unfolding process_next_ready_def by (simp add: op_bind_def example_decision_sent)
qed

lemma example_told_reachable: "outbox_reachable (dw_outbox example_told)"
proof -
  have "outbox_reachable (dw_outbox example_decisions)"
    unfolding example_decisions_def
    by (simp del: enqueue_envelopes.simps) (rule outbox_reachable.step [OF outbox_reachable.start outbox_step.enqueue])
  from worker_reachable [OF this example_first_told] show ?thesis .
qed


text \<open>
  C30: A redelivery of changed content under the same attempt number raises although the message
  has gone out: the record is stored as delivered, but the session event of the attempt conflicts
  with the one already in the log, and nothing is recorded.
\<close>

theorem redelivery_conflict:
  fixes env r res w
  defines "u \<equiv> delivered_record (de_now env) res r"
    and "corr \<equiv> notification_correlation r (''attempt:'' @ str_of_int (dr_delivery_attempt r + 1))"
  assumes "dw_session w = Some s" and "notification_payload r = Some p"
    and "at_delivery_status res = ''delivered''"
    and "find (\<lambda>e. ev_event_id e = stable_id (de_sha env) ''event''
             [corr, dr_session_id r, ''notification_delivery_succeeded''])
           (list_events (Some (dr_session_id r)) (Some ''notification_delivery_succeeded'') None
             (Some corr) s) = Some e"
    and "\<not> is_legacy_subset (ev_payload e) (delivery_result_payload u p res)"
  shows "\<exists>msg w'. finish_delivery env r res w = (Inl (ValueError msg), w') \<and>
    get_delivery_record (dr_envelope_id r) (dw_outbox w') = Some u \<and>
    dr_delivery_status u = ''delivered'' \<and> dw_session w' = Some s"
proof -
  have u: "dr_envelope_id u = dr_envelope_id r" "dr_session_id u = dr_session_id r"
    "dr_delivery_attempt u = dr_delivery_attempt r + 1" "dr_delivery_status u = ''delivered''"
    by (simp_all add: u_def delivered_record_def add_note_def)
  have corr: "notification_correlation u (''attempt:'' @ str_of_int (dr_delivery_attempt u)) = corr"
    by (simp add: notification_correlation_def corr_def u)
  let ?w1 = "w\<lparr>dw_outbox := snd (update_delivery_record u (dw_outbox w))\<rparr>"
  let ?msg = "''conflicting session event for idempotency key: idem:event:'' @
    stable_id (de_sha env) ''event'' [corr, dr_session_id r, ''notification_delivery_succeeded'']"
  have "dw_session ?w1 = Some s" using assms(3) by simp
  then have "record_notification_delivery_result env u p res ?w1 = (Inl (ValueError ?msg), ?w1)"
    unfolding record_notification_delivery_result_def corr record_notification_event_def u(2)
    by (intro op_bind_Inl) (simp add: assms(5) on_session_def record_event_once_def assms(6,7) Let_def)
  then have "op_bind (for_notification (Some p) (\<lambda>d. record_notification_delivery_result env u d res))
      (\<lambda>_. op_return u) ?w1 = (Inl (ValueError ?msg), ?w1)"
    unfolding for_notification_def option.case by (rule op_bind_Inl)
  moreover have "store_update u w = (Inr u, ?w1)" by (simp only: store_update_Inr)
  ultimately have "finish_delivery env r res w = (Inl (ValueError ?msg), ?w1)"
    unfolding finish_delivery_def Let_def assms(4,5) u_def [symmetric]
    by (simp only: refl if_True op_bind_Inr)
  then show ?thesis using assms(3) u by (simp add: get_delivery_record_def)
qed

text \<open>The first delivery of the example is logged; then newer facts refresh the record.\<close>

definition example_attempt :: string where
  "example_attempt = notification_correlation example_waiting ''attempt:1''"

definition example_log :: session_store where
  "example_log = snd (record_event_once (\<lambda>_. []) ''2026-01-01T00:00:10Z''
     ''notification_delivery_succeeded'' ''p'' ''session:p'' example_attempt
     (delivery_result_payload example_delivered (dr_envelope_payload example_waiting)
       (example_result ''delivered''))
     (Some ''event:1'') [(''envelope_id'', ''e1'')] (Some ''2026-01-01T00:00:10Z'')
     empty_session_store)"

definition example_changed :: envelope where
  "example_changed = (example_notice ''e1'' ''fact-v2'')\<lparr>en_rest :=
     [(''event_id'', JStr ''event:1''), (''severity'', JStr ''critical''),
      (''notification_kind'', JStr ''approval_result'')]\<rparr>"

lemma example_log_events:
  "\<exists>e. st_events example_log = [e] \<and> ev_session_id e = ''session:p'' \<and>
     ev_event_type e = ''notification_delivery_succeeded'' \<and> ev_correlation_id e = example_attempt \<and>
     ev_event_id e = stable_id (\<lambda>_. []) ''event'' [example_attempt, ''session:p'', ''notification_delivery_succeeded''] \<and>
     ev_payload e = delivery_result_payload example_delivered (dr_envelope_payload example_waiting)
       (example_result ''delivered'')"
  by (simp add: example_log_def record_event_once_def Let_def list_events_def empty_session_store_def
      record_event_def svc_append_event_def event_draft_def validate_event_def
      controlled_session_event_types_def append_event_def or_else_def
      example_attempt_def notification_correlation_def stable_id_def seq_field_ok_def)

lemma fold_mirror:
  "jget (fold (\<lambda>k. dict_set_opt k (if jget p k = JNull then None else Some (jget p k))) ks d) k =
     (if k \<in> set ks \<and> jget p k \<noteq> JNull then jget p k else jget d k)"
  by (induction ks arbitrary: d) (auto simp: dict_set_opt_def)

lemma mirror_fields_lookup:
  "jget (mirror_fields p d) k =
     (if k \<in> set mirrored_fields \<and> jget p k \<noteq> JNull then jget p k else jget d k)"
  by (simp add: mirror_fields_def fold_mirror)

lemma example_severity:
  "jget (delivery_result_payload u p (example_result s)) ''severity'' = jget p ''severity''"
proof -
  have "''severity'' \<in> set mirrored_fields" by (simp add: mirrored_fields_def)
  then show ?thesis
    by (simp add: delivery_result_payload_def notification_payload_fields_def Let_def
        mirror_fields_lookup dict_set_opt_def example_result_def)
qed

lemma legacy_subset_jget:
  assumes "is_legacy_subset d e" and "jget d k = JStr v"
  shows "jget e k = JStr v"
proof -
  from assms(2) have "map_of d k = Some (JStr v)" by (auto simp: jget_def split: option.splits)
  then have "(k, JStr v) \<in> set d" by (rule map_of_SomeD)
  with assms(1) obtain w where "map_of e k = Some w" "json_eq (JStr v) w"
    by (fastforce simp: is_legacy_subset_def split: option.splits)
  then show ?thesis by (cases w) (auto simp: jget_def)
qed

theorem redelivery_conflict_witness:
  "\<exists>msg w'. finish_delivery (example_env ''delivered'' example_now)
       (refreshed_record example_delivered example_changed) (example_result ''delivered'')
       (example_world\<lparr>dw_session := Some example_log\<rparr>) = (Inl (ValueError msg), w') \<and>
     dw_session w' = Some example_log"
proof -
  let ?r = "refreshed_record example_delivered example_changed"
  let ?w = "example_world\<lparr>dw_session := Some example_log\<rparr>"
  obtain e where e: "st_events example_log = [e]" "ev_session_id e = ''session:p''"
    "ev_event_type e = ''notification_delivery_succeeded''" "ev_correlation_id e = example_attempt"
    "ev_event_id e = stable_id (\<lambda>_. []) ''event''
       [example_attempt, ''session:p'', ''notification_delivery_succeeded'']"
    "ev_payload e = delivery_result_payload example_delivered (dr_envelope_payload example_waiting)
       (example_result ''delivered'')"
    using example_log_events by blast
  have r: "dr_session_id ?r = ''session:p''" "dr_delivery_attempt ?r = 0" "dr_envelope_id ?r = dr_envelope_id example_waiting"
    "dr_envelope_payload ?r = dump_envelope example_changed"
    by (simp_all add: refreshed_record_def example_changed_def example_notice_def example_envelope_def
        example_delivered_def delivered_record_def add_note_def)
  have corr: "notification_correlation ?r (''attempt:'' @ str_of_int (dr_delivery_attempt ?r + 1)) = example_attempt"
  proof -
    have "str_of_int 1 = ''1''" by code_simp
    then show ?thesis
      using r(2,3) by (simp add: notification_correlation_def example_attempt_def del: refreshed_record_simps)
  qed
  have p: "notification_payload ?r = Some (dump_envelope example_changed)"
    by (simp add: notification_payload_def r) (simp add: dump_envelope_def example_changed_def
        example_notice_def example_envelope_def)
  have sev: "jget (dr_envelope_payload example_waiting) ''severity'' = JStr ''info''"
    "jget (dump_envelope example_changed) ''severity'' = JStr ''critical''"
    by (simp_all add: example_payload dump_envelope_def example_changed_def example_notice_def
        example_envelope_def)
  have new: "\<not> is_legacy_subset (ev_payload e) (delivery_result_payload v (dump_envelope example_changed)
      (example_result ''delivered''))" for v
  proof
    assume "is_legacy_subset (ev_payload e) (delivery_result_payload v (dump_envelope example_changed)
      (example_result ''delivered''))"
    from legacy_subset_jget [OF this, of "''severity''" "''info''"] show False
      by (simp add: e(6) example_severity sev)
  qed
  have s: "dw_session ?w = Some example_log"
    and res: "at_delivery_status (example_result ''delivered'') = ''delivered''"
    by (simp_all add: example_result_def)
  have f: "find (\<lambda>e. ev_event_id e = stable_id (de_sha (example_env ''delivered'' example_now)) ''event''
        [example_attempt, ''session:p'', ''notification_delivery_succeeded''])
      (list_events (Some ''session:p'') (Some ''notification_delivery_succeeded'') None
        (Some example_attempt) example_log) = Some e"
    by (simp add: list_events_def e example_env_def opt_match_def)
  from redelivery_conflict [where env = "example_env ''delivered'' example_now" and r = ?r and w = ?w
      and res = "example_result ''delivered''" and s = example_log and e = e, unfolded corr r(1),
      OF s p res f new]
  show ?thesis by blast
qed

end
