(* ===== verification/PyResult.thy ===== *)
theory PyResult
  imports IsoTime
begin

text \<open>
  Pure code that may raise, the conversion \<open>int(x)\<close> of a JSON value, and the reading of instants
  that \<^verbatim>\<open>task_state.py\<close>, \<^verbatim>\<open>stuck.py\<close> and \<^verbatim>\<open>facts.py\<close> share.
\<close>

section \<open>Results\<close>

definition res_bind :: "py_error + 'a \<Rightarrow> ('a \<Rightarrow> py_error + 'b) \<Rightarrow> py_error + 'b" where
  "res_bind m f = (case m of Inl e \<Rightarrow> Inl e | Inr a \<Rightarrow> f a)"

lemma res_bind_simps [simp]:
  "res_bind (Inl e) f = Inl e"
  "res_bind (Inr a) f = f a"
  by (simp_all add: res_bind_def)

lemma res_bind_Inr_iff: "res_bind m f = Inr b \<longleftrightarrow> (\<exists>a. m = Inr a \<and> f a = Inr b)"
  by (cases m) auto

lemma res_bind_Inl_iff: "res_bind m f = Inl e \<longleftrightarrow> m = Inl e \<or> (\<exists>a. m = Inr a \<and> f a = Inl e)"
  by (cases m) auto

lemma res_bind_InrE:
  assumes "res_bind m f = Inr b"
  obtains a where "m = Inr a" and "f a = Inr b"
  using assms by (auto simp: res_bind_Inr_iff)

section \<open>Integers\<close>

text \<open>
  \<open>int(text)\<close>: surrounding white space, a sign, and digits that single underscores may separate.
\<close>

fun underscored_digits :: "bool \<Rightarrow> string \<Rightarrow> bool" where
  "underscored_digits after_digit [] = after_digit"
| "underscored_digits after_digit (c # cs) =
     (if is_digit c then underscored_digits True cs
      else c = CHR ''_'' \<and> after_digit \<and> cs \<noteq> [] \<and> is_digit (hd cs) \<and> underscored_digits False cs)"

definition unsigned_int :: "string \<Rightarrow> int option" where
  "unsigned_int s =
     (if underscored_digits False s then Some (int_of_digits (filter (\<lambda>c. c \<noteq> CHR ''_'') s)) else None)"

definition int_of_text :: "string \<Rightarrow> int option" where
  "int_of_text text =
     (case strip text of
        [] \<Rightarrow> None
      | c # r \<Rightarrow>
          if c = CHR ''-'' then map_option uminus (unsigned_int r)
          else if c = CHR ''+'' then unsigned_int r
          else unsigned_int (c # r))"

definition py_int :: "json \<Rightarrow> py_error + int" where
  "py_int j =
     (case j of
        JInt i \<Rightarrow> Inr i
      | JBool b \<Rightarrow> Inr (of_bool b)
      | JStr s \<Rightarrow>
          (case int_of_text s of
             Some i \<Rightarrow> Inr i
           | None \<Rightarrow> Inl (ValueError ''invalid literal for int() with base 10''))
      | _ \<Rightarrow> Inl (TypeError ''int() argument must be a string or a real number''))"

text \<open>\<open>x or d\<close>.\<close>

definition jor :: "json \<Rightarrow> json \<Rightarrow> json" where
  "jor j d = (if truthy j then j else d)"

text \<open>\<open>d.get(k, default)\<close>: the default stands for a missing key only.\<close>

definition jget_default :: "jdict \<Rightarrow> string \<Rightarrow> json \<Rightarrow> json" where
  "jget_default d k x = (case map_of d k of None \<Rightarrow> x | Some v \<Rightarrow> v)"

lemma py_int_simps [simp]:
  "py_int (JInt i) = Inr i"
  "py_int (JBool b) = Inr (of_bool b)"
  by (simp_all add: py_int_def)

lemma jget_default_simps [simp]:
  "jget_default [] k x = x"
  "jget_default ((k', v) # d) k x = (if k' = k then v else jget_default d k x)"
  by (simp_all add: jget_default_def)

lemma jget_default_set [simp]:
  "jget_default (dict_set k v d) k' x = (if k' = k then v else jget_default d k' x)"
  by (simp add: jget_default_def)

section \<open>Instants\<close>

text \<open>
  An aware or naive time as \<open>datetime.fromisoformat\<close> reads it, moved to UTC: what cannot be read
  is \<open>None\<close>, what leaves the calendar raises.
\<close>

definition read_utc :: "string \<Rightarrow> py_error + int option" where
  "read_utc text =
     (case fromisoformat (replace_char (CHR ''Z'') ''+00:00'' text) of
        None \<Rightarrow> Inr None
      | Some (t, None) \<Rightarrow> Inr (Some t)
      | Some (t, Some off) \<Rightarrow> map_sum id Some (astimezone_utc (t - off)))"

text \<open>\<open>_max_timestamp\<close>.\<close>

definition max_timestamp :: "int option list \<Rightarrow> int option" where
  "max_timestamp ts =
     (case List.map_filter id ts of [] \<Rightarrow> None | c # cs \<Rightarrow> Some (foldl max c cs))"

lemma foldl_max_ge: "(c :: int) \<in> insert x (set cs) \<Longrightarrow> c \<le> foldl max x cs"
proof (induction cs arbitrary: x c)
  case Nil
  then show ?case by simp
next
  case (Cons y ys)
  have "max x y \<le> foldl max (max x y) ys" by (rule Cons.IH) simp
  moreover have "c \<le> foldl max (max x y) ys" if "c \<in> set ys" by (rule Cons.IH) (simp add: that)
  ultimately show ?case using Cons.prems by auto
qed

lemma foldl_max_mem: "foldl max x cs \<in> insert (x :: int) (set cs)"
proof (induction cs arbitrary: x)
  case (Cons y ys)
  from Cons.IH [of "max x y"] show ?case by (auto simp: max_def split: if_splits)
qed simp

lemma max_timestamp_None: "max_timestamp ts = None \<longleftrightarrow> (\<forall>t \<in> set ts. t = None)"
  by (induction ts) (auto simp: max_timestamp_def List.map_filter_simps split: list.splits option.splits)

text \<open>\<open>value.isoformat()\<close> of an instant in UTC: the fraction is written when there is one.\<close>

definition isoformat_utc :: "int \<Rightarrow> string" where
  "isoformat_utc t =
     (let s = (t mod day_micros) div 1000000; us = t mod 1000000 in
      case ordinal_ymd (t div day_micros) of
        (y, m, d) \<Rightarrow>
          pad4 y @ ''-'' @ pad2 m @ ''-'' @ pad2 d @ ''T'' @
          pad2 (s div 3600) @ '':'' @ pad2 (s div 60 mod 60) @ '':'' @ pad2 (s mod 60) @
          (if us = 0 then [] else ''.'' @ pad2 (us div 10000) @ pad4 (us mod 10000)) @ ''+00:00'')"

end
