(* ===== verification/TaskState.thy ===== *)
theory TaskState
  imports PyResult
begin

text \<open>
  The status of a task as \<^verbatim>\<open>src/watchdog/services/session_spine/task_state.py\<close> reads it from the
  task record of the runtime: normalisation of status, phase and project state, the override that
  takes an abandoned session out of the active state, the transition table of the operator
  actions, and the test for a finished task.

  A task is \<open>None\<close> or a dictionary. Instants and periods are whole microseconds; \<open>current\<close> is the
  time the code takes from its argument or from the clock.
\<close>

section \<open>Normalised text\<close>

definition normalized :: "json \<Rightarrow> string" where
  "normalized v = py_lower (stripped_text v)"

lemma normalized_JStr [simp]: "normalized (JStr s) = py_lower (strip s)"
  by (simp add: normalized_def)

lemma normalized_JNull [simp]: "normalized JNull = []"
  by (simp add: normalized_def)

lemma normalized_idem [simp]: "normalized (JStr (normalized v)) = normalized v"
  by (simp add: normalized_def strip_lower stripped_text_def)

section \<open>Tables\<close>

definition canonical_task_statuses :: "string list" where
  "canonical_task_statuses =
     [''created'', ''running'', ''waiting_for_direction'', ''waiting_for_approval'', ''stuck'',
      ''handoff_in_progress'', ''resuming'', ''paused'', ''completed'', ''failed'']"

definition canonical_project_execution_states :: "string list" where
  "canonical_project_execution_states =
     [''active'', ''paused'', ''stopped'', ''branch_transition_in_progress'', ''completed'',
      ''archived'', ''closed'', ''unknown'']"

definition non_active_project_execution_states :: "string list" where
  "non_active_project_execution_states =
     [''paused'', ''stopped'', ''branch_transition_in_progress'', ''completed'', ''archived'',
      ''closed'']"

definition default_active_session_stale_after :: int where
  "default_active_session_stale_after = 3 * 24 * 60 * 60 * 1000000"

definition session_disconnect_error_fragments :: "string list" where
  "session_disconnect_error_fragments =
     [''broken pipe'', ''current working directory missing'', ''cwd missing'',
      ''no such file or directory'', ''session closed'', ''connection reset by peer'']"

definition canonical_task_phases :: "string list" where
  "canonical_task_phases =
     [''planning'', ''code_reading'', ''editing_source'', ''editing_tests'', ''running_tests'',
      ''debugging'', ''summarizing'', ''handoff'']"

definition legacy_phase_map :: "(string, string) dict" where
  "legacy_phase_map =
     [(''approval'', ''planning''), (''coding'', ''editing_source''), (''done'', ''summarizing''),
      (''recovery'', ''handoff'')]"

section \<open>Normalisation\<close>

definition normalize_task_status :: "jdict option \<Rightarrow> string" where
  "normalize_task_status task =
     (case task of
        None \<Rightarrow> ''created''
      | Some t \<Rightarrow>
          (let status = normalized (jget t ''status'');
               phase = normalized (jget t ''phase'');
               pending_approval = truthy (jget t ''pending_approval'') in
           if pending_approval then ''waiting_for_approval''
           else if status \<in> set canonical_task_statuses then status
           else if status \<in> {''done'', ''complete''} then ''completed''
           else if status \<in> {''error'', ''failed'', ''resume_failed''} then ''failed''
           else if pending_approval \<or> status = ''approval'' then ''waiting_for_approval''
           else if status \<in> {''waiting_human'', ''awaiting_human_direction''}
             then ''waiting_for_direction''
           else if phase = ''done'' then ''completed''
           else if status \<noteq> [] then status else ''created''))"

definition normalize_task_phase :: "jdict option \<Rightarrow> string" where
  "normalize_task_phase task =
     (case task of
        None \<Rightarrow> ''planning''
      | Some t \<Rightarrow>
          (let phase = normalized (jget t ''phase'') in
           if phase \<in> set canonical_task_phases then phase
           else case map_of legacy_phase_map phase of
                  Some p \<Rightarrow> p
                | None \<Rightarrow> if phase \<noteq> [] then phase else ''planning''))"

definition is_canonical_task_status :: "json \<Rightarrow> bool" where
  "is_canonical_task_status v \<longleftrightarrow> normalized v \<in> set canonical_task_statuses"

definition is_canonical_task_phase :: "json \<Rightarrow> bool" where
  "is_canonical_task_phase v \<longleftrightarrow> normalized v \<in> set canonical_task_phases"

fun project_state_from :: "jdict \<Rightarrow> string list \<Rightarrow> string" where
  "project_state_from t [] = ''unknown''"
| "project_state_from t (key # keys) =
     (let value = normalized (jget t key) in
      if value = [] then project_state_from t keys
      else if value \<in> {''execute'', ''decompose'', ''design'', ''refine'', ''init'', ''initialized'',
                       ''running''} then ''active''
      else if value \<in> {''complete'', ''completed''} then ''completed''
      else if value \<in> {''close'', ''closed''} then ''closed''
      else if value \<in> {''stop'', ''stopped''} then ''stopped''
      else if value \<in> set canonical_project_execution_states then value
      else project_state_from t keys)"

definition normalize_project_execution_state :: "jdict option \<Rightarrow> string" where
  "normalize_project_execution_state task =
     (case task of
        None \<Rightarrow> ''unknown''
      | Some t \<Rightarrow> project_state_from t
          [''project_execution_state'', ''execution_state'', ''project_status''])"

definition is_non_active_project_execution_state :: "json \<Rightarrow> bool" where
  "is_non_active_project_execution_state v \<longleftrightarrow>
     normalized v \<in> set non_active_project_execution_states"

section \<open>Finished tasks\<close>

definition is_terminal_task :: "jdict option \<Rightarrow> bool" where
  "is_terminal_task task \<longleftrightarrow>
     normalize_task_status task \<in> {''completed'', ''failed''} \<or>
     (case task of
        None \<Rightarrow> False
      | Some t \<Rightarrow> normalized (jget t ''phase'') = ''done'' \<and> \<not> truthy (jget t ''pending_approval''))"

section \<open>Abandoned sessions\<close>

definition parse_iso8601 :: "json \<Rightarrow> py_error + int option" where
  "parse_iso8601 value =
     (if stripped_text value = [] then Inr None else read_utc (stripped_text value))"

definition older_than :: "int \<Rightarrow> int \<Rightarrow> int option \<Rightarrow> bool" where
  "older_than stale current at =
     (case at of None \<Rightarrow> False | Some a \<Rightarrow> max (current - a) 0 > stale)"

text \<open>
  The instants of the task record are read in the order of the code, so that the first one that
  leaves the calendar, or the count that is no number, is what raises.
\<close>

record activity =
  manual_activity_at :: "int option"
  progress_at :: "int option"
  workspace_latest_mtime_at :: "int option"
  workspace_recent_change_count :: int

definition read_activity :: "jdict \<Rightarrow> py_error + activity" where
  "read_activity t =
     res_bind (parse_iso8601 (jget t ''last_local_manual_activity_at'')) (\<lambda>manual.
     res_bind (parse_iso8601 (jget t ''last_substantive_user_input_at'')) (\<lambda>input.
     res_bind (parse_iso8601 (jget t ''last_progress_at'')) (\<lambda>progress.
     res_bind (parse_iso8601 (jget t ''workspace_latest_mtime_iso'')) (\<lambda>mtime.
     res_bind (py_int (jor (jget_default t ''workspace_recent_change_count'' (JInt 0)) (JInt 0))) (\<lambda>count.
       Inr \<lparr>manual_activity_at = max_timestamp [manual, input], progress_at = progress,
            workspace_latest_mtime_at = mtime, workspace_recent_change_count = count\<rparr>)))))"

definition claims_live_session :: "jdict \<Rightarrow> bool" where
  "claims_live_session t \<longleftrightarrow>
     stripped_text (jor (jget t ''native_thread_id'') (jget t ''thread_id'')) \<noteq> []"

definition phantom_progress :: "int \<Rightarrow> int \<Rightarrow> activity \<Rightarrow> bool" where
  "phantom_progress stale current a =
     (case (workspace_latest_mtime_at a, progress_at a) of
        (Some mtime, Some progress) \<Rightarrow>
          workspace_recent_change_count a \<le> 0 \<and> progress > mtime \<and> progress - mtime > stale \<and>
          (case manual_activity_at a of
             None \<Rightarrow> True
           | Some manual \<Rightarrow> manual \<le> mtime \<or> current - manual > stale)
      | _ \<Rightarrow> False)"

definition disconnected :: "jdict \<Rightarrow> bool" where
  "disconnected t \<longleftrightarrow>
     list_ex (contains (normalized (jget t ''last_error_signature'')))
       session_disconnect_error_fragments"

definition liveness_verdict :: "int \<Rightarrow> int \<Rightarrow> string \<Rightarrow> jdict \<Rightarrow> activity \<Rightarrow> string" where
  "liveness_verdict stale current state t a =
     (if truthy (jget t ''runtime_task_missing'') then ''paused''
      else if claims_live_session t \<and> phantom_progress stale current a then ''paused''
      else if state = ''active'' \<and>
              older_than stale current (max_timestamp [manual_activity_at a, progress_at a])
        then ''paused''
      else if claims_live_session t \<and> disconnected t \<and>
              (case manual_activity_at a of None \<Rightarrow> True | m \<Rightarrow> older_than stale current m)
        then ''paused''
      else if state \<noteq> [] then state else ''unknown'')"

definition derive_project_execution_state_liveness_override ::
  "jdict option \<Rightarrow> string \<Rightarrow> int \<Rightarrow> int \<Rightarrow> py_error + string" where
  "derive_project_execution_state_liveness_override task project_execution_state current stale =
     (let state = normalized (JStr project_execution_state) in
      case task of
        None \<Rightarrow> Inr (if state \<noteq> [] then state else ''unknown'')
      | Some t \<Rightarrow>
          if state \<in> set non_active_project_execution_states then Inr state
          else if normalize_task_status task \<in> {''completed'', ''failed'', ''paused''}
            then Inr (if state \<noteq> [] then state else ''unknown'')
          else if \<not> claims_live_session t \<and> state \<notin> {''active'', ''unknown'', []} then Inr state
          else if claims_live_session t \<and> jget t ''workspace_cwd_exists'' = JBool False
            then Inr ''paused''
          else res_bind (read_activity t) (\<lambda>a. Inr (liveness_verdict stale current state t a)))"

section \<open>Operator actions\<close>

record transition =
  tr_allowed :: bool
  tr_target_status :: string
  tr_reason_code :: string

definition reject_transition :: "string \<Rightarrow> transition" where
  "reject_transition source =
     \<lparr>tr_allowed = False, tr_target_status = source, tr_reason_code = ''rejected_invalid_state''\<rparr>"

definition allow_transition :: "string \<Rightarrow> string \<Rightarrow> transition" where
  "allow_transition target reason = \<lparr>tr_allowed = True, tr_target_status = target, tr_reason_code = reason\<rparr>"

definition validate_action_transition ::
  "string \<Rightarrow> jdict option \<Rightarrow> bool \<Rightarrow> bool \<Rightarrow> bool \<Rightarrow> transition" where
  "validate_action_transition action task has_human_guidance has_approval has_continuation =
     (let source = normalize_task_status task; act = normalized (JStr action) in
      if act = ''continue'' then
        (if source = ''waiting_for_approval'' \<and> \<not> has_approval then reject_transition source
         else if source = ''waiting_for_direction'' \<and> \<not> has_human_guidance then reject_transition source
         else if source \<in> {''created'', ''running'', ''waiting_for_direction'',
                           ''waiting_for_approval'', ''stuck''}
           then allow_transition ''running'' ''continue''
         else reject_transition source)
      else if act = ''pause'' then
        (if source \<in> {''created'', ''running'', ''waiting_for_direction'', ''waiting_for_approval'',
                      ''stuck'', ''resuming''}
           then allow_transition ''paused'' ''pause'' else reject_transition source)
      else if act = ''resume'' then
        (if source = ''paused'' then allow_transition ''resuming'' ''resume''
         else if source = ''handoff_in_progress'' \<and> has_continuation
           then allow_transition ''resuming'' ''resume''
         else reject_transition source)
      else if act = ''summarize'' then allow_transition source ''summarize''
      else if act = ''force_handoff'' then
        (if source \<in> {''running'', ''waiting_for_direction'', ''waiting_for_approval'', ''stuck'',
                      ''paused''}
           then allow_transition ''handoff_in_progress'' ''force_handoff'' else reject_transition source)
      else if act = ''retry_with_conservative_path'' then
        (if source \<in> {''running'', ''stuck''}
           then allow_transition ''running'' ''retry_with_conservative_path''
         else reject_transition source)
      else reject_transition source)"

section \<open>Normalised values are typed\<close>

lemma canonical_normalized:
  "s \<in> set canonical_task_statuses \<Longrightarrow> normalized (JStr s) = s"
  "s \<in> set canonical_task_phases \<Longrightarrow> normalized (JStr s) = s"
  by (auto simp: canonical_task_statuses_def canonical_task_phases_def) code_simp+

lemma status_cases:
  "normalize_task_status (Some t) \<in> set canonical_task_statuses \<or>
     \<not> truthy (jget t ''pending_approval'') \<and> normalized (jget t ''phase'') \<noteq> ''done'' \<and>
     normalized (jget t ''status'') \<noteq> [] \<and> normalize_task_status (Some t) = normalized (jget t ''status'')"
  by (auto simp: normalize_task_status_def Let_def) (auto simp: canonical_task_statuses_def)

lemma status_none: "normalize_task_status None = ''created''"
  by (simp add: normalize_task_status_def)

lemma status_stored:
  assumes "truthy (jget t ''pending_approval'') \<longrightarrow> s = ''waiting_for_approval''"
    and "s \<in> set canonical_task_statuses"
  shows "normalize_task_status (Some (dict_set ''status'' (JStr s) t)) = s"
proof (cases "truthy (jget t ''pending_approval'')")
  case True
  with assms(1) show ?thesis by (simp add: normalize_task_status_def)
next
  case False
  then show ?thesis
    using assms(2) canonical_normalized(1) [OF assms(2)]
    by (simp add: normalize_task_status_def Let_def del: normalized_JStr)
qed

lemma status_idem:
  "normalize_task_status (Some (dict_set ''status'' (JStr (normalize_task_status (Some t))) t)) =
     normalize_task_status (Some t)"
proof (cases "normalize_task_status (Some t) \<in> set canonical_task_statuses")
  case True
  then show ?thesis
    by (intro status_stored) (simp_all add: normalize_task_status_def)
next
  case False
  then have "normalize_task_status (Some t) = normalized (jget t ''status'')"
    using status_cases [of t] by blast
  then have "normalized (JStr (normalize_task_status (Some t))) = normalized (jget t ''status'')"
    by (simp del: normalized_JStr)
  then show ?thesis
    unfolding normalize_task_status_def [of "Some (dict_set _ _ _)"]
    by (simp add: Let_def normalize_task_status_def del: normalized_JStr)
qed

lemma phase_idem:
  "normalize_task_phase (Some (dict_set ''phase'' (JStr (normalize_task_phase (Some t))) t)) =
     normalize_task_phase (Some t)"
proof -
  define p where "p = normalized (jget t ''phase'')"
  have n: "normalized (JStr p) = p" by (simp add: p_def del: normalized_JStr)
  have "normalize_task_phase (Some t) \<in> set canonical_task_phases \<or>
      normalize_task_phase (Some t) = p \<and> p \<noteq> [] \<and> map_of legacy_phase_map p = None"
    by (auto simp: normalize_task_phase_def Let_def p_def legacy_phase_map_def canonical_task_phases_def)
  then show ?thesis
  proof
    assume c: "normalize_task_phase (Some t) \<in> set canonical_task_phases"
    then show ?thesis
      using canonical_normalized(2) [OF c]
      by (simp add: normalize_task_phase_def [of "Some (dict_set _ _ _)"] Let_def del: normalized_JStr)
  next
    assume "normalize_task_phase (Some t) = p \<and> p \<noteq> [] \<and> map_of legacy_phase_map p = None"
    then show ?thesis using n
      by (simp add: normalize_task_phase_def [of "Some (dict_set _ _ _)"] Let_def del: normalized_JStr)
  qed
qed

lemma project_state_typed: "project_state_from t keys \<in> set canonical_project_execution_states"
proof (induction keys)
  case Nil
  then show ?case by (simp add: canonical_project_execution_states_def)
next
  case (Cons key keys)
  have known: "{''active'', ''completed'', ''closed'', ''stopped''} \<subseteq> set canonical_project_execution_states"
    by (simp add: canonical_project_execution_states_def)
  with Cons show ?case
    by (cases "normalized (jget t key) = []") (auto simp: Let_def)
qed


section \<open>The override only pauses, and for good\<close>

lemma liveness_cases:
  assumes "derive_project_execution_state_liveness_override task s current stale = Inr r"
  shows "r = ''paused'' \<or> r = normalized (JStr s) \<or> (normalized (JStr s) = [] \<and> r = ''unknown'')"
  using assms
  by (auto simp: derive_project_execution_state_liveness_override_def liveness_verdict_def Let_def
      res_bind_Inr_iff simp del: normalized_JStr split: option.splits if_splits)

lemma older_than_mono: "older_than stale now at \<Longrightarrow> now \<le> later \<Longrightarrow> older_than stale later at"
  by (auto simp: older_than_def split: option.splits)

lemma phantom_mono: "phantom_progress stale now a \<Longrightarrow> now \<le> later \<Longrightarrow> phantom_progress stale later a"
  by (auto simp: phantom_progress_def split: option.splits)

lemma liveness_verdict_mono:
  assumes "liveness_verdict stale now s t a = ''paused''" and "now \<le> later"
  shows "liveness_verdict stale later s t a = ''paused''"
proof -
  have "older_than stale later at" if "older_than stale now at" for at
    using that assms(2) by (rule older_than_mono)
  moreover have "phantom_progress stale later a" if "phantom_progress stale now a"
    using that assms(2) by (rule phantom_mono)
  ultimately show ?thesis
    using assms(1) by (auto simp: liveness_verdict_def split: if_splits option.splits)
qed

text \<open>
  C33: The liveness override answers the state it was given or \<open>paused\<close>, never reopens a state that
  is not active, and once it answers \<open>paused\<close> it does so at every later time until the task
  record changes; whether it raises does not depend on the time.
\<close>

theorem liveness_override_only_pauses:
  assumes "derive_project_execution_state_liveness_override task s now stale = Inr r"
    and "now \<le> later"
  shows "(r = ''paused'' \<or> r = normalized (JStr s) \<or> (normalized (JStr s) = [] \<and> r = ''unknown'')) \<and>
    (task \<noteq> None \<and> is_non_active_project_execution_state (JStr s) \<longrightarrow> r = normalized (JStr s)) \<and>
    (\<exists>r'. derive_project_execution_state_liveness_override task s later stale = Inr r' \<and>
       (r = ''paused'' \<longrightarrow> r' = ''paused''))"
proof (intro conjI)
  show "r = ''paused'' \<or> r = normalized (JStr s) \<or> (normalized (JStr s) = [] \<and> r = ''unknown'')"
    using assms(1) by (rule liveness_cases)
  show "task \<noteq> None \<and> is_non_active_project_execution_state (JStr s) \<longrightarrow> r = normalized (JStr s)"
    using assms(1)
    by (auto simp: derive_project_execution_state_liveness_override_def Let_def
        is_non_active_project_execution_state_def simp del: normalized_JStr)
  show "\<exists>r'. derive_project_execution_state_liveness_override task s later stale = Inr r' \<and>
      (r = ''paused'' \<longrightarrow> r' = ''paused'')"
  proof (cases task)
    case None
    with assms(1) show ?thesis
      by (auto simp: derive_project_execution_state_liveness_override_def Let_def)
  next
    case (Some t)
    have "liveness_verdict stale later x t a = ''paused''" if "liveness_verdict stale now x t a = ''paused''"
      for x a using that assms(2) by (rule liveness_verdict_mono)
    with assms(1) Some show ?thesis
      by (auto simp: derive_project_execution_state_liveness_override_def Let_def res_bind_Inr_iff
          simp del: normalized_JStr split: if_splits)
  qed
qed

definition example_task :: jdict where
  "example_task =
     [(''status'', JStr ''running''), (''native_thread_id'', JStr ''thr-1''),
      (''last_progress_at'', JStr ''2026-01-01T00:00:00Z'')]"

definition example_day :: "int \<Rightarrow> int" where
  "example_day d = utc_micros 2026 1 d 0 0 0"

theorem liveness_override_only_pauses_witness:
  "derive_project_execution_state_liveness_override (Some example_task) ''Active '' (example_day 8)
     default_active_session_stale_after = Inr ''paused''"
proof -
  have "derive_project_execution_state_liveness_override (Some example_task) ''Active '' (example_day 5)
     default_active_session_stale_after = Inr ''paused''" by code_simp
  from liveness_override_only_pauses [OF this, of "example_day 8"] show ?thesis
    by (auto simp: example_day_def utc_micros_def ymd_ordinal_def day_micros_def)
qed

section \<open>Actions\<close>

text \<open>
  A run of operator actions: each allowed action stores its target status in the task record,
  with whatever guidance, approval and continuation the caller brings.
\<close>

inductive action_run :: "jdict \<Rightarrow> jdict \<Rightarrow> bool" where
  action_start: "action_run t t"
| action_step: "action_run t t' \<Longrightarrow>
    validate_action_transition action (Some t') guidance approval continuation = r \<Longrightarrow> tr_allowed r \<Longrightarrow>
    action_run t (dict_set ''status'' (JStr (tr_target_status r)) t')"

lemma transition_branches:
  assumes "validate_action_transition action task guidance approval continuation = r"
    and "source = normalize_task_status task"
  obtains (reject) "r = reject_transition source"
  | (summary) "r = allow_transition source ''summarize''"
  | (move) target where "r = allow_transition target (normalized (JStr action))"
      "target \<in> {''running'', ''paused'', ''resuming'', ''handoff_in_progress''}"
      "source \<in> {''created'', ''running'', ''waiting_for_direction'', ''waiting_for_approval'',
         ''stuck'', ''resuming'', ''paused'', ''handoff_in_progress''}"
      "target = ''running'' \<Longrightarrow> source = ''waiting_for_approval'' \<Longrightarrow> approval"
      "target = ''running'' \<Longrightarrow> source = ''waiting_for_direction'' \<Longrightarrow> guidance"
proof -
  define act where "act = normalized (JStr action)"
  note unfolded = assms(1) [symmetric, unfolded validate_action_transition_def Let_def, folded assms(2) act_def]
  consider "act = ''continue''" | "act = ''pause''" | "act = ''resume''" | "act = ''summarize''"
    | "act = ''force_handoff''" | "act = ''retry_with_conservative_path''"
    | "act \<noteq> ''continue''" "act \<noteq> ''pause''" "act \<noteq> ''resume''" "act \<noteq> ''summarize''"
      "act \<noteq> ''force_handoff''" "act \<noteq> ''retry_with_conservative_path''" by blast
  then show thesis
  proof cases
    case 1
    with unfolded have "r = reject_transition source \<or> r = allow_transition ''running'' act \<and>
        source \<in> {''created'', ''running'', ''waiting_for_direction'', ''waiting_for_approval'', ''stuck''} \<and>
        (source = ''waiting_for_approval'' \<longrightarrow> approval) \<and> (source = ''waiting_for_direction'' \<longrightarrow> guidance)"
      by (simp split: if_split_asm)
    then show ?thesis using reject move [of "''running''"] unfolding act_def by fastforce
  next
    case 2
    with unfolded have "r = reject_transition source \<or> r = allow_transition ''paused'' act \<and>
        source \<in> {''created'', ''running'', ''waiting_for_direction'', ''waiting_for_approval'', ''stuck'', ''resuming''}"
      by (simp split: if_split_asm)
    then show ?thesis using reject move [of "''paused''"] unfolding act_def by fastforce
  next
    case 3
    with unfolded have "r = reject_transition source \<or> r = allow_transition ''resuming'' act \<and>
        source \<in> {''paused'', ''handoff_in_progress''}"
      by (simp split: if_split_asm)
    then show ?thesis using reject move [of "''resuming''"] unfolding act_def by fastforce
  next
    case 4
    then show ?thesis using unfolded summary by simp
  next
    case 5
    with unfolded have "r = reject_transition source \<or> r = allow_transition ''handoff_in_progress'' act \<and>
        source \<in> {''running'', ''waiting_for_direction'', ''waiting_for_approval'', ''stuck'', ''paused''}"
      by (simp split: if_split_asm)
    then show ?thesis using reject move [of "''handoff_in_progress''"] unfolding act_def by fastforce
  next
    case 6
    with unfolded have "r = reject_transition source \<or> r = allow_transition ''running'' act \<and>
        source \<in> {''running'', ''stuck''}"
      by (simp split: if_split_asm)
    then show ?thesis using reject move [of "''running''"] unfolding act_def by fastforce
  next
    case 7
    then show ?thesis using unfolded reject by simp
  qed
qed

lemma transition_cases:
  assumes "validate_action_transition action task guidance approval continuation = r"
  shows "(\<not> tr_allowed r \<and> tr_target_status r = normalize_task_status task \<and> tr_reason_code r = ''rejected_invalid_state'') \<or>
    (tr_allowed r \<and> tr_target_status r = normalize_task_status task) \<or>
    (tr_allowed r \<and> tr_target_status r \<in> set canonical_task_statuses \<and>
     normalize_task_status task \<notin> {''completed'', ''failed''} \<and>
     (tr_target_status r = ''running'' \<and> normalize_task_status task = ''waiting_for_approval'' \<longrightarrow> approval) \<and>
     (tr_target_status r = ''running'' \<and> normalize_task_status task = ''waiting_for_direction'' \<longrightarrow> guidance))"
  by (rule transition_branches [OF assms refl])
    (auto simp: reject_transition_def allow_transition_def canonical_task_statuses_def)

text \<open>
  C34: A rejected action reports the status as it was. An allowed one reports a canonical target or,
  for \<open>summarize\<close>, the status itself; nothing leaves \<open>completed\<close> or \<open>failed\<close>; and
  \<open>running\<close> is entered from waiting only with the approval or the guidance that was missing.
\<close>

theorem action_transition_sound:
  assumes "validate_action_transition action task guidance approval continuation = r"
  shows "(if tr_allowed r then
            tr_target_status r = normalize_task_status task \<or>
            (tr_target_status r \<in> set canonical_task_statuses \<and>
             normalize_task_status task \<notin> {''completed'', ''failed''} \<and>
             (tr_target_status r = ''running'' \<and> normalize_task_status task = ''waiting_for_approval'' \<longrightarrow> approval) \<and>
             (tr_target_status r = ''running'' \<and> normalize_task_status task = ''waiting_for_direction'' \<longrightarrow> guidance))
          else tr_target_status r = normalize_task_status task \<and> tr_reason_code r = ''rejected_invalid_state'')"
  using transition_cases [OF assms] by (auto simp: canonical_task_statuses_def)

theorem action_transition_sound_witness:
  "validate_action_transition ''continue'' (Some [(''pending_approval'', JBool True)]) False False False =
     \<lparr>tr_allowed = False, tr_target_status = ''waiting_for_approval'', tr_reason_code = ''rejected_invalid_state''\<rparr>"
proof -
  have a: "tr_allowed (validate_action_transition ''continue'' (Some [(''pending_approval'', JBool True)]) False False False) = False"
    and n: "normalize_task_status (Some [(''pending_approval'', JBool True)]) = ''waiting_for_approval''"
    by code_simp+
  show ?thesis
    using action_transition_sound [OF refl, of "''continue''" "Some [(''pending_approval'', JBool True)]" False False False]
    by (simp add: a n)
qed

lemma action_run_status:
  assumes "action_run t t'"
  shows "(normalize_task_status (Some t) \<in> {''completed'', ''failed''} \<longrightarrow>
            normalize_task_status (Some t') = normalize_task_status (Some t)) \<and>
         (truthy (jget t ''pending_approval'') \<longrightarrow> truthy (jget t' ''pending_approval''))"
  using assms
proof induction
  case (action_start t)
  then show ?case by simp
next
  case (action_step t t' action guidance approval continuation r)
  have keep: "normalize_task_status (Some (dict_set ''status'' (JStr (tr_target_status r)) t')) =
      normalize_task_status (Some t')" if "tr_target_status r = normalize_task_status (Some t')"
    using that status_idem by simp
  from transition_cases [OF action_step.hyps(2)] action_step.hyps(3)
  consider "tr_target_status r = normalize_task_status (Some t')"
    | "normalize_task_status (Some t') \<notin> {''completed'', ''failed''}" by blast
  then show ?case
  proof cases
    case 1
    with keep action_step.IH show ?thesis by simp
  next
    case 2
    with action_step.IH show ?thesis by auto
  qed
qed

text \<open>
  Note: No sequence of operator actions brings a completed or failed session to another status, and
  none ends a pending approval: while the record says that an approval is pending, the status is
  \<open>waiting_for_approval\<close> whatever was stored.
\<close>

theorem action_run_absorbing:
  assumes "action_run t t'"
  shows "(normalize_task_status (Some t) \<in> {''completed'', ''failed''} \<longrightarrow>
            normalize_task_status (Some t') = normalize_task_status (Some t) \<and> is_terminal_task (Some t')) \<and>
         (truthy (jget t ''pending_approval'') \<longrightarrow>
            normalize_task_status (Some t') = ''waiting_for_approval'' \<and> \<not> is_terminal_task (Some t'))"
proof -
  have p: "normalize_task_status (Some t') = ''waiting_for_approval''" if "truthy (jget t' ''pending_approval'')"
    using that by (simp add: normalize_task_status_def)
  from action_run_status [OF assms] show ?thesis
    by (auto simp: is_terminal_task_def p)
qed

definition example_pending_task :: jdict where
  "example_pending_task = [(''pending_approval'', JBool True), (''status'', JStr ''running'')]"

theorem action_run_absorbing_witness:
  "normalize_task_status (Some (dict_set ''status'' (JStr ''paused'') example_pending_task)) =
     ''waiting_for_approval''"
proof -
  have r: "validate_action_transition ''pause'' (Some example_pending_task) False False False =
      \<lparr>tr_allowed = True, tr_target_status = ''paused'', tr_reason_code = ''pause''\<rparr>" by code_simp
  have "action_run example_pending_task (dict_set ''status'' (JStr ''paused'') example_pending_task)"
    using action_step [OF action_start r] by simp
  from action_run_absorbing [OF this] show ?thesis by (simp add: example_pending_task_def)
qed

end
