(* ===== verification/StuckAnalysis.thy ===== *)
theory StuckAnalysis
  imports TaskState
begin

text \<open>
  The stuck test of \<^verbatim>\<open>src/watchdog/services/status_analyzer/stuck.py\<close> and the supervision step
  of \<^verbatim>\<open>src/watchdog/services/session_spine/supervision.py\<close> that runs it: read the task, judge it,
  and post one steering message when the session has been idle for too long.

  Periods are microseconds. A \<open>detail\<close> that quotes the idle time in minutes is kept as the period
  itself (\<open>Idle\<close>), because the code prints a floating-point number.
\<close>

section \<open>The stuck test\<close>

definition parse_ts :: "json \<Rightarrow> (int \<times> int option) option" where
  "parse_ts raw =
     (case raw of
        JStr s \<Rightarrow>
          if s = [] then None
          else fromisoformat (if ends_with s ''Z'' then replace_char (CHR ''Z'') ''+00:00'' s else s)
      | _ \<Rightarrow> None)"

datatype detail = Detail string | Idle int

record stuck_verdict =
  sv_should_steer :: bool
  sv_reason :: string
  sv_next_stuck_level :: int
  sv_detail :: detail

definition soft_steer_after_minutes :: int where
  "soft_steer_after_minutes = 8 * 60 * 1000000"

definition evaluate_stuck ::
  "jdict \<Rightarrow> int \<Rightarrow> int \<Rightarrow> int option \<Rightarrow> py_error + stuck_verdict" where
  "evaluate_stuck task now threshold repo_recent_change_count =
     res_bind (py_int (jget_default task ''stuck_level'' (JInt 0))) (\<lambda>level.
       if is_terminal_task (Some task) then
         Inr \<lparr>sv_should_steer = False, sv_reason = ''terminal_state'', sv_next_stuck_level = level,
              sv_detail = Detail ''session is already complete''\<rparr>
       else if (case repo_recent_change_count of None \<Rightarrow> False | Some n \<Rightarrow> n > 0) then
         Inr \<lparr>sv_should_steer = False, sv_reason = ''filesystem_activity_recent'', sv_next_stuck_level = level,
              sv_detail = Detail (''repo mtime changes in window: '' @ str_of_int (the repo_recent_change_count))\<rparr>
       else (case parse_ts (jget task ''last_progress_at'') of
          None \<Rightarrow>
            Inr \<lparr>sv_should_steer = False, sv_reason = ''no_last_progress_at'', sv_next_stuck_level = level,
                 sv_detail = Detail ''missing timestamp''\<rparr>
        | Some p \<Rightarrow>
            res_bind (to_utc p) (\<lambda>lp.
              (let delta = now - lp in
               if delta \<ge> threshold \<and> level < 2 then
                 Inr \<lparr>sv_should_steer = True, sv_reason = ''stuck_soft'', sv_next_stuck_level = 2, sv_detail = Idle delta\<rparr>
               else
                 Inr \<lparr>sv_should_steer = False, sv_reason = ''within_threshold'', sv_next_stuck_level = level,
                      sv_detail = Idle delta\<rparr>))))"

definition bump_failure_if_same_signature :: "string option \<Rightarrow> string \<Rightarrow> int \<Rightarrow> int \<times> bool" where
  "bump_failure_if_same_signature previous_sig new_sig current_count =
     (if previous_sig = Some new_sig then (current_count + 1, True) else (1, False))"

section \<open>Supervision\<close>

definition supervision_reason_codes :: "string list" where
  "supervision_reason_codes =
     [''filesystem_activity_recent'', ''no_last_progress_at'', ''terminal_state'', ''within_threshold'',
      ''stuck_soft'']"

definition map_reason_code :: "string \<Rightarrow> string" where
  "map_reason_code raw = (if raw \<in> set supervision_reason_codes then raw else ''within_threshold'')"

text \<open>\<open>_task_value\<close> of \<^verbatim>\<open>projection.py\<close> and \<^verbatim>\<open>facts.py\<close>: \<open>None\<close> and the empty text stand for the default.\<close>

definition task_value :: "jdict option \<Rightarrow> string \<Rightarrow> json \<Rightarrow> json" where
  "task_value task key d =
     (case task of
        None \<Rightarrow> d
      | Some t \<Rightarrow> if jget t key \<in> {JNull, JStr []} then d else jget t key)"

definition stable_thread_id_for_project :: "string \<Rightarrow> string" where
  "stable_thread_id_for_project project_id = ''session:'' @ project_id"

definition nonempty :: "string \<Rightarrow> string option" where
  "nonempty s = (if s = [] then None else Some s)"

definition task_native_thread_id :: "jdict option \<Rightarrow> string option" where
  "task_native_thread_id task =
     (let native = strip (py_str (task_value task ''native_thread_id'' (JStr [])));
          thread = strip (py_str (task_value task ''thread_id'' (JStr []))) in
      if native \<noteq> [] then Some native
      else if starts_with thread ''session:'' then None
      else nonempty thread)"

record supervision_evaluation =
  se_project_id :: string
  se_thread_id :: string
  se_native_thread_id :: "string option"
  se_evaluated_at :: string
  se_reason_code :: string
  se_detail :: detail
  se_current_stuck_level :: int
  se_next_stuck_level :: int
  se_repo_recent_change_count :: int
  se_threshold :: int
  se_should_steer :: bool
  se_steer_sent :: bool

definition build_supervision_evaluation ::
  "string \<Rightarrow> jdict \<Rightarrow> string option \<Rightarrow> string option \<Rightarrow> int option \<Rightarrow> int \<Rightarrow> int \<Rightarrow>
   py_error + supervision_evaluation" where
  "build_supervision_evaluation project_id task thread_id native_thread_id repo_recent_change_count
       threshold now =
     res_bind (py_int (jor (jget_default task ''stuck_level'' (JInt 0)) (JInt 0))) (\<lambda>current_level.
     res_bind (evaluate_stuck task now threshold repo_recent_change_count) (\<lambda>evaluation.
       (let next = (if sv_next_stuck_level evaluation \<noteq> 0 then sv_next_stuck_level evaluation else current_level)
        in Inr \<lparr>se_project_id = project_id,
             se_thread_id = or_else thread_id (stable_thread_id_for_project project_id),
             se_native_thread_id =
               (case native_thread_id of
                  Some n \<Rightarrow> if n \<noteq> [] then Some n else task_native_thread_id (Some task)
                | None \<Rightarrow> task_native_thread_id (Some task)),
             se_evaluated_at = isoformat_utc now,
             se_reason_code = map_reason_code (sv_reason evaluation),
             se_detail = sv_detail evaluation,
             se_current_stuck_level = current_level,
             se_next_stuck_level = next,
             se_repo_recent_change_count = (case repo_recent_change_count of None \<Rightarrow> 0 | Some n \<Rightarrow> n),
             se_threshold = threshold,
             se_should_steer = sv_should_steer evaluation,
             se_steer_sent = False\<rparr>)))"

section \<open>Steering\<close>

lemma evaluate_stuck_cases:
  assumes "evaluate_stuck task now threshold recent = Inr v"
  shows "py_int (jget_default task ''stuck_level'' (JInt 0)) = Inr level \<Longrightarrow>
    (\<not> sv_should_steer v \<and> sv_next_stuck_level v = level \<and> sv_reason v \<noteq> ''stuck_soft'') \<or>
    (sv_should_steer v \<and> sv_next_stuck_level v = 2 \<and> level < 2 \<and> sv_reason v = ''stuck_soft'' \<and>
     \<not> is_terminal_task (Some task) \<and> (case recent of None \<Rightarrow> True | Some n \<Rightarrow> n \<le> 0) \<and>
     (\<exists>p lp. parse_ts (jget task ''last_progress_at'') = Some p \<and> to_utc p = Inr lp \<and> threshold \<le> now - lp))"
  using assms
  by (auto simp: evaluate_stuck_def res_bind_Inr_iff Let_def split: if_splits option.splits)

text \<open>
  C35: A session is steered only when it is not finished, its workspace has no recent change, its
  last progress is readable and at least the threshold ago, and its level is below two; the level
  never falls; and once the new level is stored in the task record the same session is not steered
  again, at whatever time.
\<close>

theorem steer_once_per_episode:
  assumes "evaluate_stuck task now threshold recent = Inr v" and "sv_should_steer v"
  shows "\<not> is_terminal_task (Some task) \<and> (case recent of None \<Rightarrow> True | Some n \<Rightarrow> n \<le> 0) \<and>
    (\<exists>p lp. parse_ts (jget task ''last_progress_at'') = Some p \<and> to_utc p = Inr lp \<and> threshold \<le> now - lp) \<and>
    (\<exists>level. py_int (jget_default task ''stuck_level'' (JInt 0)) = Inr level \<and> level < sv_next_stuck_level v) \<and>
    (\<forall>later recent' w.
       evaluate_stuck (dict_set ''stuck_level'' (JInt (sv_next_stuck_level v)) task) later threshold recent' = Inr w \<longrightarrow>
       \<not> sv_should_steer w \<and> sv_next_stuck_level w = sv_next_stuck_level v)"
proof -
  obtain level where l: "py_int (jget_default task ''stuck_level'' (JInt 0)) = Inr level"
    using assms(1) by (auto simp: evaluate_stuck_def res_bind_Inr_iff)
  from evaluate_stuck_cases [OF assms(1) l] assms(2)
  have v: "sv_next_stuck_level v = 2" "level < 2" "\<not> is_terminal_task (Some task)"
    "case recent of None \<Rightarrow> True | Some n \<Rightarrow> n \<le> 0"
    "\<exists>p lp. parse_ts (jget task ''last_progress_at'') = Some p \<and> to_utc p = Inr lp \<and> threshold \<le> now - lp"
    by auto
  have "\<not> sv_should_steer w \<and> sv_next_stuck_level w = 2"
    if "evaluate_stuck (dict_set ''stuck_level'' (JInt 2) task) later threshold recent' = Inr w" for later recent' w
    using evaluate_stuck_cases [OF that, of 2] by auto
  with v l show ?thesis by auto
qed

definition example_idle_task :: jdict where
  "example_idle_task =
     [(''status'', JStr ''running''), (''stuck_level'', JInt 0),
      (''last_progress_at'', JStr ''2026-01-01T00:00:00Z'')]"

theorem steer_once_per_episode_witness:
  "case evaluate_stuck example_idle_task (utc_micros 2026 1 1 0 9 0) soft_steer_after_minutes None of
     Inl _ \<Rightarrow> False
   | Inr v \<Rightarrow> sv_should_steer v \<and> \<not> is_terminal_task (Some example_idle_task)"
proof -
  have e: "evaluate_stuck example_idle_task (utc_micros 2026 1 1 0 9 0) soft_steer_after_minutes None =
      Inr \<lparr>sv_should_steer = True, sv_reason = ''stuck_soft'', sv_next_stuck_level = 2,
        sv_detail = Idle 540000000\<rparr>" by code_simp
  from steer_once_per_episode [OF e] show ?thesis by (simp add: e)
qed

end
