(* ===== verification/Facts.thy ===== *)
theory Facts
  imports StuckAnalysis
begin

text \<open>
  The facts about a session that \<^verbatim>\<open>src/watchdog/services/session_spine/facts.py\<close> derives from the
  task record and the approvals of the project, and the visibility of approvals
  (\<^verbatim>\<open>approval_visibility.py\<close>). Everything that decides about a session later on - projection,
  policy, supervision, delivery - reads these facts.
\<close>

section \<open>Approvals that wait for somebody\<close>

definition is_deferred_policy_auto_approval :: "jdict \<Rightarrow> bool" where
  "is_deferred_policy_auto_approval a \<longleftrightarrow>
     py_lower (text_or_empty (jget a ''status'')) = ''approved'' \<and>
     text_or_empty (jget a ''decided_by'') = ''policy-auto'' \<and>
     text_or_empty (jget a ''callback_status'') = ''deferred''"

definition is_actionable_approval :: "jdict \<Rightarrow> bool" where
  "is_actionable_approval a \<longleftrightarrow>
     py_lower (text_or_empty (jget a ''status'')) = ''pending'' \<or> is_deferred_policy_auto_approval a"

definition is_visible_projected_approval :: "jdict \<Rightarrow> bool" where
  "is_visible_projected_approval a \<longleftrightarrow>
     is_actionable_approval a \<or>
     (py_lower (text_or_empty (jget a ''status'')) = ''approved'' \<and>
      text_or_empty (jget a ''decided_by'') = ''policy-auto'')"

definition actionable_approval_count :: "jdict list \<Rightarrow> int" where
  "actionable_approval_count approvals = int (length (filter is_actionable_approval approvals))"

definition approval_supports_reject :: "jdict \<Rightarrow> bool" where
  "approval_supports_reject a \<longleftrightarrow> py_lower (text_or_empty (jget a ''status'')) = ''pending''"

definition has_rejectable_approval :: "jdict list \<Rightarrow> bool" where
  "has_rejectable_approval approvals \<longleftrightarrow> list_ex approval_supports_reject approvals"

section \<open>Facts\<close>

record fact =
  fact_id :: string
  fact_code :: string
  fact_kind :: string
  fact_severity :: string
  fact_summary :: string
  fact_detail :: string
  fact_source :: string
  fact_observed_at :: string
  fact_related_ids :: jdict

definition build_fact ::
  "string \<Rightarrow> string \<Rightarrow> string \<Rightarrow> string \<Rightarrow> string \<Rightarrow> string \<Rightarrow> string \<Rightarrow> string \<Rightarrow> jdict \<Rightarrow> fact" where
  "build_fact project_id code kind severity summary detail source observed_at related_ids =
     \<lparr>fact_id = project_id @ '':'' @ code, fact_code = code, fact_kind = kind,
      fact_severity = severity, fact_summary = summary, fact_detail = detail, fact_source = source,
      fact_observed_at = observed_at, fact_related_ids = related_ids\<rparr>"

definition parse_text_iso :: "json \<Rightarrow> py_error + int option" where
  "parse_text_iso v =
     (case v of JStr s \<Rightarrow> if strip s = [] then Inr None else read_utc (strip s) | _ \<Rightarrow> Inr None)"

definition auto_recovery_suppressed :: "jdict option \<Rightarrow> bool" where
  "auto_recovery_suppressed task \<longleftrightarrow>
     normalize_task_status task \<in> {''handoff_in_progress'', ''resuming'', ''paused'', ''waiting_for_direction''}"

definition recent_local_activity_supersedes_stuck_signal :: "jdict option \<Rightarrow> py_error + bool" where
  "recent_local_activity_supersedes_stuck_signal task =
     (case task of
        None \<Rightarrow> Inr False
      | Some t \<Rightarrow>
          res_bind (parse_text_iso (jget t ''last_local_manual_activity_at'')) (\<lambda>manual.
            case manual of
              None \<Rightarrow> Inr False
            | Some m \<Rightarrow>
                res_bind (parse_text_iso (jget t ''last_progress_at'')) (\<lambda>progress.
                  Inr (case progress of None \<Rightarrow> True | Some p \<Rightarrow> m > p))))"

definition fact_observed_time :: "jdict option \<Rightarrow> jdict list \<Rightarrow> string \<Rightarrow> string" where
  "fact_observed_time task approvals now_iso =
     (let o1 = task_value task ''last_progress_at'' JNull;
          o2 = (if o1 = JNull \<and> approvals \<noteq> []
                then jor (jget (hd approvals) ''requested_at'') (jget (hd approvals) ''created_at'') else o1)
      in if o2 \<in> {JNull, JStr []} then now_iso else py_str o2)"

definition project_not_active_fact :: "string \<Rightarrow> string \<Rightarrow> string \<Rightarrow> fact" where
  "project_not_active_fact project_id state observed_at =
     build_fact project_id ''project_not_active'' ''blocker'' ''info'' ''project is not active''
       (''autonomous continuation is blocked because project_execution_state='' @ state)
       ''watchdog_projection'' observed_at [(''project_execution_state'', JStr state)]"

definition approval_facts :: "string \<Rightarrow> jdict \<Rightarrow> string \<Rightarrow> fact list" where
  "approval_facts project_id approval observed_at =
     [build_fact project_id ''approval_pending'' ''blocker'' ''needs_human'' ''approval required''
        ''session is waiting for an approval decision'' ''approval_store'' observed_at
        [(''approval_id'', JStr (text_or_empty (jget approval ''approval_id'')))],
      build_fact project_id ''awaiting_human_direction'' ''blocker'' ''needs_human''
        ''awaiting operator direction'' ''human input is required before the session can continue''
        ''watchdog_projection'' observed_at []]"

definition recovery_fact_codes :: "string list" where
  "recovery_fact_codes = [''stuck_no_progress'', ''repeat_failure'', ''context_critical'']"

text \<open>The signals of the status analyser, appended one by one; \<open>int()\<close> may raise on the way.\<close>

definition stuck_facts :: "string \<Rightarrow> jdict option \<Rightarrow> string \<Rightarrow> py_error + fact list" where
  "stuck_facts project_id task observed_at =
     res_bind (py_int (task_value task ''stuck_level'' (JInt 0))) (\<lambda>level.
       if level \<ge> 2 then
         res_bind (recent_local_activity_supersedes_stuck_signal task) (\<lambda>superseded.
           Inr (if superseded then [] else
             [build_fact project_id ''stuck_no_progress'' ''blocker'' ''warning'' ''session appears stuck''
                ''no meaningful progress has been observed within the watchdog threshold''
                ''status_analyzer'' observed_at []]))
       else Inr [])"

definition failure_facts :: "string \<Rightarrow> jdict option \<Rightarrow> string \<Rightarrow> py_error + fact list" where
  "failure_facts project_id task observed_at =
     res_bind (py_int (task_value task ''failure_count'' (JInt 0))) (\<lambda>count.
       Inr (if count \<ge> 3 then
         [build_fact project_id ''repeat_failure'' ''blocker'' ''warning'' ''repeated failures detected''
            ''the same failure pattern has repeated multiple times'' ''status_analyzer'' observed_at []]
       else []))"

definition context_facts :: "string \<Rightarrow> jdict option \<Rightarrow> string \<Rightarrow> fact list" where
  "context_facts project_id task observed_at =
     (if py_str (task_value task ''context_pressure'' (JStr ''low'')) = ''critical'' then
        [build_fact project_id ''context_critical'' ''risk'' ''critical'' ''context pressure is critical''
           ''remaining context is too constrained for safe continuation'' ''watchdog_projection''
           observed_at []]
      else [])"

definition recovery_facts :: "string \<Rightarrow> string \<Rightarrow> fact list \<Rightarrow> fact list" where
  "recovery_facts project_id observed_at facts =
     (if list_ex (\<lambda>f. fact_code f \<in> set recovery_fact_codes) facts then
        [build_fact project_id ''recovery_available'' ''advisory'' ''info'' ''recovery may be requested''
           (''watchdog can explain recovery availability; request_recovery remains '' @
            ''advisory-only, while execute_recovery performs the explicit recovery action'')
           ''watchdog_projection'' observed_at []]
      else [])"

definition blocker_facts ::
  "string \<Rightarrow> jdict option \<Rightarrow> string \<Rightarrow> string \<Rightarrow> fact list \<Rightarrow> py_error + fact list" where
  "blocker_facts project_id task observed_at state facts =
     (if truthy (task_value task ''authoritative_project_execution_state_missing'' (JBool False)) then
        Inr (facts @ [build_fact project_id ''project_state_unavailable'' ''blocker'' ''warning''
          ''authoritative project state unavailable''
          (''autonomous continuation is blocked because authoritative '' @
           ''project execution state could not be resolved'')
          ''watchdog_projection'' observed_at []])
      else if is_non_active_project_execution_state (JStr state) then
        Inr (facts @ [project_not_active_fact project_id state observed_at])
      else if auto_recovery_suppressed task then Inr facts
      else
        res_bind (stuck_facts project_id task observed_at) (\<lambda>stuck.
        res_bind (failure_facts project_id task observed_at) (\<lambda>failures.
          (let all = facts @ stuck @ failures @ context_facts project_id task observed_at
           in Inr (all @ recovery_facts project_id observed_at all)))))"

definition build_fact_records ::
  "string \<Rightarrow> jdict option \<Rightarrow> jdict list \<Rightarrow> string option \<Rightarrow> string \<Rightarrow> py_error + fact list" where
  "build_fact_records project_id task approvals link_error now_iso =
     (let observed_at = fact_observed_time task approvals now_iso;
          pending = filter is_actionable_approval approvals;
          state = normalize_project_execution_state task in
      if or_empty link_error \<noteq> [] then
        Inr [build_fact project_id ''control_link_error'' ''availability'' ''unreachable''
          ''control link unavailable'' (or_empty link_error) ''watchdog_control_link'' observed_at []]
      else if truthy (task_value task ''runtime_task_missing'' (JBool False)) then
        Inr [project_not_active_fact project_id state observed_at]
      else if is_terminal_task task \<and> pending = [] then
        Inr [build_fact project_id ''task_completed'' ''advisory'' ''info'' ''session completed''
          ''session reached a terminal completed state'' ''watchdog_projection'' observed_at []]
      else if pending = [] \<and> truthy (task_value task ''pending_approval'' (JBool False)) then
        Inr [build_fact project_id ''approval_state_unavailable'' ''blocker'' ''warning''
          ''approval state unavailable''
          ''runtime reports pending approval but no actionable approval object is available''
          ''watchdog_projection'' observed_at []]
      else
        blocker_facts project_id task observed_at state
          (case pending of [] \<Rightarrow> [] | a # _ \<Rightarrow> approval_facts project_id a observed_at))"

abbreviation fact_codes :: "fact list \<Rightarrow> string list" where
  "fact_codes facts \<equiv> map fact_code facts"

section \<open>What the facts say\<close>

lemma blocker_facts_extend:
  "blocker_facts project_id task observed_at state facts = Inr r \<Longrightarrow> \<exists>more. r = facts @ more"
  by (auto simp: blocker_facts_def res_bind_Inr_iff Let_def split: if_splits)

lemma build_fact_code [simp]:
  "fact_code (build_fact project_id code kind severity summary detail source observed_at related) = code"
  "fact_id (build_fact project_id code kind severity summary detail source observed_at related) =
     project_id @ '':'' @ code"
  "fact_observed_at (build_fact project_id code kind severity summary detail source observed_at related) = observed_at"
  by (simp_all add: build_fact_def)

lemma approval_facts_codes [simp]:
  "fact_codes (approval_facts project_id a t) = [''approval_pending'', ''awaiting_human_direction'']"
  by (simp add: approval_facts_def)

lemma pending_approval_fact:
  assumes "build_fact_records project_id task approvals link now_iso = Inr facts"
    and "a \<in> set approvals" and "is_actionable_approval a"
    and "or_empty link = []" and "\<not> truthy (task_value task ''runtime_task_missing'' (JBool False))"
  shows "''approval_pending'' \<in> set (fact_codes facts)"
proof -
  obtain b bs where pending: "filter is_actionable_approval approvals = b # bs"
    using assms(2,3) by (cases "filter is_actionable_approval approvals") (auto simp: filter_empty_conv)
  with assms(1,4,5) obtain more where "facts = approval_facts project_id b (fact_observed_time task approvals now_iso) @ more"
    by (auto simp: build_fact_records_def Let_def dest!: blocker_facts_extend)
  then show ?thesis by simp
qed

definition blocker_codes :: "string list" where
  "blocker_codes =
     [''project_state_unavailable'', ''project_not_active'', ''stuck_no_progress'', ''repeat_failure'',
      ''context_critical'', ''recovery_available'']"

lemma stuck_codes:
  "stuck_facts project_id task t = Inr r \<Longrightarrow> fact_codes r \<in> {[], [''stuck_no_progress'']}"
  by (auto simp: stuck_facts_def res_bind_Inr_iff split: if_splits)

lemma failure_codes:
  "failure_facts project_id task t = Inr r \<Longrightarrow> fact_codes r \<in> {[], [''repeat_failure'']}"
  by (auto simp: failure_facts_def res_bind_Inr_iff split: if_splits)

lemma context_codes: "fact_codes (context_facts project_id task t) \<in> {[], [''context_critical'']}"
  by (simp add: context_facts_def)

lemma recovery_codes:
  "fact_codes (recovery_facts project_id t facts) =
     (if set (fact_codes facts) \<inter> set recovery_fact_codes \<noteq> {} then [''recovery_available''] else [])"
  by (auto simp: recovery_facts_def list_ex_iff)

lemma blocker_facts_cases:
  assumes "blocker_facts project_id task t state facts = Inr r"
  obtains (same) "r = facts"
  | (one) c where "fact_codes r = fact_codes facts @ [c]"
      "c = ''project_state_unavailable'' \<or> c = ''project_not_active''"
  | (signals) all tail where "fact_codes all = fact_codes facts @ tail" "distinct tail"
      "set tail \<subseteq> set recovery_fact_codes" "r = all @ recovery_facts project_id t all"
proof -
  consider "r = facts"
    | f where "r = facts @ [f]" "fact_code f = ''project_state_unavailable'' \<or> fact_code f = ''project_not_active''"
    | stuck failures where "stuck_facts project_id task t = Inr stuck" "failure_facts project_id task t = Inr failures"
        "r = (facts @ stuck @ failures @ context_facts project_id task t) @
           recovery_facts project_id t (facts @ stuck @ failures @ context_facts project_id task t)"
    using assms
    by (auto simp: blocker_facts_def res_bind_Inr_iff Let_def project_not_active_fact_def split: if_splits)
  then show thesis
  proof cases
    case 1
    then show ?thesis by (rule same)
  next
    case 2
    then show ?thesis using one by simp
  next
    case (3 stuck failures)
    define tail where "tail = fact_codes stuck @ fact_codes failures @ fact_codes (context_facts project_id task t)"
    have "distinct tail \<and> set tail \<subseteq> set recovery_fact_codes"
      using stuck_codes [OF 3(1)] failure_codes [OF 3(2)] context_codes [of project_id task t]
      unfolding tail_def recovery_fact_codes_def by (elim insertE emptyE) (simp_all only:, simp_all)
    then show ?thesis by (intro signals [OF _ _ _ 3(3), of tail]) (simp_all add: tail_def)
  qed
qed

lemma blocker_facts_bound:
  assumes "blocker_facts project_id task t state facts = Inr r"
  shows "set (fact_codes r) \<subseteq> set (fact_codes facts) \<union> set blocker_codes"
  using assms
proof (cases rule: blocker_facts_cases)
  case (one c)
  from one(2) have "c \<in> set blocker_codes" by (auto simp: blocker_codes_def)
  then show ?thesis unfolding one(1) by auto
next
  case (signals all tail)
  have "set (fact_codes r) \<subseteq> set (fact_codes facts) \<union> set tail \<union> {''recovery_available''}"
    unfolding signals(4) map_append recovery_codes signals(1) by auto
  moreover have "set recovery_fact_codes \<subseteq> set blocker_codes" "''recovery_available'' \<in> set blocker_codes"
    by (simp_all add: blocker_codes_def recovery_fact_codes_def)
  ultimately show ?thesis using signals(3) by blast
qed simp

lemma blocker_facts_codes:
  assumes "blocker_facts project_id task t state facts = Inr r"
    and "set (fact_codes facts) \<inter> set blocker_codes = {}" and "distinct (fact_codes facts)"
  shows "distinct (fact_codes r) \<and>
    (''recovery_available'' \<in> set (fact_codes r) \<longleftrightarrow> set (fact_codes r) \<inter> set recovery_fact_codes \<noteq> {})"
proof -
  have news: "c \<notin> set (fact_codes facts)" if "c \<in> set blocker_codes" for c
    using assms(2) that by blast
  have tables: "set recovery_fact_codes \<subseteq> set blocker_codes" "''recovery_available'' \<in> set blocker_codes"
    "''recovery_available'' \<notin> set recovery_fact_codes" "''project_state_unavailable'' \<in> set blocker_codes"
    "''project_not_active'' \<in> set blocker_codes" "''project_state_unavailable'' \<notin> set recovery_fact_codes"
    "''project_not_active'' \<notin> set recovery_fact_codes"
    by (simp_all add: recovery_fact_codes_def blocker_codes_def)
  have none: "set (fact_codes facts) \<inter> set recovery_fact_codes = {}" using assms(2) tables(1) by blast
  from assms(1) show ?thesis
  proof (cases rule: blocker_facts_cases)
    case same
    with assms(3) none news [OF tables(2)] show ?thesis by (simp only:) blast
  next
    case (one c)
    have c: "c \<in> set blocker_codes" "c \<notin> set recovery_fact_codes" "c \<noteq> ''recovery_available''"
      using one(2) tables by auto
    show ?thesis
      unfolding one(1) using assms(3) none news [OF c(1)] news [OF tables(2)] c(2,3) by auto
  next
    case (signals all tail)
    have "distinct (fact_codes all) \<and> ''recovery_available'' \<notin> set (fact_codes all)"
      unfolding signals(1) using signals(2,3) assms(3) none news [OF tables(2)] tables(3) by auto
    then show ?thesis
      using signals(4) recovery_codes [of project_id t all] tables(3) by auto
  qed
qed

text \<open>
  C36: The facts of a session carry distinct codes; recovery is offered exactly when the session is
  stuck, keeps failing or runs out of context; and an approval is reported as pending only when
  one of the approvals is actionable.
\<close>

theorem fact_records_sound:
  assumes "build_fact_records project_id task approvals link now_iso = Inr facts"
  shows "distinct (fact_codes facts) \<and>
    (''recovery_available'' \<in> set (fact_codes facts)) = (set (fact_codes facts) \<inter> set recovery_fact_codes \<noteq> {}) \<and>
    (''approval_pending'' \<in> set (fact_codes facts) \<longrightarrow> (\<exists>a \<in> set approvals. is_actionable_approval a))"
proof -
  let ?t = "fact_observed_time task approvals now_iso"
  let ?pending = "filter is_actionable_approval approvals"
  consider f where "facts = [f]" "fact_code f \<in> {''control_link_error'', ''project_not_active'', ''task_completed'', ''approval_state_unavailable''}"
    | "blocker_facts project_id task ?t (normalize_project_execution_state task)
        (case ?pending of [] \<Rightarrow> [] | a # _ \<Rightarrow> approval_facts project_id a ?t) = Inr facts"
    using assms by (auto simp: build_fact_records_def Let_def project_not_active_fact_def split: if_splits)
  then show ?thesis
  proof cases
    case 1
    then show ?thesis by (auto simp: recovery_fact_codes_def)
  next
    case 2
    define start where "start = (case ?pending of [] \<Rightarrow> [] | a # _ \<Rightarrow> approval_facts project_id a ?t)"
    have "set (fact_codes start) \<inter> set blocker_codes = {} \<and> distinct (fact_codes start)"
    proof -
      have "fact_codes start = [] \<or> fact_codes start = [''approval_pending'', ''awaiting_human_direction'']"
        by (simp add: start_def split: list.split)
      then show ?thesis by (elim disjE) (simp_all only:, simp_all add: blocker_codes_def)
    qed
    with blocker_facts_codes [of project_id task ?t _ start facts] 2
    have d: "distinct (fact_codes facts)" "(''recovery_available'' \<in> set (fact_codes facts)) =
        (set (fact_codes facts) \<inter> set recovery_fact_codes \<noteq> {})" by (auto simp: start_def)
    have "\<exists>a \<in> set approvals. is_actionable_approval a" if "''approval_pending'' \<in> set (fact_codes facts)"
    proof (rule ccontr)
      assume "\<not> (\<exists>a \<in> set approvals. is_actionable_approval a)"
      then have p: "?pending = []" by (simp add: filter_empty_conv)
      with 2 have "blocker_facts project_id task ?t (normalize_project_execution_state task) [] = Inr facts" by simp
      from blocker_facts_bound [OF this] have "set (fact_codes facts) \<subseteq> set blocker_codes" by simp
      then have "''approval_pending'' \<notin> set (fact_codes facts)" by (auto simp: blocker_codes_def simp del: set_map)
      with that show False by simp
    qed
    with d show ?thesis by simp
  qed
qed

definition example_stuck_task :: jdict where
  "example_stuck_task =
     [(''status'', JStr ''running''), (''stuck_level'', JInt 2), (''project_execution_state'', JStr ''active'')]"

lemma example_stuck_facts:
  "map_sum id fact_codes (build_fact_records ''p'' (Some example_stuck_task) [] None ''now'') =
     Inr [''stuck_no_progress'', ''recovery_available'']"
  by code_simp

theorem fact_records_sound_witness:
  "case build_fact_records ''p'' (Some example_stuck_task) [] None ''now'' of
     Inl _ \<Rightarrow> False
   | Inr facts \<Rightarrow> distinct (fact_codes facts) \<and> set (fact_codes facts) \<inter> set recovery_fact_codes \<noteq> {}"
proof -
  obtain facts where f: "build_fact_records ''p'' (Some example_stuck_task) [] None ''now'' = Inr facts"
    and c: "fact_codes facts = [''stuck_no_progress'', ''recovery_available'']"
    using example_stuck_facts by (cases "build_fact_records ''p'' (Some example_stuck_task) [] None ''now''") auto
  from fact_records_sound [OF f] show ?thesis by (simp only: f sum.case c) simp
qed

end
