(* ===== verification/Projection.thy ===== *)
theory Projection
  imports Facts SessionStore "HOL-Library.Product_Lexorder"
begin

text \<open>
  What the read surfaces and the snapshot store show of a session:
  \<^verbatim>\<open>src/watchdog/services/session_spine/projection.py\<close> over the view models of
  \<^verbatim>\<open>src/watchdog/contracts/session_spine/models.py\<close>. \<open>sanitize\<close> stands for
  \<open>sanitize_session_summary\<close>, which rewrites display text and which nothing else depends on. The
  view of the continuation control plane is carried as the JSON value that is written out.
\<close>

section \<open>Views\<close>

record approval_projection =
  apj_approval_id :: string
  apj_project_id :: string
  apj_thread_id :: string
  apj_native_thread_id :: "string option"
  apj_risk_level :: "string option"
  apj_command :: string
  apj_reason :: string
  apj_alternative :: string
  apj_status :: string
  apj_requested_at :: string
  apj_decided_at :: "string option"
  apj_decided_by :: "string option"

record task_progress =
  tp_project_id :: string
  tp_thread_id :: string
  tp_native_thread_id :: "string option"
  tp_activity_phase :: string
  tp_summary :: string
  tp_goal_contract_version :: "string option"
  tp_current_phase_goal :: "string option"
  tp_last_user_instruction :: "string option"
  tp_files_touched :: "string list"
  tp_context_pressure :: string
  tp_stuck_level :: int
  tp_primary_fact_codes :: "string list"
  tp_blocker_fact_codes :: "string list"
  tp_last_progress_at :: "string option"
  tp_recovery_outcome :: "string option"
  tp_recovery_status :: "string option"
  tp_recovery_updated_at :: "string option"
  tp_recovery_child_session_id :: "string option"
  tp_recovery_suppression_reason :: "string option"
  tp_recovery_suppression_source :: "string option"
  tp_recovery_suppression_observed_at :: "string option"
  tp_decision_trace_ref :: "string option"
  tp_decision_degrade_reason :: "string option"
  tp_provider_output_schema_ref :: "string option"
  tp_continuation_control_plane :: json

record workspace_activity =
  wa_project_id :: string
  wa_thread_id :: string
  wa_native_thread_id :: "string option"
  wa_recent_window_minutes :: int
  wa_cwd_exists :: bool
  wa_files_scanned :: int
  wa_latest_mtime_iso :: "string option"
  wa_recent_change_count :: int

record session_projection =
  spj_project_id :: string
  spj_thread_id :: string
  spj_native_thread_id :: "string option"
  spj_session_state :: string
  spj_activity_phase :: string
  spj_attention_state :: string
  spj_headline :: string
  spj_pending_approval_count :: int
  spj_available_intents :: "string list"

section \<open>Reading approvals\<close>

fun approval_text :: "jdict \<Rightarrow> string list \<Rightarrow> string" where
  "approval_text a [] = []"
| "approval_text a (key # keys) =
     (if jget a key \<in> {JNull, JStr []} then approval_text a keys else py_str (jget a key))"

definition approval_nested_text :: "jdict \<Rightarrow> string list \<Rightarrow> string" where
  "approval_nested_text a keys =
     (let direct = approval_text a keys in
      if direct \<noteq> [] then direct
      else (case jget a ''decision'' of JObj d \<Rightarrow> approval_text d keys | _ \<Rightarrow> []))"

definition approval_native_thread_id :: "jdict \<Rightarrow> string option" where
  "approval_native_thread_id a =
     (let native = approval_text a [''native_thread_id'']; thread = approval_text a [''thread_id''] in
      if native \<noteq> [] then Some native
      else if starts_with thread ''session:'' then None
      else nonempty thread)"

definition approval_projection_of :: "string \<Rightarrow> string option \<Rightarrow> jdict \<Rightarrow> approval_projection" where
  "approval_projection_of project_id native a =
     \<lparr>apj_approval_id = text_or_empty (jget a ''approval_id''), apj_project_id = project_id,
      apj_thread_id = stable_thread_id_for_project project_id,
      apj_native_thread_id = native,
      apj_risk_level = nonempty (approval_nested_text a [''risk_level'', ''risk_class'']),
      apj_command = approval_nested_text a [''command'', ''requested_action''],
      apj_reason = approval_nested_text a [''reason'', ''summary'', ''decision_reason''],
      apj_alternative = approval_nested_text a [''alternative''],
      apj_status = text_or_empty (jget a ''status''),
      apj_requested_at = approval_text a [''requested_at'', ''created_at''],
      apj_decided_at = nonempty (text_or_empty (jget a ''decided_at'')),
      apj_decided_by = nonempty (text_or_empty (jget a ''decided_by''))\<rparr>"

definition build_approval_projections ::
  "string \<Rightarrow> string option \<Rightarrow> jdict list \<Rightarrow> approval_projection list" where
  "build_approval_projections project_id native_thread_id approvals =
     map (\<lambda>a. approval_projection_of project_id
       (case approval_native_thread_id a of None \<Rightarrow> native_thread_id | Some n \<Rightarrow> Some n) a) approvals"

definition build_approval_inbox_projections :: "jdict list \<Rightarrow> approval_projection list" where
  "build_approval_inbox_projections approvals =
     map (\<lambda>a. approval_projection_of (text_or_empty (jget a ''project_id''))
       (approval_native_thread_id a) a) approvals"

section \<open>Facts of the session log\<close>

definition session_service_fact_specs :: "(string, string \<times> string \<times> string) dict" where
  "session_service_fact_specs =
     [(''memory_unavailable_degraded'', ''risk'', ''warning'', ''memory unavailable in degraded mode''),
      (''memory_conflict_detected'', ''risk'', ''warning'', ''memory conflict detected''),
      (''human_override_recorded'', ''action'', ''info'', ''human override recorded''),
      (''notification_announced'', ''advisory'', ''info'', ''notification announced''),
      (''notification_delivery_succeeded'', ''action'', ''info'', ''notification delivered''),
      (''notification_delivery_failed'', ''risk'', ''warning'', ''notification delivery failed''),
      (''notification_requeued'', ''advisory'', ''warning'', ''notification requeued''),
      (''notification_receipt_recorded'', ''action'', ''info'', ''notification receipt recorded''),
      (''recovery_execution_suppressed'', ''advisory'', ''warning'', ''recovery execution suppressed''),
      (''interaction_context_superseded'', ''advisory'', ''warning'', ''interaction context superseded''),
      (''interaction_window_expired'', ''risk'', ''warning'', ''interaction window expired'')]"

definition event_sort_key :: "session_event \<Rightarrow> string \<times> int \<times> string \<times> string" where
  "event_sort_key e =
     (if ev_log_seq e \<noteq> None then ''0'' else ''1'',
      case ev_log_seq e of None \<Rightarrow> 0 | Some n \<Rightarrow> n, ev_occurred_at e, ev_event_id e)"

definition utf8 :: "int list \<Rightarrow> string" where
  "utf8 bytes = map char_of bytes"

definition recovery_suppression_detail_label :: "string \<Rightarrow> string" where
  "recovery_suppression_detail_label reason =
     (let r = strip reason in
      if r = ''reentry_without_newer_progress''
        then utf8 [231, 173, 137, 229, 190, 133, 230, 150, 176, 232, 191, 155, 229, 177, 149]
      else if r = ''recovery_in_flight''
        then utf8 [230, 129, 162, 229, 164, 141, 232, 191, 155, 232, 161, 140, 228, 184, 173]
      else if r = ''cooldown_window_active''
        then utf8 [230, 129, 162, 229, 164, 141, 229, 134, 183, 229, 141, 180, 228, 184, 173]
      else if r \<noteq> [] then r else ''unknown'')"

definition or_unknown :: "jdict \<Rightarrow> string \<Rightarrow> string" where
  "or_unknown p key = (if stripped_text (jget p key) = [] then ''unknown'' else stripped_text (jget p key))"

definition session_event_detail :: "session_event \<Rightarrow> string" where
  "session_event_detail e =
     (let p = ev_payload e; t = ev_event_type e in
      if t = ''memory_unavailable_degraded'' then
        ''fallback_mode='' @ or_unknown p ''fallback_mode'' @ '' reason='' @ or_unknown p ''degradation_reason''
      else if t = ''memory_conflict_detected'' then
        ''conflict_reason='' @ or_unknown p ''conflict_reason'' @ '' resolution='' @ or_unknown p ''resolution''
      else if t = ''human_override_recorded'' then
        ''response_action='' @ or_unknown p ''response_action'' @
        '' approval_status='' @ or_unknown p ''approval_status'' @
        '' execution_effect='' @ or_unknown p ''execution_effect''
      else if starts_with t ''notification_'' then
        ''delivery_status='' @ or_unknown p ''delivery_status'' @ '' receipt_id='' @ or_unknown p ''receipt_id''
      else if t = ''interaction_context_superseded'' then
        ''active_interaction_context_id='' @ or_unknown p ''active_interaction_context_id''
      else if t = ''interaction_window_expired'' then ''expired_at='' @ or_unknown p ''expired_at''
      else if t = ''recovery_execution_suppressed'' then
        ''suppression_reason='' @
        recovery_suppression_detail_label (stripped_text (jget p ''suppression_reason'')) @
        '' suppression_source='' @ or_unknown p ''suppression_source''
      else t)"

fun latest_by_type :: "string \<Rightarrow> (string, session_event) dict \<Rightarrow> session_event list \<Rightarrow>
    (string, session_event) dict" where
  "latest_by_type project_id d [] = d"
| "latest_by_type project_id d (e # es) =
     latest_by_type project_id
       (if ev_project_id e \<noteq> project_id then d
        else if map_of session_service_fact_specs (ev_event_type e) = None then d
        else dict_set (ev_event_type e) e d) es"

definition session_service_fact :: "string \<Rightarrow> session_event \<Rightarrow> fact" where
  "session_service_fact project_id e =
     (case map_of session_service_fact_specs (ev_event_type e) of
        Some (kind, severity, summary) \<Rightarrow>
          \<lparr>fact_id = project_id @ '':'' @ ev_event_type e @ '':'' @ ev_event_id e,
           fact_code = ev_event_type e, fact_kind = kind, fact_severity = severity,
           fact_summary = summary, fact_detail = session_event_detail e,
           fact_source = ''session_service'', fact_observed_at = ev_occurred_at e,
           fact_related_ids = map (\<lambda>(k, v). (k, JStr v)) (ev_related_ids e)\<rparr>)"

definition build_session_service_fact_records :: "string \<Rightarrow> session_event list \<Rightarrow> fact list" where
  "build_session_service_fact_records project_id events =
     map (session_service_fact project_id)
       (sort_key event_sort_key
         (dict_values (latest_by_type project_id [] (sort_key event_sort_key events))))"

section \<open>Progress and workspace\<close>

text \<open>Iterating over a value: a list's items, a text's characters, an object's keys.\<close>

definition py_iter :: "json \<Rightarrow> py_error + json list" where
  "py_iter j =
     (case j of
        JList xs \<Rightarrow> Inr xs
      | JStr s \<Rightarrow> Inr (map (\<lambda>c. JStr [c]) s)
      | JObj d \<Rightarrow> Inr (map (\<lambda>(k, _). JStr k) d)
      | _ \<Rightarrow> Inl (TypeError ''object is not iterable''))"

definition nonempty_texts :: "json list \<Rightarrow> string list" where
  "nonempty_texts xs =
     List.map_filter (\<lambda>x. case x of JStr s \<Rightarrow> nonempty s | _ \<Rightarrow> None) xs"

definition optional_text :: "jdict option \<Rightarrow> string \<Rightarrow> string option" where
  "optional_text d key =
     (case d of None \<Rightarrow> None | Some e \<Rightarrow> nonempty (text_or_empty (jget e key)))"

definition build_task_progress_view ::
  "(string \<Rightarrow> string) \<Rightarrow> string \<Rightarrow> jdict option \<Rightarrow> fact list \<Rightarrow> jdict option \<Rightarrow> jdict option \<Rightarrow>
   jdict option \<Rightarrow> json \<Rightarrow> py_error + task_progress" where
  "build_task_progress_view sanitize project_id task facts recovery decision_trace goal_context
       continuation_control_plane =
     res_bind (py_iter (task_value task ''files_touched'' (JList []))) (\<lambda>files.
     res_bind (py_int (task_value task ''stuck_level'' (JInt 0))) (\<lambda>level.
       Inr \<lparr>tp_project_id = project_id, tp_thread_id = stable_thread_id_for_project project_id,
         tp_native_thread_id = task_native_thread_id task,
         tp_activity_phase = py_str (task_value task ''phase'' (JStr ''unknown'')),
         tp_summary = sanitize (py_str (task_value task ''last_summary'' (JStr []))),
         tp_goal_contract_version = optional_text goal_context ''goal_contract_version'',
         tp_current_phase_goal = optional_text goal_context ''current_phase_goal'',
         tp_last_user_instruction = optional_text goal_context ''last_user_instruction'',
         tp_files_touched = nonempty_texts files,
         tp_context_pressure = py_str (task_value task ''context_pressure'' (JStr ''unknown'')),
         tp_stuck_level = level,
         tp_primary_fact_codes = map fact_code facts,
         tp_blocker_fact_codes = map fact_code (filter (\<lambda>f. fact_kind f = ''blocker'') facts),
         tp_last_progress_at = nonempty (py_str (task_value task ''last_progress_at'' (JStr []))),
         tp_recovery_outcome = optional_text recovery ''recovery_outcome'',
         tp_recovery_status = optional_text recovery ''recovery_status'',
         tp_recovery_updated_at = optional_text recovery ''recovery_updated_at'',
         tp_recovery_child_session_id = optional_text recovery ''recovery_child_session_id'',
         tp_recovery_suppression_reason = optional_text recovery ''recovery_suppression_reason'',
         tp_recovery_suppression_source = optional_text recovery ''recovery_suppression_source'',
         tp_recovery_suppression_observed_at = optional_text recovery ''recovery_suppression_observed_at'',
         tp_decision_trace_ref = optional_text decision_trace ''decision_trace_ref'',
         tp_decision_degrade_reason = optional_text decision_trace ''decision_degrade_reason'',
         tp_provider_output_schema_ref = optional_text decision_trace ''provider_output_schema_ref'',
         tp_continuation_control_plane = continuation_control_plane\<rparr>))"

definition build_workspace_activity_view ::
  "string \<Rightarrow> jdict option \<Rightarrow> jdict \<Rightarrow> py_error + workspace_activity" where
  "build_workspace_activity_view project_id task activity =
     res_bind (py_int (jor (jget activity ''recent_window_minutes'') (JInt 15))) (\<lambda>window.
     res_bind (py_int (jor (jget activity ''files_scanned'') (JInt 0))) (\<lambda>scanned.
     res_bind (py_int (jor (jget activity ''recent_change_count'') (JInt 0))) (\<lambda>count.
       Inr \<lparr>wa_project_id = project_id, wa_thread_id = stable_thread_id_for_project project_id,
         wa_native_thread_id = task_native_thread_id task,
         wa_recent_window_minutes = window,
         wa_cwd_exists = truthy (jget activity ''cwd_exists''),
         wa_files_scanned = scanned,
         wa_latest_mtime_iso = nonempty (text_or_empty (jget activity ''latest_mtime_iso'')),
         wa_recent_change_count = count\<rparr>)))"

section \<open>The session\<close>

definition any_code :: "string list \<Rightarrow> string list \<Rightarrow> bool" where
  "any_code codes wanted \<longleftrightarrow> list_ex (\<lambda>c. c \<in> set wanted) codes"

definition build_available_intents ::
  "bool \<Rightarrow> bool \<Rightarrow> int \<Rightarrow> bool \<Rightarrow> string list \<Rightarrow> string list" where
  "build_available_intents has_task is_terminal pending_approval_count can_reject_approval codes =
     (let blocked = any_code codes
            [''project_not_active'', ''project_state_unavailable'', ''approval_state_unavailable''] in
      [''get_session''] @
      (if has_task \<and> \<not> is_terminal \<and> \<not> blocked then [''continue_session''] else []) @
      (if pending_approval_count > 0
       then [''list_pending_approvals'', ''approve_approval''] @
            (if can_reject_approval then [''reject_approval''] else []) else []) @
      (if blocked then [''why_stuck'', ''explain_blocker'']
       else if any_code codes recovery_fact_codes then
         [''why_stuck'', ''explain_blocker'', ''request_recovery''] @
         (if ''context_critical'' \<in> set codes then [''execute_recovery''] else [])
       else if any_code codes [''approval_pending'', ''awaiting_human_direction'']
         then [''why_stuck'', ''explain_blocker'']
       else []))"

definition build_session_projection ::
  "(string \<Rightarrow> string) \<Rightarrow> string \<Rightarrow> jdict option \<Rightarrow> jdict list \<Rightarrow> fact list \<Rightarrow> session_projection" where
  "build_session_projection sanitize project_id task approvals facts =
     (let codes = map fact_code facts;
          pending = actionable_approval_count approvals;
          terminal = (''task_completed'' \<in> set codes \<or> (pending = 0 \<and> is_terminal_task task));
          summary_or = (\<lambda>d. sanitize (py_str (task_value task ''last_summary'' (JStr d))));
          (state, attention, headline) =
            (if ''control_link_error'' \<in> set codes
               then (''unavailable'', ''unreachable'', ''control link unavailable'')
             else if any_code codes [''approval_pending'', ''awaiting_human_direction'']
               then (''awaiting_approval'', ''needs_human'', summary_or ''waiting for approval'')
             else if ''approval_state_unavailable'' \<in> set codes
               then (''blocked'', ''critical'', summary_or ''approval state unavailable'')
             else if ''project_not_active'' \<in> set codes
               then (''blocked'', ''critical'', summary_or ''project is not active'')
             else if any_code codes recovery_fact_codes
               then (''blocked'', ''critical'', summary_or ''session blocked'')
             else (''active'', ''normal'', summary_or ''session active''))
      in \<lparr>spj_project_id = project_id, spj_thread_id = stable_thread_id_for_project project_id,
          spj_native_thread_id = task_native_thread_id task, spj_session_state = state,
          spj_activity_phase = py_str (task_value task ''phase'' (JStr ''unknown'')),
          spj_attention_state = attention, spj_headline = headline,
          spj_pending_approval_count = pending,
          spj_available_intents =
            build_available_intents (task \<noteq> None) terminal pending (has_rejectable_approval approvals) codes\<rparr>)"

end
