(* ===== verification/CanonicalJson.thy ===== *)
theory CanonicalJson
  imports ContinuationPacket
begin

text \<open>
  The canonical JSON text of \<open>json.dumps(x, ensure_ascii=False, sort_keys=True,
  separators=(",", ":"))\<close>, which every fingerprint of the program hashes, determines the value up
  to the order of the keys of its objects: two values have the same text exactly when they have
  the same normal form, in which the keys of every object are sorted.
\<close>

section \<open>Normal form\<close>

fun json_norm :: "json \<Rightarrow> json" where
  "json_norm (JList xs) = JList (map json_norm xs)"
| "json_norm (JObj d) = JObj (sort_key fst (map (\<lambda>(k, v). (k, json_norm v)) d))"
| "json_norm j = j"

lemma insort_key_map: "insort_key f (g x) (map g xs) = map g (insort_key (f \<circ> g) x xs)"
  by (induction xs) auto

lemma sort_key_map: "sort_key f (map g xs) = map g (sort_key (f \<circ> g) xs)"
proof (induction xs)
  case (Cons x xs)
  then show ?case using insort_key_map [of f g x "sort_key (f \<circ> g) xs"] by (simp add: comp_def)
qed simp

lemma sort_map_values: "sort_key fst (map (\<lambda>(k, v). (k, f v)) d) = map (\<lambda>(k, v). (k, f v)) (sort_key fst d)"
proof -
  have "(fst \<circ> (\<lambda>(k, v). (k, f v))) = (fst :: 'a \<times> 'c \<Rightarrow> 'a)" by auto
  then show ?thesis by (simp add: sort_key_map)
qed

lemma json_norm_JObj: "json_norm (JObj d) = JObj (map (\<lambda>(k, v). (k, json_norm v)) (sort_key fst d))"
  by (simp add: sort_map_values)

lemma stable_json_JObj:
  "stable_json (JObj d) =
     ''{'' @ join '','' (map (\<lambda>(k, v). json_string k @ '':'' @ stable_json v) (sort_key fst d)) @ ''}''"
  by (simp only: stable_json.simps sort_map_values map_map) (simp add: comp_def case_prod_unfold)

declare json_norm.simps(2) [simp del] json_norm_JObj [simp]
declare stable_json.simps(6) [simp del] stable_json_JObj [simp]

section \<open>Texts\<close>

abbreviation quote :: char where
  "quote \<equiv> CHR 0x22"

abbreviation backslash :: char where
  "backslash \<equiv> CHR 0x5C"

lemma char_code_inj: "char_code c = char_code d \<longleftrightarrow> c = d"
  by (simp add: char_code_def)

lemma char_code_range: "0 \<le> char_code c" "char_code c < 256"
  by (cases c; simp add: char_code_def of_char_def; fail)+

lemma hex_digit_inj:
  assumes "hex_digit m = hex_digit n" "0 \<le> m" "m < 16" "0 \<le> n" "n < 16"
  shows "m = n"
proof -
  have c: "char_code (hex_digit k) = (if k < 10 then 48 + k else 87 + k)" if "0 \<le> k" "k < 16" for k
    using that by (simp add: hex_digit_def)
  from assms(1) have "char_code (hex_digit m) = char_code (hex_digit n)" by simp
  with assms(2-) show ?thesis by (simp add: c split: if_splits)
qed

lemma escape_plain:
  "char_code c \<noteq> 34 \<Longrightarrow> char_code c \<noteq> 92 \<Longrightarrow> 32 \<le> char_code c \<Longrightarrow> json_escape c = [c]"
  by (simp add: json_escape_def Let_def)

lemma backslash_code: "char_of (92 :: int) = backslash" "char_code backslash = 92" "char_code quote = 34"
  by code_simp+

lemma escape_coded:
  assumes "\<not> (char_code c \<noteq> 34 \<and> char_code c \<noteq> 92 \<and> 32 \<le> char_code c)"
  obtains r where "json_escape c = backslash # r" "r \<noteq> []"
proof -
  have "\<exists>r. json_escape c = backslash # r \<and> r \<noteq> []"
    using assms by (auto simp: json_escape_def Let_def backslash_code)
  then show thesis using that by blast
qed

definition short_escapes :: "(char \<times> int) list" where
  "short_escapes =
     [(quote, 34), (backslash, 92), (CHR ''n'', 10), (CHR ''r'', 13), (CHR ''t'', 9), (CHR ''b'', 8),
      (CHR ''f'', 12)]"

lemma short_escapes_distinct: "distinct (map fst short_escapes)" "CHR ''u'' \<notin> fst ` set short_escapes"
  by (simp_all add: short_escapes_def)

lemma escape_table:
  assumes "\<not> (char_code c \<noteq> 34 \<and> char_code c \<noteq> 92 \<and> 32 \<le> char_code c)"
  shows "(\<exists>e. json_escape c = [backslash, e] \<and>
            (e, char_code c) \<in> set short_escapes) \<or>
         (json_escape c = [backslash, CHR ''u'', CHR ''0'', CHR ''0'', hex_digit (char_code c div 16),
            hex_digit (char_code c mod 16)] \<and> char_code c < 32)"
proof -
  have "c = quote" if "char_code c = 34" using that by (simp add: backslash_code flip: char_code_inj)
  moreover have "c = backslash" if "char_code c = 92" using that by (simp add: backslash_code flip: char_code_inj)
  ultimately show ?thesis using assms
    by (auto simp: json_escape_def Let_def backslash_code short_escapes_def)
qed

lemma escape_inj:
  assumes "json_escape c @ x = json_escape d @ y"
  shows "c = d \<and> x = y"
proof -
  let ?plain = "\<lambda>c. char_code c \<noteq> 34 \<and> char_code c \<noteq> 92 \<and> 32 \<le> char_code c"
  have not_bs: "c \<noteq> backslash" if "?plain c" for c using that by (auto simp: backslash_code)
  consider "?plain c" "?plain d" | "?plain c" "\<not> ?plain d" | "\<not> ?plain c" "?plain d"
    | "\<not> ?plain c" "\<not> ?plain d" by blast
  then show ?thesis
  proof cases
    case 1
    with assms show ?thesis by (simp add: escape_plain)
  next
    case 2
    obtain r where "json_escape d = backslash # r" using 2(2) by (rule escape_coded)
    with assms 2 not_bs [of c] show ?thesis by (simp add: escape_plain)
  next
    case 3
    obtain r where "json_escape c = backslash # r" using 3(1) by (rule escape_coded)
    with assms 3 not_bs [of d] show ?thesis by (simp add: escape_plain)
  next
    case 4
    have hex: "m = n" if "hex_digit (m div 16) = hex_digit (n div 16)" "hex_digit (m mod 16) = hex_digit (n mod 16)"
      "0 \<le> m" "m < 32" "0 \<le> n" "n < 32" for m n
    proof -
      have "m div 16 = n div 16" using that by (intro hex_digit_inj) auto
      moreover have "m mod 16 = n mod 16" using that(2) by (rule hex_digit_inj) auto
      ultimately show "m = n" by (metis div_mult_mod_eq)
    qed
    have "char_code c = char_code d \<and> x = y"
      using escape_table [OF 4(1)] escape_table [OF 4(2)]
    proof (elim disjE exE conjE)
      fix e f
      assume "json_escape c = [backslash, e]" "json_escape d = [backslash, f]"
        and m: "(e, char_code c) \<in> set short_escapes" "(f, char_code d) \<in> set short_escapes"
      with assms have "e = f" "x = y" by simp_all
      with m eq_key_imp_eq_value [OF short_escapes_distinct(1)] show ?thesis by blast
    next
      assume "json_escape c = [backslash, CHR ''u'', CHR ''0'', CHR ''0'', hex_digit (char_code c div 16),
            hex_digit (char_code c mod 16)]" "char_code c < 32"
        "json_escape d = [backslash, CHR ''u'', CHR ''0'', CHR ''0'', hex_digit (char_code d div 16),
            hex_digit (char_code d mod 16)]" "char_code d < 32"
      with assms hex [of "char_code c" "char_code d"] show ?thesis by (simp add: char_code_range)
    qed (use assms short_escapes_distinct(2) in force)+
    then show ?thesis by (simp add: char_code_inj)
  qed
qed

lemma escape_not_quote: "json_escape c @ x \<noteq> quote # y"
proof (cases "char_code c \<noteq> 34 \<and> char_code c \<noteq> 92 \<and> 32 \<le> char_code c")
  case True
  then have "c \<noteq> quote" by (auto simp: backslash_code)
  with True show ?thesis by (simp add: escape_plain)
next
  case False
  then obtain r where "json_escape c = backslash # r" by (rule escape_coded)
  then show ?thesis by simp
qed

lemma quote_code: "char_of (34 :: int) = quote"
  by code_simp

lemma escaped_inj:
  "concat (map json_escape s) @ quote # x = concat (map json_escape t) @ quote # y \<Longrightarrow> s = t \<and> x = y"
proof (induction s arbitrary: t)
  case Nil
  then show ?case by (cases t) (auto simp: escape_not_quote [symmetric])
next
  case (Cons c s)
  then show ?case
  proof (cases t)
    case Nil
    with Cons.prems show ?thesis by (simp add: escape_not_quote)
  next
    case (Cons d t')
    with Cons.prems have "json_escape c @ concat (map json_escape s) @ quote # x =
        json_escape d @ concat (map json_escape t') @ quote # y" by simp
    from escape_inj [OF this] Cons.IH [of t'] Cons show ?thesis by blast
  qed
qed

lemma json_string_inj: "json_string s @ x = json_string t @ y \<Longrightarrow> s = t \<and> x = y"
  by (auto simp: json_string_def Let_def quote_code dest: escaped_inj)

section \<open>Values\<close>

text \<open>What may follow a value in the text: nothing, a comma or a closing bracket.\<close>

definition ends_value :: "string \<Rightarrow> bool" where
  "ends_value s \<longleftrightarrow> s = [] \<or> hd s \<in> {CHR '','', CHR '']'', CHR ''}''}"

lemma ends_value_simps [simp]:
  "ends_value []" "ends_value (CHR '','' # s)" "ends_value (CHR '']'' # s)" "ends_value (CHR ''}'' # s)"
  by (simp_all add: ends_value_def)

lemma digits_inj:
  assumes "a @ x = b @ y" and "\<forall>c \<in> set a. is_digit c" and "\<forall>c \<in> set b. is_digit c"
    and "ends_value x" and "ends_value y"
  shows "a = b \<and> x = y"
proof -
  have nd: "\<not> is_digit c" if "c \<in> {CHR '','', CHR '']'', CHR ''}''}" for c
    using that by (auto simp: is_digit_def char_code_def)
  have stop: "takeWhile is_digit (l @ z) = l" if "\<forall>c \<in> set l. is_digit c" "ends_value z" for l z
    using that nd by (cases z) (auto simp: ends_value_def takeWhile_append)
  from assms have "a = b" using stop [of a x] stop [of b y] by simp
  with assms(1) show ?thesis by simp
qed

lemma str_of_nat_nonempty: "str_of_nat n \<noteq> []"
  by (subst str_of_nat.simps) simp

lemma str_of_int_start: "\<exists>c r. str_of_int i = c # r \<and> (c = CHR ''-'' \<or> is_digit c)"
proof (cases "i < 0")
  case True
  then show ?thesis by (simp add: str_of_int_def)
next
  case False
  obtain c r where "str_of_nat (nat i) = c # r" using str_of_nat_nonempty by (metis list.exhaust)
  moreover from this have "is_digit c" using str_of_nat_digits [of c "nat i"] by simp
  ultimately show ?thesis using False by (simp add: str_of_int_def)
qed

lemma str_of_int_prefix_inj:
  assumes "str_of_int i @ s = str_of_int j @ t" and "ends_value s" and "ends_value t"
  shows "i = j \<and> s = t"
proof -
  have nat: "m = n \<and> s = t" if "str_of_nat m @ s = str_of_nat n @ t" for m n
    using digits_inj [OF that] str_of_nat_digits assms(2,3) by (metis str_of_nat_inj)
  have mixed: "CHR ''-'' # u \<noteq> str_of_nat n @ v" for u n v
  proof
    assume "CHR ''-'' # u = str_of_nat n @ v"
    then show False using str_of_nat_nonempty [of n] str_of_nat_not_minus [of n]
      by (cases "str_of_nat n") auto
  qed
  show ?thesis
  proof (cases "i < 0"; cases "j < 0")
    assume "i < 0" "j < 0"
    with assms(1) nat [of "nat (- i)" "nat (- j)"] have "nat (- i) = nat (- j) \<and> s = t"
      by (simp add: str_of_int_def)
    with \<open>i < 0\<close> \<open>j < 0\<close> show ?thesis by arith
  next
    assume "i < 0" "\<not> j < 0"
    with assms(1) mixed [of "str_of_nat (nat (- i)) @ s" "nat j" t] show ?thesis by (simp add: str_of_int_def)
  next
    assume "\<not> i < 0" "j < 0"
    with assms(1) mixed [of "str_of_nat (nat (- j)) @ t" "nat i" s] show ?thesis by (simp add: str_of_int_def)
  next
    assume "\<not> i < 0" "\<not> j < 0"
    with assms(1) nat [of "nat i" "nat j"] have "nat i = nat j \<and> s = t"
      by (simp add: str_of_int_def)
    with \<open>\<not> i < 0\<close> \<open>\<not> j < 0\<close> show ?thesis by arith
  qed
qed

lemma join_Cons: "join sep (w # ws) = w @ (if ws = [] then [] else sep @ join sep ws)"
  by (cases ws) auto

lemma join_elements:
  assumes "\<And>a b u v. a \<in> set xs' \<Longrightarrow> f a @ u = f b @ v \<Longrightarrow> ends_value u \<Longrightarrow> ends_value v \<Longrightarrow>
      R a b \<and> u = v"
    and start: "\<And>a. f a \<noteq> [] \<and> hd (f a) \<noteq> c"
    and c: "c = CHR '']'' \<or> c = CHR ''}''"
    and eq: "join '','' (map f xs') @ c # s = join '','' (map f bs) @ c # t"
  shows "list_all2 R xs' bs \<and> s = t"
  using assms(1) eq
proof (induction xs' arbitrary: bs)
  case Nil
  show ?case
  proof (cases bs)
    case Nil
    with \<open>join '','' (map f []) @ c # s = join '','' (map f bs) @ c # t\<close> show ?thesis by simp
  next
    case (Cons b bs')
    with Nil.prems(2) start [of b] show ?thesis by (cases "f b") (auto simp: join_Cons)
  qed
next
  case (Cons a as0)
  show ?case
  proof (cases bs)
    case Nil
    with Cons.prems(2) start [of a] show ?thesis by (cases "f a") (auto simp: join_Cons)
  next
    case bs: (Cons b bs')
    define u where "u = (if as0 = [] then [] else '','' @ join '','' (map f as0)) @ c # s"
    define v where "v = (if bs' = [] then [] else '','' @ join '','' (map f bs')) @ c # t"
    have "f a @ u = f b @ v"
      using Cons.prems(2) by (simp add: bs join_Cons u_def v_def split: if_splits)
    moreover have "ends_value u" "ends_value v" using c by (auto simp: u_def v_def)
    ultimately have "R a b \<and> u = v" by (intro Cons.prems(1)) simp_all
    then have ab: "R a b" "u = v" by simp_all
    show ?thesis
    proof (cases "as0 = [] \<or> bs' = []")
      case True
      with ab c show ?thesis by (auto simp: bs u_def v_def split: if_splits)
    next
      case False
      with ab(2) have "join '','' (map f as0) @ c # s = join '','' (map f bs') @ c # t"
        by (simp add: u_def v_def)
      moreover have "R a b \<and> u = v" if "a \<in> set as0" "f a @ u = f b @ v" "ends_value u" "ends_value v"
        for a b u v using that by (intro Cons.prems(1)) simp_all
      ultimately have "list_all2 R as0 bs' \<and> s = t" by (rule Cons.IH [rotated])
      with ab(1) show ?thesis by (simp add: bs)
    qed
  qed
qed

text \<open>The first character of the text tells which kind of value it is.\<close>

fun json_lead :: "json \<Rightarrow> char" where
  "json_lead JNull = CHR ''n''"
| "json_lead (JBool b) = (if b then CHR ''t'' else CHR ''f'')"
| "json_lead (JInt i) = hd (str_of_int i)"
| "json_lead (JStr s) = quote"
| "json_lead (JList xs) = CHR ''[''"
| "json_lead (JObj d) = CHR ''{''"

fun json_kind :: "json \<Rightarrow> nat" where
  "json_kind JNull = 0"
| "json_kind (JBool b) = 1"
| "json_kind (JInt i) = 2"
| "json_kind (JStr s) = 3"
| "json_kind (JList xs) = 4"
| "json_kind (JObj d) = 5"

definition kind_of_lead :: "char \<Rightarrow> nat" where
  "kind_of_lead c =
     (if c = CHR ''n'' then 0 else if c = CHR ''t'' \<or> c = CHR ''f'' then 1 else if c = quote then 3
      else if c = CHR ''['' then 4 else if c = CHR ''{'' then 5 else 2)"

lemma not_digits:
  "\<not> is_digit (CHR ''n'')" "\<not> is_digit (CHR ''t'')" "\<not> is_digit (CHR ''f'')" "\<not> is_digit quote"
  "\<not> is_digit (CHR ''['')" "\<not> is_digit (CHR ''{'')" "\<not> is_digit (CHR '']'')" "\<not> is_digit (CHR ''}'')"
  by code_simp+

lemma int_lead: "str_of_int i \<noteq> [] \<and> kind_of_lead (hd (str_of_int i)) = 2 \<and>
    hd (str_of_int i) \<noteq> CHR '']'' \<and> hd (str_of_int i) \<noteq> CHR ''}''"
proof -
  obtain c r where cr: "str_of_int i = c # r" "c = CHR ''-'' \<or> is_digit c" using str_of_int_start by blast
  from cr(2) show ?thesis
  proof
    assume "is_digit c"
    then have "c \<notin> {CHR ''n'', CHR ''t'', CHR ''f'', quote, CHR ''['', CHR ''{'', CHR '']'', CHR ''}''}"
      using not_digits by auto
    then show ?thesis by (simp add: cr(1) kind_of_lead_def)
  qed (simp add: cr(1) kind_of_lead_def)
qed

lemma json_lead_ok:
  "stable_json x \<noteq> [] \<and> hd (stable_json x) = json_lead x \<and> kind_of_lead (json_lead x) = json_kind x \<and>
   json_lead x \<noteq> CHR '']'' \<and> json_lead x \<noteq> CHR ''}''"
proof (cases x)
  case (JInt i)
  then show ?thesis by (simp add: int_lead)
qed (simp_all add: json_string_def Let_def quote_code kind_of_lead_def)

lemma same_kind:
  assumes "stable_json x @ s = stable_json y @ t"
  shows "json_kind x = json_kind y"
proof -
  from assms have "hd (stable_json x) = hd (stable_json y)"
    using json_lead_ok [of x] json_lead_ok [of y] by (metis hd_append2)
  then show ?thesis using json_lead_ok [of x] json_lead_ok [of y] by metis
qed

lemma json_string_Cons: "json_string s = quote # concat (map json_escape s) @ [quote]"
  by (simp add: json_string_def Let_def quote_code)

lemma member_print_start: "json_string k @ u \<noteq> [] \<and> hd (json_string k @ u) \<noteq> CHR ''}''"
  by (simp add: json_string_Cons)

lemma stable_json_prefix_inj:
  "stable_json x @ s = stable_json y @ t \<Longrightarrow> ends_value s \<Longrightarrow> ends_value t \<Longrightarrow>
     json_norm x = json_norm y \<and> s = t"
proof (induction x arbitrary: y s t)
  case JNull
  from same_kind [OF JNull.prems(1)] JNull.prems show ?case by (cases y) simp_all
next
  case (JBool b)
  from same_kind [OF JBool.prems(1)] JBool.prems show ?case by (cases y) (auto split: if_splits)
next
  case (JInt i)
  show ?case
  proof (cases y)
    case (JInt j)
    from str_of_int_prefix_inj [of i s j t] JInt.prems JInt show ?thesis by simp
  qed (use same_kind [OF JInt.prems(1)] in simp_all)
next
  case (JStr a)
  show ?case
  proof (cases y)
    case (JStr b)
    with JStr.prems json_string_inj [of a s b t] show ?thesis by simp
  qed (use same_kind [OF JStr.prems(1)] in simp_all)
next
  case (JList xs)
  show ?case
  proof (cases y)
    case y: (JList ys)
    have start: "stable_json a \<noteq> [] \<and> hd (stable_json a) \<noteq> CHR '']''" for a
      using json_lead_ok [of a] by simp
    have "list_all2 (\<lambda>a b. json_norm a = json_norm b) xs ys \<and> s = t"
    proof (rule join_elements [where f = stable_json and c = "CHR '']''"])
      show "join '','' (map stable_json xs) @ CHR '']'' # s = join '','' (map stable_json ys) @ CHR '']'' # t"
        using JList.prems(1) y by simp
      show "json_norm a = json_norm b \<and> u = v" if "a \<in> set xs" "stable_json a @ u = stable_json b @ v"
        "ends_value u" "ends_value v" for a b u v
        using that by (rule JList.IH)
    qed (simp_all add: start)
    then show ?thesis by (auto simp: y list_all2_conv_all_nth intro: nth_equalityI)
  qed (use same_kind [OF JList.prems(1)] in simp_all)
next
  case (JObj d)
  show ?case
  proof (cases y)
    case y: (JObj e)
    let ?f = "\<lambda>(k, v). json_string k @ '':'' @ stable_json v"
    let ?R = "\<lambda>a b. fst a = fst b \<and> json_norm (snd a) = json_norm (snd b)"
    have "list_all2 ?R (sort_key fst d) (sort_key fst e) \<and> s = t"
    proof (rule join_elements [where f = ?f and c = "CHR ''}''"])
      show "join '','' (map ?f (sort_key fst d)) @ CHR ''}'' # s =
          join '','' (map ?f (sort_key fst e)) @ CHR ''}'' # t"
        using JObj.prems(1) y by simp
      show "?f a \<noteq> [] \<and> hd (?f a) \<noteq> CHR ''}''" for a
        using member_print_start by (cases a) simp
      show "?R a b \<and> u = v" if "a \<in> set (sort_key fst d)" "?f a @ u = ?f b @ v" "ends_value u" "ends_value v"
        for a b u v
      proof -
        obtain k x l z where ab: "a = (k, x)" "b = (l, z)" by (metis surj_pair)
        from that(2) have "json_string k @ '':'' @ stable_json x @ u = json_string l @ '':'' @ stable_json z @ v"
          by (simp add: ab)
        from json_string_inj [OF this] have kl: "k = l" and "stable_json x @ u = stable_json z @ v" by auto
        moreover have "(k, x) \<in> set d" using that(1) ab by simp
        ultimately have "json_norm x = json_norm z \<and> u = v"
          using JObj.IH [of "(k, x)" x u z v] that(3,4) by simp
        with kl show ?thesis by (simp add: ab)
      qed
    qed simp
    then show ?thesis
      by (auto simp: y list_all2_conv_all_nth case_prod_unfold intro!: nth_equalityI)
  qed (use same_kind [OF JObj.prems(1)] in simp_all)
qed

lemma stable_json_norm: "stable_json (json_norm x) = stable_json x"
proof (induction x)
  case (JList xs)
  then show ?case by (simp add: comp_def cong: map_cong)
next
  case (JObj d)
  have s: "sort_key fst (map (\<lambda>(k, v). (k, json_norm v)) (sort_key fst d)) =
      map (\<lambda>(k, v). (k, json_norm v)) (sort_key fst d)"
    by (simp add: sort_map_values sort_key_id_if_sorted)
  have "map (\<lambda>(k, v). json_string k @ '':'' @ stable_json v) (map (\<lambda>(k, v). (k, json_norm v)) (sort_key fst d)) =
      map (\<lambda>(k, v). json_string k @ '':'' @ stable_json v) (sort_key fst d)"
    using JObj.IH by (auto simp: case_prod_unfold)
  then show ?case by (simp only: json_norm_JObj stable_json_JObj s)
qed simp_all

lemma stable_json_eq_iff: "stable_json x = stable_json y \<longleftrightarrow> json_norm x = json_norm y"
  using stable_json_prefix_inj [of x "[]" y "[]"] stable_json_norm by (metis append_Nil2 ends_value_simps(1))

text \<open>
  C12: The canonical text of a value is the text of its normal form, and two values have the same
  canonical text, so the same fingerprint, exactly when their normal forms are equal: nothing but
  the order of keys is lost.
\<close>

theorem canonical_text_exact:
  "stable_json (json_norm x) = stable_json x \<and> (stable_json x = stable_json y) = (json_norm x = json_norm y)"
  by (simp only: stable_json_norm stable_json_eq_iff)

text \<open>Values with the same normal form are equal for Python.\<close>

lemma json_norm_eq: "json_wf x \<Longrightarrow> json_norm x = json_norm y \<Longrightarrow> json_eq x y"
proof (induction x arbitrary: y)
  case (JList xs)
  then obtain ys where y: "y = JList ys" by (cases y) auto
  with JList.prems(2) have eq: "map json_norm xs = map json_norm ys" by simp
  have len: "length xs = length ys" using arg_cong [OF eq, of length] by simp
  have "json_eq (xs ! i) (ys ! i)" if "i < length xs" for i
  proof (rule JList.IH)
    show "json_norm (xs ! i) = json_norm (ys ! i)"
      using arg_cong [OF eq, of "\<lambda>l. l ! i"] that len by simp
  qed (use JList.prems(1) that in auto)
  with len show ?case by (auto simp: y in_set_zip)
next
  case (JObj d)
  then obtain e where y: "y = JObj e" by (cases y) auto
  with JObj.prems(2) have eq: "map (\<lambda>(k, v). (k, json_norm v)) (sort_key fst d) =
      map (\<lambda>(k, v). (k, json_norm v)) (sort_key fst e)" by simp
  have fst_eq: "map fst (sort_key fst d) = map fst (sort_key fst e)"
    using arg_cong [OF eq, of "map fst"] by (simp add: comp_def case_prod_unfold)
  have sorted_keys: "distinct (map fst (sort_key fst f)) = distinct (map fst f)" for f :: "(string \<times> json) list"
    by (simp add: distinct_map)
  have keys: "distinct (map fst e)"
    using JObj.prems(1) sorted_keys [of d] sorted_keys [of e] fst_eq by simp
  have len: "length d = length e" using arg_cong [OF eq, of length] by simp
  have "case map_of e k of None \<Rightarrow> False | Some w \<Rightarrow> json_eq v w" if kv: "(k, v) \<in> set d" for k v
  proof -
    have "(k, json_norm v) \<in> set (map (\<lambda>(k, v). (k, json_norm v)) (sort_key fst d))"
      using kv by force
    then obtain w where w: "(k, w) \<in> set e" "json_norm v = json_norm w" unfolding eq by auto
    have "json_eq v w" using JObj.IH [OF kv, of v] JObj.prems(1) kv w(2) by auto
    with w(1) keys show ?thesis by simp
  qed
  with len show ?case by (auto simp: y)
next
  case JNull
  then show ?case by (cases y) simp_all
next
  case (JBool b)
  then show ?case by (cases y) simp_all
next
  case (JInt i)
  then show ?case by (cases y) simp_all
next
  case (JStr t)
  then show ?case by (cases y) simp_all
qed

end
