(* ===== verification/SpineStore.thy ===== *)
theory SpineStore
  imports Projection CanonicalJson DeliveryStore
begin

text \<open>
  The snapshot store of \<^verbatim>\<open>src/watchdog/services/session_spine/store.py\<close>: the last projection of
  every project with its sequence number and the version of its facts, numbered by comparing
  fingerprints of canonical JSON. The state is the content of the store file; \<open>sha\<close> is
  \<open>sha256(...).hexdigest()\<close> and \<open>sanitize\<close> the rewriting of display text.

  The theorems say what the rest of the program reads into a version: numbers and versions of a
  project never go back, the same version always means the same facts, and the outbox, which
  orders envelopes by version, sees them in the order in which they were stored.
\<close>

section \<open>The JSON of the views\<close>

definition spine_model :: "jdict \<Rightarrow> json" where
  "spine_model attributes =
     JObj ([(''contract_version'', JStr ''watchdog-session-spine/v1alpha1''),
            (''schema_version'', JStr ''2026-04-05.022'')] @ attributes)"

abbreviation jtexts :: "string list \<Rightarrow> json" where
  "jtexts ts \<equiv> JList (map JStr ts)"

definition dump_fact :: "fact \<Rightarrow> json" where
  "dump_fact f = spine_model
     [(''fact_id'', JStr (fact_id f)), (''fact_code'', JStr (fact_code f)),
      (''fact_kind'', JStr (fact_kind f)), (''severity'', JStr (fact_severity f)),
      (''summary'', JStr (fact_summary f)), (''detail'', JStr (fact_detail f)),
      (''source'', JStr (fact_source f)), (''observed_at'', JStr (fact_observed_at f)),
      (''related_ids'', JObj (fact_related_ids f))]"

definition dump_approval :: "approval_projection \<Rightarrow> json" where
  "dump_approval a = spine_model
     [(''approval_id'', JStr (apj_approval_id a)), (''project_id'', JStr (apj_project_id a)),
      (''thread_id'', JStr (apj_thread_id a)), (''native_thread_id'', jopt (apj_native_thread_id a)),
      (''risk_level'', jopt (apj_risk_level a)), (''command'', JStr (apj_command a)),
      (''reason'', JStr (apj_reason a)), (''alternative'', JStr (apj_alternative a)),
      (''status'', JStr (apj_status a)), (''requested_at'', JStr (apj_requested_at a)),
      (''decided_at'', jopt (apj_decided_at a)), (''decided_by'', jopt (apj_decided_by a))]"

definition dump_session :: "session_projection \<Rightarrow> json" where
  "dump_session p = spine_model
     [(''project_id'', JStr (spj_project_id p)), (''thread_id'', JStr (spj_thread_id p)),
      (''native_thread_id'', jopt (spj_native_thread_id p)),
      (''session_state'', JStr (spj_session_state p)),
      (''activity_phase'', JStr (spj_activity_phase p)),
      (''attention_state'', JStr (spj_attention_state p)), (''headline'', JStr (spj_headline p)),
      (''pending_approval_count'', JInt (spj_pending_approval_count p)),
      (''available_intents'', jtexts (spj_available_intents p))]"

definition dump_progress :: "task_progress \<Rightarrow> json" where
  "dump_progress p = spine_model
     [(''project_id'', JStr (tp_project_id p)), (''thread_id'', JStr (tp_thread_id p)),
      (''native_thread_id'', jopt (tp_native_thread_id p)),
      (''activity_phase'', JStr (tp_activity_phase p)), (''summary'', JStr (tp_summary p)),
      (''goal_contract_version'', jopt (tp_goal_contract_version p)),
      (''current_phase_goal'', jopt (tp_current_phase_goal p)),
      (''last_user_instruction'', jopt (tp_last_user_instruction p)),
      (''files_touched'', jtexts (tp_files_touched p)),
      (''context_pressure'', JStr (tp_context_pressure p)), (''stuck_level'', JInt (tp_stuck_level p)),
      (''primary_fact_codes'', jtexts (tp_primary_fact_codes p)),
      (''blocker_fact_codes'', jtexts (tp_blocker_fact_codes p)),
      (''last_progress_at'', jopt (tp_last_progress_at p)),
      (''recovery_outcome'', jopt (tp_recovery_outcome p)),
      (''recovery_status'', jopt (tp_recovery_status p)),
      (''recovery_updated_at'', jopt (tp_recovery_updated_at p)),
      (''recovery_child_session_id'', jopt (tp_recovery_child_session_id p)),
      (''recovery_suppression_reason'', jopt (tp_recovery_suppression_reason p)),
      (''recovery_suppression_source'', jopt (tp_recovery_suppression_source p)),
      (''recovery_suppression_observed_at'', jopt (tp_recovery_suppression_observed_at p)),
      (''decision_trace_ref'', jopt (tp_decision_trace_ref p)),
      (''decision_degrade_reason'', jopt (tp_decision_degrade_reason p)),
      (''provider_output_schema_ref'', jopt (tp_provider_output_schema_ref p)),
      (''continuation_control_plane'', tp_continuation_control_plane p)]"

definition facts_payload :: "fact list \<Rightarrow> json" where
  "facts_payload facts = JList (map dump_fact facts)"

definition snapshot_payload ::
  "session_projection \<Rightarrow> task_progress \<Rightarrow> fact list \<Rightarrow> approval_projection list \<Rightarrow> json" where
  "snapshot_payload session progress facts approvals =
     JObj [(''session'', dump_session session), (''progress'', dump_progress progress),
           (''facts'', facts_payload facts),
           (''approval_queue'', JList (map dump_approval approvals))]"

definition fingerprint :: "(string \<Rightarrow> string) \<Rightarrow> json \<Rightarrow> string" where
  "fingerprint sha payload = sha (stable_json payload)"

section \<open>The store\<close>

record persisted_session =
  ps_project_id :: string
  ps_thread_id :: string
  ps_native_thread_id :: "string option"
  ps_session_seq :: int
  ps_fact_snapshot_version :: string
  ps_last_refreshed_at :: string
  ps_last_local_manual_activity_at :: "string option"
  ps_session :: session_projection
  ps_progress :: task_progress
  ps_facts :: "fact list"
  ps_approval_queue :: "approval_projection list"
  ps_snapshot_fingerprint :: "string option"
  ps_facts_fingerprint :: "string option"

type_synonym spine_store = "(string, persisted_session) dict"

fun first_text :: "string option list \<Rightarrow> string option" where
  "first_text [] = None"
| "first_text (c # cs) = (if strip (or_empty c) \<noteq> [] then Some (strip (or_empty c)) else first_text cs)"

definition session_native_thread_id :: "persisted_session \<Rightarrow> string option" where
  "session_native_thread_id r =
     first_text [ps_native_thread_id r, spj_native_thread_id (ps_session r), tp_native_thread_id (ps_progress r)]"

definition sanitize_record :: "(string \<Rightarrow> string) \<Rightarrow> persisted_session \<Rightarrow> persisted_session" where
  "sanitize_record sanitize r =
     (let headline = sanitize (spj_headline (ps_session r)); summary = sanitize (tp_summary (ps_progress r)) in
      if headline = spj_headline (ps_session r) \<and> summary = tp_summary (ps_progress r) then r
      else r\<lparr>ps_session := (ps_session r)\<lparr>spj_headline := headline\<rparr>,
             ps_progress := (ps_progress r)\<lparr>tp_summary := summary\<rparr>\<rparr>)"

text \<open>\<open>_read\<close> rewrites stored display text and writes the file when anything changed.\<close>

definition spine_read :: "(string \<Rightarrow> string) \<Rightarrow> spine_store \<Rightarrow> spine_store" where
  "spine_read sanitize s = map (\<lambda>(k, r). (k, sanitize_record sanitize r)) s"

definition spine_get ::
  "(string \<Rightarrow> string) \<Rightarrow> string \<Rightarrow> spine_store \<Rightarrow> persisted_session option \<times> spine_store" where
  "spine_get sanitize project_id s =
     (let data = spine_read sanitize s in (map_of data project_id, data))"

definition spine_get_best_effort :: "string \<Rightarrow> spine_store \<Rightarrow> persisted_session option" where
  "spine_get_best_effort project_id s = map_of s project_id"

definition spine_get_by_native_thread ::
  "(string \<Rightarrow> string) \<Rightarrow> string \<Rightarrow> spine_store \<Rightarrow> persisted_session option \<times> spine_store" where
  "spine_get_by_native_thread sanitize native s =
     (let data = spine_read sanitize s in
      (find (\<lambda>r. session_native_thread_id r = Some native) (dict_values data), data))"

definition spine_list_records ::
  "(string \<Rightarrow> string) \<Rightarrow> spine_store \<Rightarrow> persisted_session list \<times> spine_store" where
  "spine_list_records sanitize s = (let data = spine_read sanitize s in (dict_values data, data))"

definition next_session_seq :: "persisted_session option \<Rightarrow> string \<Rightarrow> int" where
  "next_session_seq existing snapshot_fp =
     (case existing of
        None \<Rightarrow> 1
      | Some r \<Rightarrow> if ps_snapshot_fingerprint r = Some snapshot_fp then ps_session_seq r
                  else ps_session_seq r + 1)"

definition next_fact_version :: "persisted_session option \<Rightarrow> string \<Rightarrow> string" where
  "next_fact_version existing facts_fp =
     (case existing of
        None \<Rightarrow> ''fact-v1''
      | Some r \<Rightarrow> if ps_facts_fingerprint r = Some facts_fp then ps_fact_snapshot_version r
                  else ''fact-v'' @ str_of_int (ps_session_seq r + 1))"

definition spine_put ::
  "(string \<Rightarrow> string) \<Rightarrow> (string \<Rightarrow> string) \<Rightarrow> string \<Rightarrow> string \<Rightarrow> session_projection \<Rightarrow> task_progress \<Rightarrow>
   fact list \<Rightarrow> approval_projection list \<Rightarrow> string option \<Rightarrow> string option \<Rightarrow> spine_store \<Rightarrow>
   persisted_session \<times> spine_store" where
  "spine_put sha sanitize now project_id session progress facts approval_queue last_refreshed_at
       last_local_manual_activity_at s =
     (let snapshot_fp = fingerprint sha (snapshot_payload session progress facts approval_queue);
          facts_fp = fingerprint sha (facts_payload facts);
          data = spine_read sanitize s;
          existing = map_of data project_id;
          record = \<lparr>ps_project_id = project_id, ps_thread_id = spj_thread_id session,
            ps_native_thread_id = spj_native_thread_id session,
            ps_session_seq = next_session_seq existing snapshot_fp,
            ps_fact_snapshot_version = next_fact_version existing facts_fp,
            ps_last_refreshed_at = or_else last_refreshed_at now,
            ps_last_local_manual_activity_at = last_local_manual_activity_at,
            ps_session = session, ps_progress = progress, ps_facts = facts,
            ps_approval_queue = approval_queue, ps_snapshot_fingerprint = Some snapshot_fp,
            ps_facts_fingerprint = Some facts_fp\<rparr>
      in (record, dict_set project_id record data))"

section \<open>Histories\<close>

text \<open>
  The stores that can arise from an empty file, with the records that \<open>put\<close> returned, oldest
  first. Reading may rewrite display text at any time.
\<close>

inductive spine_history ::
  "(string \<Rightarrow> string) \<Rightarrow> (string \<Rightarrow> string) \<Rightarrow> persisted_session list \<Rightarrow> spine_store \<Rightarrow> bool"
  for sha sanitize where
  spine_start: "spine_history sha sanitize [] []"
| spine_put_step: "spine_history sha sanitize hist s \<Longrightarrow>
    spine_put sha sanitize now p session progress facts queue refreshed manual s = (r, s') \<Longrightarrow>
    spine_history sha sanitize (hist @ [r]) s'"
| spine_read_step: "spine_history sha sanitize hist s \<Longrightarrow>
    spine_history sha sanitize hist (spine_read sanitize s)"

definition of_project :: "string \<Rightarrow> persisted_session list \<Rightarrow> persisted_session list" where
  "of_project p hist = filter (\<lambda>r. ps_project_id r = p) hist"

abbreviation same_numbers :: "persisted_session \<Rightarrow> persisted_session \<Rightarrow> bool" where
  "same_numbers a b \<equiv> ps_session_seq a = ps_session_seq b \<and>
     ps_fact_snapshot_version a = ps_fact_snapshot_version b \<and>
     ps_snapshot_fingerprint a = ps_snapshot_fingerprint b \<and>
     ps_facts_fingerprint a = ps_facts_fingerprint b"

definition version_number :: "persisted_session \<Rightarrow> int" where
  "version_number r = fst (fact_snapshot_order (ps_fact_snapshot_version r))"

definition numbered :: "(string \<Rightarrow> string) \<Rightarrow> persisted_session \<Rightarrow> bool" where
  "numbered sha r \<longleftrightarrow>
     ps_fact_snapshot_version r = ''fact-v'' @ str_of_int (version_number r) \<and>
     1 \<le> version_number r \<and> version_number r \<le> ps_session_seq r \<and>
     ps_snapshot_fingerprint r =
       Some (fingerprint sha (snapshot_payload (ps_session r) (ps_progress r) (ps_facts r) (ps_approval_queue r))) \<and>
     ps_facts_fingerprint r = Some (fingerprint sha (facts_payload (ps_facts r)))"

definition follows :: "persisted_session \<Rightarrow> persisted_session \<Rightarrow> bool" where
  "follows a b \<longleftrightarrow>
     ps_session_seq a \<le> ps_session_seq b \<and> version_number a \<le> version_number b \<and>
     (ps_session_seq a = ps_session_seq b \<longrightarrow> ps_snapshot_fingerprint a = ps_snapshot_fingerprint b) \<and>
     (version_number a = version_number b \<longrightarrow> ps_facts_fingerprint a = ps_facts_fingerprint b)"

definition history_ok :: "(string \<Rightarrow> string) \<Rightarrow> persisted_session list \<Rightarrow> spine_store \<Rightarrow> bool" where
  "history_ok sha hist s \<longleftrightarrow>
     (\<forall>p. list_all (numbered sha) (of_project p hist) \<and> sorted_wrt follows (of_project p hist) \<and>
       (case map_of s p of
          None \<Rightarrow> of_project p hist = []
        | Some c \<Rightarrow> of_project p hist \<noteq> [] \<and> same_numbers c (last (of_project p hist))))"

lemma spine_read_lookup:
  "map_of (spine_read sanitize s) p = map_option (sanitize_record sanitize) (map_of s p)"
  by (induction s) (auto simp: spine_read_def)

lemma sanitize_numbers: "same_numbers (sanitize_record sanitize r) r"
  by (simp add: sanitize_record_def Let_def)

lemma history_ok_read: "history_ok sha hist s \<Longrightarrow> history_ok sha hist (spine_read sanitize s)"
  unfolding history_ok_def
proof (intro allI)
  fix p
  assume ok: "\<forall>p. list_all (numbered sha) (of_project p hist) \<and> sorted_wrt follows (of_project p hist) \<and>
      (case map_of s p of None \<Rightarrow> of_project p hist = []
       | Some c \<Rightarrow> of_project p hist \<noteq> [] \<and> same_numbers c (last (of_project p hist)))"
  show "list_all (numbered sha) (of_project p hist) \<and> sorted_wrt follows (of_project p hist) \<and>
      (case map_of (spine_read sanitize s) p of None \<Rightarrow> of_project p hist = []
       | Some c \<Rightarrow> of_project p hist \<noteq> [] \<and> same_numbers c (last (of_project p hist)))"
    using spec [OF ok, of p] by (cases "map_of s p") (simp_all add: spine_read_lookup sanitize_numbers)
qed

lemma follows_trans: "follows a b \<Longrightarrow> follows b c \<Longrightarrow> follows a c"
  by (auto simp: follows_def)

lemma version_order [simp]:
  "1 \<le> n \<Longrightarrow> fact_snapshot_order (''fact-v'' @ str_of_int n) = (n, ''fact-v'' @ str_of_int n)"
proof -
  assume "1 \<le> n"
  then have "str_of_int n = str_of_nat (nat n)" by (simp add: str_of_int_def)
  then show ?thesis using \<open>1 \<le> n\<close> str_of_nat_digits [of _ "nat n"] str_of_nat_nonempty [of "nat n"]
    by (simp add: fact_snapshot_order_def Let_def starts_with_def list_all_iff)
qed

lemma payload_facts:
  assumes "inj sha"
    and "fingerprint sha (snapshot_payload se pr f q) = fingerprint sha (snapshot_payload se' pr' f' q')"
  shows "fingerprint sha (facts_payload f) = fingerprint sha (facts_payload f')"
proof -
  let ?d = "\<lambda>se pr f q. [(''session'', dump_session se), (''progress'', dump_progress pr),
    (''facts'', facts_payload f), (''approval_queue'', JList (map dump_approval q))]"
  let ?n = "\<lambda>(k :: string, v). (k, json_norm v)"
  from assms have "json_norm (JObj (?d se pr f q)) = json_norm (JObj (?d se' pr' f' q'))"
    by (simp only: fingerprint_def inj_eq snapshot_payload_def stable_json_eq_iff)
  then have "set (map ?n (sort_key fst (?d se pr f q))) = set (map ?n (sort_key fst (?d se' pr' f' q')))"
    by (simp only: json_norm_JObj json.inject)
  then have "?n ` set (?d se pr f q) = ?n ` set (?d se' pr' f' q')"
    by (simp only: set_map set_sort)
  moreover have "(''facts'', json_norm (facts_payload f)) \<in> ?n ` set (?d se pr f q)" by simp
  ultimately have "(''facts'', json_norm (facts_payload f)) \<in> ?n ` set (?d se' pr' f' q')" by (simp only:)
  then have "json_norm (facts_payload f) = json_norm (facts_payload f')" by simp
  then have "stable_json (facts_payload f) = stable_json (facts_payload f')" by (simp only: stable_json_eq_iff)
  then show ?thesis by (simp add: fingerprint_def)
qed

lemma put_record:
  assumes "spine_put sha sanitize now p session progress facts queue refreshed manual s = (r, s')"
  shows "ps_project_id r = p" and "s' = dict_set p r (spine_read sanitize s)"
    and "ps_snapshot_fingerprint r =
       Some (fingerprint sha (snapshot_payload (ps_session r) (ps_progress r) (ps_facts r) (ps_approval_queue r)))"
    and "ps_facts_fingerprint r = Some (fingerprint sha (facts_payload (ps_facts r)))"
    and "ps_session_seq r = next_session_seq (map_of (spine_read sanitize s) p) (the (ps_snapshot_fingerprint r))"
    and "ps_fact_snapshot_version r =
       next_fact_version (map_of (spine_read sanitize s) p) (the (ps_facts_fingerprint r))"
  using assms by (auto simp: spine_put_def Let_def)

lemma next_numbered:
  assumes "inj sha" and l: "numbered sha l" "same_numbers c l"
    and r: "ps_snapshot_fingerprint r =
       Some (fingerprint sha (snapshot_payload (ps_session r) (ps_progress r) (ps_facts r) (ps_approval_queue r)))"
      "ps_facts_fingerprint r = Some (fingerprint sha (facts_payload (ps_facts r)))"
      "ps_session_seq r = next_session_seq (Some c) (the (ps_snapshot_fingerprint r))"
      "ps_fact_snapshot_version r = next_fact_version (Some c) (the (ps_facts_fingerprint r))"
  shows "numbered sha r \<and> follows l r"
proof -
  have c: "ps_session_seq c = ps_session_seq l" "ps_fact_snapshot_version c = ps_fact_snapshot_version l"
    "ps_snapshot_fingerprint c = ps_snapshot_fingerprint l" "ps_facts_fingerprint c = ps_facts_fingerprint l"
    using l(2) by simp_all
  obtain x y where x: "ps_snapshot_fingerprint r = Some x" and y: "ps_facts_fingerprint r = Some y"
    using r(1,2) by blast
  have same_facts: "ps_facts_fingerprint r = ps_facts_fingerprint c"
    if "ps_snapshot_fingerprint r = ps_snapshot_fingerprint c"
  proof -
    from that have "fingerprint sha (snapshot_payload (ps_session r) (ps_progress r) (ps_facts r) (ps_approval_queue r)) =
        fingerprint sha (snapshot_payload (ps_session l) (ps_progress l) (ps_facts l) (ps_approval_queue l))"
      using r(1) l(1) c(3) by (simp add: numbered_def)
    from payload_facts [OF assms(1) this] show ?thesis
      using r(2) l(1) c(4) by (simp add: numbered_def)
  qed
  have version: "version_number r =
      (if ps_facts_fingerprint r = ps_facts_fingerprint c then version_number l else ps_session_seq l + 1)"
    and named: "ps_fact_snapshot_version r = ''fact-v'' @ str_of_int (version_number r)"
  proof -
    have one: "1 \<le> ps_session_seq l + 1" using l(1) by (simp add: numbered_def)
    have v: "ps_fact_snapshot_version r = (if ps_facts_fingerprint c = Some y then ps_fact_snapshot_version l
        else ''fact-v'' @ str_of_int (ps_session_seq l + 1))"
      unfolding r(4) y by (simp add: next_fact_version_def c(1,2))
    then show n: "version_number r =
      (if ps_facts_fingerprint r = ps_facts_fingerprint c then version_number l else ps_session_seq l + 1)"
      using version_order [OF one] by (simp add: version_number_def y eq_commute [of "Some y"] del: version_order)
    show "ps_fact_snapshot_version r = ''fact-v'' @ str_of_int (version_number r)"
      using v n l(1) by (cases "ps_facts_fingerprint c = Some y") (simp_all add: numbered_def y)
  qed
  have seq: "ps_session_seq r =
      (if ps_snapshot_fingerprint r = ps_snapshot_fingerprint c then ps_session_seq l else ps_session_seq l + 1)"
    unfolding r(3) x by (auto simp: next_session_seq_def c(1))
  have b: "1 \<le> version_number l" "version_number l \<le> ps_session_seq l" using l(1) by (auto simp: numbered_def)
  have ffp: "ps_facts_fingerprint l = ps_facts_fingerprint c" and sfp: "ps_snapshot_fingerprint l = ps_snapshot_fingerprint c"
    using l(2) by simp_all
  have num: "1 \<le> version_number r \<and> version_number r \<le> ps_session_seq r"
    using version seq b same_facts by (auto split: if_splits)
  have ord: "follows l r"
    unfolding follows_def ffp sfp using version seq b by (auto split: if_splits)
  show ?thesis unfolding numbered_def using named r(1,2) num ord by simp
qed

lemma first_numbered:
  assumes "ps_snapshot_fingerprint r =
       Some (fingerprint sha (snapshot_payload (ps_session r) (ps_progress r) (ps_facts r) (ps_approval_queue r)))"
      "ps_facts_fingerprint r = Some (fingerprint sha (facts_payload (ps_facts r)))"
      "ps_session_seq r = next_session_seq None (the (ps_snapshot_fingerprint r))"
      "ps_fact_snapshot_version r = next_fact_version None (the (ps_facts_fingerprint r))"
  shows "numbered sha r"
proof -
  have one: "str_of_int 1 = ''1''" by code_simp
  have "version_number r = 1" using assms(4) version_order [of 1]
    by (simp add: version_number_def next_fact_version_def one)
  with assms show ?thesis by (simp add: numbered_def next_session_seq_def next_fact_version_def one)
qed

lemma of_project_snoc: "of_project p (hist @ [r]) = of_project p hist @ (if ps_project_id r = p then [r] else [])"
  by (simp add: of_project_def)

lemma history_ok_put:
  assumes "inj sha" and "history_ok sha hist s"
    and put: "spine_put sha sanitize now p session progress facts queue refreshed manual s = (r, s')"
  shows "history_ok sha (hist @ [r]) s'"
  unfolding history_ok_def
proof
  fix q
  note pr = put_record [OF put]
  let ?data = "spine_read sanitize s"
  have ok: "list_all (numbered sha) (of_project q hist)" "sorted_wrt follows (of_project q hist)"
    "case map_of ?data q of None \<Rightarrow> of_project q hist = []
     | Some c \<Rightarrow> of_project q hist \<noteq> [] \<and> same_numbers c (last (of_project q hist))"
    using history_ok_read [OF assms(2)] by (simp_all add: history_ok_def)
  show "list_all (numbered sha) (of_project q (hist @ [r])) \<and> sorted_wrt follows (of_project q (hist @ [r])) \<and>
      (case map_of s' q of None \<Rightarrow> of_project q (hist @ [r]) = []
       | Some c \<Rightarrow> of_project q (hist @ [r]) \<noteq> [] \<and> same_numbers c (last (of_project q (hist @ [r]))))"
  proof (cases "q = p")
    case False
    then have "of_project q (hist @ [r]) = of_project q hist" "map_of s' q = map_of ?data q"
      by (simp_all add: of_project_snoc pr(1,2))
    then show ?thesis using ok by (simp only: simp_thms)
  next
    case True
    have "numbered sha r \<and> (\<forall>a \<in> set (of_project p hist). follows a r)"
    proof (cases "map_of ?data p")
      case None
      with first_numbered [OF pr(3,4)] pr(5,6) ok(3) True show ?thesis by simp
    next
      case (Some c)
      define l where "l = last (of_project p hist)"
      from ok Some True have ne: "of_project p hist \<noteq> []" and c: "same_numbers c l"
        and lm: "l \<in> set (of_project p hist)" by (auto simp: l_def)
      with ok(1) True have "numbered sha l" by (simp add: list_all_iff)
      from next_numbered [OF assms(1) this c pr(3,4)] pr(5,6) Some
      have n: "numbered sha r" "follows l r" by simp_all
      have "follows a l \<or> a = l" if "a \<in> set (of_project p hist)" for a
      proof -
        from ne have "of_project p hist = butlast (of_project p hist) @ [l]" by (simp add: l_def)
        with ok(2) True have "\<forall>a \<in> set (butlast (of_project p hist)). follows a l"
          by (metis list.set_intros(1) sorted_wrt_append)
        with that ne show ?thesis by (metis \<open>of_project p hist = butlast (of_project p hist) @ [l]\<close>
              UnE empty_iff empty_set set_ConsD set_append)
      qed
      with n show ?thesis by (metis follows_trans)
    qed
    moreover have "of_project q (hist @ [r]) = of_project p hist @ [r]" "map_of s' q = Some r"
      using True by (simp_all add: of_project_snoc pr(1,2))
    ultimately show ?thesis using ok True by (simp add: sorted_wrt_append)
  qed
qed

lemma spine_history_ok:
  assumes "spine_history sha sanitize hist s" and "inj sha"
  shows "history_ok sha hist s"
  using assms(1)
proof induction
  case spine_start
  then show ?case by (simp add: history_ok_def of_project_def)
next
  case (spine_put_step hist s now p session progress facts queue refreshed manual r s')
  from history_ok_put [OF assms(2) spine_put_step.IH spine_put_step.hyps(2)] show ?case .
next
  case (spine_read_step hist s)
  then show ?case by (intro history_ok_read)
qed

lemma history_order:
  assumes "spine_history sha sanitize (xs @ a # ys @ b # zs) s" and "inj sha"
    and "ps_project_id a = ps_project_id b"
  shows "numbered sha a \<and> numbered sha b \<and> follows a b"
proof -
  have "of_project (ps_project_id b) (xs @ a # ys @ b # zs) =
      of_project (ps_project_id b) xs @ a # of_project (ps_project_id b) ys @ b # of_project (ps_project_id b) zs"
    using assms(3) by (simp add: of_project_def)
  moreover have "list_all (numbered sha) (of_project (ps_project_id b) (xs @ a # ys @ b # zs))"
    and "sorted_wrt follows (of_project (ps_project_id b) (xs @ a # ys @ b # zs))"
    using spine_history_ok [OF assms(1,2)] by (simp_all only: history_ok_def)
  ultimately show ?thesis by (simp add: sorted_wrt_append)
qed

section \<open>Versions\<close>

text \<open>
  C11: Of two records that \<open>put\<close> returned for a project, the later one has no smaller sequence
  number and does not come earlier in the order in which the outbox sorts versions; the same
  version means the same facts and the same sequence number the same snapshot (sha256 taken to be
  free of collisions).
\<close>

theorem spine_versions_ordered:
  assumes "inj sha" and "spine_history sha sanitize (xs @ a # ys @ b # zs) s"
    and "ps_project_id a = ps_project_id b"
  shows "1 \<le> ps_session_seq a \<and> ps_session_seq a \<le> ps_session_seq b \<and>
    fact_snapshot_order (ps_fact_snapshot_version a) \<le> fact_snapshot_order (ps_fact_snapshot_version b) \<and>
    (ps_fact_snapshot_version a = ps_fact_snapshot_version b \<longrightarrow>
       json_norm (facts_payload (ps_facts a)) = json_norm (facts_payload (ps_facts b))) \<and>
    (ps_session_seq a = ps_session_seq b \<longrightarrow>
       json_norm (snapshot_payload (ps_session a) (ps_progress a) (ps_facts a) (ps_approval_queue a)) =
       json_norm (snapshot_payload (ps_session b) (ps_progress b) (ps_facts b) (ps_approval_queue b)))"
proof -
  from history_order [OF assms(2,1,3)] have n: "numbered sha a" "numbered sha b" and f: "follows a b"
    by simp_all
  have same: "json_norm x = json_norm y" if "fingerprint sha x = fingerprint sha y" for x y
    using that assms(1) by (simp add: fingerprint_def inj_eq stable_json_eq_iff)
  have order: "fact_snapshot_order (ps_fact_snapshot_version r) =
      (version_number r, ps_fact_snapshot_version r)" if "numbered sha r" for r
    using that version_order [of "version_number r"] by (simp add: numbered_def)
  have "version_number a = version_number b \<longrightarrow> ps_fact_snapshot_version a = ps_fact_snapshot_version b"
    using n by (simp add: numbered_def)
  then have "fact_snapshot_order (ps_fact_snapshot_version a) \<le> fact_snapshot_order (ps_fact_snapshot_version b)"
    using f by (auto simp: order n follows_def)
  moreover have "json_norm (facts_payload (ps_facts a)) = json_norm (facts_payload (ps_facts b))"
    if "ps_fact_snapshot_version a = ps_fact_snapshot_version b"
    using that f n by (intro same) (simp add: follows_def version_number_def numbered_def)
  moreover have "json_norm (snapshot_payload (ps_session a) (ps_progress a) (ps_facts a) (ps_approval_queue a)) =
       json_norm (snapshot_payload (ps_session b) (ps_progress b) (ps_facts b) (ps_approval_queue b))"
    if "ps_session_seq a = ps_session_seq b"
    using that f n by (intro same) (simp add: follows_def numbered_def)
  ultimately show ?thesis using f n by (auto simp: follows_def numbered_def)
qed

definition example_session :: session_projection where
  "example_session = build_session_projection id ''p'' None [] []"

definition example_progress :: task_progress where
  "example_progress = projr (build_task_progress_view id ''p'' None [] None None None JNull)"

definition example_put :: "fact list \<Rightarrow> spine_store \<Rightarrow> persisted_session \<times> spine_store" where
  "example_put facts s =
     spine_put id id ''now'' ''p'' example_session example_progress facts [] None None s"

theorem spine_versions_ordered_witness:
  "let (a, s) = example_put [] [];
       (b, s') = example_put [build_fact ''p'' ''c'' ''k'' ''s'' ''m'' ''d'' ''o'' ''t'' []] s
   in fact_snapshot_order (ps_fact_snapshot_version a) \<le> fact_snapshot_order (ps_fact_snapshot_version b) \<and>
      ps_session_seq a \<le> ps_session_seq b"
proof -
  define f where "f = [build_fact ''p'' ''c'' ''k'' ''s'' ''m'' ''d'' ''o'' ''t'' []]"
  obtain a s where a: "example_put [] [] = (a, s)" by fastforce
  obtain b s' where b: "example_put f s = (b, s')" by fastforce
  have "spine_history id id ([] @ [a]) s"
    by (rule spine_put_step [OF spine_start a [unfolded example_put_def]])
  then have "spine_history id id (([] @ [a]) @ [b]) s'"
    by (rule spine_put_step [OF _ b [unfolded example_put_def]])
  then have "spine_history id id ([] @ a # [] @ b # []) s'" by simp
  moreover have "ps_project_id a = ps_project_id b"
    using a b by (auto simp: example_put_def spine_put_def Let_def)
  ultimately show ?thesis
    using spine_versions_ordered [OF inj_on_id, of id "[]" a "[]" b "[]" s']
    by (simp add: a b flip: f_def)
qed

end
