(* ===== verification/GateEvidence.thy ===== *)
theory GateEvidence
  imports PyResult CanonicalJson
begin

text \<open>
  The evidence that gates autonomous execution: the decision validator
  (\<^verbatim>\<open>src/watchdog/services/brain/validator.py\<close>), the release gate (\<^verbatim>\<open>release_gate.py\<close>, its report
  material, loading and write contract) and the read contracts through which the policy engine and
  the session events see them. \<open>sha\<close> is \<open>sha256(...).hexdigest()\<close>.
\<close>

section \<open>ASCII JSON\<close>

text \<open>
  \<open>json.dumps(x, sort_keys=True, separators=(",", ":"))\<close>: what is not printable ASCII is written
  as UTF-16 code units; the text is UTF-8.
\<close>

definition hex4 :: "int \<Rightarrow> string" where
  "hex4 n = map hex_digit [n div 4096 mod 16, n div 256 mod 16, n div 16 mod 16, n mod 16]"

definition unicode_escape :: "int \<Rightarrow> string" where
  "unicode_escape n =
     (let u = (\<lambda>k. [backslash, CHR ''u''] @ hex4 k) in
      if n < 65536 then u n
      else u (55296 + (n - 65536) div 1024) @ u (56320 + (n - 65536) mod 1024))"

fun ascii_escaped :: "string \<Rightarrow> string" where
  "ascii_escaped [] = []"
| "ascii_escaped (c # cs) =
     (let n = char_code c; low = (\<lambda>d. char_code d mod 64) in
      if n < 127 then json_escape c @ ascii_escaped cs
      else if n = 127 then unicode_escape n @ ascii_escaped cs
      else if n < 224 then
        (case cs of d # r \<Rightarrow> unicode_escape (n mod 32 * 64 + low d) @ ascii_escaped r | _ \<Rightarrow> [])
      else if n < 240 then
        (case cs of d # e # r \<Rightarrow>
           unicode_escape ((n mod 16 * 64 + low d) * 64 + low e) @ ascii_escaped r | _ \<Rightarrow> [])
      else
        (case cs of d # e # f # r \<Rightarrow>
           unicode_escape (((n mod 8 * 64 + low d) * 64 + low e) * 64 + low f) @ ascii_escaped r
         | _ \<Rightarrow> []))"

definition ascii_string :: "string \<Rightarrow> string" where
  "ascii_string s = [quote] @ ascii_escaped s @ [quote]"

text \<open>The separators are \<open>,\<close> and \<open>:\<close>, or \<open>, \<close> and \<open>: \<close> by default.\<close>

fun ascii_json :: "string \<Rightarrow> string \<Rightarrow> json \<Rightarrow> string" where
  "ascii_json cm cl JNull = ''null''"
| "ascii_json cm cl (JBool b) = (if b then ''true'' else ''false'')"
| "ascii_json cm cl (JInt i) = str_of_int i"
| "ascii_json cm cl (JStr s) = ascii_string s"
| "ascii_json cm cl (JList xs) = ''['' @ join cm (map (ascii_json cm cl) xs) @ '']''"
| "ascii_json cm cl (JObj d) =
     ''{'' @ join cm
       (map (\<lambda>(k, t). ascii_string k @ cl @ t)
         (sort_key fst (map (\<lambda>(k, v). (k, ascii_json cm cl v)) d))) @ ''}''"

definition canonical_json :: "json \<Rightarrow> string" where
  "canonical_json j = ascii_json '','' '':'' j"

section \<open>Models\<close>

text \<open>
  \<open>model_dump(mode="json")\<close> of a model that is kept as its validated fields: a field that is
  missing there is \<open>None\<close>.
\<close>

fun dump_field :: "field_kind \<Rightarrow> json \<Rightarrow> json" where
  "dump_field (ModelField fs) (JObj p) = JObj (map (\<lambda>(k, f). (k, dump_field f (jget p k))) fs)"
| "dump_field f v = v"

definition validate_model :: "(string \<times> field_kind) list \<Rightarrow> json \<Rightarrow> jdict option" where
  "validate_model fs j =
     (case j of
        JObj d \<Rightarrow> (case validate_field (ModelField fs) (Some (JObj d)) of Some (JObj p) \<Rightarrow> Some p | _ \<Rightarrow> None)
      | _ \<Rightarrow> None)"

definition field_text :: "jdict \<Rightarrow> string \<Rightarrow> string" where
  "field_text p k = (case jget p k of JStr s \<Rightarrow> s | _ \<Rightarrow> [])"

definition field_opt :: "jdict \<Rightarrow> string \<Rightarrow> string option" where
  "field_opt p k = (case jget p k of JStr s \<Rightarrow> Some s | _ \<Rightarrow> None)"

record validation_verdict =
  vv_status :: string
  vv_reason :: "string option"

definition validation_verdict_fields :: "(string \<times> field_kind) list" where
  "validation_verdict_fields = [(''status'', TextField), (''reason'', OptTextField)]"

definition read_validation_verdict :: "json \<Rightarrow> validation_verdict option" where
  "read_validation_verdict j =
     map_option (\<lambda>p. \<lparr>vv_status = field_text p ''status'', vv_reason = field_opt p ''reason''\<rparr>)
       (validate_model validation_verdict_fields j)"

definition dump_validation_verdict :: "validation_verdict \<Rightarrow> json" where
  "dump_validation_verdict v = JObj [(''status'', JStr (vv_status v)), (''reason'', jopt (vv_reason v))]"

record gate_verdict =
  gv_status :: string
  gv_decision_trace_ref :: string
  gv_approval_read_ref :: string
  gv_degrade_reason :: "string option"
  gv_report_id :: string
  gv_report_hash :: string
  gv_input_hash :: string

definition gate_verdict_fields :: "(string \<times> field_kind) list" where
  "gate_verdict_fields =
     [(''status'', TextField), (''decision_trace_ref'', TextField), (''approval_read_ref'', TextField),
      (''degrade_reason'', OptTextField), (''report_id'', TextField), (''report_hash'', TextField),
      (''input_hash'', TextField)]"

definition read_gate_verdict :: "json \<Rightarrow> gate_verdict option" where
  "read_gate_verdict j =
     map_option (\<lambda>p. \<lparr>gv_status = field_text p ''status'',
         gv_decision_trace_ref = field_text p ''decision_trace_ref'',
         gv_approval_read_ref = field_text p ''approval_read_ref'',
         gv_degrade_reason = field_opt p ''degrade_reason'', gv_report_id = field_text p ''report_id'',
         gv_report_hash = field_text p ''report_hash'', gv_input_hash = field_text p ''input_hash''\<rparr>)
       (validate_model gate_verdict_fields j)"

definition dump_gate_verdict :: "gate_verdict \<Rightarrow> json" where
  "dump_gate_verdict v = JObj
     [(''status'', JStr (gv_status v)), (''decision_trace_ref'', JStr (gv_decision_trace_ref v)),
      (''approval_read_ref'', JStr (gv_approval_read_ref v)),
      (''degrade_reason'', jopt (gv_degrade_reason v)), (''report_id'', JStr (gv_report_id v)),
      (''report_hash'', JStr (gv_report_hash v)), (''input_hash'', JStr (gv_input_hash v))]"

definition evidence_bundle_fields :: "(string \<times> field_kind) list" where
  "evidence_bundle_fields =
     [(''certification_packet_corpus'', ModelField [(''artifact_ref'', TextField)]),
      (''shadow_decision_ledger'', ModelField [(''artifact_ref'', TextField)]),
      (''release_gate_report_ref'', TextField), (''label_manifest_ref'', OptTextField),
      (''generated_by'', OptTextField), (''report_approved_by'', OptTextField),
      (''report_id'', OptTextField), (''report_hash'', OptTextField), (''input_hash'', OptTextField)]"

text \<open>A bundle is kept as its validated fields, which is also its dump without the empty ones.\<close>

definition read_evidence_bundle :: "json \<Rightarrow> jdict option" where
  "read_evidence_bundle j = validate_model evidence_bundle_fields j"

definition dump_evidence_bundle :: "jdict \<Rightarrow> json" where
  "dump_evidence_bundle p = dump_field (ModelField evidence_bundle_fields) (JObj p)"

section \<open>Read contracts\<close>

record validator_snapshot =
  vs_verdict :: "validation_verdict option"
  vs_has_verdict_payload :: bool

definition has_key :: "jdict \<Rightarrow> string \<Rightarrow> bool" where
  "has_key d k \<longleftrightarrow> map_of d k \<noteq> None"

definition read_validator_decision_evidence :: "jdict option \<Rightarrow> validator_snapshot" where
  "read_validator_decision_evidence evidence =
     (let source = (case evidence of None \<Rightarrow> [] | Some d \<Rightarrow> d);
          verdict = read_validation_verdict (jget source ''validator_verdict'') in
      if has_key source ''validator_verdict''
      then \<lparr>vs_verdict = verdict, vs_has_verdict_payload = True\<rparr>
      else \<lparr>vs_verdict = (case read_validation_verdict (JObj source) of None \<Rightarrow> verdict | Some v \<Rightarrow> Some v),
            vs_has_verdict_payload = (has_key source ''status'' \<or> has_key source ''reason'')\<rparr>)"

record gate_snapshot =
  gs_verdict :: "gate_verdict option"
  gs_evidence_bundle :: "jdict option"
  gs_has_verdict_payload :: bool
  gs_has_evidence_bundle_payload :: bool

definition read_release_gate_decision_evidence :: "jdict option \<Rightarrow> gate_snapshot" where
  "read_release_gate_decision_evidence evidence =
     (let source = (case evidence of None \<Rightarrow> [] | Some d \<Rightarrow> d);
          verdict = read_gate_verdict (jget source ''release_gate_verdict'');
          has_verdict = has_key source ''release_gate_verdict'';
          legacy = (if has_verdict then None else read_gate_verdict (JObj source)) in
      \<lparr>gs_verdict = (case legacy of None \<Rightarrow> verdict | Some v \<Rightarrow> Some v),
       gs_evidence_bundle = read_evidence_bundle (jget source ''release_gate_evidence_bundle''),
       gs_has_verdict_payload = (has_verdict \<or> legacy \<noteq> None),
       gs_has_evidence_bundle_payload = has_key source ''release_gate_evidence_bundle''\<rparr>)"

definition build_session_event_gate_payload :: "jdict option \<Rightarrow> bool \<Rightarrow> bool \<Rightarrow> jdict" where
  "build_session_event_gate_payload evidence include_validator include_bundle =
     (let validator = read_validator_decision_evidence evidence;
          gate = read_release_gate_decision_evidence evidence in
      (case vs_verdict validator of
         Some v \<Rightarrow> if include_validator then [(''validator_verdict'', dump_validation_verdict v)] else []
       | None \<Rightarrow> []) @
      (case gs_verdict gate of Some v \<Rightarrow> [(''release_gate_verdict'', dump_gate_verdict v)] | None \<Rightarrow> []) @
      (case gs_evidence_bundle gate of
         Some b \<Rightarrow> if include_bundle then [(''release_gate_evidence_bundle'', JObj b)] else []
       | None \<Rightarrow> []))"

section \<open>The decision validator\<close>

record goal_readiness =
  gr_mode :: string
  gr_missing_fields :: "string list"

record argument_contract =
  ac_allowed_keys :: "string list"
  ac_required_keys :: "string list"

definition managed_agent_action_argument_contracts :: "(string, argument_contract) dict" where
  "managed_agent_action_argument_contracts =
     [(''continue_session'', \<lparr>ac_allowed_keys = [''message'', ''reason_code'', ''stuck_level''], ac_required_keys = []\<rparr>),
      (''request_recovery'', \<lparr>ac_allowed_keys = [], ac_required_keys = []\<rparr>),
      (''execute_recovery'', \<lparr>ac_allowed_keys = [], ac_required_keys = []\<rparr>),
      (''post_operator_guidance'',
       \<lparr>ac_allowed_keys = [''message'', ''reason_code'', ''stuck_level''], ac_required_keys = [''message'']\<rparr>)]"

record argument_verdict =
  av_status :: string
  av_action_ref :: "string option"
  av_allowed_keys :: "string list"
  av_required_keys :: "string list"
  av_missing_required_keys :: "string list"
  av_rejected_keys :: "string list"
  av_invalid_fields :: "(string, string) dict"

definition invalid_text_field :: "json \<Rightarrow> bool" where
  "invalid_text_field v \<longleftrightarrow> (case v of JStr s \<Rightarrow> strip s = [] | _ \<Rightarrow> True)"

definition invalid_field :: "string \<Rightarrow> json \<Rightarrow> string option" where
  "invalid_field key v =
     (if key \<in> {''message'', ''reason_code''} then
        (if invalid_text_field v then Some ''must be a non-empty string'' else None)
      else if key = ''stuck_level'' then
        (case v of
           JInt i \<Rightarrow> if i < 0 \<or> i > 4 then Some ''must be an integer in 0..4'' else None
         | _ \<Rightarrow> Some ''must be an integer in 0..4'')
      else None)"

definition validate_managed_action_arguments ::
  "string option \<Rightarrow> jdict option \<Rightarrow> argument_verdict" where
  "validate_managed_action_arguments action_ref action_arguments =
     (case Option.bind action_ref (map_of managed_agent_action_argument_contracts) of
        None \<Rightarrow> \<lparr>av_status = ''unregistered_action'', av_action_ref = action_ref, av_allowed_keys = [],
          av_required_keys = [], av_missing_required_keys = [], av_rejected_keys = [], av_invalid_fields = []\<rparr>
      | Some c \<Rightarrow>
          (let payload = (case action_arguments of None \<Rightarrow> [] | Some d \<Rightarrow> d);
               rejected = sort (filter (\<lambda>k. k \<notin> set (ac_allowed_keys c)) (dict_keys payload));
               missing = filter (\<lambda>k. \<not> has_key payload k) (ac_required_keys c);
               invalid = List.map_filter
                 (\<lambda>k. case map_of payload k of None \<Rightarrow> None
                      | Some v \<Rightarrow> map_option (\<lambda>m. (k, m)) (invalid_field k v)) (ac_allowed_keys c)
           in \<lparr>av_status = (if rejected \<noteq> [] \<or> missing \<noteq> [] \<or> invalid \<noteq> [] then ''blocked'' else ''pass''),
               av_action_ref = action_ref, av_allowed_keys = ac_allowed_keys c,
               av_required_keys = ac_required_keys c, av_missing_required_keys = missing,
               av_rejected_keys = rejected, av_invalid_fields = invalid\<rparr>))"

text \<open>
  \<open>DecisionValidator.validate\<close>; a given empty status is refused by the model of the verdict.
\<close>

definition validate_decision ::
  "string \<Rightarrow> string option \<Rightarrow> jdict option \<Rightarrow> goal_readiness option \<Rightarrow> bool \<Rightarrow> bool \<Rightarrow>
   string option \<Rightarrow> string option \<Rightarrow> py_error + validation_verdict" where
  "validate_decision brain_intent action_ref action_arguments readiness memory_conflict_detected
       memory_unavailable status reason =
     (let verdict = (\<lambda>s r. \<lparr>vv_status = s, vv_reason = r\<rparr>) in
      case status of
        Some s \<Rightarrow> if s = [] then Inl (ValueError ''status'') else Inr (verdict s reason)
      | None \<Rightarrow> Inr (
          if action_ref \<noteq> None \<and>
             av_status (validate_managed_action_arguments action_ref action_arguments) \<noteq> ''pass''
            then verdict ''degraded'' (Some ''action_args_invalid'')
          else if brain_intent \<noteq> ''propose_execute'' then verdict ''pass'' (Some ''non_executing_intent'')
          else if memory_conflict_detected then verdict ''degraded'' (Some ''memory_conflict'')
          else if memory_unavailable then verdict ''degraded'' (Some ''memory_unavailable'')
          else if (case readiness of None \<Rightarrow> False | Some g \<Rightarrow> gr_mode g \<noteq> ''autonomous_ready'')
            then verdict ''degraded'' (Some ''goal_contract_not_ready'')
          else verdict ''pass'' (Some ''schema_and_risk_ok'')))"

end
