(* ===== verification/ReleaseGate.thy ===== *)
theory ReleaseGate
  imports GateEvidence
begin

text \<open>
  The release gate of \<^verbatim>\<open>src/watchdog/services/brain/release_gate.py\<close>: the report and its
  canonical material (\<^verbatim>\<open>release_gate_report_material.py\<close>, \<^verbatim>\<open>release_gate_loading.py\<close>), the
  evaluation of a decision trace against a report, and the evidence that is written
  (\<^verbatim>\<open>release_gate_write_contract.py\<close>).
\<close>

section \<open>Reasons\<close>

definition runtime_gate_passthrough_reasons :: "string list" where
  "runtime_gate_passthrough_reasons =
     [''approval_stale'', ''report_expired'', ''report_load_failed'', ''input_hash_mismatch'']"

definition runtime_gate_validator_reasons :: "string list" where
  "runtime_gate_validator_reasons =
     [''memory_conflict'', ''memory_unavailable'', ''goal_contract_not_ready'', ''validator_missing'',
      ''validator_blocked'']"

definition default_runtime_gate_reason_taxonomy :: json where
  "default_runtime_gate_reason_taxonomy = JObj
     [(''passthrough_reasons'', JList (map JStr runtime_gate_passthrough_reasons)),
      (''validator_reasons'', JList (map JStr runtime_gate_validator_reasons)),
      (''validator_bucket'', JStr ''validator_degraded''),
      (''contract_mismatch_suffix'', JStr ''_mismatch''),
      (''contract_mismatch_bucket'', JStr ''contract_mismatch''),
      (''fallback_bucket'', JStr ''unknown''), (''raw_reason_labels_forbidden'', JBool True)]"

definition normalize_runtime_gate_reason :: "string \<Rightarrow> string" where
  "normalize_runtime_gate_reason reason =
     (let r = strip reason in
      if r = [] then ''unknown''
      else if r \<in> set runtime_gate_passthrough_reasons then r
      else if r \<in> set runtime_gate_validator_reasons then ''validator_degraded''
      else if ends_with r ''_mismatch'' then ''contract_mismatch''
      else ''unknown'')"

section \<open>The report\<close>

text \<open>
  A parsed report is kept as its validated text fields; the taxonomy equals the canonical one, and
  the two optional counts, which nothing reads, are only required to be integers.
\<close>

definition default_runtime_contract_surface_ref :: string where
  "default_runtime_contract_surface_ref = ''watchdog.settings.Settings.build_runtime_contract''"

definition report_text_fields :: "(string \<times> field_kind) list" where
  "report_text_fields = map (\<lambda>k. (k, TextField))
     [''report_id'', ''report_hash'', ''sample_window'', ''shadow_window'', ''label_manifest'',
      ''generated_by'', ''report_approved_by'', ''artifact_ref'', ''expires_at'', ''provider'', ''model'',
      ''prompt_schema_ref'', ''output_schema_ref'', ''risk_policy_version'',
      ''decision_input_builder_version'', ''policy_engine_version'', ''tool_schema_hash'',
      ''memory_provider_adapter_hash'', ''input_hash'', ''runtime_contract_surface_ref'']"

definition report_count_ok :: "json \<Rightarrow> bool" where
  "report_count_ok v \<longleftrightarrow>
     (case v of JNull \<Rightarrow> True | JInt _ \<Rightarrow> True | JBool _ \<Rightarrow> True | JStr s \<Rightarrow> int_of_text s \<noteq> None | _ \<Rightarrow> False)"

definition report_counts :: "string list" where
  "report_counts = [''shadow_decision_count'', ''certification_packet_count'']"

definition parse_release_gate_report :: "json \<Rightarrow> py_error + jdict" where
  "parse_release_gate_report payload =
     (case payload of
        JObj d \<Rightarrow>
          if jget d ''runtime_contract_surface_ref'' \<noteq> JStr default_runtime_contract_surface_ref
            then Inl (ValueError ''runtime_contract_surface_ref drifted from canonical source'')
          else if canonical_json (jget d ''runtime_gate_reason_taxonomy'') \<noteq>
                  canonical_json default_runtime_gate_reason_taxonomy
            then Inl (ValueError ''runtime_gate_reason_taxonomy drifted from canonical taxonomy'')
          else if list_all (\<lambda>(k, _). k \<in> set (map fst report_text_fields @
                    [''runtime_gate_reason_taxonomy''] @ report_counts)) d \<and>
                  list_all (\<lambda>k. report_count_ok (jget d k)) report_counts
            then (case validate_fields report_text_fields d of
                    Some p \<Rightarrow> Inr p
                  | None \<Rightarrow> Inl (ValueError ''release gate report''))
          else Inl (ValueError ''release gate report'')
      | _ \<Rightarrow> Inl (ValueError ''release_gate_report payload must be a JSON object''))"

definition canonicalize_release_gate_report_material :: "jdict \<Rightarrow> jdict" where
  "canonicalize_release_gate_report_material payload = filter (\<lambda>(k, _). k \<noteq> ''report_hash'') payload"

definition report_id_seed_fields :: "string list" where
  "report_id_seed_fields =
     [''artifact_ref'', ''sample_window'', ''shadow_window'', ''input_hash'', ''generated_by'',
      ''report_approved_by'']"

definition build_release_gate_report_id :: "(string \<Rightarrow> string) \<Rightarrow> jdict \<Rightarrow> py_error + string" where
  "build_release_gate_report_id sha payload =
     (case List.find (\<lambda>k. \<not> has_key payload k) report_id_seed_fields of
        Some k \<Rightarrow> Inl (PyKeyError k)
      | None \<Rightarrow> Inr (''report:'' @ take 16 (sha (ascii_json '', '' '': ''
          (JObj (map (\<lambda>k. (k, jget payload k)) report_id_seed_fields))))))"

definition stable_release_gate_report_hash :: "(string \<Rightarrow> string) \<Rightarrow> jdict \<Rightarrow> string" where
  "stable_release_gate_report_hash sha payload =
     ''sha256:'' @ sha (canonical_json (JObj (canonicalize_release_gate_report_material payload)))"

record loaded_artifacts =
  la_report :: jdict
  la_raw_payload_hash :: string
  la_runtime_contract :: "(string, string) dict"
  la_evidence_bundle :: jdict

definition artifact_bundle :: "string \<Rightarrow> string \<Rightarrow> string \<Rightarrow> jdict" where
  "artifact_bundle corpus_ref ledger_ref report_path =
     [(''certification_packet_corpus'', JObj [(''artifact_ref'', JStr corpus_ref)]),
      (''shadow_decision_ledger'', JObj [(''artifact_ref'', JStr ledger_ref)]),
      (''release_gate_report_ref'', JStr report_path)]"

definition build_bundle :: "jdict \<Rightarrow> py_error + jdict" where
  "build_bundle d =
     (case read_evidence_bundle (JObj d) of
        Some p \<Rightarrow> Inr p
      | None \<Rightarrow> Inl (ValueError ''ReleaseGateEvidenceBundle''))"

text \<open>\<open>load_release_gate_artifacts\<close>, given the JSON of the report file.\<close>

definition load_release_gate_artifacts ::
  "(string \<Rightarrow> string) \<Rightarrow> json \<Rightarrow> string \<Rightarrow> (string, json) dict \<Rightarrow> string \<Rightarrow> string \<Rightarrow>
   py_error + loaded_artifacts" where
  "load_release_gate_artifacts sha payload report_path runtime_contract corpus_ref ledger_ref =
     res_bind (parse_release_gate_report payload) (\<lambda>report.
       (let expected = (case payload of JObj d \<Rightarrow> stable_release_gate_report_hash sha d | _ \<Rightarrow> []) in
        if field_text report ''report_hash'' \<noteq> expected
          then Inl (ValueError ''report_hash drifted from canonical material'')
        else
          res_bind (build_bundle (artifact_bundle corpus_ref ledger_ref report_path @
            [(''label_manifest_ref'', jget report ''label_manifest''),
             (''generated_by'', jget report ''generated_by''),
             (''report_approved_by'', jget report ''report_approved_by''),
             (''report_id'', jget report ''report_id''), (''report_hash'', jget report ''report_hash''),
             (''input_hash'', jget report ''input_hash'')])) (\<lambda>bundle.
            Inr \<lparr>la_report = report, la_raw_payload_hash = expected,
                 la_runtime_contract = map (\<lambda>(k, v). (k, py_str v)) runtime_contract,
                 la_evidence_bundle = bundle\<rparr>)))"

section \<open>Evaluation\<close>

record approval_read =
  ar_approval_event_id :: string
  ar_approval_id :: string
  ar_status :: string
  ar_requested_action :: string
  ar_session_id :: string
  ar_project_id :: string
  ar_native_thread_id :: "string option"
  ar_fact_snapshot_version :: string
  ar_goal_contract_version :: string
  ar_expires_at :: string
  ar_decided_by :: "string option"
  ar_log_seq :: "int option"

definition dump_approval_read :: "approval_read \<Rightarrow> json" where
  "dump_approval_read a = JObj
     [(''approval_event_id'', JStr (ar_approval_event_id a)), (''approval_id'', JStr (ar_approval_id a)),
      (''status'', JStr (ar_status a)), (''requested_action'', JStr (ar_requested_action a)),
      (''session_id'', JStr (ar_session_id a)), (''project_id'', JStr (ar_project_id a)),
      (''native_thread_id'', jopt (ar_native_thread_id a)),
      (''fact_snapshot_version'', JStr (ar_fact_snapshot_version a)),
      (''goal_contract_version'', JStr (ar_goal_contract_version a)),
      (''expires_at'', JStr (ar_expires_at a)), (''decided_by'', jopt (ar_decided_by a)),
      (''log_seq'', case ar_log_seq a of None \<Rightarrow> JNull | Some n \<Rightarrow> JInt n)]"

record decision_trace =
  dt_trace_id :: string
  dt_session_event_cursor :: "string option"
  dt_goal_contract_version :: string
  dt_policy_ruleset_hash :: string
  dt_memory_packet_input_ids :: "string list"
  dt_memory_packet_input_hashes :: "string list"
  dt_provider :: string
  dt_model :: string
  dt_prompt_schema_ref :: string
  dt_output_schema_ref :: string
  dt_provider_output_schema_ref :: "string option"
  dt_approval_read :: "approval_read option"
  dt_degrade_reason :: "string option"

definition dump_trace :: "decision_trace \<Rightarrow> json" where
  "dump_trace t = JObj
     [(''trace_id'', JStr (dt_trace_id t)), (''session_event_cursor'', jopt (dt_session_event_cursor t)),
      (''goal_contract_version'', JStr (dt_goal_contract_version t)),
      (''policy_ruleset_hash'', JStr (dt_policy_ruleset_hash t)),
      (''memory_packet_input_ids'', JList (map JStr (dt_memory_packet_input_ids t))),
      (''memory_packet_input_hashes'', JList (map JStr (dt_memory_packet_input_hashes t))),
      (''provider'', JStr (dt_provider t)), (''model'', JStr (dt_model t)),
      (''prompt_schema_ref'', JStr (dt_prompt_schema_ref t)),
      (''output_schema_ref'', JStr (dt_output_schema_ref t)),
      (''provider_output_schema_ref'', jopt (dt_provider_output_schema_ref t)),
      (''approval_read'', case dt_approval_read t of None \<Rightarrow> JNull | Some a \<Rightarrow> dump_approval_read a),
      (''degrade_reason'', jopt (dt_degrade_reason t))]"

definition input_hash_for_trace :: "(string \<Rightarrow> string) \<Rightarrow> decision_trace \<Rightarrow> string" where
  "input_hash_for_trace sha t = ''sha256:'' @ sha (canonical_json (dump_trace t))"

definition gate_parse_time :: "string option \<Rightarrow> py_error + int option" where
  "gate_parse_time v = (if or_empty v = [] then Inr None else read_utc (or_empty v))"

definition report_field_pairs :: "decision_trace \<Rightarrow> (string, string) dict \<Rightarrow> (string \<times> string option) list" where
  "report_field_pairs t contract =
     [(''provider'', Some (dt_provider t)), (''model'', Some (dt_model t)),
      (''prompt_schema_ref'', Some (dt_prompt_schema_ref t)),
      (''output_schema_ref'', Some (dt_output_schema_ref t))] @
     map (\<lambda>k. (k, map_of contract k))
       [''risk_policy_version'', ''decision_input_builder_version'', ''policy_engine_version'',
        ''tool_schema_hash'', ''memory_provider_adapter_hash'']"

definition degrade_reason_for_report ::
  "jdict \<Rightarrow> decision_trace \<Rightarrow> (string, string) dict \<Rightarrow> string \<Rightarrow> string option \<Rightarrow> py_error + string option" where
  "degrade_reason_for_report report t contract input_hash now =
     res_bind (gate_parse_time now) (\<lambda>current.
     res_bind (gate_parse_time (field_opt report ''expires_at'')) (\<lambda>expires.
       Inr (if (case (current, expires) of (Some c, Some e) \<Rightarrow> c \<ge> e | _ \<Rightarrow> False) then Some ''report_expired''
            else if field_text report ''input_hash'' \<noteq> input_hash then Some ''input_hash_mismatch''
            else map_option (\<lambda>(k, _). k @ ''_mismatch'')
              (find (\<lambda>(k, expected). case expected of None \<Rightarrow> False | Some x \<Rightarrow> field_text report k \<noteq> x)
                (report_field_pairs t contract)))))"

definition evaluate_release_gate ::
  "(string \<Rightarrow> string) \<Rightarrow> string \<Rightarrow> decision_trace \<Rightarrow> validation_verdict \<Rightarrow> approval_read option \<Rightarrow>
   gate_verdict option \<Rightarrow> jdict option \<Rightarrow> (string, string) dict \<Rightarrow> string option \<Rightarrow>
   py_error + gate_verdict" where
  "evaluate_release_gate sha brain_intent t validator approval given report contract now =
     (let input_hash = input_hash_for_trace sha t;
          approval_ref = (case approval of None \<Rightarrow> ''approval:none''
            | Some a \<Rightarrow> ''approval:event:'' @ ar_approval_event_id a);
          verdict = (\<lambda>status reason rid rhash.
            \<lparr>gv_status = status, gv_decision_trace_ref = dt_trace_id t, gv_approval_read_ref = approval_ref,
             gv_degrade_reason = reason, gv_report_id = rid, gv_report_hash = rhash,
             gv_input_hash = input_hash\<rparr>) in
      case given of
        Some v \<Rightarrow> Inr v
      | None \<Rightarrow>
          if brain_intent \<noteq> ''propose_execute'' then
            Inr (verdict ''not_applicable'' None ''report:not_applicable'' ''sha256:not_applicable'')
          else if vv_status validator \<noteq> ''pass'' then
            Inr (verdict ''degraded'' (Some (or_else (vv_reason validator) ''validator_blocked''))
              ''report:validator_gated'' ''sha256:validator_gated'')
          else (case report of
            None \<Rightarrow> Inr (verdict ''pass'' None ''report:resident_default'' ''sha256:resident_default'')
          | Some r \<Rightarrow>
              res_bind (degrade_reason_for_report r t contract input_hash now) (\<lambda>reason.
                Inr (verdict (if reason = None then ''pass'' else ''degraded'') reason
                  (field_text r ''report_id'') (field_text r ''report_hash'')))))"

section \<open>Evidence written\<close>

definition build_release_gate_runtime_evidence ::
  "gate_verdict \<Rightarrow> loaded_artifacts option \<Rightarrow> string option \<Rightarrow> string \<Rightarrow> string \<Rightarrow>
   py_error + (gate_verdict \<times> jdict option)" where
  "build_release_gate_runtime_evidence verdict loaded report_path corpus_ref ledger_ref =
     (case loaded of
        Some l \<Rightarrow> Inr (verdict, Some (la_evidence_bundle l))
      | None \<Rightarrow>
          if or_empty report_path = [] then Inr (verdict, None)
          else res_bind (build_bundle (artifact_bundle corpus_ref ledger_ref (or_empty report_path) @
            [(''report_id'', JStr (gv_report_id verdict)), (''report_hash'', JStr (gv_report_hash verdict)),
             (''input_hash'', JStr (gv_input_hash verdict))])) (\<lambda>b. Inr (verdict, Some b)))"

end
