(* ===== verification/PolicyEngine.thy ===== *)
theory PolicyEngine
  imports SpineStore ReleaseGate
begin

text \<open>
  The policy of \<^verbatim>\<open>src/watchdog/services/policy\<close>: the rules, the canonical decision record, the
  store of decisions, and the engine that decides from the facts of a stored snapshot whether an
  action runs by itself, needs a human, or is blocked. \<open>sha\<close> is \<open>sha256(...).hexdigest()\<close> and
  \<open>now\<close> the text of the clock.
\<close>

section \<open>Rules\<close>

definition policy_version_v1 :: string where "policy_version_v1 = ''policy-v1''"
definition auto_execute_and_notify :: string where "auto_execute_and_notify = ''auto_execute_and_notify''"
definition require_user_decision :: string where "require_user_decision = ''require_user_decision''"
definition block_and_alert :: string where "block_and_alert = ''block_and_alert''"
definition risk_class_none :: string where "risk_class_none = ''none''"
definition risk_class_human_gate :: string where "risk_class_human_gate = ''human_gate''"
definition risk_class_hard_block :: string where "risk_class_hard_block = ''hard_block''"

definition controlled_uncertainty_reasons :: "string list" where
  "controlled_uncertainty_reasons =
     [''evidence_missing'', ''fact_conflict'', ''policy_conflict'', ''action_unregistered'',
      ''risk_unexplainable'', ''mapping_incomplete'', ''idempotency_uncertain'']"

definition human_gate_fact_codes :: "string list" where
  "human_gate_fact_codes = [''approval_pending'', ''awaiting_human_direction'']"

definition registered_action_refs :: "string list" where
  "registered_action_refs =
     [''continue_session'', ''request_recovery'', ''execute_recovery'', ''post_operator_guidance'']"

definition explicit_user_decision_action_refs :: "string list" where
  "explicit_user_decision_action_refs = [''execute_recovery'']"

record action_boundary =
  ab_capability :: string
  ab_allowed_brain_intents :: "string list"
  ab_auto_execute_allowed_intents :: "string list"

definition managed_agent_action_boundary :: "(string, action_boundary) dict" where
  "managed_agent_action_boundary =
     [(''continue_session'',
       \<lparr>ab_capability = ''session_control'',
        ab_allowed_brain_intents = [''propose_execute'', ''require_approval'', ''suggest_only'', ''observe_only''],
        ab_auto_execute_allowed_intents = [''propose_execute'']\<rparr>),
      (''request_recovery'',
       \<lparr>ab_capability = ''session_recovery'', ab_allowed_brain_intents = [''propose_recovery''],
        ab_auto_execute_allowed_intents = [''propose_recovery'']\<rparr>),
      (''execute_recovery'',
       \<lparr>ab_capability = ''session_recovery'', ab_allowed_brain_intents = [''propose_recovery''],
        ab_auto_execute_allowed_intents = [''propose_recovery'']\<rparr>),
      (''post_operator_guidance'',
       \<lparr>ab_capability = ''operator_guidance'',
        ab_allowed_brain_intents = [''candidate_closure'', ''branch_complete_switch''],
        ab_auto_execute_allowed_intents = [''branch_complete_switch'']\<rparr>)]"

section \<open>Decision records\<close>

record canonical_decision =
  cd_decision_id :: string
  cd_decision_key :: string
  cd_session_id :: string
  cd_project_id :: string
  cd_thread_id :: string
  cd_native_thread_id :: "string option"
  cd_approval_id :: "string option"
  cd_action_ref :: string
  cd_trigger :: string
  cd_brain_intent :: "string option"
  cd_runtime_disposition :: "string option"
  cd_decision_result :: string
  cd_risk_class :: string
  cd_decision_reason :: string
  cd_matched_policy_rules :: "string list"
  cd_why_not_escalated :: "string option"
  cd_why_escalated :: "string option"
  cd_uncertainty_reasons :: "string list"
  cd_policy_version :: string
  cd_fact_snapshot_version :: string
  cd_idempotency_key :: string
  cd_created_at :: string
  cd_operator_notes :: "string list"
  cd_evidence :: jdict

definition decision_id_for_key :: "(string \<Rightarrow> string) \<Rightarrow> string \<Rightarrow> string" where
  "decision_id_for_key sha key = ''decision:'' @ take 16 (sha key)"

definition brain_intent_dispositions :: "(string, string) dict" where
  "brain_intent_dispositions =
     [(''propose_execute'', ''auto_execute_and_notify''), (''require_approval'', ''require_user_decision''),
      (''propose_recovery'', ''auto_execute_and_notify''),
      (''branch_complete_switch'', ''auto_execute_and_notify''),
      (''candidate_closure'', ''block_and_alert''), (''suggest_only'', ''block_and_alert''),
      (''observe_only'', ''block_and_alert''), (''reject'', ''block_and_alert'')]"

definition brain_intent_to_runtime_disposition :: "string \<Rightarrow> py_error + string" where
  "brain_intent_to_runtime_disposition intent =
     (case map_of brain_intent_dispositions intent of Some d \<Rightarrow> Inr d | None \<Rightarrow> Inl (PyKeyError intent))"

definition build_decision_key ::
  "string \<Rightarrow> string \<Rightarrow> string \<Rightarrow> string \<Rightarrow> string option \<Rightarrow> string \<Rightarrow> string option \<Rightarrow> string" where
  "build_decision_key session_id fact_snapshot_version policy_version decision_result brain_intent
       action_ref approval_id =
     join ''|'' [session_id, fact_snapshot_version, policy_version, decision_result,
       or_empty brain_intent, action_ref, or_empty approval_id]"

definition note_list :: "string \<Rightarrow> string list \<Rightarrow> string list" where
  "note_list key values = (if values = [] then [] else [key @ ''='' @ join '','' values])"

definition note_opt :: "string \<Rightarrow> string option \<Rightarrow> string list" where
  "note_opt key v = (if or_empty v = [] then [] else [key @ ''='' @ or_empty v])"

definition build_operator_notes ::
  "string \<Rightarrow> string \<Rightarrow> string \<Rightarrow> string \<Rightarrow> string \<Rightarrow> string \<Rightarrow> string list \<Rightarrow> string list \<Rightarrow>
   string option \<Rightarrow> string option \<Rightarrow> string list" where
  "build_operator_notes session_id fact_snapshot_version policy_version decision_result risk_class
       action_ref rules uncertainty why_not_escalated why_escalated =
     [''decision='' @ decision_result @ '' risk='' @ risk_class @ '' action='' @ action_ref,
      ''snapshot='' @ fact_snapshot_version @ '' policy='' @ policy_version @ '' session='' @ session_id] @
     note_list ''rules'' rules @ note_list ''uncertainty'' uncertainty @
     note_opt ''why_not_escalated'' why_not_escalated @ note_opt ''why_escalated'' why_escalated"

text \<open>What the rules add to the snapshot, the intent and the action: one outcome per rule.\<close>

record policy_outcome =
  po_result :: string
  po_risk :: string
  po_rules :: "string list"
  po_reason :: string
  po_why_not :: "string option"
  po_why :: "string option"
  po_uncertainty :: "string list"

definition decision_evidence ::
  "persisted_session \<Rightarrow> string option \<Rightarrow> string \<Rightarrow> string \<Rightarrow> policy_outcome \<Rightarrow> string option \<Rightarrow> string \<Rightarrow>
   string list \<Rightarrow> jdict" where
  "decision_evidence p brain_intent action_ref policy_version out approval_id key notes =
     [(''facts'', JList (map dump_fact (ps_facts p))),
      (''matched_policy_rules'', jtexts (po_rules out)), (''risk_class'', JStr (po_risk out)),
      (''decision_reason'', JStr (po_reason out)), (''why_not_escalated'', jopt (po_why_not out)),
      (''why_escalated'', jopt (po_why out)),
      (''decision'', JObj
        [(''brain_intent'', jopt brain_intent), (''runtime_disposition'', JStr (po_result out)),
         (''decision_result'', JStr (po_result out)), (''decision_reason'', JStr (po_reason out)),
         (''why_not_escalated'', jopt (po_why_not out)), (''why_escalated'', jopt (po_why out)),
         (''uncertainty_reasons'', jtexts (po_uncertainty out)), (''action_ref'', JStr action_ref),
         (''approval_id'', jopt approval_id)]),
      (''target'', JObj
        [(''session_id'', JStr (ps_thread_id p)), (''project_id'', JStr (ps_project_id p)),
         (''thread_id'', JStr (ps_thread_id p)),
         (''native_thread_id'', jopt (session_native_thread_id p)),
         (''approval_id'', jopt approval_id)]),
      (''policy_version'', JStr policy_version),
      (''fact_snapshot_version'', JStr (ps_fact_snapshot_version p)),
      (''idempotency_key'', JStr key), (''operator_notes'', jtexts notes)]"

definition build_canonical_decision_record ::
  "(string \<Rightarrow> string) \<Rightarrow> string \<Rightarrow> persisted_session \<Rightarrow> string option \<Rightarrow> string \<Rightarrow> string \<Rightarrow> string \<Rightarrow>
   jdict \<Rightarrow> policy_outcome \<Rightarrow> canonical_decision" where
  "build_canonical_decision_record sha now p brain_intent action_ref policy_version trigger extra_evidence out =
     (let approval_id = (case ps_approval_queue p of [] \<Rightarrow> None | a # _ \<Rightarrow> Some (apj_approval_id a));
          key = build_decision_key (ps_thread_id p) (ps_fact_snapshot_version p) policy_version
            (po_result out) brain_intent action_ref approval_id;
          notes = build_operator_notes (ps_thread_id p) (ps_fact_snapshot_version p) policy_version
            (po_result out) (po_risk out) action_ref (po_rules out) (po_uncertainty out)
            (po_why_not out) (po_why out)
      in \<lparr>cd_decision_id = decision_id_for_key sha key, cd_decision_key = key,
          cd_session_id = ps_thread_id p, cd_project_id = ps_project_id p, cd_thread_id = ps_thread_id p,
          cd_native_thread_id = session_native_thread_id p, cd_approval_id = approval_id,
          cd_action_ref = action_ref, cd_trigger = trigger, cd_brain_intent = brain_intent,
          cd_runtime_disposition = Some (po_result out), cd_decision_result = po_result out,
          cd_risk_class = po_risk out, cd_decision_reason = po_reason out,
          cd_matched_policy_rules = po_rules out, cd_why_not_escalated = po_why_not out,
          cd_why_escalated = po_why out, cd_uncertainty_reasons = po_uncertainty out,
          cd_policy_version = policy_version, cd_fact_snapshot_version = ps_fact_snapshot_version p,
          cd_idempotency_key = key, cd_created_at = now, cd_operator_notes = notes,
          cd_evidence = dict_update
            (decision_evidence p brain_intent action_ref policy_version out approval_id key notes)
            extra_evidence\<rparr>)"

definition decision_native_thread_id :: "canonical_decision \<Rightarrow> string option" where
  "decision_native_thread_id d =
     (let target = (case jget (cd_evidence d) ''target'' of JObj t \<Rightarrow> t | _ \<Rightarrow> []);
          own = strip (or_empty (cd_native_thread_id d));
          other = stripped_text (jget target ''native_thread_id'') in
      if own \<noteq> [] then Some own else nonempty other)"

definition build_brain_intent_decision_record ::
  "(string \<Rightarrow> string) \<Rightarrow> string \<Rightarrow> persisted_session \<Rightarrow> string \<Rightarrow> string \<Rightarrow> string \<Rightarrow> string \<Rightarrow> jdict \<Rightarrow>
   policy_outcome \<Rightarrow> py_error + canonical_decision" where
  "build_brain_intent_decision_record sha now p brain_intent action_ref policy_version trigger extra out =
     res_bind (brain_intent_to_runtime_disposition brain_intent) (\<lambda>result.
       Inr (build_canonical_decision_record sha now p (Some brain_intent) action_ref policy_version trigger
         extra (out\<lparr>po_result := result\<rparr>)))"

section \<open>Gates\<close>

definition goal_contract_evidence ::
  "goal_readiness option \<Rightarrow> jdict option \<Rightarrow> jdict option \<Rightarrow> jdict" where
  "goal_contract_evidence readiness validator_verdict release_gate_verdict =
     (let validator = read_validator_decision_evidence validator_verdict;
          gate = read_release_gate_decision_evidence release_gate_verdict in
      (case readiness of
         None \<Rightarrow> []
       | Some g \<Rightarrow> [(''goal_contract_readiness'',
           JObj [(''mode'', JStr (gr_mode g)), (''missing_fields'', jtexts (gr_missing_fields g))])]) @
      (case vs_verdict validator of None \<Rightarrow> [] | Some v \<Rightarrow> [(''validator_verdict'', dump_validation_verdict v)]) @
      (case gs_verdict gate of None \<Rightarrow> [] | Some v \<Rightarrow> [(''release_gate_verdict'', dump_gate_verdict v)]) @
      (case gs_evidence_bundle gate of
         None \<Rightarrow> [] | Some b \<Rightarrow> [(''release_gate_evidence_bundle'', dump_evidence_bundle b)]))"

definition boundary_status :: "string option \<Rightarrow> string \<Rightarrow> string" where
  "boundary_status brain_intent action_ref =
     (case map_of managed_agent_action_boundary action_ref of
        None \<Rightarrow> ''unregistered_action''
      | Some b \<Rightarrow>
          (case brain_intent of
             None \<Rightarrow> ''legacy_untyped''
           | Some i \<Rightarrow> if i \<in> set (ab_allowed_brain_intents b) then ''pass'' else ''blocked''))"

definition managed_agent_boundary_snapshot :: "string option \<Rightarrow> string \<Rightarrow> jdict" where
  "managed_agent_boundary_snapshot brain_intent action_ref =
     [(''status'', JStr (boundary_status brain_intent action_ref)), (''action_ref'', JStr action_ref),
      (''brain_intent'', jopt brain_intent)] @
     (case map_of managed_agent_action_boundary action_ref of
        None \<Rightarrow> []
      | Some b \<Rightarrow>
          [(''capability'', JStr (ab_capability b)),
           (''allowed_brain_intents'', jtexts (ab_allowed_brain_intents b)),
           (''auto_execute_allowed_intents'', jtexts (ab_auto_execute_allowed_intents b)),
           (''auto_execute_eligible'', JBool (case brain_intent of None \<Rightarrow> False
              | Some i \<Rightarrow> i \<in> set (ab_auto_execute_allowed_intents b)))])"

definition validator_snapshot_is_pass :: "validator_snapshot \<Rightarrow> bool" where
  "validator_snapshot_is_pass s \<longleftrightarrow>
     (case vs_verdict s of None \<Rightarrow> False | Some v \<Rightarrow> vv_status v = ''pass'')"

definition validator_snapshot_has_gate_evidence :: "validator_snapshot \<Rightarrow> bool" where
  "validator_snapshot_has_gate_evidence s \<longleftrightarrow> vs_verdict s \<noteq> None \<or> vs_has_verdict_payload s"

definition validator_snapshot_reason :: "validator_snapshot \<Rightarrow> string \<Rightarrow> string" where
  "validator_snapshot_reason s fallback =
     (case vs_verdict s of None \<Rightarrow> fallback | Some v \<Rightarrow> or_else (vv_reason v) fallback)"

definition gate_snapshot_requires_bundle :: "gate_snapshot \<Rightarrow> bool" where
  "gate_snapshot_requires_bundle s \<longleftrightarrow>
     (case gs_verdict s of None \<Rightarrow> False | Some v \<Rightarrow> gv_report_id v \<noteq> ''report:resident_default'')"

definition gate_snapshot_is_pass :: "gate_snapshot \<Rightarrow> bool" where
  "gate_snapshot_is_pass s \<longleftrightarrow>
     (case gs_verdict s of None \<Rightarrow> False | Some v \<Rightarrow> gv_status v = ''pass'') \<and>
     \<not> (gate_snapshot_requires_bundle s \<and> gs_evidence_bundle s = None)"

definition gate_snapshot_has_gate_evidence :: "gate_snapshot \<Rightarrow> bool" where
  "gate_snapshot_has_gate_evidence s \<longleftrightarrow>
     gs_verdict s \<noteq> None \<or> gs_has_verdict_payload s \<or> gs_has_evidence_bundle_payload s"

definition gate_snapshot_reason :: "gate_snapshot \<Rightarrow> string \<Rightarrow> string" where
  "gate_snapshot_reason s fallback =
     (case gs_verdict s of
        None \<Rightarrow> fallback
      | Some v \<Rightarrow> if gv_status v \<noteq> ''pass'' then or_else (gv_degrade_reason v) fallback else fallback)"

definition blocked_by :: "string list \<Rightarrow> string \<Rightarrow> string option \<Rightarrow> string option \<Rightarrow> string list \<Rightarrow> policy_outcome" where
  "blocked_by rules reason why_not why uncertainty =
     \<lparr>po_result = block_and_alert, po_risk = risk_class_hard_block, po_rules = rules, po_reason = reason,
      po_why_not = why_not, po_why = why, po_uncertainty = uncertainty\<rparr>"

definition human_decides :: "string list \<Rightarrow> string \<Rightarrow> string option \<Rightarrow> string list \<Rightarrow> policy_outcome" where
  "human_decides rules reason why uncertainty =
     \<lparr>po_result = require_user_decision, po_risk = risk_class_human_gate, po_rules = rules,
      po_reason = reason, po_why_not = None, po_why = why, po_uncertainty = uncertainty\<rparr>"

definition gated_intents :: "string list" where
  "gated_intents = [''propose_execute'', ''propose_recovery'', ''branch_complete_switch'']"

definition runtime_gate_override ::
  "string option \<Rightarrow> jdict option \<Rightarrow> jdict option \<Rightarrow> policy_outcome option" where
  "runtime_gate_override brain_intent validator_verdict release_gate_verdict =
     (let validator = read_validator_decision_evidence validator_verdict;
          gate = read_release_gate_decision_evidence release_gate_verdict;
          gate_rule = (if gate_snapshot_has_gate_evidence gate then ''release_gate_degraded''
                       else ''runtime_gate_missing'');
          reason = gate_snapshot_reason gate ''release_gate_missing'' in
      if (case brain_intent of None \<Rightarrow> True | Some i \<Rightarrow> i \<notin> set gated_intents) then None
      else if \<not> validator_snapshot_is_pass validator then
        (let r = validator_snapshot_reason validator ''validator_missing'' in
         Some (blocked_by
           [if validator_snapshot_has_gate_evidence validator then ''validator_gate_degraded''
            else ''runtime_gate_missing'']
           ''validator gate blocks autonomous execution'' None
           (Some (''validator verdict is not pass: '' @ r)) [r]))
      else if brain_intent \<in> {Some ''propose_recovery'', Some ''branch_complete_switch''} then
        (if (case gs_verdict gate of None \<Rightarrow> True | Some v \<Rightarrow> gv_status v \<notin> {''pass'', ''not_applicable''})
         then Some (blocked_by [gate_rule]
           ''branch switch closeout lacks authoritative runtime gate evidence'' None
           (Some (''release gate verdict is not executable: '' @ reason)) [reason])
         else None)
      else if \<not> gate_snapshot_is_pass gate then
        Some (if reason = ''approval_stale''
          then human_decides [gate_rule] ''release gate requires fresh approval before autonomous execution''
            (Some (''release gate verdict is not pass: '' @ reason)) [reason]
          else blocked_by [gate_rule] ''release gate blocks autonomous execution'' None
            (Some (''release gate verdict is not pass: '' @ reason)) [reason])
      else None)"

section \<open>The engine\<close>

definition auto_outcome :: policy_outcome where
  "auto_outcome =
     \<lparr>po_result = auto_execute_and_notify, po_risk = risk_class_none, po_rules = [''registered_action''],
      po_reason = ''registered action and complete evidence'',
      po_why_not = Some ''policy_allows_auto_execution'', po_why = None, po_uncertainty = []\<rparr>"

definition intent_text :: "string option \<Rightarrow> string" where
  "intent_text i = (case i of None \<Rightarrow> ''None'' | Some s \<Rightarrow> s)"

definition policy_decision ::
  "string list \<Rightarrow> string \<Rightarrow> string option \<Rightarrow> jdict option \<Rightarrow> jdict option \<Rightarrow> goal_readiness option \<Rightarrow>
   policy_outcome" where
  "policy_decision codes action_ref brain_intent validator_verdict release_gate_verdict readiness =
     (let uncertainty = filter (\<lambda>c. c \<in> set controlled_uncertainty_reasons) codes in
      if boundary_status brain_intent action_ref = ''blocked'' then
        blocked_by [''managed_agent_boundary'']
          ''managed agent capability boundary rejected the requested action'' None
          (Some (''brain intent is outside the managed boundary for '' @ action_ref @ '': '' @ intent_text brain_intent))
          [''managed_boundary_mismatch'']
      else if list_ex (\<lambda>c. c \<in> set human_gate_fact_codes) codes then
        human_decides [''human_gate''] ''session requires explicit human decision''
          (Some ''human_gate matched persisted facts'') []
      else if uncertainty \<noteq> [] then
        blocked_by [''controlled_uncertainty''] ''controlled uncertainty blocks autonomous execution'' None
          (Some ''controlled uncertainty requires block'') uncertainty
      else if action_ref \<notin> set registered_action_refs then
        blocked_by [''action_registration''] ''action policy is not registered'' None
          (Some ''unregistered action cannot be auto executed'') [''action_unregistered'']
      else if action_ref \<in> set explicit_user_decision_action_refs \<and> brain_intent \<noteq> Some ''propose_recovery'' then
        human_decides [''recovery_human_gate''] ''recovery execution requires explicit human decision''
          (Some ''recovery execution requires explicit human decision'') []
      else if (case readiness of None \<Rightarrow> False | Some g \<Rightarrow> gr_mode g \<noteq> ''autonomous_ready'') then
        (let missing = join '', '' (gr_missing_fields (the readiness)) in
         human_decides [''goal_contract_readiness_gate''] ''goal contract is incomplete for autonomous execution''
           (Some (''goal contract is not autonomous_ready: '' @ (if missing = [] then ''goal_contract'' else missing))) [])
      else if brain_intent = Some ''candidate_closure'' then
        blocked_by [''task_completion_candidate''] ''session completion candidate recorded for operator review''
          (Some ''candidate closure is informational; no executable approval prompt was created'') None []
      else if brain_intent = Some ''require_approval'' then
        blocked_by [''brain_requires_approval''] ''brain approval request suppressed without actionable approval''
          (Some (''approval prompts require an actionable runtime approval projection; '' @
                 ''brain intent alone is not a product action'')) None [''approval_not_actionable'']
      else if brain_intent = Some ''suggest_only'' then
        blocked_by [''brain_suggest_only''] ''brain suggested a non-executing follow-up'' None
          (Some ''brain intent is suggest_only'') []
      else if brain_intent = Some ''observe_only'' then
        blocked_by [''brain_observe_only''] ''brain observed state without proposing execution'' None
          (Some ''brain intent is observe_only'') []
      else (case runtime_gate_override brain_intent validator_verdict release_gate_verdict of
              Some out \<Rightarrow> out
            | None \<Rightarrow> auto_outcome))"

definition evaluate_persisted_session_policy ::
  "(string \<Rightarrow> string) \<Rightarrow> string \<Rightarrow> persisted_session \<Rightarrow> string \<Rightarrow> string \<Rightarrow> string option \<Rightarrow> jdict option \<Rightarrow>
   jdict option \<Rightarrow> string \<Rightarrow> goal_readiness option \<Rightarrow> canonical_decision" where
  "evaluate_persisted_session_policy sha now p action_ref trigger brain_intent validator_verdict
       release_gate_verdict policy_version readiness =
     build_canonical_decision_record sha now p brain_intent action_ref policy_version trigger
       (dict_update (goal_contract_evidence readiness validator_verdict release_gate_verdict)
         [(''managed_agent_boundary'', JObj (managed_agent_boundary_snapshot brain_intent action_ref))])
       (policy_decision (map fact_code (ps_facts p)) action_ref brain_intent validator_verdict
         release_gate_verdict readiness)"

section \<open>The store of decisions\<close>

text \<open>A row is written as the dump of a record and read back as the record.\<close>

type_synonym decision_store = "(string, canonical_decision) dict"

definition same_decision_record :: "canonical_decision \<Rightarrow> canonical_decision \<Rightarrow> bool" where
  "same_decision_record a b \<longleftrightarrow>
     a\<lparr>cd_created_at := [], cd_evidence := []\<rparr> = b\<lparr>cd_created_at := [], cd_evidence := []\<rparr> \<and>
     jdict_eq (cd_evidence a) (cd_evidence b)"

definition decision_get :: "string \<Rightarrow> decision_store \<Rightarrow> canonical_decision option" where
  "decision_get key s = map_of s key"

definition decision_put :: "canonical_decision \<Rightarrow> decision_store \<Rightarrow> canonical_decision \<times> decision_store" where
  "decision_put r s =
     (case map_of s (cd_decision_key r) of
        Some old \<Rightarrow> if same_decision_record old r then (old, s)
                    else (r, dict_set (cd_decision_key r) r s)
      | None \<Rightarrow> (r, dict_set (cd_decision_key r) r s))"

definition decision_update :: "canonical_decision \<Rightarrow> decision_store \<Rightarrow> canonical_decision \<times> decision_store" where
  "decision_update r s = (r, dict_set (cd_decision_key r) r s)"

definition decision_list_records :: "decision_store \<Rightarrow> canonical_decision list" where
  "decision_list_records s = dict_values s"

end
