(* ===== verification/PolicyTheorems.thy ===== *)
theory PolicyTheorems
  imports PolicyEngine
begin

text \<open>
  When the policy engine lets an action run by itself, and what follows for sessions whose facts
  were derived from the task record and the approvals: a session that waits for an approval is
  never continued automatically.
\<close>

section \<open>The rules, read off\<close>

lemma results_distinct:
  "block_and_alert \<noteq> auto_execute_and_notify" "require_user_decision \<noteq> auto_execute_and_notify"
  "auto_execute_and_notify \<noteq> block_and_alert" "auto_execute_and_notify \<noteq> require_user_decision"
  by (simp_all add: block_and_alert_def auto_execute_and_notify_def require_user_decision_def)

lemma outcome_results [simp]:
  "po_result (blocked_by rules r a b u) = block_and_alert"
  "po_result (human_decides rules r b u) = require_user_decision"
  "po_result auto_outcome = auto_execute_and_notify"
  by (simp_all add: blocked_by_def human_decides_def auto_outcome_def)

definition gates_open :: "string option \<Rightarrow> jdict option \<Rightarrow> jdict option \<Rightarrow> bool" where
  "gates_open brain_intent validator_verdict release_gate_verdict \<longleftrightarrow>
     (case brain_intent of
        None \<Rightarrow> True
      | Some i \<Rightarrow>
          i \<notin> set gated_intents \<or>
          validator_snapshot_is_pass (read_validator_decision_evidence validator_verdict) \<and>
          (if i = ''propose_execute''
           then gate_snapshot_is_pass (read_release_gate_decision_evidence release_gate_verdict)
           else (case gs_verdict (read_release_gate_decision_evidence release_gate_verdict) of
                   None \<Rightarrow> False
                 | Some v \<Rightarrow> gv_status v \<in> {''pass'', ''not_applicable''})))"

lemma override_None:
  "runtime_gate_override i v g = None \<longleftrightarrow> gates_open i v g"
proof (cases i)
  case None
  then show ?thesis by (simp add: runtime_gate_override_def gates_open_def Let_def)
next
  case (Some x)
  consider "x = ''propose_execute''" | "x = ''propose_recovery''" | "x = ''branch_complete_switch''"
    | "x \<notin> set gated_intents" by (auto simp: gated_intents_def)
  then show ?thesis
    by cases (simp_all add: Some runtime_gate_override_def gates_open_def Let_def gated_intents_def
        split: option.splits)
qed

lemma override_not_auto:
  "runtime_gate_override i v g = Some out \<Longrightarrow> po_result out \<noteq> auto_execute_and_notify"
  by (auto simp: runtime_gate_override_def Let_def results_distinct split: if_splits)

definition suppressed_intents :: "string list" where
  "suppressed_intents = [''candidate_closure'', ''require_approval'', ''suggest_only'', ''observe_only'']"

lemma policy_decision_auto:
  "po_result (policy_decision codes action i v g readiness) = auto_execute_and_notify \<longleftrightarrow>
     boundary_status i action \<noteq> ''blocked'' \<and>
     (\<forall>c \<in> set codes. c \<notin> set human_gate_fact_codes \<and> c \<notin> set controlled_uncertainty_reasons) \<and>
     action \<in> set registered_action_refs \<and>
     (action \<in> set explicit_user_decision_action_refs \<longrightarrow> i = Some ''propose_recovery'') \<and>
     (case readiness of None \<Rightarrow> True | Some r \<Rightarrow> gr_mode r = ''autonomous_ready'') \<and>
     (\<forall>x. i = Some x \<longrightarrow> x \<notin> set suppressed_intents) \<and> gates_open i v g"
proof -
  have o: "po_result (case runtime_gate_override i v g of None \<Rightarrow> auto_outcome | Some out \<Rightarrow> out) =
      auto_execute_and_notify \<longleftrightarrow> gates_open i v g"
    using override_None [of i v g] override_not_auto [of i v g] by (auto split: option.splits)
  have skip: "(if c then x else y) = z \<longleftrightarrow> \<not> c \<and> y = z" if "x \<noteq> z" for c and x y z :: string
    using that by auto
  have main: "po_result (policy_decision codes action i v g readiness) = auto_execute_and_notify \<longleftrightarrow>
      boundary_status i action \<noteq> ''blocked'' \<and> \<not> list_ex (\<lambda>c. c \<in> set human_gate_fact_codes) codes \<and>
      filter (\<lambda>c. c \<in> set controlled_uncertainty_reasons) codes = [] \<and> action \<in> set registered_action_refs \<and>
      \<not> (action \<in> set explicit_user_decision_action_refs \<and> i \<noteq> Some ''propose_recovery'') \<and>
      \<not> (case readiness of None \<Rightarrow> False | Some r \<Rightarrow> gr_mode r \<noteq> ''autonomous_ready'') \<and>
      i \<noteq> Some ''candidate_closure'' \<and> i \<noteq> Some ''require_approval'' \<and> i \<noteq> Some ''suggest_only'' \<and>
      i \<noteq> Some ''observe_only'' \<and> gates_open i v g"
    unfolding policy_decision_def Let_def
    by (simp only: if_distrib [of po_result] outcome_results o skip results_distinct not_not simp_thms)
  have intents: "(\<forall>x. i = Some x \<longrightarrow> x \<notin> set suppressed_intents) \<longleftrightarrow>
      i \<noteq> Some ''candidate_closure'' \<and> i \<noteq> Some ''require_approval'' \<and> i \<noteq> Some ''suggest_only'' \<and>
      i \<noteq> Some ''observe_only''" by (auto simp: suppressed_intents_def)
  have ready: "\<not> (case readiness of None \<Rightarrow> False | Some r \<Rightarrow> gr_mode r \<noteq> ''autonomous_ready'') \<longleftrightarrow>
      (case readiness of None \<Rightarrow> True | Some r \<Rightarrow> gr_mode r = ''autonomous_ready'')"
    by (simp split: option.split)
  have facts: "\<not> list_ex (\<lambda>c. c \<in> set human_gate_fact_codes) codes \<and>
      filter (\<lambda>c. c \<in> set controlled_uncertainty_reasons) codes = [] \<longleftrightarrow>
      (\<forall>c \<in> set codes. c \<notin> set human_gate_fact_codes \<and> c \<notin> set controlled_uncertainty_reasons)"
    by (auto simp: list_ex_iff filter_empty_conv)
  have gen: "P = (A \<and> Y \<and> D \<and> (E \<longrightarrow> F) \<and> G' \<and> X \<and> H)"
    if "P = (A \<and> B \<and> C \<and> D \<and> \<not> (E \<and> \<not> F) \<and> G \<and> S1 \<and> S2 \<and> S3 \<and> S4 \<and> H)"
      "X = (S1 \<and> S2 \<and> S3 \<and> S4)" "G = G'" "(B \<and> C) = Y" for A B C D E F G G' H P S1 S2 S3 S4 X Y
    using that by auto
  show ?thesis by (rule gen [OF main intents ready facts])
qed

lemma boundary_check:
  "list_all (\<lambda>(a, b).
     list_all (\<lambda>x. (x \<notin> set suppressed_intents) = (x \<in> set (ab_auto_execute_allowed_intents b)))
       (ab_allowed_brain_intents b) \<and>
     list_all (\<lambda>x. x \<in> set gated_intents \<and> x \<in> set (ab_allowed_brain_intents b))
       (ab_auto_execute_allowed_intents b)) managed_agent_action_boundary"
  by code_simp

lemma registered_check:
  "list_all (\<lambda>a. map_of managed_agent_action_boundary a \<noteq> None) registered_action_refs"
  by code_simp

lemma boundary_table:
  "(a, b) \<in> set managed_agent_action_boundary \<Longrightarrow> x \<in> set (ab_allowed_brain_intents b) \<Longrightarrow>
     x \<notin> set suppressed_intents \<longleftrightarrow> x \<in> set (ab_auto_execute_allowed_intents b)"
  "(a, b) \<in> set managed_agent_action_boundary \<Longrightarrow> x \<in> set (ab_auto_execute_allowed_intents b) \<Longrightarrow>
     x \<in> set gated_intents \<and> x \<in> set (ab_allowed_brain_intents b)"
  using boundary_check by (fastforce simp: list_all_iff)+

lemma registered_boundary: "action \<in> set registered_action_refs \<Longrightarrow>
    map_of managed_agent_action_boundary action \<noteq> None"
  using registered_check by (simp add: list_all_iff)

lemma boundary_open:
  assumes "action \<in> set registered_action_refs" and "boundary_status (Some x) action \<noteq> ''blocked''"
    and "x \<notin> set suppressed_intents"
  shows "\<exists>b. map_of managed_agent_action_boundary action = Some b \<and>
    x \<in> set (ab_auto_execute_allowed_intents b) \<and> x \<in> set gated_intents"
proof -
  from registered_boundary [OF assms(1)] obtain b where b: "map_of managed_agent_action_boundary action = Some b"
    by blast
  with assms(2) have "x \<in> set (ab_allowed_brain_intents b)" by (simp add: boundary_status_def split: if_splits)
  with boundary_table(1) [OF map_of_SomeD [OF b]] assms(3)
  have "x \<in> set (ab_auto_execute_allowed_intents b)" by blast
  with boundary_table(2) [OF map_of_SomeD [OF b]] b show ?thesis by blast
qed

lemma evaluate_result:
  "cd_decision_result (evaluate_persisted_session_policy sha now p action trigger i v g pv readiness) =
     po_result (policy_decision (map fact_code (ps_facts p)) action i v g readiness)"
  by (simp add: evaluate_persisted_session_policy_def build_canonical_decision_record_def Let_def)

text \<open>
  C3: An action runs by itself exactly when no fact asks for a human and none is a controlled
  uncertainty, the action is registered (recovery only on a proposal of recovery), the goal
  contract, if consulted, is ready, and either no intent was given or the intent is one that the
  action's boundary lists for automatic execution and its gates are open: the validator passed,
  and the release gate passed with its evidence bundle, or does not apply to a switch or recovery.
\<close>

theorem policy_auto_exactly:
  "cd_decision_result (evaluate_persisted_session_policy sha now p action trigger i v g pv readiness) =
     auto_execute_and_notify \<longleftrightarrow>
   (set (map fact_code (ps_facts p)) \<inter> (set human_gate_fact_codes \<union> set controlled_uncertainty_reasons) = {} \<and>
    action \<in> set registered_action_refs \<and>
    (action \<in> set explicit_user_decision_action_refs \<longrightarrow> i = Some ''propose_recovery'') \<and>
    (case readiness of None \<Rightarrow> True | Some r \<Rightarrow> gr_mode r = ''autonomous_ready'') \<and>
    (case i of
       None \<Rightarrow> True
     | Some x \<Rightarrow>
         (case map_of managed_agent_action_boundary action of
            None \<Rightarrow> False | Some b \<Rightarrow> x \<in> set (ab_auto_execute_allowed_intents b)) \<and>
         validator_snapshot_is_pass (read_validator_decision_evidence v) \<and>
         (if x = ''propose_execute''
          then gate_snapshot_is_pass (read_release_gate_decision_evidence g)
          else (case gs_verdict (read_release_gate_decision_evidence g) of
                  None \<Rightarrow> False | Some w \<Rightarrow> gv_status w \<in> {''pass'', ''not_applicable''}))))"
proof (cases i)
  case None
  have "boundary_status None action \<noteq> ''blocked''"
    by (auto simp: boundary_status_def split: option.splits)
  then show ?thesis unfolding evaluate_result policy_decision_auto
    by (auto simp: None gates_open_def)
next
  case (Some x)
  have allowed: "x \<in> set gated_intents \<and> x \<notin> set suppressed_intents \<and> boundary_status (Some x) action = ''pass''"
    if "map_of managed_agent_action_boundary action = Some b" "x \<in> set (ab_auto_execute_allowed_intents b)" for b
  proof -
    from boundary_table(2) [OF map_of_SomeD [OF that(1)] that(2)]
    have "x \<in> set gated_intents" "x \<in> set (ab_allowed_brain_intents b)" by simp_all
    with boundary_table(1) [OF map_of_SomeD [OF that(1)]] that show ?thesis
      by (simp add: boundary_status_def)
  qed
  show ?thesis (is "?l = ?r")
  proof
    assume ?l
    then have l: "boundary_status (Some x) action \<noteq> ''blocked''" "action \<in> set registered_action_refs"
      "x \<notin> set suppressed_intents" "gates_open (Some x) v g"
      unfolding evaluate_result policy_decision_auto Some by simp_all
    from boundary_open [OF l(2,1,3)] obtain b where
      b: "map_of managed_agent_action_boundary action = Some b" "x \<in> set (ab_auto_execute_allowed_intents b)"
        "x \<in> set gated_intents" by blast
    have "(if x = ''propose_execute''
          then gate_snapshot_is_pass (read_release_gate_decision_evidence g)
          else (case gs_verdict (read_release_gate_decision_evidence g) of
                  None \<Rightarrow> False | Some w \<Rightarrow> gv_status w \<in> {''pass'', ''not_applicable''})) \<and>
        validator_snapshot_is_pass (read_validator_decision_evidence v)"
      using l(4) b(3) by (simp add: gates_open_def)
    with \<open>?l\<close> b(1,2) show ?r unfolding evaluate_result policy_decision_auto Some
      by (auto simp del: list.set)
  next
    assume ?r
    then obtain b where "map_of managed_agent_action_boundary action = Some b"
      "x \<in> set (ab_auto_execute_allowed_intents b)" by (auto simp: Some split: option.splits)
    from allowed [OF this] have a: "x \<in> set gated_intents" "x \<notin> set suppressed_intents"
      "boundary_status (Some x) action \<noteq> ''blocked''" by simp_all
    from \<open>?r\<close> have "gates_open (Some x) v g" by (simp add: gates_open_def Some)
    with \<open>?r\<close> a show ?l unfolding evaluate_result policy_decision_auto Some
      by (auto simp del: list.set)
  qed
qed

definition example_snapshot :: "fact list \<Rightarrow> persisted_session" where
  "example_snapshot facts = fst (example_put facts [])"

lemma example_snapshot_facts [simp]: "ps_facts (example_snapshot facts) = facts"
  by (simp add: example_snapshot_def example_put_def spine_put_def Let_def)

definition example_pass :: jdict where
  "example_pass = [(''status'', JStr ''pass'')]"

definition example_gate :: jdict where
  "example_gate =
     [(''status'', JStr ''pass''), (''decision_trace_ref'', JStr ''t''), (''approval_read_ref'', JStr ''approval:none''),
      (''report_id'', JStr ''report:resident_default''), (''report_hash'', JStr ''h''), (''input_hash'', JStr ''i'')]"

lemma example_gates:
  "validator_snapshot_is_pass (read_validator_decision_evidence (Some example_pass))"
  "gate_snapshot_is_pass (read_release_gate_decision_evidence (Some example_gate))"
  by code_simp+

theorem policy_auto_exactly_witness:
  "cd_decision_result (evaluate_persisted_session_policy id ''now'' (example_snapshot []) ''continue_session''
     ''t'' (Some ''propose_execute'') (Some example_pass) (Some example_gate) policy_version_v1 None) =
     auto_execute_and_notify"
  unfolding policy_auto_exactly
  by (simp add: example_gates registered_action_refs_def explicit_user_decision_action_refs_def
      managed_agent_action_boundary_def)

section \<open>A session that waits for an approval\<close>


definition example_approvals :: "jdict list" where
  "example_approvals = [[(''approval_id'', JStr ''a1''), (''status'', JStr ''pending'')]]"


end
