(* ===== verification/ModelValidation.thy ===== *)
theory ModelValidation
  imports GateEvidence
begin

text \<open>
  Validating what a validated model writes gives the model back: the read contracts and the frozen
  continuation packets rest on it.
\<close>

fun fields_wf :: "(string \<times> field_kind) list \<Rightarrow> bool" and field_wf :: "field_kind \<Rightarrow> bool" where
  "fields_wf [] = True"
| "fields_wf ((k, f) # fs) = (k \<notin> set (map fst fs) \<and> field_wf f \<and> fields_wf fs)"
| "field_wf (ModelField fs) = fields_wf fs"
| "field_wf f = True"

definition present :: "json \<Rightarrow> json option" where
  "present v = (if v = JNull then None else Some v)"

lemma validate_fields_nonnull: "validate_fields fs d = Some p \<Longrightarrow> (k, v) \<in> set p \<Longrightarrow> v \<noteq> JNull"
proof (induction fs arbitrary: p)
  case (Cons g fs)
  then show ?case by (cases g) (auto split: option.splits if_splits)
qed simp

lemma validated_lookup:
  assumes "validate_fields fs d = Some p"
  shows "map_of p k = present (jget p k)"
  using validate_fields_nonnull [OF assms, of k "JNull"]
  by (auto simp: present_def jget_def dest: map_of_SomeD split: option.splits)

lemma revalidate:
  "validate_field f v = Some w \<Longrightarrow> field_wf f \<Longrightarrow> validate_field f (present w) = Some w"
  "validate_fields fs d = Some p \<Longrightarrow> fields_wf fs \<Longrightarrow>
     (\<And>k. k \<in> set (map fst fs) \<Longrightarrow> map_of e k = present (jget p k)) \<Longrightarrow> validate_fields fs e = Some p"
proof (induction f v and fs d arbitrary: w and p e rule: validate_field_validate_fields.induct)
  case (1 v)
  then show ?case by (auto simp: present_def split: option.splits json.splits if_splits)
next
  case (2 v)
  then show ?case by (auto simp: present_def split: option.splits json.splits)
next
  case (3 d v)
  then show ?case by (auto simp: present_def split: option.splits json.splits)
next
  case (4 v)
  then show ?case by (auto simp: present_def split: option.splits json.splits if_splits)
next
  case (5 v)
  then show ?case by (auto simp: present_def split: option.splits json.splits)
next
  case (6 fs v)
  from "6.prems"(1) obtain d p where v: "v = Some (JObj d)" and ok: "list_all (\<lambda>(k, _). k \<in> set (map fst fs)) d"
    and p: "validate_fields fs d = Some p" "w = JObj p"
    by (auto split: option.splits json.splits if_splits)
  have "validate_fields fs p = Some p"
    using "6.IH" [OF v refl ok p(1), of p] "6.prems"(2) validated_lookup [OF p(1)] by simp
  moreover have "list_all (\<lambda>(k, _). k \<in> set (map fst fs)) p"
    unfolding list_all_iff
  proof clarify
    fix k x
    assume "(k, x) \<in> set p"
    then have "k \<in> set (map fst p)" by force
    with validate_fields_keys [OF p(1)] show "k \<in> set (map fst fs)" by blast
  qed
  ultimately show ?case by (simp add: p(2) present_def)
next
  case (7 d)
  then show ?case by simp
next
  case (8 k f fs d)
  from "8.prems"(1) obtain v rest where v: "validate_field f (map_of d k) = Some v"
    and rest: "validate_fields fs d = Some rest" and p: "p = (if v = JNull then rest else (k, v) # rest)"
    by (auto split: option.splits)
  have new: "k \<notin> set (map fst fs)" and wf: "field_wf f" "fields_wf fs" using "8.prems"(2) by simp_all
  then have "k \<notin> fst ` set rest" using validate_fields_keys [OF rest] by auto
  then have "jget rest k = JNull" by (simp add: jget_def map_of_eq_None_iff [symmetric])
  then have pk: "jget p k = v" by (simp add: p)
  have "validate_field f (map_of e k) = Some v"
    using "8.IH"(1) [OF v wf(1)] "8.prems"(3) [of k] pk by simp
  moreover have "validate_fields fs e = Some rest"
  proof (rule "8.IH"(2) [OF v rest wf(2)])
    fix l
    assume l: "l \<in> set (map fst fs)"
    with new have "l \<noteq> k" by auto
    with l "8.prems"(3) [of l] show "map_of e l = present (jget rest l)" by (simp add: p)
  qed
  ultimately show ?case by (simp add: p)
qed

lemma validate_model_JObj:
  "validate_model fs (JObj d) = Some p \<longleftrightarrow> validate_field (ModelField fs) (Some (JObj d)) = Some (JObj p)"
  unfolding validate_model_def
  by (cases "validate_field (ModelField fs) (Some (JObj d))")
    (auto simp del: validate_field.simps split: json.splits)

lemma validate_model_idem:
  assumes "validate_model fs j = Some p" and "fields_wf fs"
  shows "validate_model fs (JObj p) = Some p"
proof -
  from assms(1) obtain d where "j = JObj d" by (auto simp: validate_model_def split: json.splits)
  with assms(1) have v: "validate_field (ModelField fs) (Some (JObj d)) = Some (JObj p)"
    by (simp only: validate_model_JObj)
  have "validate_field (ModelField fs) (present (JObj p)) = Some (JObj p)"
    by (rule revalidate(1) [OF v]) (simp add: assms(2))
  then show ?thesis by (simp add: validate_model_JObj present_def del: validate_field.simps)
qed

lemma packet_validation: "model_validate_continuation_packet d = Inr p \<longleftrightarrow> validate_model packet_fields (JObj d) = Some p"
  unfolding validate_model_JObj model_validate_continuation_packet_def
  by (cases "validate_field (ModelField packet_fields) (Some (JObj d))")
    (auto simp del: validate_field.simps split: json.splits)

lemma schemas_wf:
  "fields_wf packet_fields" "fields_wf evidence_bundle_fields" "fields_wf gate_verdict_fields"
  "fields_wf validation_verdict_fields"
  by code_simp+

text \<open>
  A dump that lists the fields of the schema, each with a value that its field accepts as it is,
  validates to itself without the empty fields.
\<close>

definition field_accepts :: "string \<times> field_kind \<Rightarrow> string \<times> json \<Rightarrow> bool" where
  "field_accepts f d \<longleftrightarrow> fst f = fst d \<and> validate_field (snd f) (Some (snd d)) = Some (snd d)"

abbreviation nonnull :: "jdict \<Rightarrow> jdict" where
  "nonnull d \<equiv> filter (\<lambda>(_, v). v \<noteq> JNull) d"

lemma jget_nonnull: "distinct (map fst d) \<Longrightarrow> jget (nonnull d) k = jget d k"
proof (induction d)
  case (Cons x d)
  obtain k' v where x: "x = (k', v)" by fastforce
  have "jget d k' = JNull" using Cons.prems x by (simp add: jget_def map_of_eq_None_iff [symmetric])
  with Cons x show ?case by auto
qed simp

lemma accepted_fields:
  "list_all2 field_accepts fs d \<Longrightarrow> distinct (map fst d) \<Longrightarrow>
     (\<And>k v. (k, v) \<in> set d \<Longrightarrow> map_of e k = Some v) \<Longrightarrow> validate_fields fs e = Some (nonnull d)"
proof (induction fs d rule: list_all2_induct)
  case (Cons f fs x d)
  obtain k g v where f: "f = (k, g)" and x: "x = (k, v)" and v: "validate_field g (Some v) = Some v"
    using Cons.hyps by (cases f; cases x) (auto simp: field_accepts_def)
  have "map_of e k = Some v" using Cons.prems(2) x by simp
  moreover have "validate_fields fs e = Some (nonnull d)" using Cons by simp
  ultimately show ?case by (simp add: f x v)
qed simp

lemma accepted_keys: "list_all2 field_accepts fs d \<Longrightarrow> map fst fs = map fst d"
  by (induction fs d rule: list_all2_induct) (simp_all add: field_accepts_def)

lemma validate_accepted:
  assumes "list_all2 field_accepts fs d" and "distinct (map fst d)"
  shows "validate_model fs (JObj d) = Some (nonnull d)"
proof -
  have "validate_fields fs d = Some (nonnull d)"
    by (rule accepted_fields [OF assms]) (simp add: assms(2))
  moreover have "list_all (\<lambda>(k, _). k \<in> set (map fst fs)) d"
    unfolding accepted_keys [OF assms(1)] by (force simp: list_all_iff)
  ultimately show ?thesis by (simp add: validate_model_def)
qed

lemma accepts_text [simp]: "field_accepts (k, TextField) (k', JStr s) \<longleftrightarrow> k = k' \<and> s \<noteq> []"
  by (simp add: field_accepts_def)

lemma accepts_opt [simp]: "field_accepts (k, OptTextField) (k', jopt v) \<longleftrightarrow> k = k'"
  by (cases v) (simp_all add: field_accepts_def jopt_def)

lemma accepts_texts [simp]: "field_accepts (k, TextListField) (k', JList (map JStr xs)) \<longleftrightarrow> k = k'"
  by (simp add: field_accepts_def list_all_iff is_text_def)

lemma accepts_dict [simp]: "field_accepts (k, DictField) (k', JObj d) \<longleftrightarrow> k = k'"
  by (simp add: field_accepts_def)


definition example_packet :: jdict where
  "example_packet =
     map (\<lambda>k. (k, JStr ''x''))
       [''packet_id'', ''decision_class'', ''continuation_identity'', ''project_id'', ''session_id'',
        ''native_thread_id'', ''project_total_goal'', ''branch_goal'', ''current_progress_summary'',
        ''first_action'', ''execution_mode'', ''action_ref'', ''expected_next_state'',
        ''continue_boundary'', ''operator_boundary''] @
     [(''target_route'', JObj (map (\<lambda>k. (k, JStr ''x''))
         [''route_kind'', ''target_project_id'', ''target_session_id'', ''target_thread_id''])),
      (''source_refs'', JObj [(''decision_source'', JStr ''x''), (''goal_contract_version'', JStr ''goal-v1'')]),
      (''freshness'', JObj [(''generated_at'', JStr ''x''), (''expires_at'', JStr ''x'')]),
      (''dedupe'', JObj [(''dedupe_key'', JStr ''x''), (''supersedes_packet_id'', JNull)])]"


end
