(* ===== verification/GoalContract.thy ===== *)
theory GoalContract
  imports SessionService ModelValidation
begin

text \<open>
  The goal contract of a session, \<^verbatim>\<open>src/watchdog/services/goal_contract/service.py\<close> over the models
  of \<^verbatim>\<open>models.py\<close>: a versioned statement of what the session is for. The contract is kept in the
  session log only: every change is an event that carries the whole contract, and the contract of a
  session is what its latest such event says.
\<close>

section \<open>The contract\<close>

record goal_contract =
  gc_contract_id :: string
  gc_version :: string
  gc_project_id :: string
  gc_session_id :: string
  gc_original_goal :: string
  gc_explicit_deliverables :: "string list"
  gc_non_goals :: "string list"
  gc_completion_signals :: "string list"
  gc_inference_boundary :: string
  gc_constraints :: "string list"
  gc_status :: string
  gc_current_phase_goal :: string
  gc_phase :: "string option"
  gc_stage :: "string option"
  gc_active_goal :: "string option"
  gc_source_session_id :: "string option"
  gc_provenance :: "(string, string) dict"
  gc_metadata :: jdict

definition goal_contract_fields :: "(string \<times> field_kind) list" where
  "goal_contract_fields =
     [(''contract_id'', TextField), (''version'', TextField), (''project_id'', TextField),
      (''session_id'', TextField), (''original_goal'', TextField),
      (''explicit_deliverables'', TextListField), (''non_goals'', TextListField),
      (''completion_signals'', TextListField), (''inference_boundary'', TextField),
      (''constraints'', TextListField), (''status'', TextField), (''current_phase_goal'', TextField),
      (''phase'', OptTextField), (''stage'', OptTextField), (''active_goal'', OptTextField),
      (''source_session_id'', OptTextField), (''provenance'', DictField), (''metadata'', DictField)]"

text \<open>\<open>Field(min_length=1)\<close> of the required texts.\<close>

definition contract_texts_ok :: "goal_contract \<Rightarrow> bool" where
  "contract_texts_ok c \<longleftrightarrow>
     [] \<notin> set [gc_contract_id c, gc_version c, gc_project_id c, gc_session_id c, gc_original_goal c,
                gc_inference_boundary c, gc_status c, gc_current_phase_goal c]"

definition validate_goal_contract :: "goal_contract \<Rightarrow> py_error + goal_contract" where
  "validate_goal_contract c =
     (if contract_texts_ok c then Inr c else Inl (ValueError ''goal contract field''))"

definition jstrings :: "(string, string) dict \<Rightarrow> json" where
  "jstrings d = JObj (map (\<lambda>(k, v). (k, JStr v)) d)"

definition dump_goal_contract :: "goal_contract \<Rightarrow> json" where
  "dump_goal_contract c = JObj
     [(''contract_id'', JStr (gc_contract_id c)), (''version'', JStr (gc_version c)),
      (''project_id'', JStr (gc_project_id c)), (''session_id'', JStr (gc_session_id c)),
      (''original_goal'', JStr (gc_original_goal c)),
      (''explicit_deliverables'', jtexts (gc_explicit_deliverables c)),
      (''non_goals'', jtexts (gc_non_goals c)),
      (''completion_signals'', jtexts (gc_completion_signals c)),
      (''inference_boundary'', JStr (gc_inference_boundary c)),
      (''constraints'', jtexts (gc_constraints c)), (''status'', JStr (gc_status c)),
      (''current_phase_goal'', JStr (gc_current_phase_goal c)), (''phase'', jopt (gc_phase c)),
      (''stage'', jopt (gc_stage c)), (''active_goal'', jopt (gc_active_goal c)),
      (''source_session_id'', jopt (gc_source_session_id c)),
      (''provenance'', jstrings (gc_provenance c)), (''metadata'', JObj (gc_metadata c))]"

text \<open>\<open>GoalContractSnapshot.model_validate\<close>.\<close>

definition the_text :: "json \<Rightarrow> string" where
  "the_text j = (case j of JStr s \<Rightarrow> s | _ \<Rightarrow> [])"

definition field_texts :: "jdict \<Rightarrow> string \<Rightarrow> string list" where
  "field_texts p k = (case jget p k of JList xs \<Rightarrow> map the_text xs | _ \<Rightarrow> [])"

definition field_dict :: "jdict \<Rightarrow> string \<Rightarrow> jdict" where
  "field_dict p k = (case jget p k of JObj d \<Rightarrow> d | _ \<Rightarrow> [])"

definition read_goal_contract :: "json \<Rightarrow> goal_contract option" where
  "read_goal_contract j =
     (case validate_model goal_contract_fields j of
        None \<Rightarrow> None
      | Some p \<Rightarrow>
          if \<not> list_all (\<lambda>(_, v). is_text v) (field_dict p ''provenance'') then None
          else Some
            \<lparr>gc_contract_id = field_text p ''contract_id'', gc_version = field_text p ''version'',
             gc_project_id = field_text p ''project_id'', gc_session_id = field_text p ''session_id'',
             gc_original_goal = field_text p ''original_goal'',
             gc_explicit_deliverables = field_texts p ''explicit_deliverables'',
             gc_non_goals = field_texts p ''non_goals'',
             gc_completion_signals = field_texts p ''completion_signals'',
             gc_inference_boundary = field_text p ''inference_boundary'',
             gc_constraints = field_texts p ''constraints'', gc_status = field_text p ''status'',
             gc_current_phase_goal = field_text p ''current_phase_goal'',
             gc_phase = field_opt p ''phase'', gc_stage = field_opt p ''stage'',
             gc_active_goal = field_opt p ''active_goal'',
             gc_source_session_id = field_opt p ''source_session_id'',
             gc_provenance = map (\<lambda>(k, v). (k, the_text v)) (field_dict p ''provenance''),
             gc_metadata = field_dict p ''metadata''\<rparr>)"

section \<open>Texts, lists and versions\<close>

definition normalize_text :: "string option \<Rightarrow> string" where
  "normalize_text value = strip (join '' '' (split_ws (or_empty value)))"

definition stable_contract_id :: "(string \<Rightarrow> string) \<Rightarrow> string \<Rightarrow> string \<Rightarrow> string" where
  "stable_contract_id sha project_id session_id =
     ''goal-contract:'' @ take 16 (sha (project_id @ ''|'' @ session_id))"

text \<open>\<open>current.rpartition("v")\<close>: without a separator the prefix is empty.\<close>

definition rpartition :: "char \<Rightarrow> string \<Rightarrow> string \<times> string" where
  "rpartition c s =
     (if c \<in> set s then (take (length s - length (after_last c s) - 1) s, after_last c s)
      else ([], s))"

definition next_goal_contract_version :: "string option \<Rightarrow> py_error + string" where
  "next_goal_contract_version current =
     (if or_empty current = [] then Inr ''goal-v1''
      else case rpartition (CHR ''v'') (or_empty current) of (pre, digits) \<Rightarrow>
        if pre \<noteq> ''goal-'' \<or> digits = [] \<or> \<not> list_all is_digit digits
        then Inl (ValueError (''unsupported goal contract version: '' @ or_empty current))
        else Inr (''goal-v'' @ str_of_int (int_of_digits digits + 1)))"

fun pick_first_nonempty :: "string option list \<Rightarrow> py_error + string" where
  "pick_first_nonempty [] = Inl (ValueError ''goal contract requires at least one non-empty source field'')"
| "pick_first_nonempty (v # vs) =
     (if normalize_text v \<noteq> [] then Inr (normalize_text v) else pick_first_nonempty vs)"

definition normalize_list :: "string list option \<Rightarrow> string list" where
  "normalize_list values =
     filter (\<lambda>v. v \<noteq> []) (map (\<lambda>v. normalize_text (Some v)) (case values of None \<Rightarrow> [] | Some vs \<Rightarrow> vs))"

definition replace_if_provided :: "string list option \<Rightarrow> string list \<Rightarrow> string list" where
  "replace_if_provided values old = (case values of None \<Rightarrow> old | Some vs \<Rightarrow> normalize_list (Some vs))"

definition build_constraints :: "string list \<Rightarrow> string \<Rightarrow> string list" where
  "build_constraints non_goals inference_boundary =
     foldl (\<lambda>cs item. if item \<noteq> [] \<and> item \<notin> set cs then cs @ [item] else cs) []
       (non_goals @ [inference_boundary])"

definition default_inference_boundary :: string where
  "default_inference_boundary =
     ''Only explicit deliverables and explicit completion signals can unlock autonomous progression.''"

text \<open>\<open>text or None\<close>, and \<open>text or old\<close>.\<close>

definition text_or_none :: "string option \<Rightarrow> string option" where
  "text_or_none v = (let t = normalize_text v in if t = [] then None else Some t)"

definition text_or :: "string option \<Rightarrow> string option \<Rightarrow> string option" where
  "text_or v old = (case text_or_none v of None \<Rightarrow> old | Some t \<Rightarrow> Some t)"

section \<open>Changing the contract\<close>

text \<open>The optional arguments of the two operations; each is \<open>None\<close> when it is not given.\<close>

record goal_inputs =
  gi_current_phase_goal :: "string option"
  gi_last_user_instruction :: "string option"
  gi_last_summary :: "string option"
  gi_explicit_deliverables :: "string list option"
  gi_completion_signals :: "string list option"
  gi_non_goals :: "string list option"
  gi_inference_boundary :: "string option"
  gi_active_goal :: "string option"
  gi_phase :: "string option"
  gi_stage :: "string option"
  gi_causation_id :: "string option"
  gi_related_ids :: "(string, string) dict"

definition human_authored :: "goal_inputs \<Rightarrow> (string, string) dict \<Rightarrow> (string, string) dict" where
  "human_authored a d =
     (let put = (\<lambda>k v d. case v of None \<Rightarrow> d | Some (_ :: string list) \<Rightarrow> dict_set k ''human-authored'' d) in
      put ''non_goals'' (gi_non_goals a)
        (put ''completion_signals'' (gi_completion_signals a)
          (put ''explicit_deliverables'' (gi_explicit_deliverables a) d)))"

definition build_bootstrap_provenance :: "goal_inputs \<Rightarrow> (string, string) dict" where
  "build_bootstrap_provenance a =
     human_authored a
       (map (\<lambda>k. (k, ''deterministic-derived''))
          [''contract_id'', ''version'', ''original_goal'', ''current_phase_goal'', ''inference_boundary'',
           ''constraints'', ''status''])"

definition merge_revision_provenance :: "(string, string) dict \<Rightarrow> goal_inputs \<Rightarrow> (string, string) dict" where
  "merge_revision_provenance current a =
     (let d = human_authored a current;
          d = (if \<exists>v \<in> set [gi_current_phase_goal a, gi_active_goal a, gi_phase a, gi_stage a]. v \<noteq> None
               then dict_set ''current_phase_goal'' ''deterministic-derived'' d else d)
      in if gi_inference_boundary a \<noteq> None
         then dict_set ''constraints'' ''deterministic-derived''
                (dict_set ''inference_boundary'' ''deterministic-derived'' d)
         else d)"

definition bootstrapped_contract ::
  "(string \<Rightarrow> string) \<Rightarrow> string \<Rightarrow> string \<Rightarrow> string \<Rightarrow> string \<Rightarrow> goal_inputs \<Rightarrow> py_error + goal_contract" where
  "bootstrapped_contract sha project_id session_id task_title task_prompt a =
     (let non_goals = normalize_list (gi_non_goals a);
          boundary = or_else (Some (normalize_text (gi_inference_boundary a))) default_inference_boundary in
      res_bind (pick_first_nonempty
          [Some task_prompt, Some task_title, gi_last_user_instruction a, gi_last_summary a]) (\<lambda>original.
      res_bind (pick_first_nonempty
          [gi_current_phase_goal a, gi_active_goal a, gi_last_user_instruction a, Some task_title,
           Some task_prompt]) (\<lambda>phase_goal.
      validate_goal_contract
        \<lparr>gc_contract_id = stable_contract_id sha project_id session_id, gc_version = ''goal-v1'',
         gc_project_id = project_id, gc_session_id = session_id, gc_original_goal = original,
         gc_explicit_deliverables = normalize_list (gi_explicit_deliverables a),
         gc_non_goals = non_goals, gc_completion_signals = normalize_list (gi_completion_signals a),
         gc_inference_boundary = boundary, gc_constraints = build_constraints non_goals boundary,
         gc_status = ''active'', gc_current_phase_goal = phase_goal,
         gc_phase = text_or_none (gi_phase a), gc_stage = text_or_none (gi_stage a),
         gc_active_goal = text_or_none (gi_active_goal a), gc_source_session_id = None,
         gc_provenance = build_bootstrap_provenance a,
         gc_metadata = [(''task_title'', JStr (normalize_text (Some task_title))),
           (''last_summary'', JStr (normalize_text (gi_last_summary a))),
           (''last_user_instruction'', JStr (normalize_text (gi_last_user_instruction a)))]\<rparr>)))"

text \<open>\<open>model_copy\<close> does not validate.\<close>

definition revised_contract :: "goal_contract \<Rightarrow> goal_inputs \<Rightarrow> py_error + goal_contract" where
  "revised_contract c a =
     (let non_goals = replace_if_provided (gi_non_goals a) (gc_non_goals c);
          boundary = or_else (text_or_none (gi_inference_boundary a)) (gc_inference_boundary c);
          instruction = or_else (text_or_none (gi_last_user_instruction a))
            (text_or_empty (jget (gc_metadata c) ''last_user_instruction''));
          summary = or_else (text_or_none (gi_last_summary a))
            (text_or_empty (jget (gc_metadata c) ''last_summary'')) in
      res_bind (next_goal_contract_version (Some (gc_version c))) (\<lambda>version.
      res_bind (pick_first_nonempty
          [gi_current_phase_goal a, gi_active_goal a, Some (gc_current_phase_goal c)]) (\<lambda>phase_goal.
      Inr (c\<lparr>gc_version := version, gc_current_phase_goal := phase_goal,
             gc_explicit_deliverables :=
               replace_if_provided (gi_explicit_deliverables a) (gc_explicit_deliverables c),
             gc_completion_signals :=
               replace_if_provided (gi_completion_signals a) (gc_completion_signals c),
             gc_non_goals := non_goals, gc_inference_boundary := boundary,
             gc_constraints := build_constraints non_goals boundary,
             gc_active_goal := text_or (gi_active_goal a) (gc_active_goal c),
             gc_phase := text_or (gi_phase a) (gc_phase c), gc_stage := text_or (gi_stage a) (gc_stage c),
             gc_metadata := dict_set ''last_summary'' (JStr summary)
               (dict_set ''last_user_instruction'' (JStr instruction) (gc_metadata c)),
             gc_provenance := merge_revision_provenance (gc_provenance c) a\<rparr>))))"

definition goal_contract_event_types :: "string list" where
  "goal_contract_event_types =
     [''goal_contract_created'', ''goal_contract_revised'', ''goal_contract_adopted_by_child_session'']"

definition goal_correlation :: "string \<Rightarrow> string \<Rightarrow> string \<Rightarrow> string" where
  "goal_correlation event_type session_id version =
     ''corr:'' @ event_type @ '':'' @ session_id @ '':'' @ version"

definition record_goal_contract_event ::
  "(string \<Rightarrow> string) \<Rightarrow> string \<Rightarrow> string \<Rightarrow> string \<Rightarrow> string \<Rightarrow> goal_contract \<Rightarrow> string option \<Rightarrow>
   (string, string) dict \<Rightarrow> jdict \<Rightarrow> (session_event, session_store) op" where
  "record_goal_contract_event sha now event_type project_id session_id contract causation_id related_ids
     payload_extra =
     record_event sha now event_type project_id session_id
       (goal_correlation event_type session_id (gc_version contract))
       (dict_update [(''contract'', dump_goal_contract contract)] payload_extra) causation_id
       (dict_update [(''contract_id'', gc_contract_id contract),
                     (''goal_contract_version'', gc_version contract)] related_ids) None"

definition bootstrap_contract ::
  "(string \<Rightarrow> string) \<Rightarrow> string \<Rightarrow> string \<Rightarrow> string \<Rightarrow> string \<Rightarrow> string \<Rightarrow> goal_inputs \<Rightarrow>
   (goal_contract, session_store) op" where
  "bootstrap_contract sha now project_id session_id task_title task_prompt a =
     op_bind (op_lift (bootstrapped_contract sha project_id session_id task_title task_prompt a)) (\<lambda>c.
     op_bind (record_goal_contract_event sha now ''goal_contract_created'' project_id session_id c
               (gi_causation_id a) (gi_related_ids a) []) (\<lambda>_.
     op_return c))"

section \<open>Reading the contract\<close>

definition goal_contract_events :: "string \<Rightarrow> string \<Rightarrow> session_store \<Rightarrow> session_event list" where
  "goal_contract_events project_id session_id s =
     filter (\<lambda>e. ev_project_id e = project_id \<and> ev_event_type e \<in> set goal_contract_event_types)
       (list_events (Some session_id) None None None s)"

definition contract_of_event :: "session_event \<Rightarrow> py_error + goal_contract" where
  "contract_of_event e =
     (case jget (ev_payload e) ''contract'' of
        JObj d \<Rightarrow>
          (case read_goal_contract (JObj d) of
             None \<Rightarrow> Inl (ValueError ''goal contract snapshot'')
           | Some c \<Rightarrow> Inr c)
      | _ \<Rightarrow> Inl (ValueError
               (''goal contract payload missing contract snapshot for event '' @ ev_event_id e)))"

definition get_current_contract :: "string \<Rightarrow> string \<Rightarrow> session_store \<Rightarrow> py_error + goal_contract option" where
  "get_current_contract project_id session_id s =
     (case goal_contract_events project_id session_id s of
        [] \<Rightarrow> Inr None
      | e # es \<Rightarrow> map_sum id Some (contract_of_event (max_by (\<lambda>e. seq_or_zero (ev_log_seq e)) e es)))"

definition contract_not_found :: "string \<Rightarrow> py_error" where
  "contract_not_found session_id = ValueError (''goal contract not found for session: '' @ session_id)"

definition version_mismatch :: "string \<Rightarrow> string \<Rightarrow> string \<Rightarrow> py_error" where
  "version_mismatch session_id expected got =
     ValueError (''goal contract version mismatch for '' @ session_id @ '': expected '' @ expected @
       '', got '' @ got)"

definition revise_contract ::
  "(string \<Rightarrow> string) \<Rightarrow> string \<Rightarrow> string \<Rightarrow> string \<Rightarrow> string \<Rightarrow> goal_contract option \<Rightarrow> goal_inputs \<Rightarrow>
   (goal_contract, session_store) op" where
  "revise_contract sha now project_id session_id expected_version current a s =
     op_bind (op_lift (case current of
         Some c \<Rightarrow> Inr (Some c) | None \<Rightarrow> get_current_contract project_id session_id s)) (\<lambda>found.
     case found of
       None \<Rightarrow> op_raise (contract_not_found session_id)
     | Some c \<Rightarrow>
         if gc_version c \<noteq> expected_version
         then op_raise (version_mismatch session_id expected_version (gc_version c))
         else
           op_bind (op_lift (revised_contract c a)) (\<lambda>r.
           op_bind (record_goal_contract_event sha now ''goal_contract_revised'' project_id session_id r
                     (Some (or_else (gi_causation_id a) expected_version)) (gi_related_ids a) []) (\<lambda>_.
           op_return r))) s"

definition adopt_contract_for_child_session ::
  "(string \<Rightarrow> string) \<Rightarrow> string \<Rightarrow> string \<Rightarrow> string \<Rightarrow> string \<Rightarrow> string option \<Rightarrow> string option \<Rightarrow>
   string option \<Rightarrow> string option \<Rightarrow> (goal_contract, session_store) op" where
  "adopt_contract_for_child_session sha now project_id parent_session_id child_session_id
     child_native_thread_id expected_version recovery_transaction_id source_packet_id s =
     op_bind (op_lift (get_current_contract project_id parent_session_id s)) (\<lambda>found.
     case found of
       None \<Rightarrow> op_raise (contract_not_found parent_session_id)
     | Some p \<Rightarrow>
         if expected_version \<noteq> None \<and> gc_version p \<noteq> the expected_version
         then op_raise (version_mismatch parent_session_id (the expected_version) (gc_version p))
         else
           (let adopted = p\<lparr>gc_session_id := child_session_id,
                   gc_source_session_id := Some parent_session_id,
                   gc_provenance := dict_set ''source_session_id'' ''deterministic-derived'' (gc_provenance p)\<rparr>;
                rel = [(''goal_contract_version'', gc_version adopted),
                       (''parent_session_id'', parent_session_id), (''child_session_id'', child_session_id)];
                rel = dict_set_opt ''native_thread_id'' child_native_thread_id rel;
                rel = dict_set_opt ''recovery_transaction_id'' recovery_transaction_id rel;
                rel = dict_set_opt ''source_packet_id'' source_packet_id rel in
            op_bind (record_goal_contract_event sha now ''goal_contract_adopted_by_child_session''
                project_id child_session_id adopted recovery_transaction_id rel
                [(''parent_session_id'', JStr parent_session_id),
                 (''child_session_id'', JStr child_session_id),
                 (''native_thread_id'', jopt child_native_thread_id),
                 (''recovery_transaction_id'', jopt recovery_transaction_id),
                 (''source_packet_id'', jopt source_packet_id)]) (\<lambda>_.
            op_return adopted))) s"

section \<open>What the contract decides\<close>

definition evaluate_readiness :: "string \<Rightarrow> string \<Rightarrow> session_store \<Rightarrow> py_error + goal_readiness" where
  "evaluate_readiness project_id session_id s =
     res_bind (get_current_contract project_id session_id s) (\<lambda>found. Inr (
       case found of
         None \<Rightarrow> \<lparr>gr_mode = ''observe_only'', gr_missing_fields = [''goal_contract'']\<rparr>
       | Some c \<Rightarrow>
           (let missing = (if gc_explicit_deliverables c = [] then [''explicit_deliverables''] else []) @
                          (if gc_completion_signals c = [] then [''completion_signals''] else [])
            in \<lparr>gr_mode = (if missing \<noteq> [] then ''observe_only'' else ''autonomous_ready''),
                gr_missing_fields = missing\<rparr>)))"

record alignment_outcome =
  ao_blocked :: bool
  ao_conflict_event_id :: "string option"
  ao_conflict_summary :: string

definition aligned :: alignment_outcome where
  "aligned = \<lparr>ao_blocked = False, ao_conflict_event_id = None, ao_conflict_summary = []\<rparr>"

definition ensure_stage_alignment ::
  "(string \<Rightarrow> string) \<Rightarrow> string \<Rightarrow> string \<Rightarrow> string \<Rightarrow> string \<Rightarrow> string option \<Rightarrow>
   (alignment_outcome, session_store) op" where
  "ensure_stage_alignment sha now project_id session_id stage active_goal s =
     op_bind (op_lift (get_current_contract project_id session_id s)) (\<lambda>found.
       let goal = normalize_text active_goal; st = normalize_text (Some stage) in
       case found of
         None \<Rightarrow> op_return aligned
       | Some c \<Rightarrow>
           if goal = [] \<or> normalize_text (Some (gc_current_phase_goal c)) = goal then op_return aligned
           else
             (let q = [char_of (39 :: int)];
                  summary = ''stage active goal '' @ q @ goal @ q @ '' conflicts with current phase goal '' @
                    q @ gc_current_phase_goal c @ q @ ''.'' in
              op_bind (record_event sha now ''stage_goal_conflict_detected'' project_id session_id
                  (''corr:stage-goal-conflict:'' @ session_id @ '':'' @ gc_version c @ '':'' @ st @ '':'' @ goal)
                  [(''current_phase_goal'', JStr (gc_current_phase_goal c)),
                   (''stage_active_goal'', JStr goal), (''stage'', JStr st), (''summary'', JStr summary)]
                  (Some (gc_version c))
                  [(''goal_contract_version'', gc_version c), (''stage'', st)] None) (\<lambda>event.
              op_return \<lparr>ao_blocked = True, ao_conflict_event_id = Some (ev_event_id event),
                ao_conflict_summary = summary\<rparr>))) s"

end
