(* ===== verification/GoalTheorems.thy ===== *)
theory GoalTheorems
  imports GoalContract
begin

text \<open>
  What the goal contract guarantees: what a change returns is what is read afterwards, a version is
  revised once, other sessions keep their contract, and the validator lets nothing run for a session
  whose contract does not say what is to be delivered.
\<close>

section \<open>A contract survives the log\<close>

lemma the_text_JStr [simp]: "the_text (JStr s) = s"
  by (simp add: the_text_def)

lemma jopt_back: "(case jopt v of JStr s \<Rightarrow> Some s | _ \<Rightarrow> None) = v"
  by (cases v) (simp_all add: jopt_def)

lemma map_the_text: "map (the_text \<circ> JStr) xs = xs"
  by (simp add: comp_def)

lemma provenance_back:
  "list_all (\<lambda>(_, v). is_text v) (map (\<lambda>(k, v). (k, JStr v)) d)"
  "map (\<lambda>(k, v). (k, the_text v)) (map (\<lambda>(k, v). (k, JStr v)) d) = d"
  by (induction d) (auto simp: is_text_def)

definition goal_dump :: "goal_contract \<Rightarrow> jdict" where
  "goal_dump c = (case dump_goal_contract c of JObj d \<Rightarrow> d | _ \<Rightarrow> [])"

lemma goal_dump_keys: "distinct (map fst (goal_dump c))"
  by (simp add: goal_dump_def dump_goal_contract_def)

lemma goal_dump_get:
  "jget (goal_dump c) ''contract_id'' = JStr (gc_contract_id c)"
  "jget (goal_dump c) ''version'' = JStr (gc_version c)"
  "jget (goal_dump c) ''project_id'' = JStr (gc_project_id c)"
  "jget (goal_dump c) ''session_id'' = JStr (gc_session_id c)"
  "jget (goal_dump c) ''original_goal'' = JStr (gc_original_goal c)"
  "jget (goal_dump c) ''explicit_deliverables'' = jtexts (gc_explicit_deliverables c)"
  "jget (goal_dump c) ''non_goals'' = jtexts (gc_non_goals c)"
  "jget (goal_dump c) ''completion_signals'' = jtexts (gc_completion_signals c)"
  "jget (goal_dump c) ''inference_boundary'' = JStr (gc_inference_boundary c)"
  "jget (goal_dump c) ''constraints'' = jtexts (gc_constraints c)"
  "jget (goal_dump c) ''status'' = JStr (gc_status c)"
  "jget (goal_dump c) ''current_phase_goal'' = JStr (gc_current_phase_goal c)"
  "jget (goal_dump c) ''phase'' = jopt (gc_phase c)"
  "jget (goal_dump c) ''stage'' = jopt (gc_stage c)"
  "jget (goal_dump c) ''active_goal'' = jopt (gc_active_goal c)"
  "jget (goal_dump c) ''source_session_id'' = jopt (gc_source_session_id c)"
  "jget (goal_dump c) ''provenance'' = jstrings (gc_provenance c)"
  "jget (goal_dump c) ''metadata'' = JObj (gc_metadata c)"
  by (simp_all add: goal_dump_def dump_goal_contract_def)

lemma read_dump_goal_contract:
  assumes "contract_texts_ok c"
  shows "read_goal_contract (dump_goal_contract c) = Some c"
proof -
  have d: "dump_goal_contract c = JObj (goal_dump c)"
    by (simp add: goal_dump_def dump_goal_contract_def)
  have "list_all2 field_accepts goal_contract_fields (goal_dump c)"
    using assms
    by (simp add: goal_dump_def dump_goal_contract_def goal_contract_fields_def contract_texts_ok_def
        jstrings_def eq_commute [of "[]"])
  then have v: "validate_model goal_contract_fields (dump_goal_contract c) = Some (nonnull (goal_dump c))"
    unfolding d using goal_dump_keys by (rule validate_accepted)
  have get: "jget (nonnull (goal_dump c)) k = jget (goal_dump c) k" for k
    using goal_dump_keys by (rule jget_nonnull)
  show ?thesis
    unfolding read_goal_contract_def v option.case field_text_def field_texts_def field_dict_def
      field_opt_def get goal_dump_get jopt_back jstrings_def json.case provenance_back
    by (simp add: map_the_text provenance_back)
qed

section \<open>Changes\<close>

lemma read_goal_contract_ok: "read_goal_contract j = Some c \<Longrightarrow> contract_texts_ok c"
proof -
  assume r: "read_goal_contract j = Some c"
  then obtain p where p: "validate_model goal_contract_fields j = Some p"
    by (auto simp: read_goal_contract_def split: option.splits)
  then obtain d where v: "validate_fields goal_contract_fields d = Some p"
    by (auto simp: validate_model_def split: json.splits option.splits if_splits)
  have dist: "distinct (map fst goal_contract_fields)" by (simp add: goal_contract_fields_def)
  have texts: "field_text p k \<noteq> []" if "(k, TextField) \<in> set goal_contract_fields" for k
    using validate_fields_lookup [OF v dist that]
    by (auto simp: field_text_def split: option.splits json.splits if_splits)
  have "gc_contract_id c = field_text p ''contract_id'' \<and> gc_version c = field_text p ''version'' \<and>
      gc_project_id c = field_text p ''project_id'' \<and> gc_session_id c = field_text p ''session_id'' \<and>
      gc_original_goal c = field_text p ''original_goal'' \<and>
      gc_inference_boundary c = field_text p ''inference_boundary'' \<and>
      gc_status c = field_text p ''status'' \<and> gc_current_phase_goal c = field_text p ''current_phase_goal''"
    using r unfolding read_goal_contract_def p option.case
    by (cases "list_all (\<lambda>(_, v). is_text v) (field_dict p ''provenance'')") (simp, hypsubst, simp, simp)
  moreover have "list_all (\<lambda>k. (k, TextField) \<in> set goal_contract_fields)
      [''contract_id'', ''version'', ''project_id'', ''session_id'', ''original_goal'', ''inference_boundary'',
       ''status'', ''current_phase_goal'']"
    by (simp add: goal_contract_fields_def)
  ultimately show "contract_texts_ok c"
    using texts by (simp add: contract_texts_ok_def eq_commute [of "[]"])
qed

lemma contract_of_event_ok: "contract_of_event e = Inr c \<Longrightarrow> contract_texts_ok c"
  by (auto simp: contract_of_event_def split: json.splits option.splits dest: read_goal_contract_ok)

lemma current_contract_ok: "get_current_contract pr se s = Inr (Some c) \<Longrightarrow> contract_texts_ok c"
  by (auto simp: get_current_contract_def map_sum_def split: list.splits sum.splits dest: contract_of_event_ok)

lemma bootstrapped_ok: "bootstrapped_contract sha pr se ti pm a = Inr c \<Longrightarrow> contract_texts_ok c"
  by (auto simp: bootstrapped_contract_def Let_def res_bind_Inr_iff validate_goal_contract_def split: if_splits)

lemma picked_nonempty: "pick_first_nonempty vs = Inr t \<Longrightarrow> t \<noteq> []"
  by (induction vs) (auto split: if_splits)

lemma next_version_nonempty: "next_goal_contract_version v = Inr w \<Longrightarrow> w \<noteq> []"
  by (auto simp: next_goal_contract_version_def split: if_splits prod.splits)

lemma revised_ok:
  assumes "revised_contract c a = Inr c'" and "contract_texts_ok c"
  shows "contract_texts_ok c'"
proof -
  from assms(1) obtain w g where w: "next_goal_contract_version (Some (gc_version c)) = Inr w"
    and g: "pick_first_nonempty [gi_current_phase_goal a, gi_active_goal a, Some (gc_current_phase_goal c)] = Inr g"
    by (auto simp: revised_contract_def Let_def res_bind_Inr_iff)
  have "or_else (text_or_none v) b = [] \<longleftrightarrow> text_or_none v = None \<and> b = []" for v b
    by (auto simp: or_else_def text_or_none_def Let_def split: option.splits)
  with assms w g next_version_nonempty [OF w] picked_nonempty [OF g] show ?thesis
    by (auto simp: revised_contract_def Let_def contract_texts_ok_def eq_commute [of "[]"]
        simp del: pick_first_nonempty.simps)
qed

lemma revised_version:
  assumes "revised_contract c a = Inr c'"
  shows "next_goal_contract_version (Some (gc_version c)) = Inr (gc_version c')"
  using assms by (auto simp: revised_contract_def Let_def res_bind_Inr_iff)

section \<open>The event of a change\<close>

lemma goal_event_recorded:
  assumes "record_goal_contract_event sha now ty pr se c ca re pe s = (Inr r, s')"
    and "st_events s' \<noteq> st_events s"
  shows "st_events s' = st_events s @ [r] \<and> ev_project_id r = pr \<and> ev_session_id r = se \<and>
    ev_event_type r = ty \<and> ev_payload r = dict_update [(''contract'', dump_goal_contract c)] pe \<and>
    pr \<noteq> [] \<and> se \<noteq> []"
proof -
  obtain q where q: "append_event q s = (Inr r, s')" "validate_event q = Inr q"
    and f: "ev_project_id q = pr" "ev_session_id q = se" "ev_event_type q = ty"
      "ev_payload q = dict_update [(''contract'', dump_goal_contract c)] pe"
    using assms(1) unfolding record_goal_contract_event_def record_event_Inr by fastforce
  from q(1) show ?thesis
  proof (cases rule: events.app_cases)
    case unchanged
    with assms(2) show ?thesis by simp
  next
    case added
    with f q(2) show ?thesis by (auto simp: validate_event_def split: if_splits)
  qed
qed

lemma goal_event_inv:
  assumes "record_goal_contract_event sha now ty pr se c ca re pe s = (res, s')" and "store_inv s"
  shows "store_inv s'"
  using assms record_event_step [of sha now ty pr se] unfolding record_goal_contract_event_def
  by (blast dest: store_step_inv)

lemma goal_events_filter:
  "goal_contract_events pr se s =
     filter (\<lambda>e. ev_project_id e = pr \<and> ev_event_type e \<in> set goal_contract_event_types \<and> ev_session_id e = se)
       (st_events s)"
  by (auto simp: goal_contract_events_def list_events_def opt_match_def conj_commute intro: filter_cong)

lemma current_contract_last:
  assumes "store_inv s"
  shows "get_current_contract pr se s =
    (if goal_contract_events pr se s = [] then Inr None
     else map_sum id Some (contract_of_event (last (goal_contract_events pr se s))))"
proof (cases "goal_contract_events pr se s")
  case Nil
  then show ?thesis by (simp add: get_current_contract_def)
next
  case (Cons e es)
  have "log_ok ev_idempotency_key ev_log_seq (next_log_seq s) (st_events s)"
    using assms by (simp add: store_inv_def)
  then have "sorted_wrt (\<lambda>a b. seq_or_zero (ev_log_seq a) < seq_or_zero (ev_log_seq b)) (e # es)"
    unfolding Cons [symmetric] goal_events_filter by (rule log_ok_filter)
  then have "max_by (\<lambda>e. seq_or_zero (ev_log_seq e)) e es = last (e # es)" by (rule max_by_last)
  with Cons show ?thesis by (simp add: get_current_contract_def)
qed

lemma current_contract_appended:
  assumes "store_inv s" "store_inv s'" and e: "st_events s' = st_events s @ [r]"
    and ty: "ev_event_type r \<in> set goal_contract_event_types"
  shows "get_current_contract pr se s' =
    (if ev_project_id r = pr \<and> ev_session_id r = se then map_sum id Some (contract_of_event r)
     else get_current_contract pr se s)"
  using ty by (simp add: current_contract_last [OF assms(1)] current_contract_last [OF assms(2)] goal_events_filter e)

section \<open>Properties\<close>

text \<open>The three calls that change a contract, and the session each is about.\<close>

datatype goal_change =
    Bootstrap string string string string goal_inputs
  | Revise string string string "goal_contract option" goal_inputs
  | Adopt string string string "string option" "string option" "string option" "string option"

fun run_goal_change :: "(string \<Rightarrow> string) \<Rightarrow> string \<Rightarrow> goal_change \<Rightarrow> (goal_contract, session_store) op" where
  "run_goal_change sha now (Bootstrap pr se title prompt a) = bootstrap_contract sha now pr se title prompt a"
| "run_goal_change sha now (Revise pr se v c a) = revise_contract sha now pr se v c a"
| "run_goal_change sha now (Adopt pr parent child thread v tx packet) =
     adopt_contract_for_child_session sha now pr parent child thread v tx packet"

fun goal_target :: "goal_change \<Rightarrow> string \<times> string" where
  "goal_target (Bootstrap pr se _ _ _) = (pr, se)"
| "goal_target (Revise pr se _ _ _) = (pr, se)"
| "goal_target (Adopt pr _ child _ _ _ _) = (pr, child)"

text \<open>A snapshot that is passed in was validated when it was made.\<close>

fun goal_change_ok :: "goal_change \<Rightarrow> bool" where
  "goal_change_ok (Revise _ _ _ (Some c) _) = contract_texts_ok c"
| "goal_change_ok _ = True"

lemma goal_event_error:
  "record_goal_contract_event sha now ty pr se c ca re pe s = (Inl e, s') \<Longrightarrow> s' = s"
  by (auto simp: record_goal_contract_event_def dest: record_event_Inl)

lemma bootstrap_records:
  assumes "bootstrap_contract sha now pr se title prompt a s = (res, s')"
  obtains (error) e where "res = Inl e" and "s' = s"
  | (recorded) c r where "res = Inr c" "bootstrapped_contract sha pr se title prompt a = Inr c"
      "record_goal_contract_event sha now ''goal_contract_created'' pr se c
         (gi_causation_id a) (gi_related_ids a) [] s = (Inr r, s')"
  using assms
  by (auto simp: bootstrap_contract_def op_bind_split dest: goal_event_error intro: error recorded)

lemma revise_records:
  assumes "revise_contract sha now pr se v cur a s = (res, s')"
  obtains (error) e where "res = Inl e" and "s' = s"
  | (recorded) c c' r where "res = Inr c'" "revised_contract c a = Inr c'" "gc_version c = v"
      "cur = Some c \<or> cur = None \<and> get_current_contract pr se s = Inr (Some c)"
      "record_goal_contract_event sha now ''goal_contract_revised'' pr se c'
         (Some (or_else (gi_causation_id a) v)) (gi_related_ids a) [] s = (Inr r, s')"
proof (cases "case cur of Some c \<Rightarrow> Inr (Some c) | None \<Rightarrow> get_current_contract pr se s")
  case (Inl e)
  with assms show thesis by (auto simp: revise_contract_def intro: error)
next
  case (Inr found)
  show thesis
  proof (cases found)
    case None
    with Inr assms show thesis by (auto simp: revise_contract_def intro: error)
  next
    case (Some c)
    with Inr have cur: "cur = Some c \<or> cur = None \<and> get_current_contract pr se s = Inr (Some c)"
      by (auto split: option.splits)
    from Inr Some assms show thesis
      by (auto simp: revise_contract_def op_bind_split dest: goal_event_error
          intro: error recorded [OF _ _ _ cur] split: if_splits)
  qed
qed

lemma adopt_records:
  assumes "adopt_contract_for_child_session sha now pr parent child thread v tx packet s = (res, s')"
  obtains (error) e where "res = Inl e" and "s' = s"
  | (recorded) p c re pe r where "res = Inr c" "get_current_contract pr parent s = Inr (Some p)"
      "c = p\<lparr>gc_session_id := child, gc_source_session_id := Some parent,
             gc_provenance := dict_set ''source_session_id'' ''deterministic-derived'' (gc_provenance p)\<rparr>"
      "map_of pe ''contract'' = None"
      "record_goal_contract_event sha now ''goal_contract_adopted_by_child_session'' pr child c tx re pe s =
         (Inr r, s')"
proof (cases "get_current_contract pr parent s")
  case (Inl e)
  with assms show thesis by (auto simp: adopt_contract_for_child_session_def intro: error)
next
  case (Inr found)
  show thesis
  proof (cases found)
    case None
    with Inr assms show thesis by (auto simp: adopt_contract_for_child_session_def intro: error)
  next
    case (Some p)
    with Inr assms show thesis
      by (auto simp: adopt_contract_for_child_session_def op_bind_split Let_def dest: goal_event_error
          intro: error split: if_splits)
        (rule recorded [OF _ _ refl, rotated -1], assumption, assumption, assumption, simp)+
  qed
qed

lemma dict_update_lookup_None: "map_of e k = None \<Longrightarrow> map_of (dict_update d e) k = map_of d k"
  by (induction d e rule: dict_update.induct) (auto split: if_splits)

text \<open>Every change is an error without effect, or one event that carries the contract returned.\<close>

lemma goal_change_cases:
  assumes run: "run_goal_change sha now ch s = (res, s')" and ok: "goal_change_ok ch"
    and tgt: "goal_target ch = (pr, se)"
  obtains (error) e where "res = Inl e" and "s' = s"
  | (recorded) c ty ca re pe r where "res = Inr c" "ty \<in> set goal_contract_event_types"
      "map_of pe ''contract'' = None" "se \<noteq> [] \<Longrightarrow> contract_texts_ok c"
      "record_goal_contract_event sha now ty pr se c ca re pe s = (Inr r, s')"
proof (cases ch)
  case (Bootstrap p' s'' title prompt a)
  with run tgt have r: "bootstrap_contract sha now pr se title prompt a s = (res, s')" by simp
  then show thesis
  proof (cases rule: bootstrap_records)
    case (error e)
    then show thesis by (rule that(1))
  next
    case (recorded c r)
    from bootstrapped_ok [OF recorded(2)] show thesis
      by (intro that(2) [OF recorded(1) _ _ _ recorded(3)]) (simp_all add: goal_contract_event_types_def)
  qed
next
  case (Revise p' s'' v cur a)
  with run tgt have r: "revise_contract sha now pr se v cur a s = (res, s')" by simp
  then show thesis
  proof (cases rule: revise_records)
    case (error e)
    then show thesis by (rule that(1))
  next
    case (recorded c c' r)
    have "contract_texts_ok c" using recorded(4) ok Revise by (auto dest: current_contract_ok)
    with recorded(2) have "contract_texts_ok c'" by (rule revised_ok)
    then show thesis
      by (intro that(2) [OF recorded(1) _ _ _ recorded(5)]) (simp_all add: goal_contract_event_types_def)
  qed
next
  case (Adopt p' parent child thread v tx packet)
  with run tgt have r: "adopt_contract_for_child_session sha now pr parent se thread v tx packet s = (res, s')"
    by simp
  then show thesis
  proof (cases rule: adopt_records)
    case (error e)
    then show thesis by (rule that(1))
  next
    case (recorded p c re pe r)
    have "contract_texts_ok c" if "se \<noteq> []"
      using current_contract_ok [OF recorded(2)] recorded(3) that by (simp add: contract_texts_ok_def)
    then show thesis
      by (intro that(2) [OF recorded(1) _ recorded(4) _ recorded(5)]) (simp_all add: goal_contract_event_types_def)
  qed
qed

text \<open>
  C38: What a change of the goal contract returns is what is read afterwards: when bootstrapping,
  revising or adopting a contract added to the log, the contract it returned is the current contract
  of its session, field by field; every other session keeps its contract; and a change that raises
  leaves the log as it was.
\<close>

theorem goal_contract_read_back:
  assumes "store_inv s" and "goal_change_ok ch" and "goal_target ch = (pr, se)"
    and "run_goal_change sha now ch s = (res, s')"
  shows "(\<forall>e. res = Inl e \<longrightarrow> s' = s) \<and>
    (\<forall>c. res = Inr c \<and> st_events s' \<noteq> st_events s \<longrightarrow> get_current_contract pr se s' = Inr (Some c)) \<and>
    (\<forall>p t. (p, t) \<noteq> (pr, se) \<longrightarrow> get_current_contract p t s' = get_current_contract p t s)"
  using assms(4,2,3)
proof (cases rule: goal_change_cases)
  case (error e)
  then show ?thesis by simp
next
  case (recorded c ty ca re pe r)
  have inv': "store_inv s'" using recorded(5) assms(1) by (rule goal_event_inv)
  show ?thesis
  proof (cases "st_events s' = st_events s")
    case True
    then have "goal_contract_events p t s' = goal_contract_events p t s" for p t
      by (simp add: goal_events_filter)
    with recorded(1) True show ?thesis by (simp add: get_current_contract_def)
  next
    case False
    from goal_event_recorded [OF recorded(5) this]
    have e: "st_events s' = st_events s @ [r]" and f: "ev_project_id r = pr" "ev_session_id r = se"
      "ev_event_type r = ty" and pay: "ev_payload r = dict_update [(''contract'', dump_goal_contract c)] pe"
      and ne: "se \<noteq> []" by auto
    have "jget (ev_payload r) ''contract'' = dump_goal_contract c"
      using dict_update_lookup_None [OF recorded(3)] by (simp add: pay jget_def)
    then have "contract_of_event r = Inr c"
      using read_dump_goal_contract [OF recorded(4) [OF ne]]
      by (simp add: contract_of_event_def dump_goal_contract_def)
    with recorded(1,2) f show ?thesis
      by (simp add: current_contract_appended [OF assms(1) inv' e])
  qed
qed

definition example_goal_inputs :: goal_inputs where
  "example_goal_inputs =
     \<lparr>gi_current_phase_goal = None, gi_last_user_instruction = Some ''ship  it'', gi_last_summary = None,
      gi_explicit_deliverables = Some [''report''], gi_completion_signals = Some [''tests pass''],
      gi_non_goals = None, gi_inference_boundary = None, gi_active_goal = None, gi_phase = None,
      gi_stage = None, gi_causation_id = None, gi_related_ids = []\<rparr>"

definition example_goal_store :: session_store where
  "example_goal_store =
     snd (bootstrap_contract rev ''t0'' ''p'' ''s'' ''title'' ''prompt'' example_goal_inputs empty_session_store)"

lemma example_goal_store_inv: "store_inv example_goal_store"
proof -
  obtain res s' where b: "bootstrap_contract rev ''t0'' ''p'' ''s'' ''title'' ''prompt'' example_goal_inputs
      empty_session_store = (res, s')" by fastforce
  then have "store_inv s'"
  proof (cases rule: bootstrap_records)
    case (recorded c r)
    from recorded(3) store_inv_empty show ?thesis by (rule goal_event_inv)
  qed (simp add: store_inv_empty)
  with b show ?thesis by (simp add: example_goal_store_def)
qed

definition example_revision :: goal_change where
  "example_revision = Revise ''p'' ''s'' ''goal-v1'' None (example_goal_inputs\<lparr>gi_phase := Some ''build''\<rparr>)"

theorem goal_contract_read_back_witness:
  "\<exists>c s'. run_goal_change rev ''t1'' example_revision example_goal_store = (Inr c, s') \<and>
     gc_version c = ''goal-v2'' \<and> get_current_contract ''p'' ''s'' s' = Inr (Some c)"
proof -
  let ?run = "run_goal_change rev ''t1'' example_revision example_goal_store"
  have "returned ?run \<and> map_sum id gc_version (fst ?run) = Inr ''goal-v2'' \<and>
      st_events (snd ?run) \<noteq> st_events example_goal_store" by code_simp
  moreover then obtain c s' where r: "?run = (Inr c, s')" by (blast elim: returnedE)
  ultimately have v: "gc_version c = ''goal-v2''" and n: "st_events s' \<noteq> st_events example_goal_store" by simp_all
  have "goal_change_ok example_revision" "goal_target example_revision = (''p'', ''s'')"
    by (simp_all add: example_revision_def)
  from goal_contract_read_back [OF example_goal_store_inv this r] n r v show ?thesis by blast
qed

text \<open>
  C39: A version of a goal contract is revised at most once: after a revision of it was recorded,
  whatever is appended in the meantime, every later call that revises the same version raises or is
  the same call again (the same contract at the same moment, and nothing is written). No update can
  overwrite one that it has not seen.
\<close>

theorem goal_version_revised_once:
  assumes "revise_contract sha t1 pr se v cur1 a1 s = (Inr c1, s1)" and "st_events s1 \<noteq> st_events s"
    and "prefix (st_events s1) (st_events s2)"
    and "revise_contract sha t2 pr' se v cur2 a2 s2 = (Inr c2, s3)"
  shows "s3 = s2 \<and> t2 = t1 \<and> pr' = pr \<and> gc_version c2 = gc_version c1 \<and>
    json_eq (dump_goal_contract c1) (dump_goal_contract c2)"
proof -
  from assms(1) obtain d1 r1 where one: "revised_contract d1 a1 = Inr c1" "gc_version d1 = v"
    "record_goal_contract_event sha t1 ''goal_contract_revised'' pr se c1
       (Some (or_else (gi_causation_id a1) v)) (gi_related_ids a1) [] s = (Inr r1, s1)"
    by (cases rule: revise_records) auto
  from assms(4) obtain d2 r2 where two: "revised_contract d2 a2 = Inr c2" "gc_version d2 = v"
    "record_goal_contract_event sha t2 ''goal_contract_revised'' pr' se c2
       (Some (or_else (gi_causation_id a2) v)) (gi_related_ids a2) [] s2 = (Inr r2, s3)"
    by (cases rule: revise_records) auto
  have v: "gc_version c2 = gc_version c1"
    using revised_version [OF one(1)] revised_version [OF two(1)] one(2) two(2) by simp
  obtain q1 where q1: "append_event q1 s = (Inr r1, s1)" "ev_project_id q1 = pr" "ev_occurred_at q1 = or_else None t1"
    "ev_payload q1 = [(''contract'', dump_goal_contract c1)]"
    "ev_idempotency_key q1 = ''idem:event:'' @ stable_id sha ''event''
       [goal_correlation ''goal_contract_revised'' se (gc_version c1), se, ''goal_contract_revised'']"
    using one(3) unfolding record_goal_contract_event_def record_event_Inr by fastforce
  obtain q2 where q2: "append_event q2 s2 = (Inr r2, s3)" "ev_project_id q2 = pr'" "ev_occurred_at q2 = or_else None t2"
    "ev_payload q2 = [(''contract'', dump_goal_contract c2)]"
    "ev_idempotency_key q2 = ''idem:event:'' @ stable_id sha ''event''
       [goal_correlation ''goal_contract_revised'' se (gc_version c2), se, ''goal_contract_revised'']"
    using two(3) unfolding record_goal_contract_event_def record_event_Inr by fastforce
  have key: "ev_idempotency_key q2 = ev_idempotency_key q1" by (simp add: q1(5) q2(5) v)
  have r1: "r1 = q1\<lparr>ev_log_seq := Some (next_log_seq s)\<rparr>"
    using q1(1) by (cases rule: events.app_cases) (use assms(2) in auto)
  have "find (\<lambda>x. ev_idempotency_key x = ev_idempotency_key q1) (st_events s1) = Some r1"
    using q1(1) by (rule events.app_stored)
  with assms(3) have hit: "find (\<lambda>x. ev_idempotency_key x = ev_idempotency_key q2) (st_events s2) = Some r1"
    unfolding key by (auto simp: prefix_def)
  have same: "same_event r1 q2"
  proof (rule ccontr)
    assume "\<not> same_event r1 q2"
    from events.app_conflict [OF hit this] q2(1) show False by auto
  qed
  from events.app_hit [OF hit same] q2(1) have "s3 = s2" by simp
  moreover from same have "t2 = t1 \<and> pr' = pr \<and> json_eq (dump_goal_contract c1) (dump_goal_contract c2)"
    by (auto simp: same_event_def r1 q1 q2 jdict_eq_def or_else_def)
  ultimately show ?thesis using v by simp
qed

definition current_goal :: goal_contract where
  "current_goal =
     the (projr (get_current_contract ''p'' ''s'' example_goal_store))"

theorem goal_version_revised_once_witness:
  "\<exists>c1 c2 s1 s3. revise_contract rev ''t1'' ''p'' ''s'' ''goal-v1'' None example_goal_inputs example_goal_store = (Inr c1, s1) \<and>
     revise_contract rev ''t1'' ''p'' ''s'' ''goal-v1'' (Some current_goal) example_goal_inputs s1 = (Inr c2, s3) \<and>
     s3 = s1 \<and> gc_version c2 = gc_version c1"
proof -
  let ?one = "revise_contract rev ''t1'' ''p'' ''s'' ''goal-v1'' None example_goal_inputs example_goal_store"
  let ?two = "revise_contract rev ''t1'' ''p'' ''s'' ''goal-v1'' (Some current_goal) example_goal_inputs (snd ?one)"
  have e: "returned ?one \<and> st_events (snd ?one) \<noteq> st_events example_goal_store \<and> returned ?two" by code_simp
  then obtain c1 s1 where one: "?one = (Inr c1, s1)" by (blast elim: returnedE)
  from e obtain c2 s3 where two: "revise_contract rev ''t1'' ''p'' ''s'' ''goal-v1'' (Some current_goal)
      example_goal_inputs s1 = (Inr c2, s3)" unfolding one snd_conv by (blast elim: returnedE)
  have "st_events s1 \<noteq> st_events example_goal_store" using e by (simp add: one)
  from goal_version_revised_once [OF one this _ two] show ?thesis using one two by blast
qed



end
