(* ===== verification/ActionContracts.thy ===== *)
theory ActionContracts
  imports PolicyEngine
begin

text \<open>
  What is handed to the execution of an action and what comes back: \<open>WatchdogAction\<close> and
  \<open>WatchdogActionResult\<close> of \<^verbatim>\<open>src/watchdog/contracts/session_spine/models.py\<close>, the registry and the
  translation of a decision into an action of \<^verbatim>\<open>src/watchdog/services/actions\<close>, and the store of
  receipts \<^verbatim>\<open>src/watchdog/storage/action_receipts.py\<close>, which makes an action's execution idempotent.
\<close>

section \<open>Actions and results\<close>

record watchdog_action =
  wa_action_code :: string
  wa_project_id :: string
  wa_operator :: string
  wa_idempotency_key :: string
  wa_arguments :: jdict
  wa_note :: string

record action_result =
  ar_action_code :: string
  ar_project_id :: string
  ar_approval_id :: "string option"
  ar_idempotency_key :: string
  ar_action_status :: string
  ar_effect :: string
  ar_reply_code :: "string option"
  ar_message :: string
  ar_facts :: "fact list"
  ar_supervision :: "supervision_evaluation option"

text \<open>\<open>idempotency_key: str = Field(min_length=1)\<close>.\<close>

definition validate_action :: "watchdog_action \<Rightarrow> py_error + watchdog_action" where
  "validate_action a = (if wa_idempotency_key a = [] then Inl (ValueError ''idempotency_key'') else Inr a)"

section \<open>The registry\<close>

record action_registration =
  rg_action_ref :: string
  rg_action_code :: string
  rg_argument_keys :: "string list"

definition canonical_action_registry :: "(string, action_registration) dict" where
  "canonical_action_registry =
     map (\<lambda>(r, ks). (r, \<lparr>rg_action_ref = r, rg_action_code = r, rg_argument_keys = ks\<rparr>))
       [(''continue_session'', []), (''request_recovery'', []), (''execute_recovery'', []),
        (''post_operator_guidance'', [''message'', ''reason_code'', ''stuck_level''])]"

definition list_registered_actions :: "action_registration list" where
  "list_registered_actions = dict_values canonical_action_registry"

definition get_registered_action :: "string \<Rightarrow> py_error + action_registration" where
  "get_registered_action action_ref =
     (case map_of canonical_action_registry action_ref of
        None \<Rightarrow> Inl (PyKeyError (''unsupported canonical action: '' @ action_ref))
      | Some r \<Rightarrow> Inr r)"

section \<open>From a decision to an action\<close>

definition object_field :: "jdict \<Rightarrow> string \<Rightarrow> jdict option" where
  "object_field d k = (case jget d k of JObj x \<Rightarrow> Some x | _ \<Rightarrow> None)"

definition extract_action_arguments :: "canonical_decision \<Rightarrow> string list \<Rightarrow> jdict" where
  "extract_action_arguments decision required_argument_keys =
     (let evidence = cd_evidence decision;
          args = (case object_field evidence ''requested_action_args'' of None \<Rightarrow> [] | Some r \<Rightarrow> dict_update [] r);
          args = (case object_field evidence ''decision'' of
              None \<Rightarrow> args
            | Some d \<Rightarrow>
                foldl (\<lambda>a k. if jget d k \<noteq> JNull \<and> map_of a k = None then dict_set k (jget d k) a else a)
                  (case object_field d ''action_arguments'' of None \<Rightarrow> args | Some r \<Rightarrow> dict_update args r)
                  required_argument_keys)
      in if or_empty (cd_approval_id decision) \<noteq> [] \<and> map_of args ''approval_id'' = None
         then dict_set ''approval_id'' (JStr (or_empty (cd_approval_id decision))) args else args)"

definition build_watchdog_action_from_decision :: "canonical_decision \<Rightarrow> string \<Rightarrow> py_error + watchdog_action" where
  "build_watchdog_action_from_decision decision operator =
     res_bind (get_registered_action (cd_action_ref decision)) (\<lambda>registration.
       let args = extract_action_arguments decision (rg_argument_keys registration);
           args = (case object_field (cd_evidence decision) ''continuation_governance'' of
               None \<Rightarrow> args
             | Some g \<Rightarrow> dict_set ''_continuation_governance'' (JObj g)
                          (dict_set ''_continuation_gate_pre_recorded'' (JBool True) args))
       in validate_action
         \<lparr>wa_action_code = rg_action_code registration, wa_project_id = cd_project_id decision,
          wa_operator = operator, wa_idempotency_key = cd_idempotency_key decision,
          wa_arguments = args, wa_note = cd_decision_reason decision\<rparr>)"

text \<open>
  \<open>execute\<close> is \<open>execute_watchdog_action\<close>, any operation on the state \<open>'w\<close> it works on; a decision is
  executed only when the policy let it run by itself.
\<close>

definition execute_registered_action_for_decision ::
  "(watchdog_action \<Rightarrow> (action_result, 'w) op) \<Rightarrow> canonical_decision \<Rightarrow> string \<Rightarrow> (action_result, 'w) op" where
  "execute_registered_action_for_decision execute decision operator =
     op_bind (op_lift (build_watchdog_action_from_decision decision operator)) execute"

definition execute_canonical_decision ::
  "(watchdog_action \<Rightarrow> (action_result, 'w) op) \<Rightarrow> canonical_decision \<Rightarrow> string \<Rightarrow> (action_result, 'w) op" where
  "execute_canonical_decision execute decision operator =
     (if cd_decision_result decision \<noteq> auto_execute_and_notify
      then op_raise (ValueError ''canonical decision must be auto_execute_and_notify before execution'')
      else execute_registered_action_for_decision execute decision operator)"

section \<open>Idempotent creation\<close>

text \<open>
  \<open>create_or_get\<close>: under the lock of the file the stored row is returned, or the factory runs, once,
  and what it returns is stored. The rows are those read before the factory ran.
\<close>

definition create_or_get ::
  "('w \<Rightarrow> (string, 'r) dict) \<Rightarrow> ((string, 'r) dict \<Rightarrow> 'w \<Rightarrow> 'w) \<Rightarrow> string \<Rightarrow> ('r, 'w) op \<Rightarrow> ('r, 'w) op" where
  "create_or_get rows set_rows key factory w =
     (case map_of (rows w) key of
        Some r \<Rightarrow> (Inr r, w)
      | None \<Rightarrow> op_bind factory (\<lambda>r w'. (Inr r, set_rows (dict_set key r (rows w)) w')) w)"

locale keyed_rows =
  fixes rows :: "'w \<Rightarrow> (string, 'r) dict"
    and set_rows :: "(string, 'r) dict \<Rightarrow> 'w \<Rightarrow> 'w"
  assumes rows_set [simp]: "rows (set_rows d w) = d"
begin

lemma created_row:
  assumes "create_or_get rows set_rows key factory w = (Inr r, w')"
  shows "map_of (rows w') key = Some r"
  using assms by (auto simp: create_or_get_def op_bind_split split: option.splits)

lemma created_once:
  assumes "create_or_get rows set_rows key factory w = (Inr r, w')"
  shows "create_or_get rows set_rows key factory' w' = (Inr r, w')"
  using created_row [OF assms] by (simp add: create_or_get_def)

lemma create_error:
  assumes "create_or_get rows set_rows key factory w = (Inl e, w')"
  shows "factory w = (Inl e, w')"
  using assms by (auto simp: create_or_get_def op_bind_split split: option.splits)

end

section \<open>Receipts\<close>

definition receipt_key :: "string \<Rightarrow> string \<Rightarrow> string \<Rightarrow> string option \<Rightarrow> string" where
  "receipt_key action_code project_id idempotency_key approval_id =
     join ''|'' [action_code, project_id, or_empty approval_id, idempotency_key]"

definition receipt_key_for_action :: "watchdog_action \<Rightarrow> string option \<Rightarrow> string" where
  "receipt_key_for_action a approval_id =
     receipt_key (wa_action_code a) (wa_project_id a) (wa_idempotency_key a)
       (if or_empty approval_id \<noteq> [] then approval_id
        else nonempty (text_or_empty (jget (wa_arguments a) ''approval_id'')))"

text \<open>The store of receipts next to the state that the factory of a result works on.\<close>

type_synonym receipt_rows = "(string, action_result) dict"

definition receipt_get :: "string \<Rightarrow> receipt_rows \<Rightarrow> action_result option" where
  "receipt_get key rows = map_of rows key"

definition receipt_put :: "string \<Rightarrow> action_result \<Rightarrow> receipt_rows \<Rightarrow> action_result \<times> receipt_rows" where
  "receipt_put key result rows = (result, dict_set key result rows)"

definition receipt_list_items :: "receipt_rows \<Rightarrow> (string \<times> action_result) list" where
  "receipt_list_items rows = rows"

definition set_receipts :: "receipt_rows \<Rightarrow> receipt_rows \<times> 'w \<Rightarrow> receipt_rows \<times> 'w" where
  "set_receipts rows w = (rows, snd w)"

definition receipt_create_or_get ::
  "string \<Rightarrow> (action_result, receipt_rows \<times> 'w) op \<Rightarrow> (action_result, receipt_rows \<times> 'w) op" where
  "receipt_create_or_get = create_or_get fst set_receipts"

interpretation receipts: keyed_rows fst "set_receipts :: receipt_rows \<Rightarrow> receipt_rows \<times> 'w \<Rightarrow> receipt_rows \<times> 'w"
  by unfold_locales (simp add: set_receipts_def)

text \<open>\<open>lookup_action_receipt\<close> of \<^verbatim>\<open>session_spine/receipts.py\<close>: its reply, by code, message, result and facts.\<close>

definition lookup_action_receipt ::
  "string \<Rightarrow> string \<Rightarrow> string option \<Rightarrow> string \<Rightarrow> receipt_rows \<Rightarrow> string \<times> string \<times> action_result option \<times> fact list" where
  "lookup_action_receipt action_code project_id approval_id idempotency_key rows =
     (case receipt_get (receipt_key action_code project_id idempotency_key approval_id) rows of
        None \<Rightarrow> (''action_receipt_not_found'', ''action receipt not found'', None, [])
      | Some r \<Rightarrow> (''action_receipt'', ar_message r, Some r, ar_facts r))"

text \<open>An action that is registered is one that the policy may let run.\<close>

lemma registered_code:
  assumes "get_registered_action ref = Inr r"
  shows "rg_action_code r = ref \<and> ref \<in> set registered_action_refs"
  using assms
  by (auto simp: get_registered_action_def canonical_action_registry_def registered_action_refs_def
      split: option.splits if_splits)

end
