(* ===== verification/CanonicalApprovals.thy ===== *)
theory CanonicalApprovals
  imports ActionContracts
begin

text \<open>
  The approvals that the watchdog asks of a person: the records and the store of
  \<^verbatim>\<open>src/watchdog/services/approvals/service.py\<close> (\<open>CanonicalApprovalStore\<close>, \<open>ApprovalResponseStore\<close>).
  Each method holds the lock of its file from its read to its write. A row is the record it was
  dumped from; \<open>now\<close> is what \<open>_utc_now_iso()\<close> returns in the call.
\<close>

section \<open>Orders\<close>

definition goal_contract_version_order :: "string option \<Rightarrow> int option" where
  "goal_contract_version_order value =
     (let v = or_empty value; n = drop 6 v in
      if starts_with v ''goal-v'' \<and> n \<noteq> [] \<and> list_all is_digit n then Some (int_of_digits n) else None)"

definition timestamp_order :: "string option \<Rightarrow> py_error + int \<times> string" where
  "timestamp_order value =
     (if or_empty value = [] then Inr (0, [])
      else res_bind (read_utc (or_empty value)) (\<lambda>t. Inr (case t of
          None \<Rightarrow> (0, or_empty value) | Some i \<Rightarrow> (1, isoformat_utc i))))"

definition parse_utc_timestamp :: "string option \<Rightarrow> py_error + int option" where
  "parse_utc_timestamp value = (if or_empty value = [] then Inr None else read_utc (or_empty value))"

definition utc_isoformat :: "int \<Rightarrow> string" where
  "utc_isoformat t = (let s = isoformat_utc t in take (length s - 6) s @ ''Z'')"

fun res_map :: "('a \<Rightarrow> py_error + 'b) \<Rightarrow> 'a list \<Rightarrow> py_error + 'b list" where
  "res_map f [] = Inr []"
| "res_map f (x # xs) = res_bind (f x) (\<lambda>y. res_bind (res_map f xs) (\<lambda>ys. Inr (y # ys)))"

text \<open>\<open>sorted(xs, key=f)\<close> and \<open>max(xs, key=f)\<close> where computing a key may raise.\<close>

definition sorted_by :: "('a \<Rightarrow> py_error + 'k::linorder) \<Rightarrow> 'a list \<Rightarrow> py_error + 'a list" where
  "sorted_by f xs = res_bind (res_map f xs) (\<lambda>ks. Inr (map snd (sort_key fst (zip ks xs))))"

definition first_max :: "('k::linorder \<times> 'a) \<Rightarrow> ('k \<times> 'a) list \<Rightarrow> 'k \<times> 'a" where
  "first_max = foldl (\<lambda>m x. if fst m < fst x then x else m)"

definition max_with :: "('a \<Rightarrow> py_error + 'k::linorder) \<Rightarrow> 'a list \<Rightarrow> py_error + 'a option" where
  "max_with f xs =
     res_bind (res_map f xs) (\<lambda>ks. Inr (case zip ks xs of [] \<Rightarrow> None | p # ps \<Rightarrow> Some (snd (first_max p ps))))"

section \<open>Records\<close>

record canonical_approval =
  cap_approval_id :: string
  cap_envelope_id :: string
  cap_approval_kind :: string
  cap_requested_action :: string
  cap_requested_action_args :: jdict
  cap_approval_token :: string
  cap_decision_options :: "string list"
  cap_policy_version :: string
  cap_fact_snapshot_version :: string
  cap_goal_contract_version :: "string option"
  cap_idempotency_key :: string
  cap_project_id :: string
  cap_session_id :: string
  cap_thread_id :: string
  cap_native_thread_id :: "string option"
  cap_status :: string
  cap_created_at :: string
  cap_expires_at :: "string option"
  cap_decided_at :: "string option"
  cap_decided_by :: "string option"
  cap_operator_notes :: "string list"
  cap_decision :: canonical_decision

definition approval_effective_thread :: "canonical_approval \<Rightarrow> string option" where
  "approval_effective_thread r =
     (let own = strip (or_empty (cap_native_thread_id r));
          other = strip (or_empty (decision_native_thread_id (cap_decision r))) in
      if own \<noteq> [] then Some own else nonempty other)"

record approval_response =
  rs_response_id :: string
  rs_envelope_id :: string
  rs_approval_id :: string
  rs_response_action :: string
  rs_client_request_id :: string
  rs_idempotency_key :: string
  rs_project_id :: string
  rs_approval_status :: string
  rs_operator :: string
  rs_note :: string
  rs_created_at :: string
  rs_operator_notes :: "string list"
  rs_approval_result :: "action_result option"
  rs_execution_result :: "action_result option"

definition same_decision_dump :: "canonical_decision \<Rightarrow> canonical_decision \<Rightarrow> bool" where
  "same_decision_dump a b \<longleftrightarrow>
     a\<lparr>cd_evidence := []\<rparr> = b\<lparr>cd_evidence := []\<rparr> \<and> jdict_eq (cd_evidence a) (cd_evidence b)"

definition same_approval :: "canonical_approval \<Rightarrow> canonical_approval \<Rightarrow> bool" where
  "same_approval a b \<longleftrightarrow>
     a\<lparr>cap_requested_action_args := [], cap_decision := cap_decision b\<rparr> = b\<lparr>cap_requested_action_args := []\<rparr> \<and>
     jdict_eq (cap_requested_action_args a) (cap_requested_action_args b) \<and>
     same_decision_dump (cap_decision a) (cap_decision b)"

section \<open>Building an approval from a decision\<close>

definition requested_action_args :: "canonical_decision \<Rightarrow> jdict" where
  "requested_action_args d =
     (case object_field (cd_evidence d) ''requested_action_args'' of
        Some r \<Rightarrow> r
      | None \<Rightarrow>
          (case object_field (cd_evidence d) ''decision'' of
             None \<Rightarrow> []
           | Some e \<Rightarrow> (case object_field e ''action_arguments'' of None \<Rightarrow> [] | Some r \<Rightarrow> r)))"

definition short_hash :: "(string \<Rightarrow> string) \<Rightarrow> string \<Rightarrow> string" where
  "short_hash sha value = take 16 (sha value)"

definition approval_identity_seed :: "canonical_decision \<Rightarrow> string" where
  "approval_identity_seed d =
     (if or_empty (cd_approval_id d) \<noteq> [] then ''approval_id|'' @ or_empty (cd_approval_id d)
      else join ''|'' [cd_session_id d, cd_project_id d, cd_policy_version d, cd_fact_snapshot_version d,
        cd_decision_result d, or_empty (cd_brain_intent d), cd_action_ref d])"

definition build_canonical_approval_identifiers ::
  "(string \<Rightarrow> string) \<Rightarrow> canonical_decision \<Rightarrow> string \<times> string \<times> string" where
  "build_canonical_approval_identifiers sha d =
     (let seed = approval_identity_seed d; digest = short_hash sha seed in
      (or_else (cd_approval_id d) (''approval:'' @ digest),
       ''approval-envelope:'' @ short_hash sha (seed @ ''|approval''),
       ''approval-token:'' @ digest))"

definition nonempty_str :: "json \<Rightarrow> string option" where
  "nonempty_str j = (case j of JStr s \<Rightarrow> nonempty s | _ \<Rightarrow> None)"

definition decision_goal_contract_version :: "canonical_decision \<Rightarrow> string option" where
  "decision_goal_contract_version d =
     (case nonempty_str (jget (cd_evidence d) ''goal_contract_version'') of
        Some v \<Rightarrow> Some v
      | None \<Rightarrow>
          (case object_field (cd_evidence d) ''decision_trace'' of
             None \<Rightarrow> None | Some t \<Rightarrow> nonempty_str (jget t ''goal_contract_version'')))"

definition build_canonical_approval_record ::
  "(string \<Rightarrow> string) \<Rightarrow> string \<Rightarrow> canonical_decision \<Rightarrow> py_error + canonical_approval" where
  "build_canonical_approval_record sha now d =
     (if cd_decision_result d \<noteq> require_user_decision
      then Inl (ValueError ''canonical approval requires require_user_decision'')
      else case build_canonical_approval_identifiers sha d of (approval_id, envelope_id, token) \<Rightarrow>
        Inr \<lparr>cap_approval_id = approval_id, cap_envelope_id = envelope_id,
             cap_approval_kind = ''canonical_user_decision'', cap_requested_action = cd_action_ref d,
             cap_requested_action_args = requested_action_args d, cap_approval_token = token,
             cap_decision_options = [''approve'', ''reject'', ''execute_action''],
             cap_policy_version = cd_policy_version d,
             cap_fact_snapshot_version = cd_fact_snapshot_version d,
             cap_goal_contract_version = decision_goal_contract_version d,
             cap_idempotency_key = cd_idempotency_key d @ ''|approval'', cap_project_id = cd_project_id d,
             cap_session_id = cd_session_id d, cap_thread_id = cd_thread_id d,
             cap_native_thread_id = decision_native_thread_id d, cap_status = ''pending'',
             cap_created_at = now, cap_expires_at = None, cap_decided_at = None, cap_decided_by = None,
             cap_operator_notes =
               [''approval pending requested_action='' @ cd_action_ref d,
                ''policy='' @ cd_policy_version d @ '' snapshot='' @ cd_fact_snapshot_version d],
             cap_decision = d\<rparr>)"

definition is_canonical_approval_fresh ::
  "canonical_approval \<Rightarrow> string \<Rightarrow> string \<Rightarrow> string \<Rightarrow> string \<Rightarrow> string option \<Rightarrow> string \<Rightarrow> py_error + bool" where
  "is_canonical_approval_fresh r session_id project_id requested_action fact_snapshot_version
     goal_contract_version now =
     (if cap_status r \<noteq> ''pending'' \<or> cap_session_id r \<noteq> session_id \<or> cap_project_id r \<noteq> project_id
        \<or> cap_requested_action r \<noteq> requested_action
        \<or> cap_fact_snapshot_version r \<noteq> fact_snapshot_version
        \<or> cap_goal_contract_version r \<noteq> goal_contract_version then Inr False
      else if or_empty (cap_expires_at r) = [] then Inr True
      else res_bind (parse_utc_timestamp (cap_expires_at r)) (\<lambda>expires.
           res_bind (parse_utc_timestamp (Some now)) (\<lambda>current.
           Inr (\<not> (case (expires, current) of (Some e, Some c) \<Rightarrow> c \<ge> e | _ \<Rightarrow> False)))))"

section \<open>The store\<close>

type_synonym approval_rows = "(string, canonical_approval) dict"

type_synonym approval_order = "(int \<times> string) \<times> (int \<times> string) \<times> string"

definition pending_record_order :: "canonical_approval \<Rightarrow> py_error + approval_order" where
  "pending_record_order r =
     res_bind (timestamp_order (Some (cap_created_at r))) (\<lambda>t.
       Inr (fact_snapshot_order (cap_fact_snapshot_version r), t, cap_envelope_id r))"

definition approval_record_order :: "canonical_approval \<Rightarrow> py_error + approval_order" where
  "approval_record_order r =
     res_bind (timestamp_order (Some (or_else (cap_decided_at r) (cap_created_at r)))) (\<lambda>t.
       Inr (fact_snapshot_order (cap_fact_snapshot_version r), t, cap_envelope_id r))"

definition pending_action_signature ::
  "canonical_approval \<Rightarrow> string \<times> string \<times> string \<times> string \<times> string option \<times> string \<times> string" where
  "pending_action_signature r =
     (cap_session_id r, cap_project_id r, cap_approval_kind r, cap_requested_action r,
      cap_goal_contract_version r, stable_json (JObj (cap_requested_action_args r)),
      stable_json (jtexts (cap_decision_options r)))"

definition find_existing_record_for_put :: "approval_rows \<Rightarrow> canonical_approval \<Rightarrow> py_error + canonical_approval option" where
  "find_existing_record_for_put rows incoming =
     (case map_of rows (cap_envelope_id incoming) of
        Some r \<Rightarrow> Inr (Some r)
      | None \<Rightarrow>
          (case filter (\<lambda>r. cap_approval_id r = cap_approval_id incoming \<and> cap_status r = ''pending'')
                  (dict_values rows) of
             [] \<Rightarrow> Inr None
           | ms \<Rightarrow> max_with pending_record_order ms))"

definition should_refresh_pending_record :: "canonical_approval \<Rightarrow> canonical_approval \<Rightarrow> bool" where
  "should_refresh_pending_record existing incoming =
     (let old = fact_snapshot_order (cap_fact_snapshot_version existing);
          new = fact_snapshot_order (cap_fact_snapshot_version incoming) in
      if cap_status existing \<noteq> ''pending'' \<or> cap_status incoming \<noteq> ''pending'' then False
      else if new < old then False
      else if new > old then True
      else \<not> same_approval incoming existing)"

definition refresh_pending_record :: "canonical_approval \<Rightarrow> canonical_approval \<Rightarrow> canonical_approval" where
  "refresh_pending_record existing incoming =
     incoming\<lparr>cap_approval_id := cap_approval_id existing, cap_envelope_id := cap_envelope_id existing,
       cap_approval_token := cap_approval_token existing, cap_created_at := cap_created_at existing,
       cap_operator_notes := cap_operator_notes existing @ cap_operator_notes incoming @
         [''approval_refreshed previous_snapshot='' @ cap_fact_snapshot_version existing @
          '' new_snapshot='' @ cap_fact_snapshot_version incoming]\<rparr>"

definition approval_get :: "string \<Rightarrow> approval_rows \<Rightarrow> canonical_approval option" where
  "approval_get envelope_id rows = map_of rows envelope_id"

definition approval_update :: "canonical_approval \<Rightarrow> approval_rows \<Rightarrow> canonical_approval \<times> approval_rows" where
  "approval_update r rows = (r, dict_set (cap_envelope_id r) r rows)"

definition approval_list_records :: "approval_rows \<Rightarrow> canonical_approval list" where
  "approval_list_records rows = dict_values rows"

definition approval_put :: "canonical_approval \<Rightarrow> (canonical_approval, approval_rows) op" where
  "approval_put record rows =
     (case find_existing_record_for_put rows record of
        Inl e \<Rightarrow> (Inl e, rows)
      | Inr None \<Rightarrow> (Inr record, dict_set (cap_envelope_id record) record rows)
      | Inr (Some existing) \<Rightarrow>
          if \<not> should_refresh_pending_record existing record then (Inr existing, rows)
          else let r = refresh_pending_record existing record
               in (Inr r, dict_set (cap_envelope_id r) r rows))"

definition records_for_approval_id ::
  "string \<Rightarrow> string option \<Rightarrow> string option \<Rightarrow> approval_rows \<Rightarrow> py_error + canonical_approval list" where
  "records_for_approval_id approval_id session_id project_id rows =
     sorted_by approval_record_order
       (filter (\<lambda>r. cap_approval_id r = approval_id \<and> opt_match session_id (cap_session_id r) \<and>
                    opt_match project_id (cap_project_id r)) (dict_values rows))"

section \<open>Superseding\<close>

definition superseded_approval :: "string \<Rightarrow> string \<Rightarrow> string \<Rightarrow> canonical_approval \<Rightarrow> canonical_approval" where
  "superseded_approval now decided_by reason r =
     r\<lparr>cap_status := ''superseded'', cap_decided_at := Some now, cap_decided_by := Some decided_by,
       cap_operator_notes := cap_operator_notes r @ [reason]\<rparr>"

text \<open>
  The loop over the rows that three methods share: a pending row for which there is a reason is
  superseded in place.
\<close>

definition supersede_where ::
  "string \<Rightarrow> string \<Rightarrow> (canonical_approval \<Rightarrow> string option) \<Rightarrow> approval_rows \<Rightarrow>
   canonical_approval list \<times> approval_rows" where
  "supersede_where now decided_by reason_for rows =
     (let changed = (\<lambda>r. if cap_status r \<noteq> ''pending'' then None
                         else map_option (\<lambda>reason. superseded_approval now decided_by reason r) (reason_for r)) in
      (List.map_filter changed (dict_values rows),
       map (\<lambda>(k, r). (k, case changed r of None \<Rightarrow> r | Some r' \<Rightarrow> r')) rows))"

definition supersede_pending_records ::
  "string \<Rightarrow> string \<Rightarrow> string \<Rightarrow> string \<Rightarrow> string option \<Rightarrow> string \<Rightarrow> approval_rows \<Rightarrow>
   canonical_approval list \<times> approval_rows" where
  "supersede_pending_records now session_id fact_snapshot_version reason project_id decided_by =
     supersede_where now decided_by (\<lambda>r.
       if cap_session_id r = session_id \<and> opt_match project_id (cap_project_id r) \<and>
          fact_snapshot_order (cap_fact_snapshot_version r) \<le> fact_snapshot_order fact_snapshot_version
       then Some reason else None)"

definition record_is_stale_for_goal_contract_transition :: "canonical_approval \<Rightarrow> string \<Rightarrow> bool" where
  "record_is_stale_for_goal_contract_transition r active =
     (if cap_goal_contract_version r = Some active then False
      else if cap_goal_contract_version r = None then True
      else (case (goal_contract_version_order (Some active), goal_contract_version_order (cap_goal_contract_version r)) of
              (Some a, Some b) \<Rightarrow> b < a
            | _ \<Rightarrow> False))"

definition supersede_pending_records_for_goal_contract_transition ::
  "string \<Rightarrow> string \<Rightarrow> string \<Rightarrow> string \<Rightarrow> string \<Rightarrow> string \<Rightarrow> approval_rows \<Rightarrow>
   canonical_approval list \<times> approval_rows" where
  "supersede_pending_records_for_goal_contract_transition now session_id project_id active reason decided_by =
     supersede_where now decided_by (\<lambda>r.
       if cap_session_id r = session_id \<and> cap_project_id r = project_id \<and>
          record_is_stale_for_goal_contract_transition r active
       then Some reason else None)"

text \<open>The latest decision of each session and project that did not leave the matter to a person.\<close>

definition latest_superseding_decisions ::
  "canonical_decision list \<Rightarrow> (string \<times> string, canonical_decision) dict" where
  "latest_superseding_decisions =
     foldl (\<lambda>latest d.
       let key = (cd_session_id d, cd_project_id d);
           order = (\<lambda>x. fact_snapshot_order (cd_fact_snapshot_version x)) in
       if cd_decision_result d = require_user_decision then latest
       else case map_of latest key of
              Some e \<Rightarrow> if order e \<ge> order d then latest else dict_set key d latest
            | None \<Rightarrow> dict_set key d latest) []"

definition reconcile_pending_records_against_decisions ::
  "string \<Rightarrow> string \<Rightarrow> canonical_decision list \<Rightarrow> approval_rows \<Rightarrow> canonical_approval list \<times> approval_rows" where
  "reconcile_pending_records_against_decisions now decided_by decisions =
     (let latest = latest_superseding_decisions decisions in
      supersede_where now decided_by (\<lambda>r.
        case map_of latest (cap_session_id r, cap_project_id r) of
          None \<Rightarrow> None
        | Some d \<Rightarrow>
            if fact_snapshot_order (cap_fact_snapshot_version r) > fact_snapshot_order (cd_fact_snapshot_version d)
            then None
            else Some (''approval_superseded_by_historical_decision decision_id='' @ cd_decision_id d @
              '' result='' @ cd_decision_result d @ '' action='' @ cd_action_ref d @
              '' snapshot='' @ cd_fact_snapshot_version d)))"

text \<open>Groups in the order of their first member.\<close>

fun group_by :: "('a \<Rightarrow> 'k) \<Rightarrow> 'a list \<Rightarrow> ('k \<times> 'a list) list" where
  "group_by f [] = []"
| "group_by f (x # xs) =
     (f x, x # filter (\<lambda>y. f y = f x) xs) # filter (\<lambda>(k, _). k \<noteq> f x) (group_by f xs)"

text \<open>Of the pending rows of a group all but the last in their order are superseded.\<close>

definition keep_last ::
  "string \<Rightarrow> string \<Rightarrow> (canonical_approval \<Rightarrow> canonical_approval \<Rightarrow> string) \<Rightarrow> canonical_approval list \<Rightarrow>
   py_error + canonical_approval list" where
  "keep_last now decided_by note_for records =
     (if length records < 2 then Inr []
      else res_bind (sorted_by pending_record_order records) (\<lambda>ordered.
        Inr (map (\<lambda>r. superseded_approval now decided_by (note_for r (last ordered)) r) (butlast ordered))))"

definition reconcile_duplicates ::
  "string \<Rightarrow> string \<Rightarrow> (canonical_approval \<Rightarrow> 'k) \<Rightarrow> (canonical_approval \<Rightarrow> canonical_approval \<Rightarrow> string) \<Rightarrow>
   (canonical_approval list, approval_rows) op" where
  "reconcile_duplicates now decided_by key note_for rows =
     (let groups = group_by key (filter (\<lambda>r. cap_status r = ''pending'') (dict_values rows)) in
      case res_map (\<lambda>(_, rs). keep_last now decided_by note_for rs) groups of
        Inl e \<Rightarrow> (Inl e, rows)
      | Inr updated \<Rightarrow>
          (Inr (concat updated), foldl (\<lambda>d r. dict_set (cap_envelope_id r) r d) rows (concat updated)))"

definition reconcile_duplicate_pending_records_by_approval_id ::
  "string \<Rightarrow> string \<Rightarrow> (canonical_approval list, approval_rows) op" where
  "reconcile_duplicate_pending_records_by_approval_id now decided_by =
     reconcile_duplicates now decided_by cap_approval_id (\<lambda>duplicate kept.
       ''approval_superseded_by_duplicate_approval_id approval_id='' @ cap_approval_id duplicate @
       '' kept_envelope_id='' @ cap_envelope_id kept @ '' kept_snapshot='' @ cap_fact_snapshot_version kept)"

definition reconcile_duplicate_pending_records_by_action_signature ::
  "string \<Rightarrow> string \<Rightarrow> (canonical_approval list, approval_rows) op" where
  "reconcile_duplicate_pending_records_by_action_signature now decided_by =
     reconcile_duplicates now decided_by pending_action_signature (\<lambda>duplicate kept.
       ''approval_superseded_by_duplicate_action_signature requested_action='' @ cap_requested_action duplicate @
       '' kept_envelope_id='' @ cap_envelope_id kept @ '' kept_snapshot='' @ cap_fact_snapshot_version kept)"

section \<open>Responses\<close>

type_synonym response_rows = "(string, approval_response) dict"

definition response_get :: "string \<Rightarrow> response_rows \<Rightarrow> approval_response option" where
  "response_get key rows = map_of rows key"

definition response_put :: "approval_response \<Rightarrow> response_rows \<Rightarrow> approval_response \<times> response_rows" where
  "response_put r rows =
     (case map_of rows (rs_idempotency_key r) of
        Some old \<Rightarrow> (old, rows) | None \<Rightarrow> (r, dict_set (rs_idempotency_key r) r rows))"

definition response_list_records :: "response_rows \<Rightarrow> approval_response list" where
  "response_list_records rows = dict_values rows"

definition build_response_idempotency_key :: "string \<Rightarrow> string \<Rightarrow> string \<Rightarrow> string" where
  "build_response_idempotency_key envelope_id response_action client_request_id =
     join ''|'' [envelope_id, response_action, client_request_id]"

end
