(* ===== verification/Envelopes.thy ===== *)
theory Envelopes
  imports CanonicalApprovals
begin

text \<open>
  The envelopes of \<^verbatim>\<open>src/watchdog/services/delivery/envelopes.py\<close>: what is put into the outbox for a
  decision, for an approval, for the answer to an approval and for the progress of a session. The
  fields that a kind adds to \<open>EnvelopeBase\<close> stand in the order of its class.
\<close>

definition join_nonempty :: "string list \<Rightarrow> string" where
  "join_nonempty parts = join ''|'' (filter (\<lambda>p. p \<noteq> []) parts)"

text \<open>\<open>_envelope_id\<close>.\<close>

definition make_envelope_id :: "(string \<Rightarrow> string) \<Rightarrow> string \<Rightarrow> string \<Rightarrow> string \<Rightarrow> string" where
  "make_envelope_id sha decision_key envelope_type suff =
     envelope_type @ ''-envelope:'' @ short_hash sha (join_nonempty [decision_key, envelope_type, suff])"

definition facts_from_decision :: "canonical_decision \<Rightarrow> json" where
  "facts_from_decision d =
     JList (case jget (cd_evidence d) ''facts'' of
       JList xs \<Rightarrow> filter (\<lambda>x. case x of JObj _ \<Rightarrow> True | _ \<Rightarrow> False) xs | _ \<Rightarrow> [])"

definition recommended_actions :: "canonical_decision \<Rightarrow> json" where
  "recommended_actions d =
     JList [JObj [(''action_code'', JStr (cd_action_ref d)),
       (''label'', JStr (replace_char (CHR ''_'') '' '' (cd_action_ref d))),
       (''action_ref'', JStr (cd_action_ref d))]]"

definition canonical_timestamp :: "string option \<Rightarrow> py_error + string option" where
  "canonical_timestamp value =
     (case value of
        None \<Rightarrow> Inr None
      | Some v \<Rightarrow> res_bind (read_utc v) (\<lambda>t. Inr (Some (case t of None \<Rightarrow> v | Some i \<Rightarrow> iso_z i))))"

definition compatibility_risk_level :: "string \<Rightarrow> string" where
  "compatibility_risk_level risk_class =
     (case map_of [(risk_class_none, ''L0''), (risk_class_human_gate, ''L2''), (risk_class_hard_block, ''L3'')]
             risk_class of
        Some l \<Rightarrow> l | None \<Rightarrow> risk_class)"

definition compatibility_command :: "string \<Rightarrow> jdict \<Rightarrow> string" where
  "compatibility_command action_ref action_args =
     (if action_args = [] then action_ref
      else join '' '' [action_ref, stable_json (JObj action_args)])"

text \<open>The fields of \<open>EnvelopeBase\<close> that have a default keep it.\<close>

definition envelope_of ::
  "string \<Rightarrow> string \<Rightarrow> string \<Rightarrow> string \<Rightarrow> string \<Rightarrow> string option \<Rightarrow> string \<Rightarrow> string \<Rightarrow> string \<Rightarrow> string \<Rightarrow>
   string \<Rightarrow> jdict \<Rightarrow> envelope" where
  "envelope_of envelope_id envelope_type correlation_id session_id project_id native_thread_id
     policy_version fact_snapshot_version idempotency_key audit_ref created_at rest =
     \<lparr>en_envelope_id = envelope_id, en_envelope_type = envelope_type, en_envelope_version = ''v1'',
      en_correlation_id = correlation_id, en_session_id = session_id, en_project_id = project_id,
      en_native_thread_id = native_thread_id, en_policy_version = policy_version,
      en_fact_snapshot_version = fact_snapshot_version, en_idempotency_key = idempotency_key,
      en_audit_ref = audit_ref, en_created_at = created_at, en_interaction_context_id = None,
      en_interaction_family_id = None, en_actor_id = None, en_channel_kind = None,
      en_action_window_expires_at = None, en_receive_id = None, en_receive_id_type = None,
      en_rest = rest\<rparr>"

definition notification_fields ::
  "string \<Rightarrow> string \<Rightarrow> string \<Rightarrow> string option \<Rightarrow> string option \<Rightarrow> string option \<Rightarrow> jdict \<Rightarrow> string \<Rightarrow> string \<Rightarrow>
   string \<Rightarrow> json \<Rightarrow> json \<Rightarrow> jdict" where
  "notification_fields event_id severity kind occurred_at decision_result action_name action_args title
     summary reason facts actions =
     [(''event_id'', JStr event_id), (''severity'', JStr severity), (''notification_kind'', JStr kind),
      (''occurred_at'', jopt occurred_at), (''decision_result'', jopt decision_result),
      (''action_name'', jopt action_name), (''action_args'', JObj action_args), (''title'', JStr title),
      (''summary'', JStr summary), (''reason'', JStr reason), (''facts'', facts),
      (''recommended_actions'', actions)]"

section \<open>Decisions\<close>

definition build_decision_envelope :: "(string \<Rightarrow> string) \<Rightarrow> canonical_decision \<Rightarrow> py_error + envelope" where
  "build_decision_envelope sha d =
     res_bind (canonical_timestamp (Some (cd_created_at d))) (\<lambda>occurred.
       let args = requested_action_args d in
       Inr (envelope_of (make_envelope_id sha (cd_decision_key d) ''decision'' []) ''decision'' (cd_decision_id d)
         (cd_session_id d) (cd_project_id d) (decision_native_thread_id d) (cd_policy_version d)
         (cd_fact_snapshot_version d) (cd_idempotency_key d) (cd_decision_id d)
         (or_else occurred (cd_created_at d))
         [(''occurred_at'', jopt occurred), (''decision_id'', JStr (cd_decision_id d)),
          (''decision_result'', JStr (cd_decision_result d)), (''execution_state'', JStr ''queued''),
          (''action_name'', JStr (cd_action_ref d)), (''action_args'', JObj args),
          (''approval_id'', jopt (cd_approval_id d)), (''risk_class'', JStr (cd_risk_class d)),
          (''risk_level'', JStr (compatibility_risk_level (cd_risk_class d))),
          (''command'', JStr (compatibility_command (cd_action_ref d) args)),
          (''title'', JStr (''decision '' @ cd_decision_result d)), (''summary'', JStr (cd_decision_reason d)),
          (''reason'', JStr (cd_decision_reason d)), (''decision_reason'', JStr (cd_decision_reason d)),
          (''facts'', facts_from_decision d), (''matched_policy_rules'', jtexts (cd_matched_policy_rules d)),
          (''why_not_escalated'', jopt (cd_why_not_escalated d)), (''completed_at'', JNull)]))"

definition build_decision_notification :: "(string \<Rightarrow> string) \<Rightarrow> canonical_decision \<Rightarrow> py_error + envelope" where
  "build_decision_notification sha d =
     res_bind (canonical_timestamp (Some (cd_created_at d))) (\<lambda>occurred.
       Inr (envelope_of (make_envelope_id sha (cd_decision_key d) ''notification'' ''decision_result'')
         ''notification'' (cd_decision_id d) (cd_session_id d) (cd_project_id d) (decision_native_thread_id d)
         (cd_policy_version d) (cd_fact_snapshot_version d) (cd_idempotency_key d @ ''|decision_result'')
         (cd_decision_id d) (or_else occurred (cd_created_at d))
         (notification_fields (''event:'' @ short_hash sha (cd_decision_id d @ ''|decision_result''))
           (if cd_decision_result d = block_and_alert then ''critical'' else ''info'') ''decision_result''
           occurred (Some (cd_decision_result d)) (Some (cd_action_ref d)) (requested_action_args d)
           (''decision '' @ cd_decision_result d) (cd_decision_reason d) (cd_decision_reason d)
           (facts_from_decision d) (recommended_actions d))))"

section \<open>Approvals\<close>

definition approval_fields ::
  "string \<Rightarrow> string \<Rightarrow> string \<Rightarrow> jdict \<Rightarrow> canonical_decision \<Rightarrow> string \<Rightarrow> string \<Rightarrow> string \<Rightarrow> jdict" where
  "approval_fields approval_id kind action args d status requested_at token =
     [(''approval_id'', JStr approval_id), (''approval_kind'', JStr kind), (''requested_action'', JStr action),
      (''requested_action_args'', JObj args), (''risk_class'', JStr (cd_risk_class d)),
      (''risk_level'', JStr (compatibility_risk_level (cd_risk_class d))),
      (''command'', JStr (compatibility_command action args)), (''reason'', JStr (cd_decision_reason d)),
      (''alternative'', JStr []), (''status'', JStr status), (''requested_at'', JStr requested_at),
      (''title'', JStr (''approval required for '' @ action)), (''summary'', JStr (cd_decision_reason d)),
      (''decision_options'', jtexts [''approve'', ''reject'', ''execute_action'']),
      (''facts'', facts_from_decision d), (''matched_policy_rules'', jtexts (cd_matched_policy_rules d)),
      (''why_escalated'', jopt (cd_why_escalated d)), (''approval_token'', JStr token),
      (''callback_action_ref'', JStr ''/api/v1/watchdog/feishu/control'')]"

definition build_approval_envelope :: "(string \<Rightarrow> string) \<Rightarrow> canonical_decision \<Rightarrow> py_error + envelope" where
  "build_approval_envelope sha d =
     res_bind (canonical_timestamp (Some (cd_created_at d))) (\<lambda>occurred.
       let at = or_else occurred (cd_created_at d) in
       case build_canonical_approval_identifiers sha d of (approval_id, envelope_id, token) \<Rightarrow>
       Inr (envelope_of envelope_id ''approval'' (cd_decision_id d) (cd_session_id d) (cd_project_id d)
         (decision_native_thread_id d) (cd_policy_version d) (cd_fact_snapshot_version d)
         (cd_idempotency_key d @ ''|approval'') (cd_decision_id d) at
         (approval_fields approval_id ''canonical_user_decision'' (cd_action_ref d) (requested_action_args d) d
           ''pending'' at token)))"

definition build_approval_envelope_for_record :: "canonical_approval \<Rightarrow> py_error + envelope" where
  "build_approval_envelope_for_record r =
     res_bind (canonical_timestamp (Some (cap_created_at r))) (\<lambda>occurred.
       let d = cap_decision r; at = or_else occurred (cap_created_at r) in
       Inr (envelope_of (cap_envelope_id r) ''approval'' (cd_decision_id d) (cap_session_id r)
         (cap_project_id r) (approval_effective_thread r) (cap_policy_version r)
         (cap_fact_snapshot_version r) (cap_idempotency_key r) (cd_decision_id d) at
         (approval_fields (cap_approval_id r) (cap_approval_kind r) (cap_requested_action r)
           (cap_requested_action_args r) d (cap_status r) at (cap_approval_token r))))"

definition build_envelopes_for_decision :: "(string \<Rightarrow> string) \<Rightarrow> canonical_decision \<Rightarrow> py_error + envelope list" where
  "build_envelopes_for_decision sha d =
     (if cd_decision_result d = auto_execute_and_notify then
        res_map id [build_decision_envelope sha d, build_decision_notification sha d]
      else if cd_decision_result d = require_user_decision then res_map id [build_approval_envelope sha d]
      else if cd_decision_result d = block_and_alert then res_map id [build_decision_notification sha d]
      else Inl (ValueError (''unsupported decision_result for delivery: '' @ cd_decision_result d)))"

definition build_envelopes_for_approval_response ::
  "(string \<Rightarrow> string) \<Rightarrow> canonical_approval \<Rightarrow> approval_response \<Rightarrow> py_error + envelope list" where
  "build_envelopes_for_approval_response sha r response =
     res_bind (canonical_timestamp (Some (rs_created_at response))) (\<lambda>occurred.
       let d = cap_decision r; st = rs_approval_status response in
       Inr [envelope_of (make_envelope_id sha (cd_decision_key d) ''notification'' ''approval_result'')
         ''notification'' (cap_approval_id r) (cap_session_id r) (cap_project_id r)
         (approval_effective_thread r) (cap_policy_version r) (cap_fact_snapshot_version r)
         (rs_idempotency_key response) (rs_response_id response)
         (or_else occurred (rs_created_at response))
         (notification_fields (''event:'' @ short_hash sha (rs_response_id response @ ''|approval_result''))
           (if st = ''rejected'' then ''critical'' else ''info'') ''approval_result'' occurred None None []
           (''approval '' @ st) (''approval '' @ st @ '' via '' @ rs_response_action response)
           (or_else (Some (rs_note response)) (rs_response_action response)) (facts_from_decision d)
           (recommended_actions d))])"

section \<open>The progress of a session\<close>

definition progress_summary_severity :: "persisted_session \<Rightarrow> string" where
  "progress_summary_severity p =
     (let codes = map fact_code (ps_facts p) in
      if ''context_critical'' \<in> set codes \<or> ''control_link_error'' \<in> set codes then ''critical''
      else if list_ex (\<lambda>c. c \<in> {''approval_pending'', ''awaiting_human_direction'', ''stuck_no_progress'',
             ''repeat_failure''}) codes then ''warning''
      else ''info'')"

text \<open>\<open>repr\<close> of the dictionary is hashed.\<close>

definition progress_summary_fingerprint :: "(string \<Rightarrow> string) \<Rightarrow> persisted_session \<Rightarrow> string" where
  "progress_summary_fingerprint sha p =
     short_hash sha (py_repr (JObj
       [(''project_id'', JStr (ps_project_id p)), (''session_state'', JStr (spj_session_state (ps_session p))),
        (''attention_state'', JStr (spj_attention_state (ps_session p))),
        (''activity_phase'', JStr (tp_activity_phase (ps_progress p))),
        (''summary'', JStr (tp_summary (ps_progress p))),
        (''files_touched'', jtexts (tp_files_touched (ps_progress p))),
        (''context_pressure'', JStr (tp_context_pressure (ps_progress p))),
        (''stuck_level'', JInt (tp_stuck_level (ps_progress p))),
        (''last_progress_at'', jopt (tp_last_progress_at (ps_progress p))),
        (''pending_approval_count'', JInt (spj_pending_approval_count (ps_session p)))]))"

definition build_progress_summary_envelope ::
  "(string \<Rightarrow> string) \<Rightarrow> persisted_session \<Rightarrow> string \<Rightarrow> string option \<Rightarrow> py_error + envelope" where
  "build_progress_summary_envelope sha p created_at progress_fingerprint =
     (let print = or_else progress_fingerprint (progress_summary_fingerprint sha p);
          files = take 3 (tp_files_touched (ps_progress p));
          parts = [''phase='' @ tp_activity_phase (ps_progress p),
                   ''context='' @ tp_context_pressure (ps_progress p),
                   ''stuck='' @ str_of_int (tp_stuck_level (ps_progress p))] @
                  (if files = [] then [] else [''files='' @ join '', '' files]);
          version = ps_fact_snapshot_version p in
      res_bind (canonical_timestamp (tp_last_progress_at (ps_progress p))) (\<lambda>occurred.
        Inr (envelope_of
          (make_envelope_id sha (ps_thread_id p @ ''|'' @ version @ ''|'' @ print) ''notification'' ''progress_summary'')
          ''notification'' (''progress-summary:'' @ ps_project_id p @ '':'' @ print) (ps_thread_id p)
          (ps_project_id p) (session_native_thread_id p) policy_version_v1 version
          (ps_thread_id p @ ''|'' @ version @ ''|progress_summary|'' @ print)
          (''progress-summary:'' @ ps_project_id p @ '':'' @ version) created_at
          (notification_fields
            (''event:'' @ short_hash sha (ps_project_id p @ ''|progress_summary|'' @ print))
            (progress_summary_severity p) ''progress_summary'' occurred None None []
            (''progress update for '' @ ps_project_id p)
            (or_else (Some (tp_summary (ps_progress p))) (spj_headline (ps_session p)))
            (join ''; '' parts) (JList (map dump_fact (ps_facts p))) (JList [])))))"

end
