(* ===== verification/ApprovalFlow.thy ===== *)
theory ApprovalFlow
  imports Envelopes
begin

text \<open>
  The life of an approval in \<^verbatim>\<open>src/watchdog/services/approvals/service.py\<close>: materialising it from a
  decision, its expiry, and the answer of a person. The world holds the store of approvals, the
  store of responses, the session log and the outbox (the last two are optional arguments of the
  code), and the actions that were handed to \<open>execute_watchdog_action\<close>, oldest first.
\<close>

record approval_world =
  aw_approvals :: approval_rows
  aw_responses :: response_rows
  aw_session :: "session_store option"
  aw_outbox :: "delivery_file option"
  aw_actions :: "watchdog_action list"

text \<open>
  What the flow relies on outside this file: \<open>execute_watchdog_action\<close>, which works on the session
  log, and the control agent's client, \<open>list_approvals\<close> and \<open>decide_approval\<close>.
\<close>

record approval_env =
  ae_execute :: "watchdog_action \<Rightarrow> (action_result, session_store option) op"
  ae_list_approvals :: "string \<Rightarrow> py_error + jdict list"
  ae_decide_approval :: "string \<Rightarrow> string \<Rightarrow> string \<Rightarrow> py_error + unit"

section \<open>Parts of the world\<close>

definition on_approvals :: "('a, approval_rows) op \<Rightarrow> ('a, approval_world) op" where
  "on_approvals m w = (case m (aw_approvals w) of (r, a) \<Rightarrow> (r, w\<lparr>aw_approvals := a\<rparr>))"

definition store_approval :: "canonical_approval \<Rightarrow> (canonical_approval, approval_world) op" where
  "store_approval r = on_approvals (\<lambda>rows. case approval_update r rows of (x, d) \<Rightarrow> (Inr x, d))"

definition on_session_log :: "('a, session_store) op \<Rightarrow> (unit, approval_world) op" where
  "on_session_log m w =
     (case aw_session w of
        None \<Rightarrow> (Inr (), w)
      | Some s \<Rightarrow> (case m s of (r, s') \<Rightarrow> (map_sum id (\<lambda>_. ()) r, w\<lparr>aw_session := Some s'\<rparr>)))"

definition run_action :: "approval_env \<Rightarrow> watchdog_action \<Rightarrow> (action_result, approval_world) op" where
  "run_action env a w =
     (case ae_execute env a (aw_session w) of
        (r, s) \<Rightarrow> (r, w\<lparr>aw_session := s, aw_actions := aw_actions w @ [a]\<rparr>))"

definition enqueue_all :: "(py_error + envelope list) \<Rightarrow> (unit, approval_world) op" where
  "enqueue_all envelopes w =
     (case aw_outbox w of
        None \<Rightarrow> (Inr (), w)
      | Some f \<Rightarrow>
          (case envelopes of
             Inl e \<Rightarrow> (Inl e, w)
           | Inr es \<Rightarrow> (Inr (), w\<lparr>aw_outbox := Some (snd (enqueue_envelopes es f))\<rparr>)))"

section \<open>Materialising an approval\<close>

definition approval_requested_event_is_compatible :: "session_event \<Rightarrow> canonical_approval \<Rightarrow> bool" where
  "approval_requested_event_is_compatible e r \<longleftrightarrow>
     (let p = ev_payload e in
      map_of (ev_related_ids e) ''approval_id'' = Some (cap_approval_id r) \<and>
      json_eq (jget p ''requested_action'') (JStr (cap_requested_action r)) \<and>
      (case jget p ''fact_snapshot_version'' of
         JStr v \<Rightarrow> \<not> fact_snapshot_order v > fact_snapshot_order (cap_fact_snapshot_version r) | _ \<Rightarrow> True) \<and>
      json_eq (jget p ''decision_options'') (jtexts (cap_decision_options r)) \<and>
      json_eq (jget_default p ''requested_action_args'' (JObj [])) (JObj (cap_requested_action_args r)) \<and>
      json_eq (jget p ''goal_contract_version'') (jopt (cap_goal_contract_version r)) \<and>
      json_eq (jget p ''policy_version'') (JStr (cap_policy_version r)))"

definition existing_approval_requested_events_are_compatible ::
  "session_event list \<Rightarrow> canonical_approval \<Rightarrow> py_error + bool" where
  "existing_approval_requested_events_are_compatible events r =
     (let requested = filter (\<lambda>e. ev_event_type e = ''approval_requested'') events in
      if requested = [] then Inr False
      else case find (\<lambda>e. \<not> approval_requested_event_is_compatible e r) requested of
             Some e \<Rightarrow> Inl (ValueError
               (''conflicting session event for idempotency key: '' @ ev_idempotency_key e))
           | None \<Rightarrow> Inr True)"

definition approval_correlation :: "canonical_approval \<Rightarrow> string" where
  "approval_correlation r = ''corr:approval:'' @ cap_approval_id r"

definition thread_text :: "canonical_approval \<Rightarrow> string" where
  "thread_text r = strip (or_empty (approval_effective_thread r))"

definition record_approval_requested ::
  "(string \<Rightarrow> string) \<Rightarrow> string \<Rightarrow> canonical_approval \<Rightarrow> (unit, session_store) op" where
  "record_approval_requested sha now r s =
     op_bind (op_lift (existing_approval_requested_events_are_compatible
         (list_events (Some (cap_session_id r)) None None (Some (approval_correlation r)) s) r)) (\<lambda>known.
       if known then op_return ()
       else op_bind (record_event_once sha now ''approval_requested'' (cap_project_id r) (cap_session_id r)
           (approval_correlation r)
           [(''requested_action'', JStr (cap_requested_action r)),
            (''requested_action_args'', JObj (cap_requested_action_args r)),
            (''decision_options'', jtexts (cap_decision_options r)),
            (''fact_snapshot_version'', JStr (cap_fact_snapshot_version r)),
            (''goal_contract_version'', jopt (cap_goal_contract_version r)),
            (''policy_version'', JStr (cap_policy_version r))]
           (Some (cd_decision_id (cap_decision r)))
           [(''approval_id'', cap_approval_id r), (''decision_id'', cd_decision_id (cap_decision r)),
            (''native_thread_id'', thread_text r)] None) (\<lambda>_. op_return ())) s"

definition materialize_canonical_approval ::
  "(string \<Rightarrow> string) \<Rightarrow> string \<Rightarrow> canonical_decision \<Rightarrow> (canonical_approval, approval_world) op" where
  "materialize_canonical_approval sha now d =
     op_bind (op_lift (build_canonical_approval_record sha now d)) (\<lambda>built.
     op_bind (on_approvals (approval_put built)) (\<lambda>r.
     op_bind (on_session_log (record_approval_requested sha now r)) (\<lambda>_.
     op_bind (enqueue_all (res_bind (build_approval_envelope_for_record r) (\<lambda>e. Inr [e]))) (\<lambda>_.
     op_return r))))"

section \<open>Expiry\<close>

text \<open>
  The length of the window is given in microseconds, and as \<open>{expiration_seconds:g}\<close> writes it.
\<close>

definition expired_approval :: "string \<Rightarrow> string \<Rightarrow> string \<Rightarrow> canonical_approval \<Rightarrow> canonical_approval" where
  "expired_approval shown decided_by expires_at r =
     r\<lparr>cap_status := ''expired'', cap_decided_at := Some expires_at, cap_decided_by := Some decided_by,
       cap_operator_notes := cap_operator_notes r @
         [''approval_expired_by_timeout expiration_seconds='' @ shown @ '' expires_at='' @ expires_at]\<rparr>"

definition expire_approval ::
  "(string \<Rightarrow> string) \<Rightarrow> int \<Rightarrow> int \<Rightarrow> string \<Rightarrow> string \<Rightarrow> string \<Rightarrow> string \<Rightarrow>
   (canonical_approval option, approval_world) op" where
  "expire_approval sha now window shown decided_by reason envelope_id w =
     (case approval_get envelope_id (aw_approvals w) of
        None \<Rightarrow> (Inr None, w)
      | Some r \<Rightarrow>
          if cap_status r \<noteq> ''pending'' then (Inr None, w)
          else op_bind (op_lift (parse_utc_timestamp (Some (cap_created_at r)))) (\<lambda>created.
            case created of
              None \<Rightarrow> op_return None
            | Some c \<Rightarrow>
                op_bind (op_lift (astimezone_utc (c + window))) (\<lambda>expires.
                if expires > now then op_return None
                else (let at = utc_isoformat expires; r' = expired_approval shown decided_by at r in
                  op_bind (on_session_log (record_approval_expired sha [] (cap_project_id r) (cap_session_id r)
                      (cap_approval_id r) (cd_decision_id (cap_decision r)) (cap_envelope_id r)
                      (approval_effective_thread r) (cap_requested_action r) reason
                      (Some (''approval-expiration:'' @ cap_envelope_id r @ '':'' @ at)) (Some at))) (\<lambda>_.
                  op_bind (store_approval r') (\<lambda>_.
                  op_return (Some r')))))) w)"

fun expire_each ::
  "(string \<Rightarrow> (canonical_approval option, approval_world) op) \<Rightarrow> canonical_approval list \<Rightarrow>
   (canonical_approval list, approval_world) op" where
  "expire_each step [] = op_return []"
| "expire_each step (r # rs) =
     op_bind (step (cap_envelope_id r)) (\<lambda>x.
     op_bind (expire_each step rs) (\<lambda>xs. op_return (case x of None \<Rightarrow> xs | Some y \<Rightarrow> y # xs)))"

definition expire_pending_canonical_approvals ::
  "(string \<Rightarrow> string) \<Rightarrow> int \<Rightarrow> int \<Rightarrow> string \<Rightarrow> string \<Rightarrow> string \<Rightarrow> (canonical_approval list, approval_world) op" where
  "expire_pending_canonical_approvals sha now window shown decided_by reason w =
     (if window \<le> 0 then (Inr [], w)
      else op_bind (op_lift (sorted_by pending_record_order
               (filter (\<lambda>r. cap_status r = ''pending'') (approval_list_records (aw_approvals w)))))
             (expire_each (expire_approval sha now window shown decided_by reason)) w)"

section \<open>The answer of a person\<close>

definition approval_action_result ::
  "approval_env \<Rightarrow> canonical_approval \<Rightarrow> string \<Rightarrow> string \<Rightarrow> string \<Rightarrow> (action_result, approval_world) op" where
  "approval_action_result env r response_action operator note' =
     (if response_action \<notin> {''approve'', ''reject''}
      then op_raise (ValueError ''response_action must be approve or reject'')
      else op_bind (op_lift (validate_action
          \<lparr>wa_action_code = (if response_action = ''approve'' then ''approve_approval'' else ''reject_approval''),
           wa_project_id = cap_project_id r, wa_operator = operator,
           wa_idempotency_key = cap_idempotency_key r @ ''|'' @ response_action,
           wa_arguments = [(''approval_id'', JStr (cap_approval_id r))], wa_note = note'\<rparr>)) (run_action env))"

definition approved_callback_is_deferred :: "approval_env \<Rightarrow> canonical_approval \<Rightarrow> bool" where
  "approved_callback_is_deferred env r \<longleftrightarrow>
     cap_status r = ''approved'' \<and> cap_decided_by r = Some ''policy-auto'' \<and>
     (case ae_list_approvals env (cap_project_id r) of
        Inl _ \<Rightarrow> False
      | Inr rows \<Rightarrow> list_ex (\<lambda>a. stripped_text (jget a ''approval_id'') = cap_approval_id r) rows)"

definition deferred_policy_auto_approval_result ::
  "approval_env \<Rightarrow> canonical_approval \<Rightarrow> string \<Rightarrow> string \<Rightarrow> (action_result, approval_world) op" where
  "deferred_policy_auto_approval_result env r operator note' =
     op_bind (op_lift (ae_decide_approval env (cap_approval_id r) operator note')) (\<lambda>_.
     op_return
       \<lparr>ar_action_code = ''approve_approval'', ar_project_id = cap_project_id r,
        ar_approval_id = Some (cap_approval_id r),
        ar_idempotency_key = cap_idempotency_key r @ ''|approve|deferred-callback'',
        ar_action_status = ''completed'', ar_effect = ''approval_decided'',
        ar_reply_code = Some ''approval_result'',
        ar_message = ''deferred policy-auto approval callback confirmed'', ar_facts = [],
        ar_supervision = None\<rparr>)"

definition transition_approval :: "string \<Rightarrow> canonical_approval \<Rightarrow> string \<Rightarrow> string \<Rightarrow> string \<Rightarrow> canonical_approval" where
  "transition_approval now r status operator response_action =
     r\<lparr>cap_status := status, cap_decided_at := Some now, cap_decided_by := Some operator,
       cap_operator_notes := cap_operator_notes r @
         [''response='' @ response_action @ '' status='' @ status @ '' operator='' @ operator]\<rparr>"

definition response_refused :: "string \<Rightarrow> string \<Rightarrow> string option" where
  "response_refused status response_action =
     (if status = ''superseded'' then Some ''superseded approval cannot be approved, rejected, or executed''
      else if status = ''expired'' then Some ''expired approval cannot be approved, rejected, or executed''
      else if status = ''rejected'' \<and> response_action \<in> {''approve'', ''execute_action''}
        then Some ''rejected approval cannot be approved or executed''
      else if status = ''approved'' \<and> response_action = ''reject'' then Some ''approved approval cannot be rejected''
      else None)"

text \<open>The arguments of \<open>respond_to_canonical_approval\<close> and the record of the answer.\<close>

record approval_answer =
  an_envelope_id :: string
  an_response_action :: string
  an_client_request_id :: string
  an_operator :: string
  an_note :: string

definition answer_key :: "approval_answer \<Rightarrow> string" where
  "answer_key a =
     build_response_idempotency_key (an_envelope_id a) (an_response_action a) (an_client_request_id a)"

definition answer_record ::
  "(string \<Rightarrow> string) \<Rightarrow> string \<Rightarrow> approval_answer \<Rightarrow> canonical_approval \<Rightarrow> string \<Rightarrow> string list \<Rightarrow>
   action_result option \<Rightarrow> action_result option \<Rightarrow> approval_response" where
  "answer_record sha now a r status notes approval_result execution_result =
     \<lparr>rs_response_id = ''approval-response:'' @ short_hash sha (answer_key a),
      rs_envelope_id = an_envelope_id a, rs_approval_id = cap_approval_id r,
      rs_response_action = an_response_action a, rs_client_request_id = an_client_request_id a,
      rs_idempotency_key = answer_key a, rs_project_id = cap_project_id r, rs_approval_status = status,
      rs_operator = an_operator a, rs_note = an_note a, rs_created_at = now, rs_operator_notes = notes,
      rs_approval_result = approval_result, rs_execution_result = execution_result\<rparr>"

text \<open>The two events that a decided approval leaves in the session log.\<close>

definition record_answer ::
  "(string \<Rightarrow> string) \<Rightarrow> string \<Rightarrow> approval_answer \<Rightarrow> canonical_approval \<Rightarrow> string \<Rightarrow> action_result option \<Rightarrow>
   (session_event, session_store) op" where
  "record_answer sha now a r status execution =
     (let response_id = ''approval-response:'' @ short_hash sha (answer_key a);
          decision_id = cd_decision_id (cap_decision r);
          payload = [(''response_action'', JStr (an_response_action a)), (''approval_status'', JStr status),
            (''operator'', JStr (an_operator a)), (''note'', JStr (an_note a))] in
      op_bind (record_event sha now (if status = ''approved'' then ''approval_approved'' else ''approval_rejected'')
          (cap_project_id r) (cap_session_id r) (approval_correlation r) payload (Some decision_id)
          [(''approval_id'', cap_approval_id r), (''decision_id'', decision_id), (''response_id'', response_id),
           (''native_thread_id'', thread_text r)] None) (\<lambda>_.
      record_event sha now ''human_override_recorded'' (cap_project_id r) (cap_session_id r)
        (''corr:override:'' @ response_id)
        (payload @ [(''requested_action'', JStr (cap_requested_action r))] @
         (case execution of None \<Rightarrow> []
          | Some x \<Rightarrow> [(''execution_status'', JStr (ar_action_status x)), (''execution_effect'', JStr (ar_effect x))]))
        (Some response_id)
        [(''approval_id'', cap_approval_id r), (''decision_id'', decision_id), (''response_id'', response_id),
         (''envelope_id'', cap_envelope_id r), (''native_thread_id'', thread_text r)] None))"

text \<open>What the answer makes of an approval that is open to it: the status and the two results.\<close>

definition decide_approval ::
  "approval_env \<Rightarrow> approval_answer \<Rightarrow> canonical_approval \<Rightarrow>
   (string \<times> action_result option \<times> action_result option, approval_world) op" where
  "decide_approval env a r =
     (if an_response_action a = ''reject'' then
        op_bind (approval_action_result env r ''reject'' (an_operator a) (an_note a)) (\<lambda>x.
        op_return (''rejected'', Some x, None))
      else
        op_bind (if an_response_action a = ''approve'' \<and> approved_callback_is_deferred env r
                 then op_bind (deferred_policy_auto_approval_result env r (an_operator a) (an_note a)) (\<lambda>x. op_return (Some x))
                 else if cap_status r \<noteq> ''approved''
                 then op_bind (approval_action_result env r ''approve'' (an_operator a) (an_note a)) (\<lambda>x. op_return (Some x))
                 else op_return None) (\<lambda>x.
        op_bind (execute_registered_action_for_decision (run_action env) (cap_decision r) (an_operator a)) (\<lambda>y.
        op_return (''approved'', x, Some y))))"

definition finish_answer ::
  "(string \<Rightarrow> string) \<Rightarrow> string \<Rightarrow> approval_answer \<Rightarrow> canonical_approval \<Rightarrow>
   string \<times> action_result option \<times> action_result option \<Rightarrow> (approval_response, approval_world) op" where
  "finish_answer sha now a r decided =
     (case decided of (status, approval_result, execution_result) \<Rightarrow>
       (let r' = transition_approval now r status (an_operator a) (an_response_action a);
            notes = [''response='' @ an_response_action a @ '' operator='' @ an_operator a,
                     ''approval_status='' @ status] @
              (case execution_result of None \<Rightarrow> []
               | Some x \<Rightarrow> [''execution='' @ ar_action_status x @ '' effect='' @ ar_effect x]);
            response = answer_record sha now a r' status notes approval_result execution_result in
        op_bind (store_approval r') (\<lambda>_.
        op_bind (on_session_log (record_answer sha now a r' status execution_result)) (\<lambda>_.
        op_bind (enqueue_all (build_envelopes_for_approval_response sha r' response)) (\<lambda>_.
        op_return response)))))"

definition build_response ::
  "(string \<Rightarrow> string) \<Rightarrow> string \<Rightarrow> approval_env \<Rightarrow> approval_answer \<Rightarrow> (approval_response, approval_world) op" where
  "build_response sha now env a w =
     (case approval_get (an_envelope_id a) (aw_approvals w) of
        None \<Rightarrow> (Inl (PyKeyError (''unknown approval envelope: '' @ an_envelope_id a)), w)
      | Some r \<Rightarrow>
          (case response_refused (cap_status r) (an_response_action a) of
             Some e \<Rightarrow> (Inl (ValueError e), w)
           | None \<Rightarrow>
               if cap_status r = ''approved'' \<and> an_response_action a \<in> {''approve'', ''execute_action''} \<and>
                  \<not> (an_response_action a = ''approve'' \<and> approved_callback_is_deferred env r)
               then (Inr (answer_record sha now a r ''approved''
                      [''response='' @ an_response_action a @ '' operator='' @ an_operator a,
                       ''approval_status=approved'', ''replayed_existing_approved_response''] None None), w)
               else
                 op_bind (decide_approval env a r) (finish_answer sha now a r) w))"

definition set_responses :: "response_rows \<Rightarrow> approval_world \<Rightarrow> approval_world" where
  "set_responses rows w = w\<lparr>aw_responses := rows\<rparr>"

interpretation responses: keyed_rows aw_responses set_responses
  by unfold_locales (simp add: set_responses_def)

definition respond_to_canonical_approval ::
  "(string \<Rightarrow> string) \<Rightarrow> string \<Rightarrow> approval_env \<Rightarrow> approval_answer \<Rightarrow> (approval_response, approval_world) op" where
  "respond_to_canonical_approval sha now env a =
     (if an_response_action a \<notin> {''approve'', ''reject'', ''execute_action''}
      then op_raise (ValueError ''response_action must be approve, reject, or execute_action'')
      else create_or_get aw_responses set_responses (answer_key a) (build_response sha now env a))"

end
