(* ===== verification/ApprovalGuarantees.thy ===== *)
theory ApprovalGuarantees
  imports ApprovalFlow
begin

text \<open>
  What the approvals of the watchdog guarantee, over every sequence of materialising, superseding,
  reconciling, expiring and answering: what is closed stays closed, an approval id is pending once,
  and a closed approval is never acted on.
\<close>

section \<open>The rows\<close>

definition approval_statuses :: "string list" where
  "approval_statuses = [''pending'', ''approved'', ''rejected'', ''superseded'', ''expired'']"

definition rows_good :: "approval_rows \<Rightarrow> bool" where
  "rows_good rows \<longleftrightarrow> distinct (dict_keys rows) \<and>
     (\<forall>k r. map_of rows k = Some r \<longrightarrow> cap_envelope_id r = k) \<and>
     (\<forall>k r. map_of rows k = Some r \<longrightarrow> cap_status r \<in> set approval_statuses) \<and>
     (\<forall>k l r q. map_of rows k = Some r \<longrightarrow> map_of rows l = Some q \<longrightarrow> cap_status r = ''pending'' \<longrightarrow>
        cap_status q = ''pending'' \<longrightarrow> cap_approval_id r = cap_approval_id q \<longrightarrow> k = l)"

text \<open>What never changes, and what does not change once the approval is closed.\<close>

definition same_identity :: "canonical_approval \<Rightarrow> canonical_approval \<Rightarrow> bool" where
  "same_identity r q \<longleftrightarrow> cap_approval_id q = cap_approval_id r \<and> cap_envelope_id q = cap_envelope_id r \<and>
     cap_approval_token q = cap_approval_token r \<and> cap_created_at q = cap_created_at r"

definition same_matter :: "canonical_approval \<Rightarrow> canonical_approval \<Rightarrow> bool" where
  "same_matter r q \<longleftrightarrow> cap_requested_action q = cap_requested_action r \<and>
     cap_requested_action_args q = cap_requested_action_args r \<and> cap_decision q = cap_decision r \<and>
     cap_session_id q = cap_session_id r \<and> cap_project_id q = cap_project_id r"

definition evolves :: "approval_rows \<Rightarrow> approval_rows \<Rightarrow> bool" where
  "evolves rows rows' \<longleftrightarrow>
     (\<forall>k r. map_of rows k = Some r \<longrightarrow> (\<exists>q. map_of rows' k = Some q \<and> same_identity r q \<and>
        (cap_status r \<noteq> ''pending'' \<longrightarrow> cap_status q = cap_status r \<and> same_matter r q)))"

definition rows_step :: "approval_rows \<Rightarrow> approval_rows \<Rightarrow> bool" where
  "rows_step rows rows' \<longleftrightarrow> (rows_good rows \<longrightarrow> rows_good rows' \<and> evolves rows rows')"

lemma same_identity_simps [simp]: "same_identity r r"
  by (simp add: same_identity_def)

lemma same_matter_simps [simp]: "same_matter r r"
  by (simp add: same_matter_def)

lemma evolves_refl [simp]: "evolves rows rows"
  by (auto simp: evolves_def)

lemma evolves_trans: "evolves a b \<Longrightarrow> evolves b c \<Longrightarrow> evolves a c"
  unfolding evolves_def
proof (intro allI impI)
  fix k r
  assume ab: "\<forall>k r. map_of a k = Some r \<longrightarrow> (\<exists>q. map_of b k = Some q \<and> same_identity r q \<and>
      (cap_status r \<noteq> ''pending'' \<longrightarrow> cap_status q = cap_status r \<and> same_matter r q))"
    and bc: "\<forall>k r. map_of b k = Some r \<longrightarrow> (\<exists>q. map_of c k = Some q \<and> same_identity r q \<and>
      (cap_status r \<noteq> ''pending'' \<longrightarrow> cap_status q = cap_status r \<and> same_matter r q))"
    and "map_of a k = Some r"
  then obtain p where p: "map_of b k = Some p" "same_identity r p"
    "cap_status r \<noteq> ''pending'' \<longrightarrow> cap_status p = cap_status r \<and> same_matter r p" by blast
  from bc p(1) obtain q where q: "map_of c k = Some q" "same_identity p q"
    "cap_status p \<noteq> ''pending'' \<longrightarrow> cap_status q = cap_status p \<and> same_matter p q" by blast
  from p q show "\<exists>q. map_of c k = Some q \<and> same_identity r q \<and>
      (cap_status r \<noteq> ''pending'' \<longrightarrow> cap_status q = cap_status r \<and> same_matter r q)"
    by (intro exI [of _ q]) (auto simp: same_identity_def same_matter_def)
qed

lemma rows_step_refl [simp]: "rows_step rows rows"
  by (simp add: rows_step_def)

lemma rows_step_trans: "rows_step a b \<Longrightarrow> rows_step b c \<Longrightarrow> rows_step a c"
  by (auto simp: rows_step_def intro: evolves_trans)

text \<open>Closing a row, or changing who decided it.\<close>

definition closes :: "canonical_approval \<Rightarrow> canonical_approval \<Rightarrow> bool" where
  "closes r q \<longleftrightarrow> same_identity r q \<and> same_matter r q \<and>
     (cap_status q = cap_status r \<or> cap_status r = ''pending'' \<and> cap_status q \<in> set approval_statuses)"

lemma closes_step:
  assumes "map_of rows k = Some r" and "closes r q"
  shows "rows_step rows (dict_set k q rows)"
  unfolding rows_step_def
proof (intro impI conjI)
  assume good: "rows_good rows"
  then have k: "cap_envelope_id r = k" using assms(1) by (auto simp: rows_good_def)
  have q: "cap_envelope_id q = k" "cap_approval_id q = cap_approval_id r"
    "cap_status q = ''pending'' \<Longrightarrow> cap_status r = ''pending''"
    using assms(2) k by (auto simp: closes_def same_identity_def)
  show "rows_good (dict_set k q rows)"
    unfolding rows_good_def
  proof (intro conjI allI impI)
    show "distinct (dict_keys (dict_set k q rows))" using good by (simp add: rows_good_def)
    show "cap_envelope_id x = i" if "map_of (dict_set k q rows) i = Some x" for i x
      using that good q(1) by (auto simp: rows_good_def split: if_splits)
    show "cap_status x \<in> set approval_statuses" if "map_of (dict_set k q rows) i = Some x" for i x
      using that good assms by (auto simp: rows_good_def closes_def split: if_splits)
    fix i j x y
    assume "map_of (dict_set k q rows) i = Some x" "map_of (dict_set k q rows) j = Some y"
      and "cap_status x = ''pending''" "cap_status y = ''pending''" "cap_approval_id x = cap_approval_id y"
    with good assms(1) q(2,3) show "i = j" unfolding rows_good_def by (auto split: if_splits)
  qed
  show "evolves rows (dict_set k q rows)"
    using assms by (auto simp: evolves_def closes_def)
qed

lemma map_rows_lookup: "map_of (map (\<lambda>(k, r). (k, f r)) rows) k = map_option f (map_of rows k)"
  by (induction rows) auto

lemma closes_all_step:
  assumes "\<And>r. closes r (f r)"
  shows "rows_step rows (map (\<lambda>(k, r). (k, f r)) rows)"
  unfolding rows_step_def
proof (intro impI conjI)
  assume good: "rows_good rows"
  have keys: "dict_keys (map (\<lambda>(k, r). (k, f r)) rows) = dict_keys rows" by (induction rows) auto
  have f: "cap_envelope_id (f r) = cap_envelope_id r" "cap_approval_id (f r) = cap_approval_id r"
    "cap_status (f r) = ''pending'' \<Longrightarrow> cap_status r = ''pending''" for r
    using assms [of r] by (auto simp: closes_def same_identity_def)
  show "rows_good (map (\<lambda>(k, r). (k, f r)) rows)"
    unfolding rows_good_def keys map_rows_lookup
  proof (intro conjI allI impI)
    show "distinct (dict_keys rows)" using good by (simp add: rows_good_def)
    show "cap_envelope_id x = i" if "map_option f (map_of rows i) = Some x" for i x
      using that good f(1) by (auto simp: rows_good_def)
    show "cap_status x \<in> set approval_statuses" if "map_option f (map_of rows i) = Some x" for i x
      using that good assms by (auto simp: rows_good_def closes_def) metis
    fix i j x y
    assume "map_option f (map_of rows i) = Some x" "map_option f (map_of rows j) = Some y"
    then obtain u v where u: "map_of rows i = Some u" "x = f u" and v: "map_of rows j = Some v" "y = f v" by auto
    assume "cap_status x = ''pending''" "cap_status y = ''pending''" "cap_approval_id x = cap_approval_id y"
    then have "cap_status u = ''pending''" "cap_status v = ''pending''" "cap_approval_id u = cap_approval_id v"
      using u v f by auto
    with good u(1) v(1) show "i = j" unfolding rows_good_def by blast
  qed
  show "evolves rows (map (\<lambda>(k, r). (k, f r)) rows)"
    unfolding evolves_def map_rows_lookup using assms by (auto simp: closes_def)
qed

section \<open>The operations of the store\<close>

lemma superseded_closes: "cap_status r = ''pending'' \<Longrightarrow> closes r (superseded_approval now by' reason r)"
  by (simp add: closes_def superseded_approval_def same_identity_def same_matter_def approval_statuses_def)

lemma supersede_where_step: "rows_step rows (snd (supersede_where now by' reason_for rows))"
proof -
  define f where "f r = (if cap_status r \<noteq> ''pending'' then r
    else case reason_for r of None \<Rightarrow> r | Some x \<Rightarrow> superseded_approval now by' x r)" for r
  have "closes r (f r)" for r
    using superseded_closes [of r] by (auto simp: f_def closes_def split: option.splits)
  moreover have "snd (supersede_where now by' reason_for rows) = map (\<lambda>(k, r). (k, f r)) rows"
    by (auto simp: supersede_where_def Let_def f_def split: option.splits)
  ultimately show ?thesis by (simp add: closes_all_step)
qed

lemma res_map_length: "res_map f xs = Inr ys \<Longrightarrow> length ys = length xs"
  by (induction xs arbitrary: ys) (auto simp: res_bind_Inr_iff)

lemma res_map_mem: "res_map f xs = Inr ys \<Longrightarrow> y \<in> set ys \<Longrightarrow> \<exists>x \<in> set xs. f x = Inr y"
  by (induction xs arbitrary: ys) (auto simp: res_bind_Inr_iff)

lemma res_map_all: "res_map f xs = Inr ys \<Longrightarrow> x \<in> set xs \<Longrightarrow> \<exists>y \<in> set ys. f x = Inr y"
  by (induction xs arbitrary: ys) (auto simp: res_bind_Inr_iff)

lemma sorted_by_set: "sorted_by f xs = Inr ys \<Longrightarrow> set ys = set xs"
proof -
  assume "sorted_by f xs = Inr ys"
  then obtain ks where "res_map f xs = Inr ks" and ys: "ys = map snd (sort_key fst (zip ks xs))"
    by (auto simp: sorted_by_def res_bind_Inr_iff)
  then have "map snd (zip ks xs) = xs" by (simp add: res_map_length)
  then have "set (map snd (zip ks xs)) = set xs" by simp
  then show "set ys = set xs" by (simp add: ys)
qed

lemma foldl_max_pair_mem: "first_max p ps \<in> insert p (set ps)"
  unfolding first_max_def
  by (induction ps arbitrary: p) (auto split: if_splits)

lemma max_with_mem:
  assumes "max_with f xs = Inr (Some x)"
  shows "x \<in> set xs"
proof -
  from assms obtain ks where ks: "res_map f xs = Inr ks"
    and m: "(case zip ks xs of [] \<Rightarrow> None | p # ps \<Rightarrow> Some (snd (first_max p ps))) = Some x"
    by (auto simp: max_with_def res_bind_Inr_iff)
  from m obtain p ps where z: "zip ks xs = p # ps" "x = snd (first_max p ps)"
    by (auto split: list.splits)
  with foldl_max_pair_mem [of p ps] have "first_max p ps \<in> set (zip ks xs)" by simp
  with z(2) show ?thesis by (metis in_set_zipE prod.collapse)
qed

lemma max_with_some: "max_with f xs = Inr r \<Longrightarrow> xs \<noteq> [] \<Longrightarrow> r \<noteq> None"
proof -
  assume m: "max_with f xs = Inr r" and "xs \<noteq> []"
  then obtain ks where ks: "res_map f xs = Inr ks"
    and r: "r = (case zip ks xs of [] \<Rightarrow> None | p # ps \<Rightarrow> Some (snd (first_max p ps)))"
    by (auto simp: max_with_def res_bind_Inr_iff)
  from res_map_length [OF ks] \<open>xs \<noteq> []\<close> have "zip ks xs \<noteq> []" by (cases ks; cases xs) auto
  with r show "r \<noteq> None" by (cases "zip ks xs") auto
qed

lemma dict_values_lookup:
  "distinct (dict_keys rows) \<Longrightarrow> r \<in> set (dict_values rows) \<longleftrightarrow> (\<exists>k. map_of rows k = Some r)"
  by (force simp: image_iff dest: map_of_SomeD)

text \<open>The row that an incoming approval meets is its own envelope's, or a pending one of its approval id.\<close>

lemma find_existing_cases:
  assumes "find_existing_record_for_put rows incoming = Inr found"
  obtains (own) r where "found = Some r" "map_of rows (cap_envelope_id incoming) = Some r"
  | (other) r where "found = Some r" "r \<in> set (dict_values rows)" "cap_status r = ''pending''"
  | (none) "found = None" "map_of rows (cap_envelope_id incoming) = None"
      "\<forall>r \<in> set (dict_values rows). cap_status r = ''pending'' \<longrightarrow> cap_approval_id r \<noteq> cap_approval_id incoming"
proof (cases "map_of rows (cap_envelope_id incoming)")
  case (Some r)
  with assms have "found = Some r" by (simp add: find_existing_record_for_put_def)
  then show thesis using Some by (rule own)
next
  case None
  define ms where "ms = filter (\<lambda>r. cap_approval_id r = cap_approval_id incoming \<and> cap_status r = ''pending'')
      (dict_values rows)"
  show thesis
  proof (cases ms)
    case Nil
    with assms None none show thesis
      by (auto simp: find_existing_record_for_put_def ms_def filter_empty_conv)
  next
    case (Cons m ms')
    with assms None have m: "max_with pending_record_order ms = Inr found"
      by (simp add: find_existing_record_for_put_def flip: ms_def)
    with max_with_some [OF this] Cons obtain r where r: "found = Some r" by auto
    with m have "r \<in> set ms" by (auto dest: max_with_mem)
    with r other show thesis by (auto simp: ms_def)
  qed
qed

lemma approval_put_step:
  assumes put: "approval_put record rows = (res, rows')" and pend: "cap_status record = ''pending''"
  shows "rows_step rows rows'"
  unfolding rows_step_def
proof
  assume good: "rows_good rows"
  then have dist: "distinct (dict_keys rows)" by (simp add: rows_good_def)
  show "rows_good rows' \<and> evolves rows rows'"
  proof (cases "find_existing_record_for_put rows record")
    case (Inl e)
    with put good show ?thesis by (simp add: approval_put_def)
  next
    case (Inr found)
    have refresh: "rows_good rows' \<and> evolves rows rows'"
      if f: "found = Some r" and r: "map_of rows k = Some r" for r k
    proof (cases "should_refresh_pending_record r record")
      case False
      with put Inr f good show ?thesis by (auto simp: approval_put_def)
    next
      case True
      let ?q = "refresh_pending_record r record"
      have k: "cap_envelope_id r = k" using good r by (auto simp: rows_good_def)
      have q: "cap_envelope_id ?q = k" "cap_approval_id ?q = cap_approval_id r" "same_identity r ?q"
        by (simp_all add: refresh_pending_record_def same_identity_def k)
      have pr: "cap_status r = ''pending''"
        using True by (auto simp: should_refresh_pending_record_def Let_def split: if_splits)
      have rows': "rows' = dict_set k ?q rows"
        using put Inr f True q(1) by (simp add: approval_put_def Let_def)
      have "rows_good rows'"
        unfolding rows_good_def
      proof (intro conjI allI impI)
        show "distinct (dict_keys rows')" using dist by (simp add: rows')
        show "cap_envelope_id x = i" if "map_of rows' i = Some x" for i x
          using that good q(1) by (auto simp: rows' rows_good_def split: if_splits)
        show "cap_status x \<in> set approval_statuses" if "map_of rows' i = Some x" for i x
          using that good pend by (auto simp: rows' rows_good_def refresh_pending_record_def approval_statuses_def split: if_splits)
        fix i j x y
        assume "map_of rows' i = Some x" "map_of rows' j = Some y"
          and "cap_status x = ''pending''" "cap_status y = ''pending''" "cap_approval_id x = cap_approval_id y"
        with good r pr q(2) show "i = j" unfolding rows' rows_good_def by (auto split: if_splits)
      qed
      moreover have "evolves rows rows'" using r pr q(3) by (auto simp: rows' evolves_def)
      ultimately show ?thesis ..
    qed
    from Inr show ?thesis
    proof (cases rule: find_existing_cases)
      case (own r)
      then show ?thesis by (rule refresh)
    next
      case (other r)
      from other(2) obtain k where "map_of rows k = Some r" using dist by (auto simp: dict_values_lookup)
      with other(1) show ?thesis by (rule refresh)
    next
      case none
      then have rows': "rows' = dict_set (cap_envelope_id record) record rows"
        using put Inr by (simp add: approval_put_def)
      have new: "map_of rows i = Some x \<Longrightarrow> cap_status x = ''pending'' \<Longrightarrow>
          cap_approval_id x \<noteq> cap_approval_id record" for i x
        using none(3) dist by (auto simp: dict_values_lookup)
      have "rows_good rows'"
        unfolding rows_good_def
      proof (intro conjI allI impI)
        show "distinct (dict_keys rows')" using dist by (simp add: rows')
        show "cap_envelope_id x = i" if "map_of rows' i = Some x" for i x
          using that good by (auto simp: rows' rows_good_def split: if_splits)
        show "cap_status x \<in> set approval_statuses" if "map_of rows' i = Some x" for i x
          using that good pend by (auto simp: rows' rows_good_def approval_statuses_def split: if_splits)
        fix i j x y
        assume "map_of rows' i = Some x" "map_of rows' j = Some y"
          and "cap_status x = ''pending''" "cap_status y = ''pending''" "cap_approval_id x = cap_approval_id y"
        with good new show "i = j" unfolding rows' rows_good_def by (auto split: if_splits)
      qed
      moreover have "evolves rows rows'" using none(2) by (auto simp: rows' evolves_def)
      ultimately show ?thesis ..
    qed
  qed
qed

lemma close_fold_step:
  "(\<forall>x \<in> set xs. cap_status x = ''superseded'' \<and> (\<exists>r. map_of d (cap_envelope_id x) = Some r \<and> closes r x)) \<Longrightarrow>
     rows_step d (foldl (\<lambda>d x. dict_set (cap_envelope_id x) x d) d xs)"
proof (induction xs arbitrary: d)
  case (Cons x xs)
  from Cons.prems obtain r where r: "map_of d (cap_envelope_id x) = Some r" "closes r x"
    and st: "cap_status x = ''superseded''" by auto
  let ?d = "dict_set (cap_envelope_id x) x d"
  have "\<exists>q. map_of ?d (cap_envelope_id y) = Some q \<and> closes q y" if "y \<in> set xs" for y
  proof -
    from Cons.prems that obtain q where q: "map_of d (cap_envelope_id y) = Some q" "closes q y"
      "cap_status y = ''superseded''" by auto
    show ?thesis
    proof (cases "cap_envelope_id y = cap_envelope_id x")
      case True
      with q r have "closes x y" using st by (auto simp: closes_def same_identity_def same_matter_def)
      with True show ?thesis by simp
    next
      case False
      with q show ?thesis by simp
    qed
  qed
  with Cons.prems have "rows_step ?d (foldl (\<lambda>d x. dict_set (cap_envelope_id x) x d) ?d xs)"
    by (intro Cons.IH) auto
  with closes_step [OF r] show ?case by (simp add: rows_step_trans)
qed simp

lemma group_by_mem: "(k, rs) \<in> set (group_by f xs) \<Longrightarrow> r \<in> set rs \<Longrightarrow> r \<in> set xs \<and> f r = k"
  by (induction f xs arbitrary: k rs rule: group_by.induct) auto

lemma keep_last_mem:
  assumes "keep_last now by' note_for rs = Inr us" and "u \<in> set us"
  shows "\<exists>r reason. r \<in> set rs \<and> u = superseded_approval now by' reason r"
proof (cases "length rs < 2")
  case False
  with assms(1) obtain ordered where o: "sorted_by pending_record_order rs = Inr ordered"
    and us: "us = map (\<lambda>r. superseded_approval now by' (note_for r (last ordered)) r) (butlast ordered)"
    by (auto simp: keep_last_def res_bind_Inr_iff)
  with assms(2) obtain r where "r \<in> set (butlast ordered)"
    "u = superseded_approval now by' (note_for r (last ordered)) r" by auto
  with sorted_by_set [OF o] in_set_butlastD show ?thesis by fastforce
qed (use assms in \<open>simp add: keep_last_def\<close>)

lemma reconcile_duplicates_step: "rows_step rows (snd (reconcile_duplicates now by' key note_for rows))"
proof -
  let ?groups = "group_by key (filter (\<lambda>r. cap_status r = ''pending'') (dict_values rows))"
  show ?thesis
  proof (cases "res_map (\<lambda>(_, rs). keep_last now by' note_for rs) ?groups")
    case (Inl e)
    then show ?thesis by (simp add: reconcile_duplicates_def)
  next
    case (Inr updated)
    have rows': "snd (reconcile_duplicates now by' key note_for rows) =
        foldl (\<lambda>d x. dict_set (cap_envelope_id x) x d) rows (concat updated)"
      by (simp add: reconcile_duplicates_def Inr)
    show ?thesis
    proof (cases "rows_good rows")
      case True
      have "cap_status x = ''superseded'' \<and> (\<exists>r. map_of rows (cap_envelope_id x) = Some r \<and> closes r x)"
        if x: "x \<in> set (concat updated)" for x
      proof -
        from x obtain us where us: "us \<in> set updated" "x \<in> set us" by auto
        from res_map_mem [OF Inr us(1)] obtain k rs where g: "(k, rs) \<in> set ?groups"
          and kl: "keep_last now by' note_for rs = Inr us" by auto
        from keep_last_mem [OF kl us(2)] obtain r reason where r: "r \<in> set rs"
          and xr: "x = superseded_approval now by' reason r" by auto
        from group_by_mem [OF g r] have "r \<in> set (dict_values rows)" and p: "cap_status r = ''pending''" by auto
        then obtain k' where k': "map_of rows k' = Some r" using True
          by (auto simp: dict_values_lookup rows_good_def)
        moreover have "cap_envelope_id x = k'" using k' True
          by (auto simp: xr superseded_approval_def rows_good_def)
        ultimately show ?thesis using superseded_closes [OF p] by (auto simp: xr superseded_approval_def)
      qed
      then show ?thesis unfolding rows' by (intro close_fold_step) blast
    qed (simp add: rows_step_def)
  qed
qed

section \<open>The operations of the flow\<close>

definition world_step :: "approval_world \<Rightarrow> approval_world \<Rightarrow> bool" where
  "world_step w w' \<longleftrightarrow> rows_step (aw_approvals w) (aw_approvals w')"

lemma world_step_refl: "reflp world_step"
  by (simp add: reflp_def world_step_def)

lemma world_step_trans: "transp world_step"
  by (auto simp: transp_def world_step_def intro: rows_step_trans)

lemmas world_bind = op_respects_bind [OF world_step_trans]
lemmas world_trivial = op_respects_trivial [OF world_step_refl]

text \<open>What does not touch the store of approvals.\<close>

definition leaves_rows :: "approval_world \<Rightarrow> approval_world \<Rightarrow> bool" where
  "leaves_rows w w' \<longleftrightarrow> aw_approvals w' = aw_approvals w"

lemma leaves_rows_rel: "reflp leaves_rows" "transp leaves_rows"
  by (auto simp: leaves_rows_def reflp_def transp_def)

lemmas leaves_bind = op_respects_bind [OF leaves_rows_rel(2)]
lemmas leaves_trivial = op_respects_trivial [OF leaves_rows_rel(1)]

lemma leaves_world: "op_respects leaves_rows m \<Longrightarrow> op_respects world_step m"
  by (auto simp: op_respects_def leaves_rows_def world_step_def)

lemma on_session_log_leaves: "op_respects leaves_rows (on_session_log m)"
  by (auto simp: op_respects_def on_session_log_def leaves_rows_def split: option.splits prod.splits)

lemma run_action_leaves: "op_respects leaves_rows (run_action env a)"
  by (auto simp: op_respects_def run_action_def leaves_rows_def split: prod.splits)

lemma enqueue_all_leaves: "op_respects leaves_rows (enqueue_all es)"
  by (auto simp: op_respects_def enqueue_all_def leaves_rows_def split: option.splits sum.splits)

lemma on_approvals_step:
  assumes "\<And>rows. rows_step rows (snd (m rows))"
  shows "op_respects world_step (on_approvals m)"
  using assms by (auto simp: op_respects_def on_approvals_def world_step_def split: prod.splits) (metis snd_conv)

lemma approval_action_leaves: "op_respects leaves_rows (approval_action_result env r ra operator n)"
  unfolding approval_action_result_def
  by (auto intro!: leaves_bind leaves_trivial run_action_leaves)

lemma decide_approval_leaves: "op_respects leaves_rows (decide_approval env a r)"
  unfolding decide_approval_def deferred_policy_auto_approval_result_def execute_registered_action_for_decision_def
  by (auto intro!: leaves_bind leaves_trivial run_action_leaves approval_action_leaves)

lemma materialize_step: "op_respects world_step (materialize_canonical_approval sha now d)"
  unfolding op_respects_def
proof
  fix w
  have built: "cap_status built = ''pending''" if "build_canonical_approval_record sha now d = Inr built" for built
    using that by (auto simp: build_canonical_approval_record_def split: if_splits prod.splits)
  show "world_step w (snd (materialize_canonical_approval sha now d w))"
  proof (cases "build_canonical_approval_record sha now d")
    case (Inl e)
    then show ?thesis by (simp add: materialize_canonical_approval_def world_step_def)
  next
    case (Inr b)
    have "rows_step rows (snd (approval_put b rows))" for rows
      by (rule approval_put_step [OF prod.collapse [symmetric] built [OF Inr]])
    then have "op_respects world_step (op_bind (on_approvals (approval_put b)) (\<lambda>r.
        op_bind (on_session_log (record_approval_requested sha now r)) (\<lambda>_.
        op_bind (enqueue_all (res_bind (build_approval_envelope_for_record r) (\<lambda>e. Inr [e]))) (\<lambda>_.
        op_return r))))"
      by (intro world_bind on_approvals_step leaves_world [OF on_session_log_leaves]
          leaves_world [OF enqueue_all_leaves] world_trivial)
    then show ?thesis by (simp add: materialize_canonical_approval_def Inr op_respects_def)
  qed
qed

text \<open>Storing a closed version of a row that is still the one that was read.\<close>

lemma update_row_step:
  assumes "map_of (aw_approvals w) k = Some r" and "closes r q" and "cap_envelope_id q = k"
  shows "world_step w (snd (store_approval q w))"
  using closes_step [OF assms(1,2)] assms(3) by (simp add: world_step_def store_approval_def on_approvals_def approval_update_def)

lemma op_respects_at: "op_respects R m \<Longrightarrow> R w (snd (m w))"
  by (simp add: op_respects_def)

lemma bind_at:
  assumes "transp R" and "R w (snd (m w))" and "\<And>a w'. m w = (Inr a, w') \<Longrightarrow> R w' (snd (f a w'))"
  shows "R w (snd (op_bind m f w))"
proof (cases "m w")
  case (Pair r w')
  with assms(2) have 1: "R w w'" by simp
  show ?thesis
  proof (cases r)
    case (Inl e)
    with Pair 1 show ?thesis by simp
  next
    case (Inr a)
    with Pair assms(3) have "R w' (snd (f a w'))" by simp
    with 1 show ?thesis using Pair Inr by (auto intro: transpD [OF assms(1)])
  qed
qed

lemma world_refl_at [simp]: "world_step w w"
  by (simp add: world_step_def)

lemma expire_approval_step: "world_step w (snd (expire_approval sha now window shown by' reason k w))"
proof (cases "map_of (aw_approvals w) k")
  case None
  then show ?thesis by (simp add: expire_approval_def approval_get_def)
next
  case (Some r)
  show ?thesis
  proof (cases "cap_status r = ''pending'' \<and> rows_good (aw_approvals w)")
    case False
    show ?thesis
    proof (cases "cap_status r = ''pending''")
      case False
      with Some show ?thesis by (simp add: expire_approval_def approval_get_def)
    next
      case True
      with False show ?thesis by (simp add: world_step_def rows_step_def)
    qed
  next
    case True
    then have k: "cap_envelope_id r = k" using Some by (auto simp: rows_good_def)
    define body where "body created = (case created of
              None \<Rightarrow> op_return None
            | Some c \<Rightarrow>
                op_bind (op_lift (astimezone_utc (c + window))) (\<lambda>expires.
                if expires > now then op_return None
                else (let at = utc_isoformat expires; r' = expired_approval shown by' at r in
                  op_bind (on_session_log (record_approval_expired sha [] (cap_project_id r) (cap_session_id r)
                      (cap_approval_id r) (cd_decision_id (cap_decision r)) (cap_envelope_id r)
                      (approval_effective_thread r) (cap_requested_action r) reason
                      (Some (''approval-expiration:'' @ cap_envelope_id r @ '':'' @ at)) (Some at))) (\<lambda>_.
                  op_bind (store_approval r') (\<lambda>_.
                  op_return (Some r'))))))" for created
    have body: "world_step w (snd (body created w))" for created
    proof (cases created)
      case None
      then show ?thesis by (simp add: body_def)
    next
      case (Some c)
      show ?thesis
      proof (cases "astimezone_utc (c + window)")
        case (Inl e)
        then show ?thesis by (simp add: body_def Some)
      next
        case (Inr expires)
        let ?q = "expired_approval shown by' (utc_isoformat expires) r"
        have q: "closes r ?q" "cap_envelope_id ?q = k" using True k
          by (simp_all add: closes_def expired_approval_def same_identity_def same_matter_def approval_statuses_def)
        have upd: "world_step w' (snd (store_approval ?q w'))"
          if "aw_approvals w' = aw_approvals w" for w'
          using update_row_step [OF _ q, of w'] \<open>map_of (aw_approvals w) k = Some r\<close> that by simp
        show ?thesis
          unfolding body_def Some option.case
          by (simp add: Inr Let_def)
            (intro impI bind_at [OF world_step_trans] op_respects_at [OF leaves_world [OF on_session_log_leaves]] upd
              op_respects_at [OF world_trivial(1)],
              simp add: on_session_log_def split: option.splits prod.splits)
      qed
    qed
    have "expire_approval sha now window shown by' reason k w =
        op_bind (op_lift (parse_utc_timestamp (Some (cap_created_at r)))) body w"
      using Some True by (simp add: expire_approval_def approval_get_def body_def [abs_def])
    then show ?thesis using body
      by (cases "parse_utc_timestamp (Some (cap_created_at r))") simp_all
  qed
qed

lemma expire_each_step:
  assumes "\<And>k. op_respects world_step (step k)"
  shows "op_respects world_step (expire_each step rs)"
proof (induction rs)
  case (Cons r rs)
  then show ?case by (auto intro!: world_bind world_trivial assms)
qed (simp add: op_respects_def)

lemma expire_step: "op_respects world_step (expire_pending_canonical_approvals sha now window shown by' reason)"
  unfolding op_respects_def
proof
  fix w
  have "op_respects world_step (expire_approval sha now window shown by' reason k)" for k
    by (simp add: op_respects_def expire_approval_step)
  from expire_each_step [OF this] show
    "world_step w (snd (expire_pending_canonical_approvals sha now window shown by' reason w))"
    by (cases "sorted_by pending_record_order
         (filter (\<lambda>r. cap_status r = ''pending'') (approval_list_records (aw_approvals w)))")
      (auto simp: expire_pending_canonical_approvals_def op_respects_def)
qed

section \<open>The answer\<close>

lemma decide_approval_status:
  assumes "decide_approval env a r w = (Inr (status, x, y), w')"
  shows "status = (if an_response_action a = ''reject'' then ''rejected'' else ''approved'')"
  using assms by (auto simp: decide_approval_def op_bind_split split: if_splits)

lemma build_response_step:
  assumes act: "an_response_action a \<in> {''approve'', ''reject'', ''execute_action''}"
  shows "world_step w (snd (build_response sha now env a w))"
proof (cases "map_of (aw_approvals w) (an_envelope_id a)")
  case None
  then show ?thesis by (simp add: build_response_def approval_get_def)
next
  case (Some r)
  show ?thesis
  proof (cases "response_refused (cap_status r) (an_response_action a)")
    case (Some e)
    with \<open>map_of (aw_approvals w) (an_envelope_id a) = Some r\<close> show ?thesis
      by (simp add: build_response_def approval_get_def)
  next
    case None
    show ?thesis
    proof (cases "rows_good (aw_approvals w)")
      case True
      then have k: "cap_envelope_id r = an_envelope_id a" and st: "cap_status r \<in> set approval_statuses"
        using Some by (auto simp: rows_good_def)
      have q: "closes r (transition_approval now r status (an_operator a) (an_response_action a)) \<and>
          cap_envelope_id (transition_approval now r status (an_operator a) (an_response_action a)) = an_envelope_id a"
        if "decide_approval env a r w = (Inr (status, x, y), w')" for status x y w'
        using decide_approval_status [OF that] None st act k
        by (auto simp: closes_def transition_approval_def same_identity_def same_matter_def approval_statuses_def
            response_refused_def split: if_splits)
      have upd: "world_step w' (snd (store_approval
            (transition_approval now r status (an_operator a) (an_response_action a)) w'))"
        if d: "decide_approval env a r w = (Inr (status, x, y), w')" for status x y w'
      proof -
        have "aw_approvals w' = aw_approvals w"
          using op_respectsD [OF decide_approval_leaves d] by (simp add: leaves_rows_def)
        with Some q [OF d] show ?thesis
          by (intro update_row_step [where r = r and k = "an_envelope_id a"]) simp_all
      qed
      have finish: "world_step w' (snd (finish_answer sha now a r d w'))"
        if "decide_approval env a r w = (Inr d, w')" for d w'
        using that
        by (cases d)
          (auto simp: finish_answer_def Let_def dest: upd
            intro!: bind_at [OF world_step_trans] op_respects_at [OF leaves_world [OF on_session_log_leaves]]
              op_respects_at [OF leaves_world [OF enqueue_all_leaves]] op_respects_at [OF world_trivial(1)])
      have "world_step w (snd (op_bind (decide_approval env a r) (finish_answer sha now a r) w))"
        by (rule bind_at [OF world_step_trans op_respects_at [OF leaves_world [OF decide_approval_leaves]] finish])
      then show ?thesis using Some None by (simp add: build_response_def approval_get_def)
    qed (simp add: world_step_def rows_step_def)
  qed
qed

lemma respond_step: "op_respects world_step (respond_to_canonical_approval sha now env a)"
  unfolding op_respects_def
proof
  fix w
  show "world_step w (snd (respond_to_canonical_approval sha now env a w))"
  proof (cases "an_response_action a \<in> {''approve'', ''reject'', ''execute_action''} \<and>
      map_of (aw_responses w) (answer_key a) = None")
    case True
    then have "world_step w (snd (build_response sha now env a w))" by (blast intro: build_response_step)
    with True show ?thesis
      by (cases "build_response sha now env a w"; cases "fst (build_response sha now env a w)")
        (auto simp: respond_to_canonical_approval_def create_or_get_def set_responses_def world_step_def)
  next
    case False
    then show ?thesis
      by (auto simp: respond_to_canonical_approval_def create_or_get_def split: option.splits)
  qed
qed

lemma run_action_effect:
  "run_action env a w = (y, w') \<Longrightarrow> aw_actions w' = aw_actions w @ [a] \<and> aw_approvals w' = aw_approvals w"
  by (auto simp: run_action_def split: prod.splits)

lemma finish_answer_effect:
  assumes "finish_answer sha now a r (st, ax, ex) w = (Inr x, w')"
  shows "aw_approvals w' = dict_set (cap_envelope_id r)
      (transition_approval now r st (an_operator a) (an_response_action a)) (aw_approvals w) \<and>
    aw_actions w' = aw_actions w \<and> rs_approval_status x = st"
proof -
  have ses: "aw_approvals v' = aw_approvals v \<and> aw_actions v' = aw_actions v"
    if "on_session_log m v = (y, v')" for m :: "(session_event, session_store) op" and y v v'
    using that by (auto simp: on_session_log_def split: option.splits prod.splits)
  have enq: "aw_approvals v' = aw_approvals v \<and> aw_actions v' = aw_actions v"
    if "enqueue_all es v = (y, v')" for es y v v'
    using that by (auto simp: enqueue_all_def split: option.splits sum.splits)
  let ?q = "transition_approval now r st (an_operator a) (an_response_action a)"
  have k: "cap_envelope_id ?q = cap_envelope_id r" by (simp add: transition_approval_def)
  from assms obtain m es resp v1 v2 u1 u2 u3 where 1: "store_approval ?q w = (Inr u1, v1)"
    and 2: "on_session_log (m :: (session_event, session_store) op) v1 = (Inr u2, v2)"
    and 3: "enqueue_all es v2 = (Inr u3, w')" and 4: "x = resp" "rs_approval_status resp = st"
    by (auto simp: finish_answer_def Let_def op_bind_split answer_record_def)
  from 1 have "aw_approvals v1 = dict_set (cap_envelope_id r) ?q (aw_approvals w) \<and> aw_actions v1 = aw_actions w"
    by (auto simp: store_approval_def on_approvals_def approval_update_def k)
  with ses [OF 2] enq [OF 3] 4 show ?thesis by simp
qed

section \<open>Every sequence of operations\<close>

inductive approval_step :: "approval_world \<Rightarrow> approval_world \<Rightarrow> bool" where
  materialize: "approval_step w (snd (materialize_canonical_approval sha now d w))"
| supersede: "approval_step w (w\<lparr>aw_approvals := snd (supersede_pending_records now session_id version reason
      project_id decided_by (aw_approvals w))\<rparr>)"
| transition: "approval_step w (w\<lparr>aw_approvals := snd (supersede_pending_records_for_goal_contract_transition now
      session_id project_id' active reason decided_by (aw_approvals w))\<rparr>)"
| reconcile: "approval_step w (w\<lparr>aw_approvals := snd (reconcile_pending_records_against_decisions now decided_by
      decisions (aw_approvals w))\<rparr>)"
| same_id: "approval_step w (w\<lparr>aw_approvals := snd (reconcile_duplicate_pending_records_by_approval_id now
      decided_by (aw_approvals w))\<rparr>)"
| same_action: "approval_step w (w\<lparr>aw_approvals := snd (reconcile_duplicate_pending_records_by_action_signature now
      decided_by (aw_approvals w))\<rparr>)"
| expire: "approval_step w (snd (expire_pending_canonical_approvals sha at window shown decided_by reason w))"
| respond: "approval_step w (snd (respond_to_canonical_approval sha now env a w))"

lemma approval_step_world: "approval_step w w' \<Longrightarrow> world_step w w'"
proof (induction rule: approval_step.induct)
  case (materialize w sha now d)
  show ?case by (rule op_respects_at [OF materialize_step])
next
  case (expire w sha at window shown decided_by reason)
  show ?case by (rule op_respects_at [OF expire_step])
next
  case (respond w sha now env a)
  show ?case by (rule op_respects_at [OF respond_step])
qed (simp_all add: world_step_def supersede_pending_records_def supersede_where_step Let_def
    supersede_pending_records_for_goal_contract_transition_def reconcile_pending_records_against_decisions_def
    reconcile_duplicate_pending_records_by_approval_id_def reconcile_duplicates_step
    reconcile_duplicate_pending_records_by_action_signature_def)

lemma approval_steps_world: "approval_step\<^sup>*\<^sup>* w w' \<Longrightarrow> world_step w w'"
  by (induction rule: rtranclp_induct)
    (auto intro: transpD [OF world_step_trans] approval_step_world)

lemma rows_good_empty: "rows_good []"
  by (simp add: rows_good_def)

section \<open>Answers are kept\<close>

definition keeps_answers :: "approval_world \<Rightarrow> approval_world \<Rightarrow> bool" where
  "keeps_answers w w' \<longleftrightarrow> (\<forall>k x. map_of (aw_responses w) k = Some x \<longrightarrow> map_of (aw_responses w') k = Some x)"

lemma keeps_answers_refl [simp]: "keeps_answers w w"
  by (simp add: keeps_answers_def)

lemma keeps_answers_trans: "keeps_answers a b \<Longrightarrow> keeps_answers b c \<Longrightarrow> keeps_answers a c"
  by (auto simp: keeps_answers_def)

lemma answers_bind:
  assumes "keeps_answers w (snd (m w))" and "\<And>a w'. keeps_answers w' (snd (f a w'))"
  shows "keeps_answers w (snd (op_bind m f w))"
  using assms by (auto simp: op_bind_def split: prod.splits sum.splits) (metis keeps_answers_trans snd_conv)

lemma parts_keep_answers:
  "keeps_answers w (snd (on_approvals m w))"
  "keeps_answers w (snd (on_session_log m' w))"
  "keeps_answers w (snd (run_action env a w))"
  "keeps_answers w (snd (enqueue_all es w))"
  "keeps_answers w (snd (store_approval q w))"
  by (auto simp: keeps_answers_def on_approvals_def on_session_log_def run_action_def
      enqueue_all_def store_approval_def split: option.splits sum.splits prod.splits)

lemmas answers_intros = answers_bind parts_keep_answers

lemma expire_approval_keeps_answers: "keeps_answers w (snd (expire_approval sha now window shown by' reason k w))"
  unfolding expire_approval_def
  by (auto simp: Let_def split: option.splits intro!: answers_intros)

lemma expire_each_keeps_answers:
  assumes "\<And>k w. keeps_answers w (snd (step k w))"
  shows "keeps_answers w (snd (expire_each step rs w))"
  by (induction rs arbitrary: w) (auto intro!: answers_intros assms)

lemma approval_action_keeps_answers: "keeps_answers w (snd (approval_action_result env r ra operator n w))"
  by (auto simp: approval_action_result_def intro!: answers_intros)

lemma decide_keeps_answers: "keeps_answers w (snd (decide_approval env a r w))"
  unfolding decide_approval_def deferred_policy_auto_approval_result_def execute_registered_action_for_decision_def
  by (auto intro!: answers_intros approval_action_keeps_answers)

lemma build_response_keeps_answers: "keeps_answers w (snd (build_response sha now env a w))"
proof -
  have "keeps_answers w' (snd (finish_answer sha now a r d w'))" for r d w'
    by (cases d) (auto simp: finish_answer_def Let_def intro!: answers_intros)
  then show ?thesis
    unfolding build_response_def
    by (auto split: option.splits intro!: answers_intros decide_keeps_answers)
qed

lemma respond_keeps_answers: "keeps_answers w (snd (respond_to_canonical_approval sha now env a w))"
  using build_response_keeps_answers [of w sha now env a]
  by (cases "build_response sha now env a w"; cases "fst (build_response sha now env a w)")
    (auto simp: respond_to_canonical_approval_def create_or_get_def set_responses_def keeps_answers_def
      split: option.splits)

lemma approval_step_keeps_answers: "approval_step w w' \<Longrightarrow> keeps_answers w w'"
proof (induction rule: approval_step.induct)
  case (materialize w sha now d)
  show ?case unfolding materialize_canonical_approval_def by (auto intro!: answers_intros)
next
  case (expire w sha at window shown decided_by reason)
  show ?case
    unfolding expire_pending_canonical_approvals_def
    by (auto intro!: answers_bind expire_each_keeps_answers expire_approval_keeps_answers)
next
  case (respond w sha now env a)
  show ?case by (rule respond_keeps_answers)
qed (simp_all add: keeps_answers_def)

lemma approval_steps_keep_answers: "approval_step\<^sup>*\<^sup>* w w' \<Longrightarrow> keeps_answers w w'"
  by (induction rule: rtranclp_induct) (auto intro: keeps_answers_trans approval_step_keeps_answers)

section \<open>What expires\<close>

definition due :: "int \<Rightarrow> int \<Rightarrow> canonical_approval \<Rightarrow> bool" where
  "due now window r \<longleftrightarrow> cap_status r = ''pending'' \<and>
     (\<exists>c. parse_utc_timestamp (Some (cap_created_at r)) = Inr (Some c) \<and> c + window \<le> now)"

lemma expire_approval_effect:
  assumes "expire_approval sha now window shown by' reason k w = (Inr x, w')" and "rows_good (aw_approvals w)"
  shows "(case map_of (aw_approvals w) k of
      Some r \<Rightarrow> if due now window r
        then \<exists>q. aw_approvals w' = dict_set k q (aw_approvals w) \<and> cap_status q = ''expired''
        else aw_approvals w' = aw_approvals w
    | None \<Rightarrow> aw_approvals w' = aw_approvals w)"
proof (cases "map_of (aw_approvals w) k")
  case None
  with assms(1) show ?thesis by (simp add: expire_approval_def approval_get_def)
next
  case (Some r)
  then have k: "cap_envelope_id r = k" using assms(2) by (auto simp: rows_good_def)
  have same: "aw_approvals w2 = aw_approvals w1" if "on_session_log m w1 = (res, w2)" for m :: "(session_event, session_store) op" and res w1 w2
    using that by (auto simp: on_session_log_def split: option.splits prod.splits)
  show ?thesis
  proof (cases "cap_status r = ''pending''")
    case False
    with Some assms(1) show ?thesis by (simp add: expire_approval_def approval_get_def due_def)
  next
    case True
    with Some assms(1) obtain created where created: "parse_utc_timestamp (Some (cap_created_at r)) = Inr created"
      by (cases "parse_utc_timestamp (Some (cap_created_at r))") (auto simp: expire_approval_def approval_get_def)
    show ?thesis
    proof (cases created)
      case None
      with created Some True assms(1) show ?thesis by (simp add: expire_approval_def approval_get_def due_def)
    next
      case (Some c)
      show ?thesis
      proof (cases "c + window > now")
        case True
        with created Some \<open>map_of (aw_approvals w) k = Some r\<close> \<open>cap_status r = ''pending''\<close> assms(1) show ?thesis
          by (auto simp: expire_approval_def approval_get_def due_def astimezone_utc_def split: if_splits)
      next
        case False
        with created Some \<open>map_of (aw_approvals w) k = Some r\<close> \<open>cap_status r = ''pending''\<close> assms(1) k show ?thesis
          by (auto simp: expire_approval_def approval_get_def due_def astimezone_utc_def Let_def op_bind_split
              store_approval_def on_approvals_def approval_update_def expired_approval_def
              dest!: same split: if_splits)
      qed
    qed
  qed
qed

lemma expire_each_effect:
  assumes "expire_each (expire_approval sha now window shown by' reason) rs w = (Inr xs, w')" and "rows_good (aw_approvals w)"
  shows "(\<forall>k. map_of (aw_approvals w') k = map_of (aw_approvals w) k \<or>
      (\<exists>r q. map_of (aw_approvals w) k = Some r \<and> due now window r \<and> map_of (aw_approvals w') k = Some q \<and>
         cap_status q = ''expired'')) \<and>
    (\<forall>r \<in> set rs. \<forall>q. map_of (aw_approvals w') (cap_envelope_id r) = Some q \<longrightarrow> \<not> due now window q)"
  using assms
proof (induction rs arbitrary: w xs)
  case (Cons r rs)
  let ?k = "cap_envelope_id r" and ?step = "expire_approval sha now window shown by' reason"
  from Cons.prems(1) obtain x w1 ys where one: "?step ?k w = (Inr x, w1)" and rest: "expire_each ?step rs w1 = (Inr ys, w')"
    by (auto simp: op_bind_split)
  have good1: "rows_good (aw_approvals w1)"
    using expire_approval_step [of w sha now window shown by' reason ?k] one Cons.prems(2)
    by (simp add: world_step_def rows_step_def)
  note IH = Cons.IH [OF rest good1]
  have eff: "map_of (aw_approvals w1) k = map_of (aw_approvals w) k \<or>
      (\<exists>u q. map_of (aw_approvals w) k = Some u \<and> due now window u \<and> map_of (aw_approvals w1) k = Some q \<and>
         cap_status q = ''expired'')" for k
    using expire_approval_effect [OF one Cons.prems(2)] by (auto split: option.splits if_splits)
  have over: "\<not> due now window q" if "map_of (aw_approvals w1) ?k = Some q" for q
    using expire_approval_effect [OF one Cons.prems(2)] that by (auto simp: due_def split: option.splits if_splits)
  have exp: "\<not> due now window q" if "cap_status q = ''expired''" for q using that by (simp add: due_def)
  show ?case
  proof (intro conjI allI ballI impI)
    fix k
    show "map_of (aw_approvals w') k = map_of (aw_approvals w) k \<or>
      (\<exists>r q. map_of (aw_approvals w) k = Some r \<and> due now window r \<and> map_of (aw_approvals w') k = Some q \<and>
         cap_status q = ''expired'')"
      using eff [of k] IH [THEN conjunct1, rule_format, of k] exp by (metis option.inject)
  next
    fix u q
    assume u: "u \<in> set (r # rs)" and q: "map_of (aw_approvals w') (cap_envelope_id u) = Some q"
    show "\<not> due now window q"
    proof (cases "u \<in> set rs")
      case True
      with IH q show ?thesis by blast
    next
      case False
      with u have "u = r" by simp
      with IH [THEN conjunct1, rule_format, of ?k] q over exp show ?thesis by (metis option.inject)
    qed
  qed
qed simp

end
