(* ===== verification/ApprovalProperties.thy ===== *)
theory ApprovalProperties
  imports ApprovalGuarantees
begin

text \<open>
  The properties of the approval flow of \<^verbatim>\<open>src/watchdog/services/approvals/service.py\<close>, each with a
  run at which it applies.
\<close>

section \<open>An example\<close>

definition sample_decision :: "string \<Rightarrow> canonical_decision" where
  "sample_decision version =
     \<lparr>cd_decision_id = ''decision:1'', cd_decision_key = ''key'', cd_session_id = ''s'', cd_project_id = ''p'',
      cd_thread_id = ''s'', cd_native_thread_id = None, cd_approval_id = Some ''a1'',
      cd_action_ref = ''continue_session'', cd_trigger = ''tick'', cd_brain_intent = None,
      cd_runtime_disposition = None, cd_decision_result = require_user_decision, cd_risk_class = ''human_gate'',
      cd_decision_reason = ''needs a person'', cd_matched_policy_rules = [], cd_why_not_escalated = None,
      cd_why_escalated = None, cd_uncertainty_reasons = [], cd_policy_version = ''policy-v1'',
      cd_fact_snapshot_version = version, cd_idempotency_key = ''key'', cd_created_at = ''2024-01-01T00:00:00Z'',
      cd_operator_notes = [], cd_evidence = []\<rparr>"

definition sample_world :: approval_world where
  "sample_world =
     \<lparr>aw_approvals = [], aw_responses = [], aw_session = None, aw_outbox = None, aw_actions = []\<rparr>"

definition pending_world :: approval_world where
  "pending_world =
     snd (materialize_canonical_approval id ''2024-01-01T00:00:00+00:00'' (sample_decision ''fact-v1'') sample_world)"

definition superseded_world :: approval_world where
  "superseded_world = pending_world\<lparr>aw_approvals :=
     snd (supersede_pending_records ''t'' ''s'' ''fact-v2'' ''moved on'' None ''policy'' (aw_approvals pending_world))\<rparr>"

definition sample_envelope :: string where
  "sample_envelope = fst (hd (aw_approvals pending_world))"

definition sample_env :: approval_env where
  "sample_env =
     \<lparr>ae_execute = (\<lambda>a s. (Inr \<lparr>ar_action_code = wa_action_code a, ar_project_id = wa_project_id a,
          ar_approval_id = None, ar_idempotency_key = wa_idempotency_key a, ar_action_status = ''completed'',
          ar_effect = ''noop'', ar_reply_code = None, ar_message = [], ar_facts = [], ar_supervision = None\<rparr>, s)),
      ae_list_approvals = (\<lambda>_. Inr []), ae_decide_approval = (\<lambda>_ _ _. Inr ())\<rparr>"

definition example_answer :: "string \<Rightarrow> approval_answer" where
  "example_answer action =
     \<lparr>an_envelope_id = sample_envelope, an_response_action = action, an_client_request_id = ''c1'',
      an_operator = ''op'', an_note = []\<rparr>"

lemma example_steps:
  "approval_step sample_world pending_world" "approval_step pending_world superseded_world"
  unfolding pending_world_def superseded_world_def
  by (rule approval_step.materialize, rule approval_step.supersede)

section \<open>Properties\<close>

text \<open>
  C5: Whatever is materialised, superseded, reconciled, expired or answered, in any order, an approval
  keeps its identity (envelope, approval id, token, time of creation), and once it is approved,
  rejected, superseded or expired it keeps that status, the action asked for, its arguments and the
  decision it belongs to.
\<close>

theorem approval_closed_for_good:
  assumes "aw_approvals w0 = []" and "approval_step\<^sup>*\<^sup>* w0 w" and "approval_step\<^sup>*\<^sup>* w w'"
    and "map_of (aw_approvals w) k = Some r"
  shows "\<exists>q. map_of (aw_approvals w') k = Some q \<and> same_identity r q \<and>
    (cap_status r \<noteq> ''pending'' \<longrightarrow> cap_status q = cap_status r \<and> same_matter r q)"
proof -
  have "rows_good (aw_approvals w)"
    using approval_steps_world [OF assms(2)] assms(1) rows_good_empty by (simp add: world_step_def rows_step_def)
  with approval_steps_world [OF assms(3)] have "evolves (aw_approvals w) (aw_approvals w')"
    by (simp add: world_step_def rows_step_def)
  with assms(4) show ?thesis by (auto simp: evolves_def)
qed

theorem approval_closed_for_good_witness:
  "\<exists>q. map_of (aw_approvals (snd (materialize_canonical_approval id ''t'' (sample_decision ''fact-v3'') superseded_world)))
         sample_envelope = Some q \<and> cap_status q = ''superseded''"
proof -
  let ?w = "snd (materialize_canonical_approval id ''t'' (sample_decision ''fact-v3'') superseded_world)"
  have "map_option cap_status (map_of (aw_approvals superseded_world) sample_envelope) = Some ''superseded''"
    by code_simp
  then obtain r where r: "map_of (aw_approvals superseded_world) sample_envelope = Some r"
    and st: "cap_status r = ''superseded''" by auto
  have 0: "aw_approvals sample_world = []" by (simp add: sample_world_def)
  have 1: "approval_step\<^sup>*\<^sup>* sample_world superseded_world"
    using example_steps by (meson rtranclp.rtrancl_into_rtrancl rtranclp.rtrancl_refl)
  have 2: "approval_step\<^sup>*\<^sup>* superseded_world ?w" using approval_step.materialize by (rule r_into_rtranclp)
  from approval_closed_for_good [OF 0 1 2 r] st show ?thesis by auto
qed

text \<open>
  C6: An approval id is pending at most once: in every store that the operations reach, two pending
  rows with the same approval id are the same row, so a person is never asked twice for one approval.
\<close>

theorem approval_pending_once:
  assumes "aw_approvals w0 = []" and "approval_step\<^sup>*\<^sup>* w0 w"
    and "map_of (aw_approvals w) k = Some r" and "map_of (aw_approvals w) l = Some q"
    and "cap_status r = ''pending''" and "cap_status q = ''pending''" and "cap_approval_id r = cap_approval_id q"
  shows "k = l"
proof -
  have "rows_good (aw_approvals w)"
    using approval_steps_world [OF assms(2)] assms(1) rows_good_empty by (simp add: world_step_def rows_step_def)
  with assms(3-7) show ?thesis unfolding rows_good_def by blast
qed

theorem approval_pending_once_witness:
  "\<exists>r. map_of (aw_approvals pending_world) sample_envelope = Some r \<and> cap_status r = ''pending'' \<and>
     sample_envelope = cap_envelope_id r"
proof -
  have "map_option cap_status (map_of (aw_approvals pending_world) sample_envelope) = Some ''pending'' \<and>
      map_option (\<lambda>r. map_of (aw_approvals pending_world) (cap_envelope_id r) = Some r)
        (map_of (aw_approvals pending_world) sample_envelope) = Some True" by code_simp
  then obtain r where r: "map_of (aw_approvals pending_world) sample_envelope = Some r" "cap_status r = ''pending''"
    "map_of (aw_approvals pending_world) (cap_envelope_id r) = Some r" by auto
  have 0: "aw_approvals sample_world = []" by (simp add: sample_world_def)
  have 1: "approval_step\<^sup>*\<^sup>* sample_world pending_world" using example_steps(1) by (rule r_into_rtranclp)
  from approval_pending_once [OF 0 1 r(1) r(3) r(2) r(2) refl] r show ?thesis by blast
qed



text \<open>
  C9: An answer is given once: after a request was answered, the same request (same envelope, same
  response, same client request id) gets the same answer and changes nothing, at any later time,
  whatever happened to the approvals in between, and whatever the control agent would say now.
\<close>

theorem approval_answered_once:
  assumes "respond_to_canonical_approval sha now env a w = (Inr x, w1)"
    and "approval_step\<^sup>*\<^sup>* w1 w2" and "answer_key b = answer_key a"
    and "an_response_action b \<in> {''approve'', ''reject'', ''execute_action''}"
  shows "respond_to_canonical_approval sha' now' env' b w2 = (Inr x, w2)"
proof -
  have "create_or_get aw_responses set_responses (answer_key a) (build_response sha now env a) w = (Inr x, w1)"
    using assms(1) by (auto simp: respond_to_canonical_approval_def split: if_splits)
  then have "map_of (aw_responses w1) (answer_key a) = Some x" by (rule responses.created_row)
  then have "map_of (aw_responses w2) (answer_key b) = Some x"
    using approval_steps_keep_answers [OF assms(2)] assms(3) by (simp add: keeps_answers_def)
  with assms(4) show ?thesis by (auto simp: respond_to_canonical_approval_def create_or_get_def)
qed

theorem approval_answered_once_witness:
  "snd (respond_to_canonical_approval rev ''t2'' sample_env (example_answer ''approve'')
      (snd (respond_to_canonical_approval id ''t1'' sample_env (example_answer ''approve'') pending_world))) =
   snd (respond_to_canonical_approval id ''t1'' sample_env (example_answer ''approve'') pending_world)"
proof -
  let ?r = "respond_to_canonical_approval id ''t1'' sample_env (example_answer ''approve'') pending_world"
  have "returned ?r" by code_simp
  then obtain x w1 where r: "?r = (Inr x, w1)" by (rule returnedE)
  have "an_response_action (example_answer ''approve'') \<in> {''approve'', ''reject'', ''execute_action''}"
    by (simp add: example_answer_def)
  from approval_answered_once [OF r rtranclp.rtrancl_refl refl this, of rev "''t2''" sample_env] r
  show ?thesis by simp
qed

text \<open>
  C8: Approving a pending approval runs what was decided, and nothing else: when the answer returns,
  exactly two actions were handed on, the approval of that approval id and then the action that the
  stored decision asks for under the decision's own idempotency key; the approval is approved in the
  operator's name; every other approval is untouched; and the answer is on record.
\<close>

theorem approval_runs_decision:
  assumes r: "map_of (aw_approvals w) (an_envelope_id a) = Some r" and pend: "cap_status r = ''pending''"
    and env: "cap_envelope_id r = an_envelope_id a"
    and act: "an_response_action a \<in> {''approve'', ''execute_action''}"
    and new: "map_of (aw_responses w) (answer_key a) = None"
    and run: "respond_to_canonical_approval sha now env a w = (Inr x, w')"
  shows "\<exists>d q. build_watchdog_action_from_decision (cap_decision r) (an_operator a) = Inr d \<and>
    wa_idempotency_key d = cd_idempotency_key (cap_decision r) \<and> wa_action_code d = cd_action_ref (cap_decision r) \<and>
    aw_actions w' = aw_actions w @
      [\<lparr>wa_action_code = ''approve_approval'', wa_project_id = cap_project_id r, wa_operator = an_operator a,
        wa_idempotency_key = cap_idempotency_key r @ ''|approve'',
        wa_arguments = [(''approval_id'', JStr (cap_approval_id r))], wa_note = an_note a\<rparr>, d] \<and>
    aw_approvals w' = dict_set (an_envelope_id a) q (aw_approvals w) \<and> cap_status q = ''approved'' \<and>
    cap_decided_by q = Some (an_operator a) \<and> same_identity r q \<and> same_matter r q \<and>
    map_of (aw_responses w') (answer_key a) = Some x \<and> rs_approval_status x = ''approved''"
proof -
  let ?q = "transition_approval now r ''approved'' (an_operator a) (an_response_action a)"
  let ?ap = "\<lparr>wa_action_code = ''approve_approval'', wa_project_id = cap_project_id r, wa_operator = an_operator a,
        wa_idempotency_key = cap_idempotency_key r @ ''|approve'',
        wa_arguments = [(''approval_id'', JStr (cap_approval_id r))], wa_note = an_note a\<rparr>"
  from act have act': "an_response_action a \<in> {''approve'', ''reject'', ''execute_action''}"
    "an_response_action a \<noteq> ''reject''" by auto
  have c: "create_or_get aw_responses set_responses (answer_key a) (build_response sha now env a) w = (Inr x, w')"
    using run act' by (auto simp: respond_to_canonical_approval_def split: if_splits)
  from responses.created_row [OF c] have stored: "map_of (aw_responses w') (answer_key a) = Some x" .
  from c new obtain w1 where b: "build_response sha now env a w = (Inr x, w1)"
    and w': "w' = set_responses (dict_set (answer_key a) x (aw_responses w)) w1"
    by (auto simp: create_or_get_def op_bind_split)
  have nodef: "\<not> approved_callback_is_deferred env r" by (simp add: approved_callback_is_deferred_def pend)
  have ok: "response_refused (cap_status r) (an_response_action a) = None" by (simp add: response_refused_def pend)
  from b r ok pend nodef have "op_bind (decide_approval env a r) (finish_answer sha now a r) w = (Inr x, w1)"
    by (simp add: build_response_def approval_get_def)
  then obtain st ax ex w2 where dec: "decide_approval env a r w = (Inr (st, ax, ex), w2)"
    and fin: "finish_answer sha now a r (st, ax, ex) w2 = (Inr x, w1)"
    by (elim op_bind_InrE) (metis prod_cases3)
  note w1 = finish_answer_effect [OF fin]
  have st: "st = ''approved''" using decide_approval_status [OF dec] act'(2) by simp
  from dec act'(2) pend nodef obtain ax' ex' w3 where
    one: "approval_action_result env r ''approve'' (an_operator a) (an_note a) w = (Inr ax', w3)"
    and two: "execute_registered_action_for_decision (run_action env) (cap_decision r) (an_operator a) w3 = (Inr ex', w2)"
    by (auto simp: decide_approval_def op_bind_split)
  from one have a1: "aw_actions w3 = aw_actions w @ [?ap]" "aw_approvals w3 = aw_approvals w"
    by (auto simp: approval_action_result_def validate_action_def dest!: run_action_effect split: if_splits)
  from two obtain d where d: "build_watchdog_action_from_decision (cap_decision r) (an_operator a) = Inr d"
    and run_d: "run_action env d w3 = (Inr ex', w2)"
    unfolding execute_registered_action_for_decision_def by (elim op_bind_InrE) auto
  have a2: "aw_actions w2 = aw_actions w3 @ [d]" "aw_approvals w2 = aw_approvals w3"
    using run_action_effect [OF run_d] by simp_all
  have dk: "wa_idempotency_key d = cd_idempotency_key (cap_decision r) \<and> wa_action_code d = cd_action_ref (cap_decision r)"
    using d by (auto simp: build_watchdog_action_from_decision_def res_bind_Inr_iff Let_def validate_action_def
        dest!: registered_code split: if_splits)
  have "aw_approvals w' = dict_set (an_envelope_id a) ?q (aw_approvals w)"
    using w1 st a1(2) a2(2) env
    by (simp add: w' set_responses_def transition_approval_def)
  moreover have "aw_actions w' = aw_actions w @ [?ap, d]" using w1 a1(1) a2(1) by (simp add: w' set_responses_def)
  moreover have "cap_status ?q = ''approved'' \<and> cap_decided_by ?q = Some (an_operator a) \<and> same_identity r ?q \<and> same_matter r ?q"
    by (simp add: transition_approval_def same_identity_def same_matter_def)
  ultimately show ?thesis using d dk stored w1 st by (intro exI [of _ d] exI [of _ ?q]) simp
qed

theorem approval_runs_decision_witness:
  "\<exists>p d. aw_actions (snd (respond_to_canonical_approval id ''t'' sample_env (example_answer ''approve'') pending_world)) =
     [p, d] \<and> wa_action_code d = ''continue_session''"
proof -
  let ?a = "example_answer ''approve''"
  let ?r = "respond_to_canonical_approval id ''t'' sample_env ?a pending_world"
  have "returned ?r \<and> map_of (aw_responses pending_world) (answer_key ?a) = None \<and> aw_actions pending_world = [] \<and>
      map_option (\<lambda>r. cap_status r = ''pending'' \<and> cap_envelope_id r = an_envelope_id ?a \<and>
        cd_action_ref (cap_decision r) = ''continue_session'')
        (map_of (aw_approvals pending_world) (an_envelope_id ?a)) = Some True" by code_simp
  moreover then obtain x w' where run: "?r = (Inr x, w')" by (blast elim: returnedE)
  ultimately obtain r where r: "map_of (aw_approvals pending_world) (an_envelope_id ?a) = Some r"
    "cap_status r = ''pending''" "cap_envelope_id r = an_envelope_id ?a"
    and new: "map_of (aw_responses pending_world) (answer_key ?a) = None"
    and "aw_actions pending_world = []" "cd_action_ref (cap_decision r) = ''continue_session''" by auto
  have act: "an_response_action ?a \<in> {''approve'', ''execute_action''}" by (simp add: example_answer_def)
  from approval_runs_decision [OF r act new run] \<open>aw_actions pending_world = []\<close> run
    \<open>cd_action_ref (cap_decision r) = ''continue_session''\<close>
  show ?thesis by auto
qed

text \<open>
  C10: A run of the expiry that returns expires exactly what has run out: every approval is untouched,
  or it was pending with its window over and is expired now; and no pending approval whose window is
  over is left.
\<close>

theorem approval_expiry_exact:
  assumes "aw_approvals w0 = []" and "approval_step\<^sup>*\<^sup>* w0 w" and "0 < window"
    and run: "expire_pending_canonical_approvals sha now window shown by' reason w = (Inr xs, w')"
  shows "(\<forall>k. map_of (aw_approvals w') k = map_of (aw_approvals w) k \<or>
      (\<exists>r q. map_of (aw_approvals w) k = Some r \<and> due now window r \<and> map_of (aw_approvals w') k = Some q \<and>
         cap_status q = ''expired'')) \<and>
    (\<forall>k q. map_of (aw_approvals w') k = Some q \<longrightarrow> \<not> due now window q)"
proof -
  have good: "rows_good (aw_approvals w)"
    using approval_steps_world [OF assms(2)] assms(1) rows_good_empty by (simp add: world_step_def rows_step_def)
  let ?ps = "filter (\<lambda>r. cap_status r = ''pending'') (dict_values (aw_approvals w))"
  from run assms(3) obtain rs where rs: "sorted_by pending_record_order ?ps = Inr rs"
    and each: "expire_each (expire_approval sha now window shown by' reason) rs w = (Inr xs, w')"
    by (cases "sorted_by pending_record_order ?ps")
      (auto simp: expire_pending_canonical_approvals_def approval_list_records_def)
  note eff = expire_each_effect [OF each good]
  have "\<not> due now window q" if q: "map_of (aw_approvals w') k = Some q" for k q
  proof
    assume d: "due now window q"
    then have p: "cap_status q = ''pending''" by (simp add: due_def)
    with eff q have w: "map_of (aw_approvals w) k = Some q"
      by (auto simp: due_def dest!: conjunct1 [THEN spec [of _ k]])
    have "distinct (dict_keys (aw_approvals w))" using good by (simp add: rows_good_def)
    from dict_values_lookup [OF this] w have "q \<in> set (dict_values (aw_approvals w))" by blast
    with p have "q \<in> set ?ps" by simp
    moreover have k: "cap_envelope_id q = k" using good w by (simp add: rows_good_def)
    ultimately have "q \<in> set rs" using sorted_by_set [OF rs] by simp
    with eff q k d show False by blast
  qed
  with eff show ?thesis by blast
qed

theorem approval_expiry_exact_witness:
  "\<exists>q. map_of (aw_approvals (snd (expire_pending_canonical_approvals id (10 ^ 18) 1 ''1e-06'' ''by'' ''timeout'' pending_world)))
     sample_envelope = Some q \<and> cap_status q = ''expired''"
proof -
  let ?r = "expire_pending_canonical_approvals id (10 ^ 18) 1 ''1e-06'' ''by'' ''timeout'' pending_world"
  have e: "returned ?r" by code_simp
  then obtain xs w' where r: "?r = (Inr xs, w')" by (rule returnedE)
  have 0: "aw_approvals sample_world = []" by (simp add: sample_world_def)
  have 1: "approval_step\<^sup>*\<^sup>* sample_world pending_world" using example_steps(1) by (rule r_into_rtranclp)
  have "map_option (\<lambda>r. cap_status r = ''pending'' \<and>
      map_sum id (map_option (\<lambda>c. c + 1 \<le> 10 ^ 18)) (parse_utc_timestamp (Some (cap_created_at r))) = Inr (Some True))
      (map_of (aw_approvals pending_world) sample_envelope) = Some True" by code_simp
  then obtain u where u: "map_of (aw_approvals pending_world) sample_envelope = Some u"
    and p: "cap_status u = ''pending''"
    and s: "map_sum id (map_option (\<lambda>c. c + 1 \<le> 10 ^ 18)) (parse_utc_timestamp (Some (cap_created_at u))) = Inr (Some True)"
    by blast
  from s have "due (10 ^ 18) 1 u"
    unfolding due_def using p by (cases "parse_utc_timestamp (Some (cap_created_at u))") auto
  note u = u this
  have ex: "map_of (aw_approvals w') sample_envelope = Some u \<or>
      (\<exists>q. map_of (aw_approvals w') sample_envelope = Some q \<and> cap_status q = ''expired'')"
    and left: "map_of (aw_approvals w') sample_envelope = Some u \<Longrightarrow> \<not> due (10 ^ 18) 1 u"
    using approval_expiry_exact [OF 0 1 zero_less_one r] u(1) by (metis, blast)
  from ex left u(2) show ?thesis unfolding r snd_conv by blast
qed

end
